(* ===== verification/Prelude.thy ===== *)
theory Prelude
  imports Main "HOL-Library.Signed_Division" "HOL-Library.Code_Target_Nat"
begin

text \<open>
  Shared vocabulary of the development: the Rust integer types the sources use
  (i128, i64, u64 and u32 as \<open>int\<close> or \<open>nat\<close> with their ranges and
  the checked and saturating operations written out), Rust's \<open>Result\<close> as a sum with
  its \<open>?\<close> operator as \<open>rbind\<close>, the ASCII helpers and the integer parsers
  and printers of the Rust standard library, and the generic lemmas the components use.
  Rust's \<open>str\<close> is a list of bytes, so it is a \<open>string\<close> here and
  \<open>len()\<close> is \<open>length\<close>.
\<close>

named_theorems int_range_defs \<open>definitions of the integer ranges and checked operations\<close>
named_theorems result_simps \<open>rules that push a successful result through rbind and ok_or\<close>

section \<open>Results\<close>

type_synonym ('e, 'a) result = "'e + 'a"

text \<open>The \<open>?\<close> operator: stop at the first error.\<close>

definition rbind :: "('e, 'a) result \<Rightarrow> ('a \<Rightarrow> ('e, 'b) result) \<Rightarrow> ('e, 'b) result" where
  "rbind m f = (case m of Inl e \<Rightarrow> Inl e | Inr x \<Rightarrow> f x)"

text \<open>\<open>Option::ok_or\<close>.\<close>

definition ok_or :: "'e \<Rightarrow> 'a option \<Rightarrow> ('e, 'a) result" where
  "ok_or e m = (case m of None \<Rightarrow> Inl e | Some x \<Rightarrow> Inr x)"

lemma rbind_Inl [simp]: "rbind (Inl e) f = Inl e"
  by (simp add: rbind_def)

lemma rbind_Inr [simp]: "rbind (Inr x) f = f x"
  by (simp add: rbind_def)

lemma rbind_eq_Inr_iff [result_simps]:
  "rbind m f = Inr y \<longleftrightarrow> (\<exists>x. m = Inr x \<and> f x = Inr y)"
  by (cases m) auto

lemma rbind_eq_Inl_iff:
  "rbind m f = Inl e \<longleftrightarrow> m = Inl e \<or> (\<exists>x. m = Inr x \<and> f x = Inl e)"
  by (cases m) auto

lemma rbind_InrE:
  assumes "rbind m f = Inr y"
  obtains x where "m = Inr x" and "f x = Inr y"
  using assms by (auto simp: rbind_eq_Inr_iff)

lemma ok_or_None [simp]: "ok_or e None = Inl e"
  by (simp add: ok_or_def)

lemma ok_or_Some [simp]: "ok_or e (Some x) = Inr x"
  by (simp add: ok_or_def)

lemma ok_or_eq_Inr_iff [result_simps]: "ok_or e m = Inr x \<longleftrightarrow> m = Some x"
  by (cases m) auto

lemma ok_or_eq_Inl_iff: "ok_or e m = Inl e' \<longleftrightarrow> m = None \<and> e = e'"
  by (cases m) auto

lemma bind_eq_Some_iff [result_simps]:
  "Option.bind m f = Some y \<longleftrightarrow> (\<exists>x. m = Some x \<and> f x = Some y)"
  by (cases m) auto

section \<open>Machine integers\<close>

definition i128_max :: int where
  "i128_max = 170141183460469231731687303715884105727"

definition i128_min :: int where
  "i128_min = -170141183460469231731687303715884105728"

definition i64_max :: int where
  "i64_max = 9223372036854775807"

definition i64_min :: int where
  "i64_min = -9223372036854775808"

definition u64_max :: nat where
  "u64_max = 18446744073709551615"

definition u32_max :: nat where
  "u32_max = 4294967295"

lemma i128_max_pow: "i128_max = 2 ^ 127 - 1"
  by (simp add: i128_max_def)

lemma i128_min_pow: "i128_min = - (2 ^ 127)"
  by (simp add: i128_min_def)

lemma u64_max_pow: "u64_max = 2 ^ 64 - 1"
  by (simp add: u64_max_def)

definition in_i128 :: "int \<Rightarrow> bool" where
  "in_i128 x \<longleftrightarrow> i128_min \<le> x \<and> x \<le> i128_max"

definition in_i64 :: "int \<Rightarrow> bool" where
  "in_i64 x \<longleftrightarrow> i64_min \<le> x \<and> x \<le> i64_max"

definition to_i128 :: "int \<Rightarrow> int option" where
  "to_i128 x = (if in_i128 x then Some x else None)"

definition checked_add_i128 :: "int \<Rightarrow> int \<Rightarrow> int option" where
  "checked_add_i128 a b = to_i128 (a + b)"

definition checked_sub_i128 :: "int \<Rightarrow> int \<Rightarrow> int option" where
  "checked_sub_i128 a b = to_i128 (a - b)"

definition checked_mul_i128 :: "int \<Rightarrow> int \<Rightarrow> int option" where
  "checked_mul_i128 a b = to_i128 (a * b)"

text \<open>
  Rust's \<open>/\<close> and \<open>%\<close> truncate towards zero; the checked forms also refuse a zero
  divisor and the one quotient that overflows.
\<close>

definition checked_div_i128 :: "int \<Rightarrow> int \<Rightarrow> int option" where
  "checked_div_i128 a b = (if b = 0 then None else to_i128 (a sdiv b))"

definition checked_rem_i128 :: "int \<Rightarrow> int \<Rightarrow> int option" where
  "checked_rem_i128 a b =
     (if b = 0 \<or> (a = i128_min \<and> b = -1) then None else Some (a smod b))"

definition saturating_add_i64 :: "int \<Rightarrow> int \<Rightarrow> int" where
  "saturating_add_i64 a b = max i64_min (min i64_max (a + b))"

definition saturating_sub_i64 :: "int \<Rightarrow> int \<Rightarrow> int" where
  "saturating_sub_i64 a b = max i64_min (min i64_max (a - b))"

text \<open>\<open>i64::try_from(u64).unwrap_or(i64::MAX)\<close>.\<close>

definition u64_to_i64_or_max :: "nat \<Rightarrow> int" where
  "u64_to_i64_or_max n = min i64_max (int n)"

text \<open>Wrapping: \<open>n as i64\<close> for a \<open>u64\<close>, and an unchecked sum of two \<open>i64\<close> or two \<open>i32\<close>.\<close>

definition wrap_i64 :: "int \<Rightarrow> int" where
  "wrap_i64 x = (x + 2 ^ 63) mod 2 ^ 64 - 2 ^ 63"

definition u64_as_i64 :: "nat \<Rightarrow> int" where
  "u64_as_i64 n = wrap_i64 (int n)"

definition wrap_i32 :: "int \<Rightarrow> int" where
  "wrap_i32 x = (x + 2 ^ 31) mod 2 ^ 32 - 2 ^ 31"

definition saturating_add_u64 :: "nat \<Rightarrow> nat \<Rightarrow> nat" where
  "saturating_add_u64 a b = min u64_max (a + b)"

text \<open>On \<open>u64\<close> the saturating difference is the natural number difference of HOL.\<close>

definition saturating_sub_u64 :: "nat \<Rightarrow> nat \<Rightarrow> nat" where
  "saturating_sub_u64 a b = a - b"

lemmas [int_range_defs] =
  i128_max_def i128_min_def i64_max_def i64_min_def u64_max_def u32_max_def
  in_i128_def in_i64_def to_i128_def
  checked_add_i128_def checked_sub_i128_def checked_mul_i128_def
  checked_div_i128_def checked_rem_i128_def

lemma to_i128_Some_iff [result_simps]: "to_i128 x = Some y \<longleftrightarrow> in_i128 x \<and> y = x"
  by (auto simp: to_i128_def)

lemma to_i128_None_iff: "to_i128 x = None \<longleftrightarrow> \<not> in_i128 x"
  by (simp add: to_i128_def)

lemma to_i128_in [simp]: "in_i128 x \<Longrightarrow> to_i128 x = Some x"
  by (simp add: to_i128_def)

lemma checked_add_i128_Some_iff [result_simps]:
  "checked_add_i128 a b = Some c \<longleftrightarrow> in_i128 (a + b) \<and> c = a + b"
  by (auto simp: checked_add_i128_def to_i128_def)

lemma checked_sub_i128_Some_iff [result_simps]:
  "checked_sub_i128 a b = Some c \<longleftrightarrow> in_i128 (a - b) \<and> c = a - b"
  by (auto simp: checked_sub_i128_def to_i128_def)

lemma checked_mul_i128_Some_iff [result_simps]:
  "checked_mul_i128 a b = Some c \<longleftrightarrow> in_i128 (a * b) \<and> c = a * b"
  by (auto simp: checked_mul_i128_def to_i128_def)

lemma in_i128_between: "in_i128 a \<Longrightarrow> in_i128 b \<Longrightarrow> a \<le> x \<Longrightarrow> x \<le> b \<Longrightarrow> in_i128 x"
  by (auto simp: in_i128_def)

lemma in_i128_0 [simp]: "in_i128 0"
  by (simp add: in_i128_def i128_max_def i128_min_def)

lemma in_i128_1 [simp]: "in_i128 1"
  by (simp add: in_i128_def i128_max_def i128_min_def)

lemma in_i128_nonneg_le: "in_i128 b \<Longrightarrow> 0 \<le> x \<Longrightarrow> x \<le> b \<Longrightarrow> in_i128 x"
  by (rule in_i128_between [OF in_i128_0])

text \<open>On non-negative operands the truncating division is the Euclidean one.\<close>

lemma sdiv_nonneg [simp]: "0 \<le> a \<Longrightarrow> 0 \<le> b \<Longrightarrow> a sdiv b = a div b" for a b :: int
  by (cases "a = 0"; cases "b = 0") (auto simp: signed_divide_int_def)

lemma smod_nonneg [simp]: "0 \<le> a \<Longrightarrow> 0 \<le> b \<Longrightarrow> a smod b = a mod b" for a b :: int
  by (cases "a = 0") (auto simp: signed_modulo_int_def)

lemma in_i128_div_pos: "in_i128 a \<Longrightarrow> 0 \<le> a \<Longrightarrow> 0 < b \<Longrightarrow> in_i128 (a div b)"
proof -
  assume "in_i128 a" and "0 \<le> a" and "0 < b"
  moreover from this have "a div b \<le> a"
    using zdiv_mono2 [of a 1 b] by simp
  ultimately show ?thesis
    by (auto intro: in_i128_nonneg_le simp: pos_imp_zdiv_nonneg_iff)
qed

section \<open>ASCII and the integer parsers of the standard library\<close>

definition is_ascii_digit :: "char \<Rightarrow> bool" where
  "is_ascii_digit c \<longleftrightarrow> 48 \<le> (of_char c :: nat) \<and> (of_char c :: nat) \<le> 57"

definition digit_value :: "char \<Rightarrow> nat" where
  "digit_value c = of_char c - 48"

text \<open>The value of a digit string, most significant digit first.\<close>

fun digits_value_acc :: "nat \<Rightarrow> string \<Rightarrow> nat" where
  "digits_value_acc acc [] = acc"
| "digits_value_acc acc (c # cs) = digits_value_acc (10 * acc + digit_value c) cs"

definition digits_value :: "string \<Rightarrow> nat" where
  "digits_value s = digits_value_acc 0 s"

definition all_digits :: "string \<Rightarrow> bool" where
  "all_digits s \<longleftrightarrow> list_all is_ascii_digit s"

text \<open>
  \<open>u64::from_str\<close>: an optional plus sign, at least one digit, no overflow. The bound is an
  argument so that the same parser serves \<open>usize\<close> and \<open>u32\<close>.
\<close>

definition parse_unsigned :: "nat \<Rightarrow> string \<Rightarrow> nat option" where
  "parse_unsigned bound s =
     (let ds = (case s of c # cs \<Rightarrow> if c = CHR ''+'' then cs else s | [] \<Rightarrow> [])
      in if ds \<noteq> [] \<and> all_digits ds \<and> digits_value ds \<le> bound
         then Some (digits_value ds) else None)"

text \<open>\<open>i128::from_str\<close>: an optional sign, at least one digit, no overflow.\<close>

definition parse_i128 :: "string \<Rightarrow> int option" where
  "parse_i128 s =
     (let neg = (case s of c # _ \<Rightarrow> c = CHR ''-'' | [] \<Rightarrow> False);
          ds = (case s of c # cs \<Rightarrow> if c = CHR ''+'' \<or> c = CHR ''-'' then cs else s | [] \<Rightarrow> []);
          v = (if neg then - int (digits_value ds) else int (digits_value ds))
      in if ds \<noteq> [] \<and> all_digits ds then to_i128 v else None)"

text \<open>\<open>to_string\<close> of an unsigned and of a signed integer.\<close>

definition digit_char :: "nat \<Rightarrow> char" where
  "digit_char d = char_of (48 + d)"

fun show_nat :: "nat \<Rightarrow> string" where
  "show_nat n = (if n < 10 then [digit_char n] else show_nat (n div 10) @ [digit_char (n mod 10)])"

declare show_nat.simps [simp del]

definition show_int :: "int \<Rightarrow> string" where
  "show_int z = (if z < 0 then CHR ''-'' # show_nat (nat (- z)) else show_nat (nat z))"

lemma digit_char_is_digit [simp]: "d < 10 \<Longrightarrow> is_ascii_digit (digit_char d)"
  by (simp add: digit_char_def is_ascii_digit_def)

lemma digit_value_digit_char [simp]: "d < 10 \<Longrightarrow> digit_value (digit_char d) = d"
  by (simp add: digit_char_def digit_value_def)

lemma digit_char_zero_iff: "d < 10 \<Longrightarrow> digit_char d = CHR ''0'' \<longleftrightarrow> d = 0"
proof -
  assume "d < 10"
  then have "digit_value (digit_char d) = d" by simp
  moreover have "digit_value CHR ''0'' = 0" by (simp add: digit_value_def)
  moreover have "digit_char 0 = CHR ''0''" by code_simp
  ultimately show ?thesis by auto
qed

lemma digit_not_sign: "is_ascii_digit c \<Longrightarrow> c \<noteq> CHR ''+'' \<and> c \<noteq> CHR ''-''"
  by (auto simp: is_ascii_digit_def)

lemma digits_value_acc_append:
  "digits_value_acc acc (xs @ ys) = digits_value_acc (digits_value_acc acc xs) ys"
  by (induction xs arbitrary: acc) auto

lemma digits_value_Nil [simp]: "digits_value [] = 0"
  by (simp add: digits_value_def)

lemma digits_value_snoc: "digits_value (xs @ [c]) = 10 * digits_value xs + digit_value c"
  by (simp add: digits_value_def digits_value_acc_append)

lemma digit_value_less: "is_ascii_digit c \<Longrightarrow> digit_value c < 10"
  by (auto simp: is_ascii_digit_def digit_value_def)

lemma digits_value_bound: "all_digits s \<Longrightarrow> digits_value s < 10 ^ length s"
proof (induction s rule: rev_induct)
  case Nil
  show ?case by simp
next
  case (snoc c cs)
  then have "digits_value cs < 10 ^ length cs" and "digit_value c < 10"
    by (auto simp: all_digits_def digit_value_less)
  then show ?case by (simp add: digits_value_snoc)
qed

lemma show_nat_nonempty [simp]: "show_nat n \<noteq> []"
  by (subst show_nat.simps) simp

lemma show_nat_digits [simp]: "all_digits (show_nat n)"
proof (induction n rule: show_nat.induct)
  case (1 n)
  then show ?case
    by (subst show_nat.simps) (auto simp: all_digits_def)
qed

lemma digits_value_show_nat [simp]: "digits_value (show_nat n) = n"
proof (induction n rule: show_nat.induct)
  case (1 n)
  show ?case
  proof (cases "n < 10")
    case True
    then show ?thesis
      by (subst show_nat.simps) (simp add: digits_value_def)
  next
    case False
    with 1 show ?thesis
      by (subst show_nat.simps) (simp add: digits_value_snoc)
  qed
qed

lemma show_nat_no_leading_zero:
  "1 < length (show_nat n) \<Longrightarrow> hd (show_nat n) \<noteq> CHR ''0''"
proof (induction n rule: show_nat.induct)
  case (1 n)
  have big: "\<not> n < 10"
    using "1.prems" by (subst (asm) show_nat.simps) (auto split: if_splits)
  show ?case
  proof (cases "n div 10 < 10")
    case True
    with big have "show_nat (n div 10) = [digit_char (n div 10)]" and "0 < n div 10"
      by (auto simp: show_nat.simps [of "n div 10"])
    with True big show ?thesis
      by (simp add: show_nat.simps [of n] digit_char_zero_iff)
  next
    case False
    then have "1 < length (show_nat (n div 10))"
      by (subst show_nat.simps) simp
    with "1.IH" [OF big] big show ?thesis
      by (simp add: show_nat.simps [of n] hd_append)
  qed
qed

lemma show_nat_starts_with_digit:
  obtains c cs where "show_nat n = c # cs" and "is_ascii_digit c"
proof (cases "show_nat n")
  case Nil
  then show ?thesis by simp
next
  case (Cons c cs)
  with show_nat_digits [of n] have "is_ascii_digit c"
    by (simp add: all_digits_def)
  with Cons that show ?thesis by blast
qed

text \<open>Printing and parsing round-trip.\<close>

lemma parse_i128_show_int: "in_i128 z \<Longrightarrow> parse_i128 (show_int z) = Some z"
proof -
  assume z: "in_i128 z"
  obtain c cs where c: "show_nat (nat z) = c # cs" "is_ascii_digit c"
    by (rule show_nat_starts_with_digit)
  have d: "digits_value (c # cs) = nat z" "all_digits (c # cs)"
    using digits_value_show_nat [of "nat z"] show_nat_digits [of "nat z"] by (simp_all add: c(1))
  show ?thesis
  proof (cases "z < 0")
    case True
    with z show ?thesis
      by (simp add: show_int_def parse_i128_def Let_def)
  next
    case False
    with z c d digit_not_sign [OF c(2)] show ?thesis
      by (simp add: show_int_def parse_i128_def Let_def)
  qed
qed

lemma parse_unsigned_show_nat: "n \<le> bound \<Longrightarrow> parse_unsigned bound (show_nat n) = Some n"
proof -
  assume n: "n \<le> bound"
  obtain c cs where c: "show_nat n = c # cs" "is_ascii_digit c"
    by (rule show_nat_starts_with_digit)
  have d: "digits_value (c # cs) = n" "all_digits (c # cs)"
    using digits_value_show_nat [of n] show_nat_digits [of n] by (simp_all add: c(1))
  from n c d digit_not_sign [OF c(2)] show ?thesis
    by (simp add: parse_unsigned_def Let_def)
qed

lemma parse_i128_in_range: "parse_i128 s = Some z \<Longrightarrow> in_i128 z"
  by (auto simp: parse_i128_def Let_def to_i128_def split: if_splits)

lemma parse_unsigned_bound: "parse_unsigned b s = Some n \<Longrightarrow> n \<le> b"
  by (auto simp: parse_unsigned_def Let_def split: if_splits)

lemma wrap_i64_id [simp]: "in_i64 x \<Longrightarrow> wrap_i64 x = x"
  by (simp add: wrap_i64_def in_i64_def i64_min_def i64_max_def)

lemma wrap_i64_range: "in_i64 (wrap_i64 x)"
  using pos_mod_bound [of "2 ^ 64" "x + 2 ^ 63"] pos_mod_sign [of "2 ^ 64" "x + 2 ^ 63"]
  by (simp add: wrap_i64_def in_i64_def i64_min_def i64_max_def)

end
