(* ===== verification/Std_Strings.thy ===== *)
theory Std_Strings
  imports Prelude "HOL-Library.Sublist"
begin

text \<open>
  The string operations of the Rust standard library that the sources use, on the byte
  representation: \<open>trim\<close> over the Unicode White_Space characters in their UTF-8 encoding,
  the ASCII case mappings, \<open>strip_prefix\<close>, \<open>split_once\<close> and \<open>join\<close>.
  \<open>starts_with\<close> is \<open>prefix\<close> and \<open>contains\<close> is \<open>sublist\<close> of the
  library.
\<close>

section \<open>Trimming\<close>

text \<open>UTF-8 encodings of the characters with the property White_Space.\<close>

definition white_space :: "string list" where
  "white_space = map (map (char_of :: nat \<Rightarrow> char))
     ([[9], [10], [11], [12], [13], [32], [194, 133], [194, 160], [225, 154, 128]]
      @ map (\<lambda>b. [226, 128, b]) [128, 129, 130, 131, 132, 133, 134, 135, 136, 137, 138, 168, 169, 175]
      @ [[226, 129, 159], [227, 128, 128]])"

fun strip_prefix :: "'a list \<Rightarrow> 'a list \<Rightarrow> 'a list option" where
  "strip_prefix [] s = Some s"
| "strip_prefix (p # ps) [] = None"
| "strip_prefix (p # ps) (c # cs) = (if p = c then strip_prefix ps cs else None)"

fun strip_first :: "'a list list \<Rightarrow> 'a list \<Rightarrow> 'a list option" where
  "strip_first [] s = None"
| "strip_first (w # ws) s = (case strip_prefix w s of Some r \<Rightarrow> Some r | None \<Rightarrow> strip_first ws s)"

lemma strip_prefix_Some_iff: "strip_prefix p s = Some r \<longleftrightarrow> s = p @ r"
  by (induction p s rule: strip_prefix.induct) auto

lemma strip_prefix_append [simp]: "strip_prefix p (p @ s) = Some s"
  by (simp add: strip_prefix_Some_iff)

lemma strip_prefix_None_iff: "strip_prefix p s = None \<longleftrightarrow> \<not> prefix p s"
  by (induction p s rule: strip_prefix.induct) auto

lemma strip_first_Some: "strip_first ws s = Some r \<Longrightarrow> \<exists>w \<in> set ws. s = w @ r"
  by (induction ws) (auto simp: strip_prefix_Some_iff split: option.splits)

lemma strip_first_shorter:
  "strip_first ws s = Some r \<Longrightarrow> [] \<notin> set ws \<Longrightarrow> length r < length s"
proof -
  assume "strip_first ws s = Some r" and "[] \<notin> set ws"
  then obtain w where "s = w @ r" and "w \<noteq> []" using strip_first_Some by blast
  then show ?thesis by simp
qed

lemma white_space_nonempty: "[] \<notin> set white_space"
  by (simp add: white_space_def)

lemma rev_white_space_nonempty: "[] \<notin> set (map rev white_space)"
  using white_space_nonempty by auto

function trim_matches :: "string list \<Rightarrow> string \<Rightarrow> string" where
  "trim_matches ws s =
     (if [] \<in> set ws then s
      else case strip_first ws s of None \<Rightarrow> s | Some r \<Rightarrow> trim_matches ws r)"
  by auto
termination
  by (relation "measure (length \<circ> snd)") (auto dest: strip_first_shorter)

declare trim_matches.simps [simp del]

definition trim :: "string \<Rightarrow> string" where
  "trim s = rev (trim_matches (map rev white_space) (rev (trim_matches white_space s)))"

lemma trim_matches_Nil [simp]: "trim_matches ws [] = []"
  by (subst trim_matches.simps) (auto split: option.split dest: strip_first_shorter)

lemma trim_Nil [simp]: "trim [] = []"
  by (simp add: trim_def)

text \<open>A suffix is left over, and nothing more can be stripped from it.\<close>

lemma trim_matches_suffix: "suffix (trim_matches ws s) s"
proof (induction ws s rule: trim_matches.induct)
  case (1 ws s)
  show ?case
  proof (cases "[] \<in> set ws \<or> strip_first ws s = None")
    case True
    then show ?thesis by (subst trim_matches.simps) auto
  next
    case False
    then obtain r where r: "strip_first ws s = Some r" by auto
    with 1 False have "suffix (trim_matches ws r) r" by auto
    moreover have "suffix r s"
      using strip_first_Some [OF r] by (auto simp: suffix_def)
    ultimately show ?thesis
      using False r by (subst trim_matches.simps) (auto intro: suffix_order.trans)
  qed
qed

lemma trim_matches_idle: "strip_first ws s = None \<Longrightarrow> trim_matches ws s = s"
  by (subst trim_matches.simps) simp

section \<open>Case mapping, splitting and joining\<close>

definition ascii_lower :: "char \<Rightarrow> char" where
  "ascii_lower c =
     (let n = (of_char c :: nat) in if 65 \<le> n \<and> n \<le> 90 then char_of (n + 32) else c)"

definition to_ascii_lowercase :: "string \<Rightarrow> string" where
  "to_ascii_lowercase s = map ascii_lower s"

definition eq_ignore_ascii_case :: "char \<Rightarrow> char \<Rightarrow> bool" where
  "eq_ignore_ascii_case a b \<longleftrightarrow> ascii_lower a = ascii_lower b"

text \<open>\<open>split_once\<close> at the first occurrence of a character.\<close>

definition split_once :: "char \<Rightarrow> string \<Rightarrow> (string \<times> string) option" where
  "split_once c s =
     (case dropWhile (\<lambda>x. x \<noteq> c) s of
        [] \<Rightarrow> None
      | _ # rest \<Rightarrow> Some (takeWhile (\<lambda>x. x \<noteq> c) s, rest))"

text \<open>\<open>str::split_once\<close> on a string.\<close>

fun split_once_str :: "string \<Rightarrow> string \<Rightarrow> (string \<times> string) option" where
  "split_once_str sep [] = (if sep = [] then Some ([], []) else None)"
| "split_once_str sep (x # xs) =
     (if prefix sep (x # xs) then Some ([], drop (length sep) (x # xs))
      else map_option (\<lambda>(a, b). (x # a, b)) (split_once_str sep xs))"

fun join :: "string \<Rightarrow> string list \<Rightarrow> string" where
  "join sep [] = []"
| "join sep [x] = x"
| "join sep (x # y # ys) = x @ sep @ join sep (y # ys)"

lemma split_once_append: "c \<notin> set a \<Longrightarrow> split_once c (a @ c # b) = Some (a, b)"
proof -
  assume c: "c \<notin> set a"
  then have "dropWhile (\<lambda>x. x \<noteq> c) (a @ c # b) = c # b"
    by (induction a) auto
  moreover from c have "takeWhile (\<lambda>x. x \<noteq> c) (a @ c # b) = a"
    by (induction a) auto
  ultimately show ?thesis by (simp add: split_once_def)
qed

lemma split_once_Some: "split_once c s = Some (a, b) \<Longrightarrow> s = a @ c # b \<and> c \<notin> set a"
proof -
  assume "split_once c s = Some (a, b)"
  then obtain x where x: "dropWhile (\<lambda>x. x \<noteq> c) s = x # b" and a: "a = takeWhile (\<lambda>x. x \<noteq> c) s"
    by (auto simp: split_once_def split: list.splits)
  from x have "x = c" by (auto simp: dropWhile_eq_Cons_conv)
  with x a show ?thesis
    using takeWhile_dropWhile_id [of "\<lambda>x. x \<noteq> c" s] by (auto dest: set_takeWhileD)
qed

text \<open>A prefix up to a separator that occurs on neither side determines both sides.\<close>

lemma append_separator_inject:
  "a @ c # x = b @ c # y \<Longrightarrow> (c :: char) \<notin> set a \<Longrightarrow> c \<notin> set b \<Longrightarrow> a = b \<and> x = y"
proof -
  assume eq: "a @ c # x = b @ c # y" and "c \<notin> set a" and "c \<notin> set b"
  then have "split_once c (a @ c # x) = Some (a, x)" and "split_once c (b @ c # y) = Some (b, y)"
    by (blast intro: split_once_append)+
  then have "Some (a, x) = Some (b, y)" unfolding eq by (rule trans [OF sym])
  then show ?thesis by simp
qed

text \<open>Options as the sources combine them.\<close>

definition or_else :: "'a option \<Rightarrow> 'a option \<Rightarrow> 'a option" where
  "or_else a b = (case a of None \<Rightarrow> b | Some x \<Rightarrow> Some x)"

definition option_filter :: "('a \<Rightarrow> bool) \<Rightarrow> 'a option \<Rightarrow> 'a option" where
  "option_filter P m = (case m of None \<Rightarrow> None | Some x \<Rightarrow> if P x then Some x else None)"

definition unwrap_or :: "'a option \<Rightarrow> 'a \<Rightarrow> 'a" where
  "unwrap_or m d = (case m of None \<Rightarrow> d | Some x \<Rightarrow> x)"

fun find_map :: "('a \<Rightarrow> 'b option) \<Rightarrow> 'a list \<Rightarrow> 'b option" where
  "find_map f [] = None"
| "find_map f (x # xs) = (case f x of Some y \<Rightarrow> Some y | None \<Rightarrow> find_map f xs)"

lemma or_else_simps [simp]: "or_else None b = b" "or_else (Some x) b = Some x" "or_else a None = a"
  by (simp_all add: or_else_def split: option.split)

lemma option_filter_simps [simp]:
  "option_filter P None = None" "option_filter P (Some x) = (if P x then Some x else None)"
  by (simp_all add: option_filter_def)

lemma unwrap_or_simps [simp]: "unwrap_or None d = d" "unwrap_or (Some x) d = x"
  by (simp_all add: unwrap_or_def)

lemma option_filter_Some_iff [result_simps]:
  "option_filter P m = Some x \<longleftrightarrow> m = Some x \<and> P x"
  by (cases m) auto

lemma find_map_Some: "find_map f xs = Some y \<Longrightarrow> \<exists>x \<in> set xs. f x = Some y"
  by (induction xs) (auto split: option.splits)

lemma find_map_exists: "x \<in> set xs \<Longrightarrow> f x \<noteq> None \<Longrightarrow> \<exists>y. find_map f xs = Some y"
  by (induction xs) (auto split: option.splits)

section \<open>Characters\<close>

text \<open>
  \<open>str::chars\<close> on the UTF-8 bytes of a string: a scalar value is a byte that is not a
  continuation byte with the continuation bytes that follow it.
\<close>

definition is_continuation :: "char \<Rightarrow> bool" where
  "is_continuation c \<longleftrightarrow> 128 \<le> (of_char c :: nat) \<and> (of_char c :: nat) < 192"

function utf8_chars :: "string \<Rightarrow> string list" where
  "utf8_chars [] = []"
| "utf8_chars (c # cs) = (c # takeWhile is_continuation cs) # utf8_chars (dropWhile is_continuation cs)"
  by pat_completeness auto
termination by (relation "measure length") (simp_all add: less_Suc_eq_le length_dropWhile_le)

lemma concat_utf8_chars [simp]: "concat (utf8_chars s) = s"
  by (induction s rule: utf8_chars.induct) simp_all

section \<open>Splitting\<close>

text \<open>\<open>str::split\<close> with a character, and the one-sided trims with a character.\<close>

fun split_char :: "char \<Rightarrow> string \<Rightarrow> string list" where
  "split_char c [] = [[]]"
| "split_char c (x # xs) =
     (if x = c then [] # split_char c xs
      else case split_char c xs of p # ps \<Rightarrow> (x # p) # ps | [] \<Rightarrow> [[x]])"

definition trim_start_char :: "char \<Rightarrow> string \<Rightarrow> string" where
  "trim_start_char c s = dropWhile (\<lambda>x. x = c) s"

definition trim_end_char :: "char \<Rightarrow> string \<Rightarrow> string" where
  "trim_end_char c s = rev (dropWhile (\<lambda>x. x = c) (rev s))"

definition str_contains :: "string \<Rightarrow> string \<Rightarrow> bool" where
  "str_contains s pat = list_ex (prefix pat) (suffixes s)"

lemma split_char_nonempty [simp]: "split_char c s \<noteq> []"
  by (cases s) (auto split: list.splits)

lemma split_char_no_separator: "p \<in> set (split_char c s) \<Longrightarrow> c \<notin> set p"
  by (induction s arbitrary: p) (auto split: if_splits list.splits)

lemma join_split_char: "join [c] (split_char c s) = s"
proof (induction s)
  case (Cons x xs)
  obtain p ps where "split_char c xs = p # ps" using split_char_nonempty [of c xs] by (cases "split_char c xs") auto
  with Cons show ?case by (cases ps) auto
qed simp

lemma str_contains_iff: "str_contains s pat \<longleftrightarrow> sublist pat s"
  by (auto simp: str_contains_def list_ex_iff sublist_altdef' set_suffixes_eq)

end
