(* ===== verification/Store_Money.thy ===== *)
theory Store_Money
  imports Std_Strings
begin

text \<open>
  Model of \<open>src/src/store_billing/money.rs\<close>: canonical minor-unit amounts, the exact
  rational exchange rate and the currency conversions of the store. Amounts are \<open>i128\<close>
  (an \<open>int\<close> whose checked operations refuse to leave the range); every \<open>MoneyError\<close>
  is a value. The lemmas show that the accepted strings are exactly the canonical decimal
  numerals, that a parsed rate is the reduced fraction of its decimal, that every conversion
  rounds to the nearest unit with ties upwards and never overflows in the rounding itself, and
  that a conversion to the finer currency and back is the identity.
\<close>

section \<open>Data\<close>

datatype currency = CNY | USD

record money =
  money_currency :: currency
  money_minor :: string

record exchange_rate_rational =
  rate_decimal :: string
  rate_numerator :: int
  rate_denominator :: int

datatype money_error = InvalidAmount | InvalidExchangeRate | AmountOverflow

definition nano_usd_per_cent :: int where
  "nano_usd_per_cent = 10000000"

section \<open>Operations\<close>

function gcd_loop :: "int \<Rightarrow> int \<Rightarrow> int" where
  "gcd_loop left right = (if right \<noteq> 0 then gcd_loop right (left smod right) else left)"
  by pat_completeness auto
termination
proof (relation "measure (\<lambda>(left, right). nat \<bar>right\<bar>)")
  show "wf (measure (\<lambda>(left :: int, right :: int). nat \<bar>right\<bar>))" by simp
next
  fix left right :: int
  assume "right \<noteq> 0"
  then have "\<bar>left\<bar> mod \<bar>right\<bar> < \<bar>right\<bar>" and "0 \<le> \<bar>left\<bar> mod \<bar>right\<bar>"
    by (simp_all add: pos_mod_bound)
  then have "\<bar>left smod right\<bar> < \<bar>right\<bar>"
    by (auto simp: signed_modulo_int_def abs_mult sgn_if)
  with \<open>right \<noteq> 0\<close> show "((right, left smod right), (left, right)) \<in> measure (\<lambda>(left, right). nat \<bar>right\<bar>)"
    by simp
qed

declare gcd_loop.simps [simp del]

fun pow10_loop :: "nat \<Rightarrow> int \<Rightarrow> int option" where
  "pow10_loop 0 v = Some v"
| "pow10_loop (Suc n) v =
     (case checked_mul_i128 v 10 of Some next \<Rightarrow> pow10_loop n next | None \<Rightarrow> None)"

definition checked_pow10 :: "nat \<Rightarrow> int option" where
  "checked_pow10 scale = pow10_loop scale 1"

definition ExchangeRateRational_parse ::
    "string \<Rightarrow> (money_error, exchange_rate_rational) result" where
  "ExchangeRateRational_parse value =
     (let (integer, fraction) =
            (case split_once CHR ''.'' value of
               Some (i, f) \<Rightarrow> (i, Some f)
             | None \<Rightarrow> (value, None))
      in if integer = [] \<or> \<not> all_digits integer
            \<or> (1 < length integer \<and> hd integer = CHR ''0'')
            \<or> (case fraction of None \<Rightarrow> False
               | Some digits \<Rightarrow> digits = [] \<or> 18 < length digits \<or> \<not> all_digits digits)
         then Inl InvalidExchangeRate
         else
           let scale = (case fraction of None \<Rightarrow> 0 | Some digits \<Rightarrow> length digits) in
           rbind (ok_or AmountOverflow (checked_pow10 scale)) (\<lambda>denominator.
           rbind (ok_or AmountOverflow (parse_i128 integer)) (\<lambda>whole.
           let fractional =
             (case parse_i128 (case fraction of None \<Rightarrow> [] | Some digits \<Rightarrow> digits) of
                None \<Rightarrow> 0 | Some v \<Rightarrow> v) in
           rbind (ok_or AmountOverflow
                    (Option.bind (checked_mul_i128 whole denominator)
                       (\<lambda>v. checked_add_i128 v fractional))) (\<lambda>numerator.
           if numerator = 0 then Inl InvalidExchangeRate
           else
             let divisor = gcd_loop numerator denominator in
             Inr \<lparr>rate_decimal = value,
                  rate_numerator = numerator sdiv divisor,
                  rate_denominator = denominator sdiv divisor\<rparr>))))"

definition parse_rate :: "string \<Rightarrow> (money_error, exchange_rate_rational) result" where
  "parse_rate value = ExchangeRateRational_parse value"

definition parse_minor :: "string \<Rightarrow> (money_error, int) result" where
  "parse_minor value =
     (if value = [] \<or> \<not> all_digits value \<or> (1 < length value \<and> hd value = CHR ''0'')
      then Inl InvalidAmount
      else ok_or AmountOverflow (parse_i128 value))"

text \<open>\<open>value.strip_prefix('-').unwrap_or(value)\<close>.\<close>

definition strip_minus :: "string \<Rightarrow> string" where
  "strip_minus value = (case value of c # cs \<Rightarrow> if c = CHR ''-'' then cs else value | [] \<Rightarrow> [])"

definition parse_signed_minor :: "string \<Rightarrow> (money_error, int) result" where
  "parse_signed_minor value =
     (let digits = strip_minus value
      in if digits = [] \<or> value = ''-0'' \<or> \<not> all_digits digits
            \<or> (1 < length digits \<and> hd digits = CHR ''0'')
         then Inl InvalidAmount
         else ok_or AmountOverflow (parse_i128 value))"

definition Money_new :: "currency \<Rightarrow> string \<Rightarrow> (money_error, money) result" where
  "Money_new currency minor =
     rbind (parse_minor minor)
       (\<lambda>_. Inr \<lparr>money_currency = currency, money_minor = minor\<rparr>)"

definition minor_value :: "money \<Rightarrow> (money_error, int) result" where
  "minor_value m = parse_minor (money_minor m)"

definition require_nonnegative :: "int \<Rightarrow> (money_error, unit) result" where
  "require_nonnegative value = (if value < 0 then Inl InvalidAmount else Inr ())"

definition round_nonnegative_ratio :: "int \<Rightarrow> int \<Rightarrow> (money_error, int) result" where
  "round_nonnegative_ratio numerator denominator =
     (if numerator < 0 \<or> denominator \<le> 0 then Inl InvalidAmount
      else
        let quotient = numerator sdiv denominator;
            remainder = numerator smod denominator
        in if remainder \<noteq> 0 \<and> denominator - remainder \<le> remainder
           then ok_or AmountOverflow (checked_add_i128 quotient 1)
           else Inr quotient)"

definition checked_round_product_ratio :: "int \<Rightarrow> int \<Rightarrow> int \<Rightarrow> (money_error, int) result" where
  "checked_round_product_ratio value multiplier denominator =
     rbind (ok_or AmountOverflow (checked_mul_i128 value multiplier))
       (\<lambda>numerator. round_nonnegative_ratio numerator denominator)"

definition convert_minor_rational ::
    "int \<Rightarrow> currency \<Rightarrow> currency \<Rightarrow> exchange_rate_rational \<Rightarrow> (money_error, int) result" where
  "convert_minor_rational amount source target rate =
     rbind (require_nonnegative amount) (\<lambda>_.
       case (source, target) of
         (USD, CNY) \<Rightarrow>
           checked_round_product_ratio amount (rate_numerator rate) (rate_denominator rate)
       | (CNY, USD) \<Rightarrow>
           checked_round_product_ratio amount (rate_denominator rate) (rate_numerator rate)
       | _ \<Rightarrow> Inr amount)"

definition convert_minor ::
    "int \<Rightarrow> currency \<Rightarrow> currency \<Rightarrow> string \<Rightarrow> (money_error, int) result" where
  "convert_minor amount source target cny_per_usd =
     rbind (ExchangeRateRational_parse cny_per_usd)
       (\<lambda>rate. convert_minor_rational amount source target rate)"

definition cny_fen_to_nano_usd :: "int \<Rightarrow> exchange_rate_rational \<Rightarrow> (money_error, int) result" where
  "cny_fen_to_nano_usd amount_fen rate =
     rbind (require_nonnegative amount_fen) (\<lambda>_.
     rbind (ok_or AmountOverflow (checked_mul_i128 (rate_denominator rate) nano_usd_per_cent))
       (\<lambda>scaled_denominator.
          checked_round_product_ratio amount_fen scaled_denominator (rate_numerator rate)))"

definition nano_usd_to_cny_fen :: "int \<Rightarrow> exchange_rate_rational \<Rightarrow> (money_error, int) result" where
  "nano_usd_to_cny_fen amount_nano_usd rate =
     rbind (require_nonnegative amount_nano_usd) (\<lambda>_.
     rbind (ok_or AmountOverflow (checked_mul_i128 (rate_denominator rate) nano_usd_per_cent))
       (\<lambda>denominator.
          checked_round_product_ratio amount_nano_usd (rate_numerator rate) denominator))"

definition quoted_received_to_nano_usd ::
    "int \<Rightarrow> currency \<Rightarrow> string \<Rightarrow> (money_error, int) result" where
  "quoted_received_to_nano_usd amount_minor currency cny_per_usd =
     rbind (ExchangeRateRational_parse cny_per_usd) (\<lambda>rate.
       case currency of
         USD \<Rightarrow> ok_or AmountOverflow (checked_mul_i128 amount_minor nano_usd_per_cent)
       | CNY \<Rightarrow> cny_fen_to_nano_usd amount_minor rate)"

definition plan_quota_whole_units ::
    "int \<Rightarrow> currency \<Rightarrow> string \<Rightarrow> (money_error, int) result" where
  "plan_quota_whole_units quota_fen_cny display_currency cny_per_usd =
     rbind (require_nonnegative quota_fen_cny) (\<lambda>_.
     rbind (ExchangeRateRational_parse cny_per_usd) (\<lambda>rate.
       case display_currency of
         CNY \<Rightarrow> round_nonnegative_ratio quota_fen_cny 100
       | USD \<Rightarrow>
           rbind (ok_or AmountOverflow (checked_mul_i128 (rate_numerator rate) 100))
             (\<lambda>denominator.
                checked_round_product_ratio quota_fen_cny (rate_denominator rate) denominator)))"

section \<open>Canonical amounts\<close>

lemma digit_char_digit_value: "is_ascii_digit c \<Longrightarrow> digit_char (digit_value c) = c"
  by (simp add: digit_char_def digit_value_def is_ascii_digit_def)

text \<open>A digit string without a superfluous leading zero is the numeral of its value.\<close>

lemma digits_value_pos:
  assumes "all_digits s" and "s \<noteq> []" and "hd s \<noteq> CHR ''0''"
  shows "0 < digits_value s"
  using assms
proof (induction s rule: rev_induct)
  case Nil
  then show ?case by simp
next
  case (snoc c cs)
  show ?case
  proof (cases "cs = []")
    case True
    with snoc.prems have "is_ascii_digit c" and "c \<noteq> CHR ''0''"
      by (auto simp: all_digits_def)
    moreover from \<open>is_ascii_digit c\<close> have "digit_value c = 0 \<Longrightarrow> c = CHR ''0''"
      using digit_char_digit_value [of c] digit_char_zero_iff [of 0] by simp
    ultimately show ?thesis
      using True by (auto simp: digits_value_def)
  next
    case False
    with snoc show ?thesis
      by (simp add: digits_value_snoc all_digits_def)
  qed
qed

lemma show_nat_digits_value:
  assumes "all_digits s" and "s \<noteq> []" and "length s = 1 \<or> hd s \<noteq> CHR ''0''"
  shows "show_nat (digits_value s) = s"
  using assms
proof (induction s rule: rev_induct)
  case Nil
  then show ?case by simp
next
  case (snoc c cs)
  then have c: "is_ascii_digit c" and cs: "all_digits cs"
    by (auto simp: all_digits_def)
  from c have lt: "digit_value c < 10" by (rule digit_value_less)
  show ?case
  proof (cases "cs = []")
    case True
    with lt c show ?thesis
      by (simp add: digits_value_def show_nat.simps digit_char_digit_value)
  next
    case False
    with snoc.prems have hd: "hd cs \<noteq> CHR ''0''" by simp
    with cs False have pos: "0 < digits_value cs" by (simp add: digits_value_pos)
    from snoc.IH cs False hd have "show_nat (digits_value cs) = cs" by simp
    with pos lt c show ?thesis
      by (simp add: digits_value_snoc show_nat.simps [of "10 * digits_value cs + digit_value c"]
          digit_char_digit_value)
  qed
qed

definition canonical_digits :: "string \<Rightarrow> bool" where
  "canonical_digits s \<longleftrightarrow> s \<noteq> [] \<and> all_digits s \<and> (length s \<le> 1 \<or> hd s \<noteq> CHR ''0'')"

lemma canonical_digits_show_nat [simp]: "canonical_digits (show_nat n)"
  using show_nat_no_leading_zero [of n] by (auto simp: canonical_digits_def)

lemma canonical_digits_eq: "canonical_digits s \<Longrightarrow> s = show_nat (digits_value s)"
  by (cases s rule: rev_cases)
    (auto simp: canonical_digits_def intro!: show_nat_digits_value [symmetric])

lemma canonical_digits_iff: "canonical_digits s \<longleftrightarrow> (\<exists>n. s = show_nat n)"
  using canonical_digits_eq canonical_digits_show_nat by metis

lemma parse_i128_digits:
  assumes "all_digits s" and "s \<noteq> []"
  shows "parse_i128 s = to_i128 (int (digits_value s))"
proof -
  from assms obtain c cs where s: "s = c # cs" and "is_ascii_digit c"
    by (cases s) (auto simp: all_digits_def)
  then have "c \<noteq> CHR ''+''" and "c \<noteq> CHR ''-''"
    using digit_not_sign by blast+
  with assms s show ?thesis
    by (simp add: parse_i128_def Let_def)
qed

lemma parse_minor_show: "in_i128 v \<Longrightarrow> 0 \<le> v \<Longrightarrow> parse_minor (show_int v) = Inr v"
  using canonical_digits_show_nat [of "nat v"] parse_i128_show_int [of v]
  by (auto simp: parse_minor_def show_int_def canonical_digits_def)

lemma parse_minor_InrD:
  assumes "parse_minor s = Inr v"
  shows "in_i128 v \<and> 0 \<le> v \<and> s = show_int v"
proof -
  from assms have c: "canonical_digits s" and p: "parse_i128 s = Some v"
    by (auto simp: parse_minor_def canonical_digits_def ok_or_eq_Inr_iff not_less split: if_splits)
  from c have "parse_i128 s = to_i128 (int (digits_value s))"
    by (simp add: parse_i128_digits canonical_digits_def)
  with p have "v = int (digits_value s)" and "in_i128 v"
    by (auto simp: to_i128_Some_iff)
  with canonical_digits_eq [OF c] show ?thesis
    by (simp add: show_int_def)
qed

lemma parse_signed_minor_show: "in_i128 v \<Longrightarrow> parse_signed_minor (show_int v) = Inr v"
proof -
  assume v: "in_i128 v"
  have strip: "strip_minus (show_int v) = show_nat (nat \<bar>v\<bar>)"
  proof (cases "v < 0")
    case True
    then show ?thesis by (simp add: strip_minus_def show_int_def)
  next
    case False
    obtain c cs where c: "show_nat (nat v) = c # cs" "is_ascii_digit c"
      by (rule show_nat_starts_with_digit)
    with False digit_not_sign [OF c(2)] show ?thesis
      by (simp add: strip_minus_def show_int_def)
  qed
  have "show_int v \<noteq> ''-0''"
  proof
    assume "show_int v = ''-0''"
    then have "strip_minus (show_int v) = ''0''" by (simp add: strip_minus_def)
    then have "digits_value (show_nat (nat \<bar>v\<bar>)) = 0"
      unfolding strip by (simp add: digits_value_def digit_value_def)
    then have "v = 0" by simp
    with \<open>show_int v = ''-0''\<close> show False
      by (simp add: show_int_def show_nat.simps digit_char_zero_iff)
  qed
  with strip v canonical_digits_show_nat [of "nat \<bar>v\<bar>"] parse_i128_show_int [of v]
  show ?thesis
    by (auto simp: parse_signed_minor_def Let_def canonical_digits_def)
qed

lemma parse_signed_minor_InrD:
  assumes "parse_signed_minor s = Inr v"
  shows "in_i128 v \<and> s = show_int v"
proof -
  from assms have c: "canonical_digits (strip_minus s)" and p: "parse_i128 s = Some v"
    and z: "s \<noteq> ''-0''"
    by (auto simp: parse_signed_minor_def Let_def canonical_digits_def ok_or_eq_Inr_iff not_less
        split: if_splits)
  show ?thesis
  proof (cases "\<exists>cs. s = CHR ''-'' # cs")
    case True
    then obtain cs where s: "s = CHR ''-'' # cs" by blast
    with c have cs: "canonical_digits cs" by (simp add: strip_minus_def)
    with s p have v: "v = - int (digits_value cs)" and r: "in_i128 v"
      by (auto simp: parse_i128_def Let_def canonical_digits_def to_i128_Some_iff)
    have "digits_value cs \<noteq> 0"
    proof
      assume "digits_value cs = 0"
      with canonical_digits_eq [OF cs] have "cs = show_nat 0" by simp
      then have "cs = ''0''"
        by (simp add: show_nat.simps digit_char_zero_iff)
      with s z show False by simp
    qed
    with s v r canonical_digits_eq [OF cs] show ?thesis
      by (simp add: show_int_def)
  next
    case False
    then have strip: "strip_minus s = s"
      by (cases s) (auto simp: strip_minus_def)
    with c have "canonical_digits s" by simp
    then have "parse_minor s = Inr v"
      using p by (auto simp: parse_minor_def canonical_digits_def)
    then show ?thesis using parse_minor_InrD by blast
  qed
qed

section \<open>The exchange rate as a reduced fraction\<close>

lemma gcd_loop_eq_gcd: "0 \<le> a \<Longrightarrow> 0 \<le> b \<Longrightarrow> gcd_loop a b = gcd a b"
proof (induction a b rule: gcd_loop.induct)
  case (1 a b)
  show ?case
  proof (cases "b = 0")
    case True
    with 1 show ?thesis by (simp add: gcd_loop.simps)
  next
    case False
    with 1 have "gcd_loop b (a smod b) = gcd b (a smod b)"
      by (auto intro: pos_mod_sign)
    with False 1 show ?thesis
      by (simp add: gcd_loop.simps [of a b] gcd_red_int [symmetric])
  qed
qed

lemma pow10_loop_eq:
  "0 \<le> v \<Longrightarrow> in_i128 (v * 10 ^ n) \<Longrightarrow> pow10_loop n v = Some (v * 10 ^ n)"
proof (induction n arbitrary: v)
  case 0
  then show ?case by simp
next
  case (Suc n)
  have "v * 10 \<le> v * 10 ^ Suc n"
    using Suc.prems by (simp add: mult_left_mono)
  with Suc.prems have "in_i128 (v * 10)"
    by (auto intro: in_i128_nonneg_le)
  with Suc show ?case
    by (simp add: checked_mul_i128_def mult.assoc)
qed

lemma in_i128_pow10: "n \<le> 38 \<Longrightarrow> in_i128 (10 ^ n)"
proof -
  assume "n \<le> 38"
  then have "(10 :: int) ^ n \<le> 10 ^ 38" by (rule power_increasing) simp
  also have "(10 :: int) ^ 38 \<le> i128_max" by (simp add: i128_max_def)
  finally have "(10 :: int) ^ n \<le> i128_max" .
  moreover have "(0 :: int) \<le> 10 ^ n" by simp
  ultimately show ?thesis unfolding in_i128_def i128_min_def by linarith
qed

text \<open>A rate has at most 18 fractional digits, so its denominator never overflows.\<close>

lemma checked_pow10_rate: "n \<le> 38 \<Longrightarrow> checked_pow10 n = Some (10 ^ n)"
  using pow10_loop_eq [of 1 n] in_i128_pow10 [of n] by (simp add: checked_pow10_def)

lemma parse_fraction_digits:
  assumes "all_digits ds" and "ds \<noteq> []" and "length ds \<le> 38"
  shows "parse_i128 ds = Some (int (digits_value ds))"
proof -
  from assms have "digits_value ds < 10 ^ length ds" by (simp add: digits_value_bound)
  then have "int (digits_value ds) \<le> 10 ^ length ds"
    by (metis less_imp_le of_nat_le_iff of_nat_numeral of_nat_power)
  with in_i128_pow10 [OF assms(3)] have "in_i128 (int (digits_value ds))"
    by (auto intro: in_i128_nonneg_le)
  with assms show ?thesis by (simp add: parse_i128_digits)
qed

text \<open>The decimal a rate string denotes, as integer digits and fractional digits.\<close>

definition rate_parts :: "string \<Rightarrow> string \<times> string" where
  "rate_parts value = (case split_once CHR ''.'' value of Some p \<Rightarrow> p | None \<Rightarrow> (value, []))"

definition well_formed_rate :: "exchange_rate_rational \<Rightarrow> bool" where
  "well_formed_rate r \<longleftrightarrow>
     0 < rate_numerator r \<and> 0 < rate_denominator r
     \<and> in_i128 (rate_numerator r) \<and> in_i128 (rate_denominator r)
     \<and> coprime (rate_numerator r) (rate_denominator r)"

lemma reduced_fraction:
  assumes "0 < n" and "0 < d" and "in_i128 n" and "in_i128 d"
  shows "well_formed_rate \<lparr>rate_decimal = v, rate_numerator = n sdiv gcd_loop n d,
           rate_denominator = d sdiv gcd_loop n d\<rparr>"
    and "n sdiv gcd_loop n d * d = n * (d sdiv gcd_loop n d)"
proof -
  let ?g = "gcd n d"
  have g: "0 < ?g" using assms by simp
  have eq: "gcd_loop n d = ?g" using assms by (simp add: gcd_loop_eq_gcd)
  have div: "n sdiv ?g = n div ?g" "d sdiv ?g = d div ?g" using assms g by simp_all
  have pos: "0 < n div ?g" "0 < d div ?g"
    using assms g by (simp_all add: pos_imp_zdiv_pos_iff zdvd_imp_le)
  have cop: "coprime (n div ?g) (d div ?g)" using assms by (intro div_gcd_coprime) simp
  have rng: "in_i128 (n div ?g)" "in_i128 (d div ?g)"
    using assms g by (simp_all add: in_i128_div_pos)
  show "well_formed_rate \<lparr>rate_decimal = v, rate_numerator = n sdiv gcd_loop n d,
           rate_denominator = d sdiv gcd_loop n d\<rparr>"
    using pos cop rng by (simp add: well_formed_rate_def eq div)
  show "n sdiv gcd_loop n d * d = n * (d sdiv gcd_loop n d)"
  proof -
    have "n div ?g * ?g = n" and "d div ?g * ?g = d" by simp_all
    then have "n div ?g * d = n * (d div ?g)" by (metis mult.assoc mult.commute)
    then show ?thesis by (simp add: eq div)
  qed
qed

lemma rate_fraction_numerator:
  assumes "checked_mul_i128 w d = Some m" and "checked_add_i128 m f = Some n"
    and "0 \<le> w" and "0 < d" and "0 \<le> f" and "n \<noteq> 0"
  shows "n = w * d + f" and "0 < n" and "in_i128 n"
proof -
  from assms(1,2) show n: "n = w * d + f" and "in_i128 n"
    by (auto simp: checked_mul_i128_Some_iff checked_add_i128_Some_iff)
  from n assms(3-6) show "0 < n"
    by (metis add_nonneg_nonneg less_le mult_nonneg_nonneg)
qed

lemma ExchangeRateRational_parse_InrD:
  assumes "ExchangeRateRational_parse value = Inr r"
  shows "well_formed_rate r \<and> rate_decimal r = value
    \<and> rate_numerator r * 10 ^ length (snd (rate_parts value))
        = (int (digits_value (fst (rate_parts value))) * 10 ^ length (snd (rate_parts value))
            + int (digits_value (snd (rate_parts value)))) * rate_denominator r"
proof -
  define i where "i = fst (rate_parts value)"
  define f where "f = snd (rate_parts value)"
  have i: "all_digits i" "i \<noteq> []" and f: "all_digits f" "length f \<le> 18"
    using assms
    by (auto simp: ExchangeRateRational_parse_def rate_parts_def i_def f_def Let_def all_digits_def
        split: option.splits prod.splits if_splits)
  have pow: "checked_pow10 (length f) = Some (10 ^ length f)"
    using f(2) by (simp add: checked_pow10_rate)
  have frac: "(case parse_i128 f of None \<Rightarrow> 0 | Some v \<Rightarrow> v) = int (digits_value f)"
  proof (cases "f = []")
    case True
    then show ?thesis by (simp add: parse_i128_def Let_def)
  next
    case False
    with f show ?thesis by (simp add: parse_fraction_digits)
  qed
  from assms obtain w m n where
      w: "parse_i128 i = Some w"
    and m: "checked_mul_i128 w (10 ^ length f) = Some m"
    and n: "checked_add_i128 m (int (digits_value f)) = Some n" "n \<noteq> 0"
    and r: "r = \<lparr>rate_decimal = value, rate_numerator = n sdiv gcd_loop n (10 ^ length f),
                 rate_denominator = 10 ^ length f sdiv gcd_loop n (10 ^ length f)\<rparr>"
    using pow frac
    by (auto simp: ExchangeRateRational_parse_def rate_parts_def i_def f_def Let_def result_simps
        split: option.splits prod.splits if_splits)
  from i w have w': "w = int (digits_value i)"
    by (simp add: parse_i128_digits to_i128_Some_iff)
  note nf = rate_fraction_numerator [OF m n(1) _ _ _ n(2)]
  from nf w' have "n = w * 10 ^ length f + int (digits_value f)" and "0 < n" and "in_i128 n"
    by simp_all
  moreover from f(2) have "in_i128 (10 ^ length f)" by (intro in_i128_pow10) simp
  ultimately have "well_formed_rate r"
      and "rate_numerator r * 10 ^ length f = n * rate_denominator r"
    using reduced_fraction(1) [of n "10 ^ length f" "value"] reduced_fraction(2) [of n "10 ^ length f"] by (simp_all add: r)
  with \<open>n = _\<close> w' show ?thesis by (simp add: r i_def f_def)
qed

section \<open>Rounding\<close>

text \<open>The reference: the nearest integer to a ratio, ties upwards.\<close>

definition round_half_up :: "int \<Rightarrow> int \<Rightarrow> int" where
  "round_half_up n d = (2 * n + d) div (2 * d)"

lemma round_half_up_nearest:
  assumes "0 < d"
  shows "2 * d * round_half_up n d \<le> 2 * n + d" and "2 * n + d < 2 * d * round_half_up n d + 2 * d"
proof -
  have "2 * n + d = 2 * d * ((2 * n + d) div (2 * d)) + (2 * n + d) mod (2 * d)" by simp
  moreover have "0 \<le> (2 * n + d) mod (2 * d)" and "(2 * n + d) mod (2 * d) < 2 * d"
    using assms by simp_all
  ultimately show "2 * d * round_half_up n d \<le> 2 * n + d"
    and "2 * n + d < 2 * d * round_half_up n d + 2 * d"
    unfolding round_half_up_def by linarith+
qed

lemma round_half_up_unique:
  assumes "0 < d" and "2 * d * r \<le> 2 * n + d" and "2 * n + d < 2 * d * r + 2 * d"
  shows "round_half_up n d = r"
proof -
  have "(2 * n + d) div (2 * d) = r"
    by (rule int_div_pos_eq [where r = "2 * n + d - 2 * d * r"]) (use assms in auto)
  then show ?thesis by (simp add: round_half_up_def)
qed

lemma round_half_up_eq:
  assumes "0 < d"
  shows "round_half_up n d = (if d \<le> 2 * (n mod d) then n div d + 1 else n div d)"
proof -
  have n: "2 * n = 2 * d * (n div d) + 2 * (n mod d)"
    by (metis distrib_left mult.assoc mult_div_mod_eq)
  have "0 \<le> n mod d" and "n mod d < d" using assms by simp_all
  with assms n show ?thesis
    by (auto intro!: round_half_up_unique simp: distrib_left)
qed

lemma round_half_up_nonneg: "0 < d \<Longrightarrow> 0 \<le> n \<Longrightarrow> 0 \<le> round_half_up n d"
  by (simp add: round_half_up_def pos_imp_zdiv_nonneg_iff)

text \<open>Converting to a currency with at least as many units, and back, loses nothing.\<close>

lemma round_half_up_roundtrip:
  assumes "0 < q" and "q \<le> p"
  shows "round_half_up (round_half_up (a * p) q * q) p = a"
proof -
  define r where "r = round_half_up (a * p) q"
  have lo: "2 * q * r \<le> 2 * (a * p) + q" and hi: "2 * (a * p) + q < 2 * q * r + 2 * q"
    using round_half_up_nearest [OF assms(1), of "a * p"] by (simp_all add: r_def)
  show ?thesis
  proof (cases "q = p")
    case True
    with assms have "round_half_up (a * p) q = a"
      by (intro round_half_up_unique) (simp_all add: algebra_simps)
    with True assms show ?thesis by simp
  next
    case False
    have "round_half_up (r * q) p = a"
    proof (rule round_half_up_unique)
      show "0 < p" using assms by simp
      show "2 * p * a \<le> 2 * (r * q) + p"
        using hi assms by (simp add: algebra_simps)
      show "2 * (r * q) + p < 2 * p * a + 2 * p"
        using lo assms False by (simp add: algebra_simps)
    qed
    then show ?thesis by (simp add: r_def)
  qed
qed

lemma round_nonnegative_ratio_eq:
  assumes "in_i128 n"
  shows "round_nonnegative_ratio n d =
           (if n < 0 \<or> d \<le> 0 then Inl InvalidAmount else Inr (round_half_up n d))"
proof (cases "n < 0 \<or> d \<le> 0")
  case True
  then show ?thesis by (auto simp: round_nonnegative_ratio_def)
next
  case False
  then have n: "0 \<le> n" and d: "0 < d" by auto
  have "in_i128 (n div d + 1)" if "n mod d \<noteq> 0"
  proof -
    have "d \<noteq> 1" using that by auto
    with d have "n div d \<le> n div 2" using n by (intro zdiv_mono2) auto
    moreover have "n \<le> i128_max" using assms by (simp add: in_i128_def)
    ultimately have "n div d + 1 \<le> i128_max"
      using n unfolding i128_max_def by linarith
    moreover have "0 \<le> n div d" using n d by (simp add: pos_imp_zdiv_nonneg_iff)
    ultimately show ?thesis by (simp add: in_i128_def i128_min_def)
  qed
  with n d show ?thesis
    by (auto simp: round_nonnegative_ratio_def Let_def round_half_up_eq [OF d] checked_add_i128_def)
qed

lemma checked_round_product_ratio_eq:
  assumes "0 \<le> a" and "0 \<le> m" and "0 < d"
  shows "checked_round_product_ratio a m d =
           (if in_i128 (a * m) then Inr (round_half_up (a * m) d) else Inl AmountOverflow)"
proof (cases "in_i128 (a * m)")
  case True
  moreover have "\<not> a * m < 0" using assms by (simp add: not_less)
  ultimately show ?thesis
    using assms
    by (simp add: checked_round_product_ratio_def checked_mul_i128_def round_nonnegative_ratio_eq)
next
  case False
  then show ?thesis
    by (simp add: checked_round_product_ratio_def checked_mul_i128_def to_i128_def)
qed

lemma convert_minor_rational_eq:
  assumes "well_formed_rate r" and "0 \<le> a"
  shows "convert_minor_rational a USD CNY r =
           (if in_i128 (a * rate_numerator r)
            then Inr (round_half_up (a * rate_numerator r) (rate_denominator r))
            else Inl AmountOverflow)"
    and "convert_minor_rational a CNY USD r =
           (if in_i128 (a * rate_denominator r)
            then Inr (round_half_up (a * rate_denominator r) (rate_numerator r))
            else Inl AmountOverflow)"
  using assms
  by (simp_all add: convert_minor_rational_def require_nonnegative_def well_formed_rate_def
      checked_round_product_ratio_eq)

section \<open>Properties\<close>

text \<open>
  C25: \<open>parse_minor\<close> accepts exactly the canonical decimal numerals of the non-negative
  \<open>i128\<close> values and returns the value the numeral denotes.
\<close>
theorem parse_minor_canonical:
  "parse_minor s = Inr v \<longleftrightarrow> in_i128 v \<and> 0 \<le> v \<and> s = show_int v"
  using parse_minor_show parse_minor_InrD by blast

text \<open>
  \<open>parse_signed_minor\<close> is the inverse of printing on all of \<open>i128\<close>: it
  accepts exactly the canonical numerals, so \<open>-0\<close>, leading zeros, plus signs and blanks
  are refused.
\<close>
theorem parse_signed_minor_canonical:
  "parse_signed_minor s = Inr v \<longleftrightarrow> in_i128 v \<and> s = show_int v"
  using parse_signed_minor_show parse_signed_minor_InrD by blast

text \<open>
  C26: an accepted exchange rate is a positive reduced fraction of \<open>i128\<close> values that
  is exactly the decimal it was parsed from.
\<close>
theorem ExchangeRateRational_parse_exact:
  assumes "ExchangeRateRational_parse s = Inr r"
  shows "0 < rate_numerator r \<and> 0 < rate_denominator r
    \<and> coprime (rate_numerator r) (rate_denominator r)
    \<and> rate_numerator r * 10 ^ length (snd (rate_parts s))
        = (int (digits_value (fst (rate_parts s))) * 10 ^ length (snd (rate_parts s))
            + int (digits_value (snd (rate_parts s)))) * rate_denominator r"
  using ExchangeRateRational_parse_InrD [OF assms] by (simp add: well_formed_rate_def)

theorem ExchangeRateRational_parse_exact_witness:
  "ExchangeRateRational_parse ''6.50'' =
     Inr \<lparr>rate_decimal = ''6.50'', rate_numerator = 13, rate_denominator = 2\<rparr>
   \<and> coprime (13 :: int) 2 \<and> (13 :: int) * 10 ^ 2 = (6 * 10 ^ 2 + 50) * 2"
proof -
  have p: "ExchangeRateRational_parse ''6.50'' =
     Inr \<lparr>rate_decimal = ''6.50'', rate_numerator = 13, rate_denominator = 2\<rparr>"
    by code_simp
  have parts: "rate_parts ''6.50'' = (''6'', ''50'')" by code_simp
  have d: "digits_value ''6'' = 6" "digits_value ''50'' = 50" by code_simp+
  from ExchangeRateRational_parse_exact [OF p] p show ?thesis
    by (simp add: parts d)
qed

text \<open>
  C27: a conversion between the two currencies is the exact rational product rounded to the
  nearest minor unit, ties upwards; the only failure is an \<open>i128\<close> overflow of the product
  itself, never of the rounding.
\<close>
theorem convert_minor_rational_rounds:
  assumes "ExchangeRateRational_parse s = Inr r" and "0 \<le> a"
  shows "convert_minor_rational a USD CNY r =
           (if in_i128 (a * rate_numerator r)
            then Inr ((2 * (a * rate_numerator r) + rate_denominator r) div (2 * rate_denominator r))
            else Inl AmountOverflow)
       \<and> convert_minor_rational a CNY USD r =
           (if in_i128 (a * rate_denominator r)
            then Inr ((2 * (a * rate_denominator r) + rate_numerator r) div (2 * rate_numerator r))
            else Inl AmountOverflow)"
  using ExchangeRateRational_parse_InrD [OF assms(1)] assms(2)
  by (simp add: convert_minor_rational_eq round_half_up_def)

theorem convert_minor_rational_rounds_witness:
  "convert_minor_rational 3 USD CNY
     \<lparr>rate_decimal = ''6.50'', rate_numerator = 13, rate_denominator = 2\<rparr> = Inr 20"
proof -
  have p: "ExchangeRateRational_parse ''6.50'' =
     Inr \<lparr>rate_decimal = ''6.50'', rate_numerator = 13, rate_denominator = 2\<rparr>"
    by code_simp
  show ?thesis
    using convert_minor_rational_rounds [OF p, of 3]
    by (simp add: in_i128_def i128_max_def i128_min_def)
qed

text \<open>
  C28: at a rate of at least one CNY per USD, a USD amount converted to CNY and back is
  unchanged, whatever was rounded in between.
\<close>
theorem convert_usd_cny_roundtrip:
  assumes "ExchangeRateRational_parse s = Inr r"
    and "rate_denominator r \<le> rate_numerator r"
    and "convert_minor_rational a USD CNY r = Inr c"
    and "convert_minor_rational c CNY USD r = Inr b"
  shows "b = a"
proof -
  from ExchangeRateRational_parse_InrD [OF assms(1)] have wf: "well_formed_rate r" by blast
  have a: "0 \<le> a" and c: "0 \<le> c"
    using assms(3,4)
    by (auto simp: convert_minor_rational_def require_nonnegative_def split: if_splits)
  from assms(3) have c': "c = round_half_up (a * rate_numerator r) (rate_denominator r)"
    by (simp add: convert_minor_rational_eq [OF wf a] split: if_splits)
  from assms(4) have "b = round_half_up (c * rate_denominator r) (rate_numerator r)"
    by (simp add: convert_minor_rational_eq [OF wf c] split: if_splits)
  with c' round_half_up_roundtrip [of "rate_denominator r" "rate_numerator r" a] wf assms(2)
  show ?thesis by (simp add: well_formed_rate_def)
qed

theorem convert_usd_cny_roundtrip_witness:
  "convert_minor_rational 3 USD CNY
     \<lparr>rate_decimal = ''6.50'', rate_numerator = 13, rate_denominator = 2\<rparr> = Inr 20
   \<and> (\<exists>b. convert_minor_rational 20 CNY USD
          \<lparr>rate_decimal = ''6.50'', rate_numerator = 13, rate_denominator = 2\<rparr> = Inr b \<and> b = 3)"
proof -
  let ?r = "\<lparr>rate_decimal = ''6.50'', rate_numerator = 13, rate_denominator = 2\<rparr>"
  have p: "ExchangeRateRational_parse ''6.50'' = Inr ?r" by code_simp
  have c: "convert_minor_rational 3 USD CNY ?r = Inr 20" by code_simp
  have d: "convert_minor_rational 20 CNY USD ?r = Inr 3" by code_simp
  from convert_usd_cny_roundtrip [OF p _ c d] c d show ?thesis by simp
qed

end
