(* ===== verification/Exact_Decimal.thy ===== *)
theory Exact_Decimal
  imports Prelude
begin

text \<open>
  Model of \<open>src/src/exact_decimal.rs\<close>: the exact price multiplier. A
  \<open>rust_decimal::Decimal\<close> is observed through its mantissa and its scale only. Parsing
  and normalising a decimal belong to that library, so they are arguments of
  \<open>Multiplier_parse\<close>; \<open>decimal_library\<close> states what its documentation promises
  (a 96-bit mantissa, a scale of at most 28, normalisation that keeps the value). The main
  lemma shows that \<open>checked_scale_i128\<close>, which splits the product to avoid overflow,
  computes exactly the truncated product and fails only when that product leaves \<open>i128\<close>.
\<close>

section \<open>Data\<close>

record multiplier =
  mantissa :: int
  scale :: nat

definition Multiplier_ONE :: multiplier where
  "Multiplier_ONE = \<lparr>mantissa = 1, scale = 0\<rparr>"

datatype multiplier_error = NotDecimal | NotPositive | TooManyFractionDigits

section \<open>Operations\<close>

definition Multiplier_parse ::
    "(string \<Rightarrow> multiplier option) \<Rightarrow> (multiplier \<Rightarrow> multiplier) \<Rightarrow> string
       \<Rightarrow> (multiplier_error, multiplier) result" where
  "Multiplier_parse from_str normalize_dec raw =
     (if raw = [] \<or> hd raw = CHR ''+'' \<or> CHR ''e'' \<in> set raw \<or> CHR ''E'' \<in> set raw
         \<or> \<not> list_all (\<lambda>c. is_ascii_digit c \<or> c = CHR ''.'') raw
         \<or> 1 < length (filter (\<lambda>c. c = CHR ''.'') raw)
      then Inl NotDecimal
      else rbind (ok_or NotDecimal (from_str raw)) (\<lambda>v.
        if mantissa v \<le> 0 then Inl NotPositive
        else if 9 < scale v then Inl TooManyFractionDigits
        else Inr (normalize_dec v)))"

text \<open>\<open>i128::checked_pow\<close>.\<close>

definition checked_pow_i128 :: "int \<Rightarrow> nat \<Rightarrow> int option" where
  "checked_pow_i128 b n = to_i128 (b ^ n)"

definition checked_scale_i128 :: "multiplier \<Rightarrow> int \<Rightarrow> int option" where
  "checked_scale_i128 m base =
     (let coefficient = mantissa m in
      Option.bind (checked_pow_i128 10 (scale m)) (\<lambda>divisor.
      Option.bind (checked_div_i128 base divisor) (\<lambda>whole.
      Option.bind (checked_rem_i128 base divisor) (\<lambda>remainder.
      Option.bind (checked_mul_i128 whole coefficient) (\<lambda>high.
      Option.bind (Option.bind (checked_mul_i128 remainder coefficient)
                     (\<lambda>p. checked_div_i128 p divisor)) (\<lambda>low.
      checked_add_i128 high low))))))"

definition Multiplier_canonical :: "(multiplier \<Rightarrow> multiplier) \<Rightarrow> (multiplier \<Rightarrow> string) \<Rightarrow> multiplier \<Rightarrow> string" where
  "Multiplier_canonical normalize_dec to_string m = to_string (normalize_dec m)"

section \<open>What the decimal library promises\<close>

definition decimal_library :: "(string \<Rightarrow> multiplier option) \<Rightarrow> (multiplier \<Rightarrow> multiplier) \<Rightarrow> bool" where
  "decimal_library from_str normalize_dec \<longleftrightarrow>
     (\<forall>s d. from_str s = Some d \<longrightarrow> \<bar>mantissa d\<bar> < 2 ^ 96 \<and> scale d \<le> 28)
     \<and> (\<forall>d. scale (normalize_dec d) \<le> scale d \<and> \<bar>mantissa (normalize_dec d)\<bar> \<le> \<bar>mantissa d\<bar>
            \<and> mantissa (normalize_dec d) * 10 ^ scale d = mantissa d * 10 ^ scale (normalize_dec d))"

definition well_formed_multiplier :: "multiplier \<Rightarrow> bool" where
  "well_formed_multiplier m \<longleftrightarrow> 0 < mantissa m \<and> mantissa m < 2 ^ 96 \<and> scale m \<le> 9"

section \<open>Truncated products\<close>

lemma sdiv_minus_left [simp]: "(- a) sdiv b = - (a sdiv b)" for a b :: int
  by (simp add: signed_divide_int_def)

lemma smod_minus_left [simp]: "(- a) smod b = - (a smod b)" for a b :: int
  by (simp add: signed_modulo_int_def)

lemma sdiv_split_nonneg:
  fixes base c d :: int
  assumes "0 \<le> base" and "0 \<le> c" and "0 < d"
  shows "(base * c) sdiv d = (base sdiv d) * c + ((base smod d) * c) sdiv d"
proof -
  have "base * c = (base mod d) * c + (base div d * c) * d"
    by (metis distrib_left mult.assoc mult.commute mult_div_mod_eq add.commute)
  then have "(base * c) div d = ((base mod d) * c) div d + base div d * c"
    using assms by simp
  with assms show ?thesis by (simp add: pos_mod_sign)
qed

lemma sdiv_split_product:
  fixes base c d :: int
  assumes "0 \<le> c" and "0 < d"
  shows "(base * c) sdiv d = (base sdiv d) * c + ((base smod d) * c) sdiv d"
proof (cases "0 \<le> base")
  case True
  then show ?thesis using assms by (rule sdiv_split_nonneg)
next
  case False
  define b where "b = - base"
  have base: "base = - b" and "0 \<le> b" using False by (simp_all add: b_def)
  then show ?thesis
    using sdiv_split_nonneg [of b c d] assms
    by (simp flip: minus_mult_left)
qed

text \<open>Quotient and remainder of a truncating division have the sign of the dividend.\<close>

lemma sdiv_smod_nonneg:
  "0 \<le> a \<Longrightarrow> 0 < d \<Longrightarrow> 0 \<le> a sdiv d \<and> a sdiv d \<le> a \<and> 0 \<le> a smod d \<and> a smod d < d"
  for a d :: int
  using zdiv_mono2 [of a 1 d] by (simp add: pos_imp_zdiv_nonneg_iff)

lemma sdiv_smod_nonpos:
  "a \<le> 0 \<Longrightarrow> 0 < d \<Longrightarrow> a sdiv d \<le> 0 \<and> a \<le> a sdiv d \<and> a smod d \<le> 0 \<and> - d < a smod d"
  for a d :: int
  using sdiv_smod_nonneg [of "- a" d] by simp

lemma in_i128_remainder_product:
  fixes r c d :: int
  assumes "\<bar>r\<bar> < d" and "d \<le> 10 ^ 9" and "0 < c" and "c < 2 ^ 96"
  shows "in_i128 (r * c)"
proof -
  have "\<bar>r * c\<bar> = \<bar>r\<bar> * c" using assms by (simp add: abs_mult)
  also have "\<dots> \<le> 10 ^ 9 * 2 ^ 96" by (rule mult_mono) (use assms in auto)
  finally have "\<bar>r * c\<bar> \<le> 10 ^ 9 * 2 ^ 96" .
  then show ?thesis by (simp add: in_i128_def i128_max_def i128_min_def abs_le_iff)
qed

lemma sdiv_mono:
  fixes a b d :: int
  assumes "a \<le> b" and "0 < d"
  shows "a sdiv d \<le> b sdiv d"
proof (cases "0 \<le> a")
  case True
  then show ?thesis using assms by (simp add: zdiv_mono1)
next
  case False
  show ?thesis
  proof (cases "0 \<le> b")
    case True
    with False sdiv_smod_nonpos [of a d] sdiv_smod_nonneg [of b d] assms(2) show ?thesis by force
  next
    case neg: False
    have "(- b) div d \<le> (- a) div d" using assms by (simp add: zdiv_mono1)
    moreover have "- (a sdiv d) = (- a) div d" "- (b sdiv d) = (- b) div d"
      using False neg assms sdiv_nonneg [of "- a" d] sdiv_nonneg [of "- b" d]
      unfolding sdiv_minus_left by linarith+
    ultimately show ?thesis by linarith
  qed
qed

lemma checked_scale_i128_eq:
  assumes m: "well_formed_multiplier m" and base: "in_i128 base"
  shows "checked_scale_i128 m base = to_i128 ((base * mantissa m) sdiv 10 ^ scale m)"
proof -
  define c where "c = mantissa m"
  define d where "d = (10 :: int) ^ scale m"
  define w where "w = base sdiv d"
  define r where "r = base smod d"
  define q where "q = (r * c) sdiv d"
  have c: "0 < c" "c < 2 ^ 96" and s: "scale m \<le> 9"
    using m by (simp_all add: well_formed_multiplier_def c_def)
  have d: "0 < d" "d \<le> 10 ^ 9"
    unfolding d_def using s power_increasing [of "scale m" 9 "10 :: int"] by simp_all
  then have pow: "checked_pow_i128 10 (scale m) = Some d"
    by (simp add: checked_pow_i128_def d_def [symmetric] in_i128_def i128_max_def i128_min_def)
  have split: "(base * c) sdiv d = w * c + q"
    unfolding w_def r_def q_def by (rule sdiv_split_product) (use c d in auto)
  have signs: "(0 \<le> base \<and> 0 \<le> w \<and> w \<le> base \<and> 0 \<le> r \<and> r < d \<and> 0 \<le> q \<and> q \<le> r * c)
      \<or> (base \<le> 0 \<and> w \<le> 0 \<and> base \<le> w \<and> r \<le> 0 \<and> - d < r \<and> q \<le> 0 \<and> r * c \<le> q)"
  proof (cases "0 \<le> base")
    case True
    with d sdiv_smod_nonneg [of base d] c sdiv_smod_nonneg [of "r * c" d] show ?thesis
      by (simp add: w_def r_def q_def)
  next
    case False
    then have "r * c \<le> 0"
      using d c sdiv_smod_nonpos [of base d] by (simp add: r_def mult_nonpos_nonneg)
    with False d sdiv_smod_nonpos [of base d] sdiv_smod_nonpos [of "r * c" d] show ?thesis
      by (simp add: w_def r_def q_def)
  qed
  then have "\<bar>r\<bar> < d" by auto
  then have rc: "in_i128 (r * c)" using in_i128_remainder_product c d by blast
  have w_rng: "in_i128 w" using signs base by (auto simp: in_i128_def i128_max_def i128_min_def)
  have q_rng: "in_i128 q" using signs rc by (auto simp: in_i128_def i128_max_def i128_min_def)
  have wc: "(0 \<le> w * c \<and> 0 \<le> q) \<or> (w * c \<le> 0 \<and> q \<le> 0)"
    using signs c by (auto simp: mult_nonpos_nonneg)
  have sum: "in_i128 (w * c)" if "in_i128 (w * c + q)"
    using wc that in_i128_between [of 0 "w * c + q" "w * c"]
      in_i128_between [of "w * c + q" 0 "w * c"] by auto
  have rem: "checked_rem_i128 base d = Some r" and div: "checked_div_i128 base d = Some w"
      and low: "checked_div_i128 (r * c) d = Some q"
    using d w_rng q_rng
    by (simp_all add: checked_rem_i128_def checked_div_i128_def r_def [symmetric] w_def [symmetric]
        q_def [symmetric])
  have "checked_scale_i128 m base =
          Option.bind (to_i128 (w * c)) (\<lambda>high. to_i128 (high + q))"
    using rc
    by (simp add: checked_scale_i128_def Let_def pow rem div low c_def [symmetric]
        checked_mul_i128_def checked_add_i128_def)
  also have "\<dots> = to_i128 (w * c + q)"
    using sum by (auto simp: to_i128_def)
  finally show ?thesis using split by (simp add: c_def d_def)
qed

lemma checked_scale_mono:
  assumes "well_formed_multiplier m" and "in_i128 a" and "in_i128 b" and "a \<le> b"
    and "checked_scale_i128 m a = Some a'" and "checked_scale_i128 m b = Some b'"
  shows "a' \<le> b'"
proof -
  have "a * mantissa m \<le> b * mantissa m"
    using assms(1,4) by (simp add: well_formed_multiplier_def mult_right_mono)
  then have "(a * mantissa m) sdiv 10 ^ scale m \<le> (b * mantissa m) sdiv 10 ^ scale m"
    by (rule sdiv_mono) simp
  then show ?thesis
    using assms(5,6) checked_scale_i128_eq [OF assms(1)] assms(2,3) by (simp add: result_simps)
qed

lemma Multiplier_parse_well_formed:
  assumes lib: "decimal_library from_str normalize_dec"
    and ok: "Multiplier_parse from_str normalize_dec s = Inr m"
  shows "well_formed_multiplier m"
proof -
  from ok obtain v where v: "from_str s = Some v" "0 < mantissa v" "scale v \<le> 9"
      and m: "m = normalize_dec v"
    by (auto simp: Multiplier_parse_def result_simps not_le split: if_splits)
  from lib v(1) have "\<bar>mantissa v\<bar> < 2 ^ 96" by (auto simp: decimal_library_def)
  moreover from lib have n: "scale m \<le> scale v" "\<bar>mantissa m\<bar> \<le> \<bar>mantissa v\<bar>"
      "mantissa m * 10 ^ scale v = mantissa v * 10 ^ scale m"
    by (auto simp: decimal_library_def m)
  moreover from n(3) v(2) have "0 < mantissa m"
    by (metis mult_pos_pos zero_less_mult_pos2 zero_less_numeral zero_less_power)
  ultimately show ?thesis using v by (simp add: well_formed_multiplier_def)
qed

section \<open>Properties\<close>

text \<open>
  C29: scaling a charge by an accepted multiplier is exact: for every \<open>i128\<close> base it is the
  product divided by the power of ten and truncated towards zero, and it fails only when that
  value does not fit \<open>i128\<close>; splitting the product into quotient and remainder introduces
  neither a rounding error nor a spurious overflow.
\<close>
theorem checked_scale_i128_exact:
  assumes "decimal_library from_str normalize_dec"
    and "Multiplier_parse from_str normalize_dec s = Inr m" and "in_i128 base"
  shows "checked_scale_i128 m base = to_i128 ((base * mantissa m) sdiv 10 ^ scale m)"
  using checked_scale_i128_eq [OF Multiplier_parse_well_formed [OF assms(1,2)] assms(3)] .

theorem checked_scale_i128_exact_witness:
  "checked_scale_i128 \<lparr>mantissa = 1001, scale = 3\<rparr> (-1999) = Some (-2000)"
proof -
  let ?from_str = "\<lambda>s. if s = ''1.001'' then Some \<lparr>mantissa = 1001, scale = 3\<rparr> else None"
  have lib: "decimal_library ?from_str (\<lambda>d. d)"
    by (auto simp: decimal_library_def split: if_splits)
  have ok: "Multiplier_parse ?from_str (\<lambda>d. d) ''1.001'' = Inr \<lparr>mantissa = 1001, scale = 3\<rparr>"
    by (simp add: Multiplier_parse_def is_ascii_digit_def)
  have "in_i128 (-1999)" by (simp add: in_i128_def i128_max_def i128_min_def)
  from checked_scale_i128_exact [OF lib ok this] show ?thesis
    by (simp add: signed_divide_int_def to_i128_def in_i128_def i128_max_def i128_min_def)
qed

end
