(* ===== verification/Payment_State.thy ===== *)
theory Payment_State
  imports Prelude
begin

text \<open>
  Model of \<open>src/src/store_billing/state_machine.rs\<close>: the payment and the fulfilment state
  machines of a store order. \<open>transition_payment\<close> decides one event; \<open>payment_step\<close>
  is the machine an order follows (apply, or stay on a no-op or a rejection), with its reachable
  states. The lemmas show that delivering an event twice never has a second effect, that a
  payment is applied at most once however events are interleaved, and that a refunded order
  never moves again.
\<close>

section \<open>States, events and transitions\<close>

datatype payment_state = Unpaid | Paid | RefundPending | Refunded | Closed

fun PaymentState_as_str :: "payment_state \<Rightarrow> string" where
  "PaymentState_as_str Unpaid = ''unpaid''"
| "PaymentState_as_str Paid = ''paid''"
| "PaymentState_as_str RefundPending = ''refund_pending''"
| "PaymentState_as_str Refunded = ''refunded''"
| "PaymentState_as_str Closed = ''closed''"

datatype fulfillment_state = FulfillmentPending | Fulfilled | FulfillmentFailed

fun FulfillmentState_as_str :: "fulfillment_state \<Rightarrow> string" where
  "FulfillmentState_as_str FulfillmentPending = ''pending''"
| "FulfillmentState_as_str Fulfilled = ''fulfilled''"
| "FulfillmentState_as_str FulfillmentFailed = ''failed''"

datatype payment_event =
  VerifiedPayment | ConfirmedUnpaid | RefundReserved | VerifiedRefund | DefiniteRefundRejection

datatype fulfillment_event = FulfillmentSucceeded | FulfillmentFailedEvent

datatype transition_decision = Apply payment_state bool | Noop | Reject

fun transition_payment :: "payment_state \<Rightarrow> int \<Rightarrow> payment_event \<Rightarrow> transition_decision" where
  "transition_payment Unpaid _ VerifiedPayment = Apply Paid False"
| "transition_payment Closed contract_version VerifiedPayment =
     (if contract_version = 2 then Apply Paid True else Reject)"
| "transition_payment Paid _ VerifiedPayment = Noop"
| "transition_payment RefundPending _ VerifiedPayment = Noop"
| "transition_payment Refunded _ VerifiedPayment = Noop"
| "transition_payment Unpaid _ ConfirmedUnpaid = Apply Closed False"
| "transition_payment _ _ ConfirmedUnpaid = Noop"
| "transition_payment Paid _ RefundReserved = Apply RefundPending False"
| "transition_payment RefundPending _ RefundReserved = Noop"
| "transition_payment RefundPending _ VerifiedRefund = Apply Refunded False"
| "transition_payment Refunded _ VerifiedRefund = Noop"
| "transition_payment RefundPending _ DefiniteRefundRejection = Apply Paid False"
| "transition_payment Paid _ DefiniteRefundRejection = Noop"
| "transition_payment _ _ _ = Reject"

fun transition_fulfillment ::
    "fulfillment_state \<Rightarrow> fulfillment_event \<Rightarrow> fulfillment_state option" where
  "transition_fulfillment FulfillmentPending FulfillmentSucceeded = Some Fulfilled"
| "transition_fulfillment FulfillmentFailed FulfillmentSucceeded = Some Fulfilled"
| "transition_fulfillment FulfillmentPending FulfillmentFailedEvent = Some FulfillmentFailed"
| "transition_fulfillment Fulfilled FulfillmentSucceeded = Some Fulfilled"
| "transition_fulfillment FulfillmentFailed FulfillmentFailedEvent = Some FulfillmentFailed"
| "transition_fulfillment Fulfilled FulfillmentFailedEvent = None"

section \<open>Runs of the payment machine\<close>

text \<open>What one decision does to the stored state, and whether it had an effect.\<close>

definition apply_decision :: "payment_state \<Rightarrow> transition_decision \<Rightarrow> payment_state" where
  "apply_decision s d = (case d of Apply next _ \<Rightarrow> next | Noop \<Rightarrow> s | Reject \<Rightarrow> s)"

fun payment_run :: "int \<Rightarrow> payment_state \<Rightarrow> payment_event list \<Rightarrow> payment_state" where
  "payment_run v s [] = s"
| "payment_run v s (e # es) = payment_run v (apply_decision s (transition_payment s v e)) es"

fun applied_events :: "int \<Rightarrow> payment_state \<Rightarrow> payment_event list \<Rightarrow> payment_event list" where
  "applied_events v s [] = []"
| "applied_events v s (e # es) =
     (case transition_payment s v e of
        Apply next _ \<Rightarrow> e # applied_events v next es
      | _ \<Rightarrow> applied_events v s es)"

inductive payment_step :: "int \<Rightarrow> payment_state \<Rightarrow> payment_state \<Rightarrow> bool" for v :: int where
  applied: "transition_payment s v e = Apply next late \<Longrightarrow> payment_step v s next"

inductive payment_reachable :: "int \<Rightarrow> payment_state \<Rightarrow> bool" for v :: int where
  created: "payment_reachable v Unpaid"
| step: "payment_reachable v s \<Longrightarrow> payment_step v s t \<Longrightarrow> payment_reachable v t"

inductive_cases payment_stepE: "payment_step v s t"

text \<open>Money has been received: the order is past its payment.\<close>

definition was_paid :: "payment_state \<Rightarrow> bool" where
  "was_paid s \<longleftrightarrow> s = Paid \<or> s = RefundPending \<or> s = Refunded"

lemma transition_Apply_cases:
  assumes "transition_payment s v e = Apply t late"
  shows "(s = Unpaid \<and> e = VerifiedPayment \<and> t = Paid \<and> \<not> late)
    \<or> (s = Closed \<and> e = VerifiedPayment \<and> v = 2 \<and> t = Paid \<and> late)
    \<or> (s = Unpaid \<and> e = ConfirmedUnpaid \<and> t = Closed \<and> \<not> late)
    \<or> (s = Paid \<and> e = RefundReserved \<and> t = RefundPending \<and> \<not> late)
    \<or> (s = RefundPending \<and> e = VerifiedRefund \<and> t = Refunded \<and> \<not> late)
    \<or> (s = RefundPending \<and> e = DefiniteRefundRejection \<and> t = Paid \<and> \<not> late)"
  using assms by (cases s; cases e) (auto split: if_splits)

lemma was_paid_step: "was_paid s \<Longrightarrow> was_paid (apply_decision s (transition_payment s v e))"
  by (cases s; cases e) (auto simp: was_paid_def apply_decision_def)

lemma was_paid_no_payment:
  "was_paid s \<Longrightarrow> transition_payment s v VerifiedPayment = Noop"
  by (cases s) (auto simp: was_paid_def)

lemma apply_payment_was_paid:
  "transition_payment s v VerifiedPayment = Apply t late \<Longrightarrow> was_paid t"
  by (cases s) (auto simp: was_paid_def split: if_splits)

lemma no_payment_after_paid:
  "was_paid s \<Longrightarrow> VerifiedPayment \<notin> set (applied_events v s es)"
proof (induction es arbitrary: s)
  case Nil
  then show ?case by simp
next
  case (Cons e es)
  show ?case
  proof (cases "transition_payment s v e")
    case (Apply t late)
    with was_paid_step [OF Cons.prems, of v e] have "was_paid t"
      by (simp add: apply_decision_def)
    moreover have "e \<noteq> VerifiedPayment"
      using Apply was_paid_no_payment [OF Cons.prems] by auto
    ultimately show ?thesis using Apply Cons.IH by simp
  qed (use Cons in simp_all)
qed

lemma payment_applied_at_most_once:
  "count_list (applied_events v s es) VerifiedPayment \<le> 1"
proof (induction es arbitrary: s)
  case Nil
  then show ?case by simp
next
  case (Cons e es)
  show ?case
  proof (cases "transition_payment s v e")
    case (Apply t late)
    show ?thesis
    proof (cases "e = VerifiedPayment")
      case True
      with Apply have "was_paid t" using apply_payment_was_paid by blast
      then have "VerifiedPayment \<notin> set (applied_events v t es)"
        by (rule no_payment_after_paid)
      with Apply True show ?thesis by (simp add: count_list_0_iff)
    next
      case False
      with Apply Cons.IH [of t] show ?thesis by simp
    qed
  qed (use Cons.IH in simp_all)
qed

lemma payment_run_reachable:
  "payment_reachable v s \<Longrightarrow> payment_reachable v (payment_run v s es)"
proof (induction es arbitrary: s)
  case Nil
  then show ?case by simp
next
  case (Cons e es)
  have "payment_reachable v (apply_decision s (transition_payment s v e))"
    using Cons.prems
    by (cases "transition_payment s v e")
      (auto simp: apply_decision_def intro: payment_reachable.step payment_step.applied)
  then show ?case using Cons.IH by simp
qed

section \<open>Properties\<close>

text \<open>
  C30: a redelivered webhook has no second effect: after an event has been applied, the same event
  is a no-op in the new state (never a rejection, never another transition), and an event that
  is a no-op stays one.
\<close>
theorem payment_event_idempotent:
  "transition_payment (apply_decision s (transition_payment s v e)) v e
     = (case transition_payment s v e of Apply _ _ \<Rightarrow> Noop | d \<Rightarrow> d)"
  by (cases s; cases e) (auto simp: apply_decision_def)

text \<open>
  C31: whatever order events arrive in and however often, a payment is applied at most once in the
  life of an order, so its reward is granted at most once.
\<close>
theorem payment_applied_once:
  "count_list (applied_events v Unpaid es) VerifiedPayment \<le> 1"
  by (rule payment_applied_at_most_once)

text \<open>
  C32: money received is never forgotten: after a payment is accepted no event sequence brings the
  order back to unpaid or closed, and a refunded order stays refunded.
\<close>
theorem paid_order_stays_paid:
  assumes "s = Paid \<or> s = RefundPending \<or> s = Refunded"
  shows "payment_run v s es \<in> {Paid, RefundPending, Refunded}
    \<and> (s = Refunded \<longrightarrow> payment_run v s es = Refunded)"
proof -
  have "was_paid (payment_run v s es)" if "was_paid s" for s
    using that by (induction es arbitrary: s) (simp_all add: was_paid_step)
  moreover have "payment_run v Refunded es = Refunded"
  proof (induction es)
    case (Cons e es)
    then show ?case by (cases e) (simp_all add: apply_decision_def)
  qed simp
  ultimately show ?thesis using assms by (auto simp: was_paid_def)
qed

theorem paid_order_stays_paid_witness:
  "payment_run 2 Paid [RefundReserved, ConfirmedUnpaid, DefiniteRefundRejection]
     \<in> {Paid, RefundPending, Refunded}"
  using paid_order_stays_paid [of Paid 2 "[RefundReserved, ConfirmedUnpaid, DefiniteRefundRejection]"]
  by simp

end
