(* ===== verification/Rate_Limiters.thy ===== *)
theory Rate_Limiters
  imports Prelude
begin

text \<open>
  Model of the two sliding-window limiters of the store,
  \<open>src/src/store_billing/poll_limit.rs\<close> (order polling, per user) and
  \<open>src/src/store_billing/callback_limit.rs\<close> (payment callbacks, per channel and source
  address). An \<open>Instant\<close> is a \<open>nat\<close> of milliseconds; \<open>duration_since\<close>
  saturates at zero, as the subtraction of \<open>nat\<close> does. The address in a callback key is
  already printed. The locale \<open>window_limiter\<close> states the step both limiters take; its
  lemmas bound the calls granted in any window, and both limiters are interpreted in it.
\<close>

section \<open>The two limiters\<close>

type_synonym attempts = "string \<rightharpoonup> nat list"

definition entries_of :: "attempts \<Rightarrow> string \<Rightarrow> nat list" where
  "entries_of m k = (case m k of None \<Rightarrow> [] | Some es \<Rightarrow> es)"

definition POLL_LIMIT :: nat where "POLL_LIMIT = 30"
definition POLL_WINDOW :: nat where "POLL_WINDOW = 60000"
definition CALLBACK_LIMIT :: nat where "CALLBACK_LIMIT = 600"
definition CALLBACK_WINDOW :: nat where "CALLBACK_WINDOW = 60000"

definition poll_allow_at :: "attempts \<Rightarrow> string \<Rightarrow> nat \<Rightarrow> bool \<times> attempts" where
  "poll_allow_at attempts user_id now =
     (let user_attempts =
            dropWhile (\<lambda>created_at. POLL_WINDOW \<le> now - created_at) (entries_of attempts user_id)
      in if POLL_LIMIT \<le> length user_attempts
         then (False, attempts(user_id \<mapsto> user_attempts))
         else (True, attempts(user_id \<mapsto> user_attempts @ [now])))"

definition callback_key :: "string \<Rightarrow> string option \<Rightarrow> string" where
  "callback_key channel_id source_ip =
     channel_id @ ''|'' @ (case source_ip of None \<Rightarrow> ''unknown'' | Some ip \<Rightarrow> ip)"

definition callback_allow_key_at :: "attempts \<Rightarrow> string \<Rightarrow> nat \<Rightarrow> bool \<times> attempts" where
  "callback_allow_key_at attempts key now =
     (let entries =
            dropWhile (\<lambda>created_at. CALLBACK_WINDOW \<le> now - created_at) (entries_of attempts key)
      in if CALLBACK_LIMIT \<le> length entries
         then (False, attempts(key \<mapsto> entries))
         else (True, attempts(key \<mapsto> entries @ [now])))"

definition callback_allow_at :: "attempts \<Rightarrow> string \<Rightarrow> string option \<Rightarrow> nat \<Rightarrow> bool \<times> attempts" where
  "callback_allow_at attempts channel_id source_ip now =
     callback_allow_key_at attempts (callback_key channel_id source_ip) now"

section \<open>The contract of a sliding-window limiter\<close>

text \<open>A sequence of calls, each a key and a time, and the times at which a key was granted.\<close>

fun run_limiter ::
    "(attempts \<Rightarrow> string \<Rightarrow> nat \<Rightarrow> bool \<times> attempts) \<Rightarrow> attempts \<Rightarrow> (string \<times> nat) list \<Rightarrow> attempts" where
  "run_limiter allow m [] = m"
| "run_limiter allow m ((k, now) # cs) = run_limiter allow (snd (allow m k now)) cs"

fun granted ::
    "(attempts \<Rightarrow> string \<Rightarrow> nat \<Rightarrow> bool \<times> attempts) \<Rightarrow> attempts \<Rightarrow> string \<Rightarrow> (string \<times> nat) list \<Rightarrow> nat list" where
  "granted allow m k [] = []"
| "granted allow m k ((k', now) # cs) =
     (if k' = k \<and> fst (allow m k' now) then [now] else [])
       @ granted allow (snd (allow m k' now)) k cs"

text \<open>Any \<open>limit + 1\<close> consecutive grants span at least a window.\<close>

definition spaced :: "nat \<Rightarrow> nat \<Rightarrow> nat list \<Rightarrow> bool" where
  "spaced limit window ts \<longleftrightarrow>
     (\<forall>i. i + limit < length ts \<longrightarrow> ts ! i + window \<le> ts ! (i + limit))"

locale window_limiter =
  fixes allow :: "attempts \<Rightarrow> string \<Rightarrow> nat \<Rightarrow> bool \<times> attempts"
    and limit :: nat and window :: nat
  assumes allow_step:
    "allow m k now =
       (let es = dropWhile (\<lambda>t. window \<le> now - t) (entries_of m k)
        in if limit \<le> length es then (False, m(k \<mapsto> es)) else (True, m(k \<mapsto> es @ [now])))"
    and limit_pos: "0 < limit"
    and window_pos: "0 < window"
begin

text \<open>The stored entries of \<open>k\<close> are the grants \<open>gs\<close> that are not yet known to be expired.\<close>

definition tracks :: "attempts \<Rightarrow> string \<Rightarrow> nat list \<Rightarrow> nat \<Rightarrow> bool" where
  "tracks m k gs clock \<longleftrightarrow>
     (\<exists>n. entries_of m k = drop n gs \<and> n \<le> length gs \<and> (\<forall>i < n. gs ! i + window \<le> clock))
     \<and> length (entries_of m k) \<le> limit \<and> spaced limit window gs"

lemma tracksI:
  "entries_of m k = drop n gs \<Longrightarrow> n \<le> length gs \<Longrightarrow> (\<And>i. i < n \<Longrightarrow> gs ! i + window \<le> clock)
     \<Longrightarrow> length (entries_of m k) \<le> limit \<Longrightarrow> spaced limit window gs \<Longrightarrow> tracks m k gs clock"
  by (auto simp: tracks_def)

lemma other_key_unchanged: "k' \<noteq> k \<Longrightarrow> entries_of (snd (allow m k' now)) k = entries_of m k"
  by (auto simp: allow_step Let_def entries_of_def)

lemma dropWhile_expired:
  fixes es :: "nat list"
  obtains j where "dropWhile (\<lambda>t. window \<le> now - t) es = drop j es" and "j \<le> length es"
    and "\<And>i. i < j \<Longrightarrow> es ! i + window \<le> now"
proof
  let ?P = "\<lambda>t. window \<le> now - t"
  let ?j = "length (takeWhile ?P es)"
  show "dropWhile ?P es = drop ?j es" by (rule dropWhile_eq_drop)
  show "?j \<le> length es" by (rule length_takeWhile_le)
  fix i assume i: "i < ?j"
  then have "takeWhile ?P es ! i = es ! i" by (rule takeWhile_nth)
  moreover have "?P (takeWhile ?P es ! i)"
    using i by (meson nth_mem set_takeWhileD)
  ultimately have "window \<le> now - es ! i" by simp
  then show "es ! i + window \<le> now" using window_pos by linarith
qed

lemma spaced_snoc:
  assumes "spaced limit window gs"
    and "\<And>i. i + limit = length gs \<Longrightarrow> gs ! i + window \<le> now"
  shows "spaced limit window (gs @ [now])"
  unfolding spaced_def
proof (intro allI impI)
  fix i assume i: "i + limit < length (gs @ [now])"
  show "(gs @ [now]) ! i + window \<le> (gs @ [now]) ! (i + limit)"
  proof (cases "i + limit < length gs")
    case True
    with assms(1) show ?thesis by (simp add: spaced_def nth_append)
  next
    case False
    with i have "i + limit = length gs" by simp
    with assms(2) [of i] limit_pos show ?thesis by (simp add: nth_append)
  qed
qed

lemma tracks_step:
  assumes t: "tracks m k gs clock" and mono: "clock \<le> now"
  shows "tracks (snd (allow m k now)) k
           (gs @ (if fst (allow m k now) then [now] else [])) now"
proof -
  from t obtain n where n: "entries_of m k = drop n gs" "n \<le> length gs"
      "\<And>i. i < n \<Longrightarrow> gs ! i + window \<le> clock"
    and len: "length (entries_of m k) \<le> limit" and sp: "spaced limit window gs"
    by (auto simp: tracks_def)
  obtain j where j: "dropWhile (\<lambda>t. window \<le> now - t) (entries_of m k) = drop j (entries_of m k)"
      "j \<le> length (entries_of m k)"
      "\<And>i. i < j \<Longrightarrow> entries_of m k ! i + window \<le> now"
    using dropWhile_expired [of now "entries_of m k"] by blast
  define es where "es = drop (n + j) gs"
  have es: "dropWhile (\<lambda>t. window \<le> now - t) (entries_of m k) = es"
    using j(1) n(1) by (simp add: es_def add.commute)
  have le: "n + j \<le> length gs" using j(2) n by simp
  have expired: "gs ! i + window \<le> now" if "i < n + j" for i
  proof (cases "i < n")
    case True
    with n(3) mono show ?thesis by (meson le_trans)
  next
    case False
    then have "i - n < j" using that by simp
    moreover have "entries_of m k ! (i - n) = gs ! i"
      using False that le n(1) by simp
    ultimately show ?thesis using j(3) [of "i - n"] by simp
  qed
  have es_len: "length es = length gs - (n + j)" by (simp add: es_def)
  show ?thesis
  proof (cases "limit \<le> length es")
    case True
    then have "snd (allow m k now) = m(k \<mapsto> es)" and "\<not> fst (allow m k now)"
      by (simp_all add: allow_step es)
    moreover have "length es \<le> limit" using len n(1) es_len by simp
    ultimately show ?thesis
      using le expired sp
      by (intro tracksI [where n = "n + j"]) (simp_all add: entries_of_def es_def)
  next
    case False
    then have a: "snd (allow m k now) = m(k \<mapsto> es @ [now])" "fst (allow m k now)"
      by (simp_all add: allow_step es)
    have "spaced limit window (gs @ [now])"
    proof (rule spaced_snoc [OF sp])
      fix i assume "i + limit = length gs"
      with False es_len have "i < n + j" by linarith
      then show "gs ! i + window \<le> now" by (rule expired)
    qed
    moreover have "es @ [now] = drop (n + j) (gs @ [now])" using le by (simp add: es_def)
    moreover have "(gs @ [now]) ! i + window \<le> now" if "i < n + j" for i
      using expired [OF that] that le by (simp add: nth_append)
    ultimately show ?thesis
      using a False le es_len
      by (intro tracksI [where n = "n + j"]) (simp_all add: entries_of_def del: drop_append)
  qed
qed

lemma tracks_later: "tracks m k gs clock \<Longrightarrow> clock \<le> now \<Longrightarrow> tracks m k gs now"
  unfolding tracks_def by (meson le_trans)

lemma granted_spaced:
  assumes "tracks m k gs clock" and "sorted (clock # map snd cs)"
  shows "spaced limit window (gs @ granted allow m k cs)"
  using assms
proof (induction cs arbitrary: m gs clock)
  case Nil
  then show ?case by (simp add: tracks_def)
next
  case (Cons c cs)
  obtain k' now where c: "c = (k', now)" by (cases c)
  from Cons.prems(2) c have le: "clock \<le> now" and srt: "sorted (now # map snd cs)" by simp_all
  let ?m = "snd (allow m k' now)"
  let ?g = "if k' = k \<and> fst (allow m k' now) then [now] else []"
  have "tracks ?m k (gs @ ?g) now"
  proof (cases "k' = k")
    case True
    with tracks_step [OF Cons.prems(1) le] show ?thesis by simp
  next
    case False
    with Cons.prems(1) other_key_unchanged [OF False] have "tracks ?m k gs clock"
      by (simp add: tracks_def)
    then have "tracks ?m k gs now" by (rule tracks_later [OF _ le])
    with False show ?thesis by simp
  qed
  from Cons.IH [OF this srt] c show ?case by simp
qed

lemma spaced_from_empty:
  assumes "sorted (map snd cs)"
  shows "spaced limit window (granted allow Map.empty k cs)"
proof -
  have "tracks Map.empty k [] 0" by (simp add: tracks_def entries_of_def spaced_def)
  with granted_spaced [of Map.empty k "[]" 0 cs] assms show ?thesis by simp
qed

text \<open>A key that has been quiet for a window is served.\<close>

lemma allowed_after_window:
  assumes "\<And>t. t \<in> set (entries_of m k) \<Longrightarrow> t + window \<le> now"
  shows "fst (allow m k now)"
proof -
  have expired: "dropWhile (\<lambda>t. window \<le> now - t) (entries_of m k) = []"
    using assms by (auto simp: dropWhile_eq_Nil_conv) (metis add_le_imp_le_diff add.commute)
  show ?thesis using limit_pos by (simp add: allow_step Let_def expired)
qed

end

interpretation poll: window_limiter poll_allow_at POLL_LIMIT POLL_WINDOW
  by unfold_locales (auto simp: poll_allow_at_def Let_def POLL_LIMIT_def POLL_WINDOW_def)

interpretation callback: window_limiter callback_allow_key_at CALLBACK_LIMIT CALLBACK_WINDOW
  by unfold_locales
    (auto simp: callback_allow_key_at_def Let_def CALLBACK_LIMIT_def CALLBACK_WINDOW_def)

section \<open>Keys of the callback limiter\<close>

lemma append_sep_inject:
  "a @ c # x = b @ c # y \<Longrightarrow> c \<notin> set x \<Longrightarrow> c \<notin> set y \<Longrightarrow> a = b \<and> x = y"
proof (induction a arbitrary: b)
  case Nil
  then show ?case by (cases b) auto
next
  case (Cons z a)
  then show ?case by (cases b) auto
qed

section \<open>Properties\<close>

text \<open>
  C33: whatever other users do, of the polls granted to one user any 31 consecutive ones span at
  least a minute; calls arrive with non-decreasing clock readings.
\<close>
theorem poll_limit_per_minute:
  assumes "sorted (map snd calls)" and "i + 30 < length (granted poll_allow_at Map.empty user calls)"
  shows "granted poll_allow_at Map.empty user calls ! i + 60000
           \<le> granted poll_allow_at Map.empty user calls ! (i + 30)"
  using poll.spaced_from_empty [OF assms(1), of user] assms(2)
  by (simp add: spaced_def POLL_LIMIT_def POLL_WINDOW_def)

definition poll_witness_calls :: "(string \<times> nat) list" where
  "poll_witness_calls = map (\<lambda>_. (''u'', 0)) [0 ..< 30] @ [(''u'', 5), (''v'', 6), (''u'', 60000)]"

lemma poll_witness_granted:
  "granted poll_allow_at Map.empty ''u'' poll_witness_calls = map (\<lambda>_. 0) [0 ..< 30] @ [60000]"
  by (simp add: poll_witness_calls_def poll_allow_at_def Let_def POLL_LIMIT_def POLL_WINDOW_def
      entries_of_def upt_conv_Cons)

theorem poll_limit_per_minute_witness:
  "granted poll_allow_at Map.empty ''u'' poll_witness_calls ! 0 + 60000
     \<le> granted poll_allow_at Map.empty ''u'' poll_witness_calls ! (0 + 30)"
proof (rule poll_limit_per_minute)
  show "sorted (map snd poll_witness_calls)"
    by (simp add: poll_witness_calls_def sorted_append upt_conv_Cons)
  show "0 + 30 < length (granted poll_allow_at Map.empty ''u'' poll_witness_calls)"
    by (simp add: poll_witness_granted)
qed

text \<open>
  callbacks are limited per channel and source: 601 consecutive grants to one pair span at
  least a minute, a different channel or source never shares its budget (the printed addresses
  contain no bar and none is the word used for a missing address), and a pair that was quiet for
  a minute is always served.
\<close>
theorem callback_limit_isolated:
  assumes "\<And>ip. source = Some ip \<or> source' = Some ip \<Longrightarrow> CHR ''|'' \<notin> set ip \<and> ip \<noteq> ''unknown''"
  shows "(sorted (map snd calls) \<longrightarrow>
            spaced 600 60000 (granted callback_allow_key_at Map.empty (callback_key channel source) calls))
    \<and> (callback_key channel source = callback_key channel' source'
         \<longleftrightarrow> channel = channel' \<and> source = source')
    \<and> ((\<forall>t \<in> set (entries_of m (callback_key channel source)). t + 60000 \<le> now)
         \<longrightarrow> fst (callback_allow_at m channel source now))"
proof (intro conjI impI)
  assume "sorted (map snd calls)"
  then show "spaced 600 60000
      (granted callback_allow_key_at Map.empty (callback_key channel source) calls)"
    using callback.spaced_from_empty by (simp add: CALLBACK_LIMIT_def CALLBACK_WINDOW_def)
next
  have bar: "CHR ''|'' \<notin> set (case s of None \<Rightarrow> ''unknown'' | Some ip \<Rightarrow> ip)"
    if "s = source \<or> s = source'" for s
    using that assms by (cases s) auto
  show "callback_key channel source = callback_key channel' source'
         \<longleftrightarrow> channel = channel' \<and> source = source'"
  proof
    assume "callback_key channel source = callback_key channel' source'"
    then have "channel = channel'
        \<and> (case source of None \<Rightarrow> ''unknown'' | Some ip \<Rightarrow> ip)
          = (case source' of None \<Rightarrow> ''unknown'' | Some ip \<Rightarrow> ip)"
      using append_sep_inject [OF _ bar bar] by (simp add: callback_key_def)
    then show "channel = channel' \<and> source = source'"
      using assms by (cases source; cases source') auto
  qed simp
next
  assume "\<forall>t \<in> set (entries_of m (callback_key channel source)). t + 60000 \<le> now"
  then show "fst (callback_allow_at m channel source now)"
    unfolding callback_allow_at_def
    by (intro callback.allowed_after_window) (simp add: CALLBACK_WINDOW_def)
qed

theorem callback_limit_isolated_witness:
  "callback_key ''stripe-1'' (Some ''203.0.113.10'') \<noteq> callback_key ''stripe-1'' None
   \<and> fst (callback_allow_at Map.empty ''stripe-1'' (Some ''203.0.113.10'') 7)"
  using callback_limit_isolated
    [of "Some ''203.0.113.10''" None "[]" "''stripe-1''" "''stripe-1''" Map.empty 7]
  by (simp add: entries_of_def)

end
