(* ===== verification/Sales.thy ===== *)
theory Sales
  imports Prelude "HOL-Library.Word"
begin

text \<open>
  Model of \<open>src/src/store_billing/sales.rs\<close>: the amounts of an order that carries a sales
  code, and the codes themselves. Rates are \<open>i64\<close> basis points and amounts \<open>i128\<close>
  minor units, both as \<open>int\<close>; the random bytes of \<open>generate_code\<close> and
  \<open>generate_password\<close> are an argument of type \<open>8 word\<close> list. The lemmas show the
  accounting identities, that the discount is paid for by the commission up to one minor unit,
  and that every generated code survives its own normalisation.
\<close>

section \<open>Amounts\<close>

definition MAX_COMMISSION_RATE_BP :: int where "MAX_COMMISSION_RATE_BP = 2000"
definition DEFAULT_COMMISSION_RATE_BP :: int where "DEFAULT_COMMISSION_RATE_BP = 500"
definition MIN_CODED_ORDER_MINOR :: int where "MIN_CODED_ORDER_MINOR = 100"
definition BP_DENOMINATOR :: int where "BP_DENOMINATOR = 10000"

datatype sales_error = RateOutOfRange | DiscountAboveRate | InvalidSalesAmount | AmountTooSmall

record sales_amounts =
  base_minor :: int
  discount_minor :: int
  payment_minor :: int
  commission_minor :: int

definition compute_amounts :: "int \<Rightarrow> int \<Rightarrow> int \<Rightarrow> (sales_error, sales_amounts) result" where
  "compute_amounts base commission_rate_bp discount_bp =
     (if \<not> (0 \<le> commission_rate_bp \<and> commission_rate_bp \<le> MAX_COMMISSION_RATE_BP)
      then Inl RateOutOfRange
      else if \<not> (0 \<le> discount_bp \<and> discount_bp \<le> commission_rate_bp)
      then Inl DiscountAboveRate
      else if base \<le> 0 then Inl InvalidSalesAmount
      else if base < MIN_CODED_ORDER_MINOR then Inl AmountTooSmall
      else
        rbind (ok_or InvalidSalesAmount (checked_mul_i128 base discount_bp)) (\<lambda>discount_product.
        let discount = discount_product sdiv BP_DENOMINATOR in
        rbind (ok_or InvalidSalesAmount (checked_sub_i128 base discount)) (\<lambda>payment.
        rbind (ok_or InvalidSalesAmount
                 (checked_mul_i128 base (commission_rate_bp - discount_bp))) (\<lambda>commission_product.
        let commission = commission_product sdiv BP_DENOMINATOR in
        if payment \<le> 0 then Inl InvalidSalesAmount
        else Inr \<lparr>base_minor = base, discount_minor = discount, payment_minor = payment,
                  commission_minor = commission\<rparr>))))"

definition claim_commission :: "int \<Rightarrow> int \<Rightarrow> (sales_error, int) result" where
  "claim_commission base commission_rate_bp =
     rbind (compute_amounts base commission_rate_bp 0) (\<lambda>amounts. Inr (commission_minor amounts))"

section \<open>Codes\<close>

definition CODE_ALPHABET :: string where
  "CODE_ALPHABET = ''0123456789ABCDEFGHJKMNPQRSTVWXYZ''"

definition CODE_LENGTH :: nat where "CODE_LENGTH = 8"

text \<open>\<open>byte & 31\<close> indexes the 32 characters of the alphabet.\<close>

definition code_char :: "8 word \<Rightarrow> char" where
  "code_char byte = CODE_ALPHABET ! unat (and byte 31)"

definition generate_code :: "8 word list \<Rightarrow> string" where
  "generate_code random = map code_char random"

definition generate_password :: "8 word list \<Rightarrow> string" where
  "generate_password random = map code_char random"

definition to_ascii_uppercase :: "char \<Rightarrow> char" where
  "to_ascii_uppercase c =
     (let n = of_char c :: nat in if 97 \<le> n \<and> n \<le> 122 then char_of (n - 32) else c)"

definition normalize_code :: "string \<Rightarrow> string option" where
  "normalize_code input =
     (let normalized =
            map to_ascii_uppercase (filter (\<lambda>c. \<not> (c = CHR ''-'' \<or> c = CHR '' '')) input)
      in if length normalized \<noteq> CODE_LENGTH
            \<or> \<not> list_all (\<lambda>byte. byte \<in> set CODE_ALPHABET) normalized
         then None else Some normalized)"

section \<open>Lemmas on amounts\<close>

lemma compute_amounts_InrD:
  assumes "compute_amounts b rate disc = Inr a"
  shows "0 \<le> disc \<and> disc \<le> rate \<and> rate \<le> 2000 \<and> 100 \<le> b \<and> base_minor a = b
    \<and> discount_minor a = b * disc div 10000 \<and> payment_minor a = b - b * disc div 10000
    \<and> commission_minor a = b * (rate - disc) div 10000"
proof -
  from assms have g: "0 \<le> disc" "disc \<le> rate" "rate \<le> 2000" "100 \<le> b"
    by (auto simp: compute_amounts_def MAX_COMMISSION_RATE_BP_def MIN_CODED_ORDER_MINOR_def
        split: if_splits)
  then have "0 \<le> b * disc" and "0 \<le> b * (rate - disc)" by simp_all
  then have "(b * disc) sdiv 10000 = b * disc div 10000"
    and "(b * (rate - disc)) sdiv 10000 = b * (rate - disc) div 10000" by simp_all
  with assms g show ?thesis
    by (auto simp: compute_amounts_def BP_DENOMINATOR_def Let_def result_simps split: if_splits)
qed

text \<open>No rounding loses a whole share: the two floors together miss at most one unit.\<close>

lemma floor_sum_bounds:
  fixes x y d :: int
  assumes "0 < d"
  shows "x div d + y div d \<le> (x + y) div d \<and> (x + y) div d \<le> x div d + y div d + 1"
proof -
  have "x + y = d * (x div d + y div d) + (x mod d + y mod d)"
    by (simp add: algebra_simps)
  moreover have "0 \<le> x mod d" "x mod d < d" "0 \<le> y mod d" "y mod d < d"
    using assms by simp_all
  ultimately have "(x + y) div d = x div d + y div d + (x mod d + y mod d) div d"
    using assms by (metis div_mult_self4 add.commute less_irrefl mult.commute)
  moreover have "0 \<le> (x mod d + y mod d) div d"
    using assms by (simp add: pos_imp_zdiv_nonneg_iff)
  moreover have "(x mod d + y mod d) div d < 2"
  proof (rule ccontr)
    let ?s = "x mod d + y mod d"
    assume "\<not> ?s div d < 2"
    then have "d * 2 \<le> d * (?s div d)" using assms by (intro mult_left_mono) auto
    moreover have "d * (?s div d) \<le> ?s" 
      using assms pos_mod_sign [of d ?s] mult_div_mod_eq [of d ?s] by linarith
    ultimately show False using \<open>x mod d < d\<close> \<open>y mod d < d\<close> by linarith
  qed
  ultimately show ?thesis by linarith
qed

section \<open>Lemmas on codes\<close>

lemma alphabet_length: "length CODE_ALPHABET = 32"
  by (simp add: CODE_ALPHABET_def)

lemma code_char_in_alphabet: "code_char byte \<in> set CODE_ALPHABET"
proof -
  have "and byte 31 \<le> 31" by (rule word_and_le1)
  then have "unat (and byte 31) < 32" by (simp add: word_le_nat_alt)
  then show ?thesis by (simp add: code_char_def alphabet_length)
qed

lemma alphabet_fixed:
  "c \<in> set CODE_ALPHABET \<Longrightarrow> to_ascii_uppercase c = c \<and> c \<noteq> CHR ''-'' \<and> c \<noteq> CHR '' ''"
  by (auto simp: CODE_ALPHABET_def to_ascii_uppercase_def Let_def)

lemma normalize_alphabet:
  assumes "set s \<subseteq> set CODE_ALPHABET" and "length s = CODE_LENGTH"
  shows "normalize_code s = Some s"
proof -
  have "filter (\<lambda>c. \<not> (c = CHR ''-'' \<or> c = CHR '' '')) s = s"
    using assms(1) alphabet_fixed by (auto intro!: filter_True)
  moreover have "map to_ascii_uppercase s = s"
    using assms(1) alphabet_fixed by (auto intro!: map_idI)
  ultimately show ?thesis
    using assms by (auto simp: normalize_code_def Let_def list_all_iff)
qed

lemma normalize_code_SomeD:
  assumes "normalize_code s = Some t"
  shows "set t \<subseteq> set CODE_ALPHABET \<and> length t = CODE_LENGTH"
  using assms by (auto simp: normalize_code_def Let_def list_all_iff split: if_splits)

section \<open>Properties\<close>

text \<open>
  the discount is funded by the commission: what the platform keeps, payment less
  commission, differs from what it keeps without any discount by at most one minor unit, and
  rounding never favours the agent (payment and commission together stay within the face value
  plus that unit). The buyer pays the face value less the discount and both shares are
  non-negative.
\<close>
theorem discount_funded_by_commission:
  assumes "compute_amounts b rate disc = Inr a" and "compute_amounts b rate 0 = Inr a0"
  shows "payment_minor a + discount_minor a = b \<and> 0 \<le> discount_minor a \<and> 0 \<le> commission_minor a
    \<and> 0 < payment_minor a \<and> commission_minor a \<le> commission_minor a0
    \<and> payment_minor a0 - commission_minor a0 \<le> payment_minor a - commission_minor a
    \<and> payment_minor a - commission_minor a \<le> payment_minor a0 - commission_minor a0 + 1"
proof -
  note a = compute_amounts_InrD [OF assms(1)] and a0 = compute_amounts_InrD [OF assms(2)]
  have sum: "b * disc + b * (rate - disc) = b * rate" by (simp add: algebra_simps)
  have fl: "b * disc div 10000 + b * (rate - disc) div 10000 \<le> b * rate div 10000"
      "b * rate div 10000 \<le> b * disc div 10000 + b * (rate - disc) div 10000 + 1"
    using floor_sum_bounds [of 10000 "b * disc" "b * (rate - disc)"] by (simp_all add: sum)
  have "b * disc \<le> b * 2000" using a by (intro mult_left_mono) auto
  then have "b * disc < b * 10000" using a by linarith
  then have "b * disc div 10000 < b" by (simp add: div_less_iff_less_mult)
  moreover have "0 \<le> b * disc div 10000" "0 \<le> b * (rate - disc) div 10000"
    using a by (simp_all add: pos_imp_zdiv_nonneg_iff)
  ultimately show ?thesis using a a0 fl by auto
qed

theorem discount_funded_by_commission_witness:
  "\<exists>a a0. compute_amounts 10000 500 100 = Inr a \<and> compute_amounts 10000 500 0 = Inr a0
     \<and> payment_minor a + discount_minor a = 10000
     \<and> payment_minor a - commission_minor a \<le> payment_minor a0 - commission_minor a0 + 1"
proof -
  let ?a = "\<lparr>base_minor = 10000, discount_minor = 100, payment_minor = 9900, commission_minor = 400\<rparr>"
  let ?plain = "\<lparr>base_minor = 10000, discount_minor = 0, payment_minor = 10000, commission_minor = 500\<rparr>"
  note eval = compute_amounts_def MAX_COMMISSION_RATE_BP_def MIN_CODED_ORDER_MINOR_def
    BP_DENOMINATOR_def int_range_defs
  have a: "compute_amounts 10000 500 100 = Inr ?a" by (simp add: eval)
  have a0: "compute_amounts 10000 500 0 = Inr ?plain" by (simp add: eval)
  from discount_funded_by_commission [OF a a0] a a0 show ?thesis by blast
qed

text \<open>
  every generated code is accepted by normalisation unchanged, normalisation is idempotent,
  and an accepted code has eight characters of the alphabet, none of them I, L, O or U.
\<close>
theorem generated_code_normalizes:
  "(length random = 8 \<longrightarrow> normalize_code (generate_code random) = Some (generate_code random))
   \<and> (normalize_code s = Some t \<longrightarrow>
        normalize_code t = Some t \<and> length t = 8 \<and> set t \<inter> {CHR ''I'', CHR ''L'', CHR ''O'', CHR ''U''} = {})"
proof (intro conjI impI)
  assume "length random = 8"
  then show "normalize_code (generate_code random) = Some (generate_code random)"
    using code_char_in_alphabet
    by (intro normalize_alphabet) (auto simp: generate_code_def CODE_LENGTH_def)
next
  assume "normalize_code s = Some t"
  note t = normalize_code_SomeD [OF this]
  then show "normalize_code t = Some t" by (intro normalize_alphabet) auto
  show "length t = 8" using t by (simp add: CODE_LENGTH_def)
  have "set CODE_ALPHABET \<inter> {CHR ''I'', CHR ''L'', CHR ''O'', CHR ''U''} = {}"
    by (simp add: CODE_ALPHABET_def)
  with t show "set t \<inter> {CHR ''I'', CHR ''L'', CHR ''O'', CHR ''U''} = {}" by blast
qed

theorem generated_code_normalizes_witness:
  "normalize_code '' abcd-2345'' = Some ''ABCD2345'' \<and> normalize_code ''ABCD2345'' = Some ''ABCD2345''"
proof -
  have n: "normalize_code '' abcd-2345'' = Some ''ABCD2345''"
    by code_simp
  from generated_code_normalizes [of "[]" "'' abcd-2345''" "''ABCD2345''"] n show ?thesis by simp
qed

end
