(* ===== verification/Json.thy ===== *)
theory Json
  imports Std_Strings "HOL-Library.Finite_Map"
begin

text \<open>
  JSON values as \<open>serde_json::Value\<close> holds them. The crate is built with
  \<open>arbitrary_precision\<close>, so a number is the text of its literal and \<open>as_u64\<close> and
  \<open>as_i64\<close> parse that text. An object is a finite map, as are the \<open>HashMap\<close> fields
  of the sources. The accessors below are the ones the sources call; \<open>parse_u64_value\<close> is
  the lenient reader of \<open>src/src/handlers/billing.rs\<close>.
\<close>

datatype json =
    JNull
  | JBool bool
  | JNumber string
  | JString string
  | JArray "json list"
  | JObject "(string, json) fmap"

type_synonym json_map = "(string, json) fmap"

fun as_str :: "json \<Rightarrow> string option" where
  "as_str (JString s) = Some s"
| "as_str _ = None"

fun as_bool :: "json \<Rightarrow> bool option" where
  "as_bool (JBool b) = Some b"
| "as_bool _ = None"

fun as_object :: "json \<Rightarrow> json_map option" where
  "as_object (JObject m) = Some m"
| "as_object _ = None"

fun as_array :: "json \<Rightarrow> json list option" where
  "as_array (JArray vs) = Some vs"
| "as_array _ = None"

fun as_u64 :: "json \<Rightarrow> nat option" where
  "as_u64 (JNumber n) = parse_unsigned u64_max n"
| "as_u64 _ = None"

fun as_i64 :: "json \<Rightarrow> int option" where
  "as_i64 (JNumber n) = option_filter in_i64 (parse_i128 n)"
| "as_i64 _ = None"

text \<open>\<open>Value::get\<close> with a string index: defined on objects only.\<close>

definition json_get :: "json \<Rightarrow> string \<Rightarrow> json option" where
  "json_get v k = Option.bind (as_object v) (\<lambda>m. fmlookup m k)"

text \<open>\<open>Value::from\<close> of an unsigned integer.\<close>

definition json_of_nat :: "nat \<Rightarrow> json" where
  "json_of_nat n = JNumber (show_nat n)"

text \<open>\<open>u64::try_from\<close> of a signed integer.\<close>

definition u64_of_int :: "int \<Rightarrow> nat option" where
  "u64_of_int z = (if 0 \<le> z \<and> z \<le> int u64_max then Some (nat z) else None)"

definition parse_u64_value :: "json \<Rightarrow> nat option" where
  "parse_u64_value v =
     or_else (as_u64 v)
       (or_else (Option.bind (as_i64 v) u64_of_int)
          (Option.bind (as_str v) (parse_unsigned u64_max)))"

definition map_get_u64 :: "json_map \<Rightarrow> string \<Rightarrow> nat option" where
  "map_get_u64 m k = Option.bind (fmlookup m k) parse_u64_value"

lemma json_get_object [simp]: "json_get (JObject m) k = fmlookup m k"
  by (simp add: json_get_def)

lemma as_u64_json_of_nat: "n \<le> u64_max \<Longrightarrow> as_u64 (json_of_nat n) = Some n"
  by (simp add: json_of_nat_def parse_unsigned_show_nat)

lemma as_u64_bound: "as_u64 v = Some n \<Longrightarrow> n \<le> u64_max"
  by (cases v) (auto dest: parse_unsigned_bound)

lemma parse_u64_value_bound: "parse_u64_value v = Some n \<Longrightarrow> n \<le> u64_max"
  by (cases v)
     (auto simp: parse_u64_value_def or_else_def u64_of_int_def result_simps
       dest: parse_unsigned_bound split: option.splits if_splits)

end
