(* ===== verification/Urp_Types.thy ===== *)
theory Urp_Types
  imports Json
begin

text \<open>
  The unified representation of requests and responses,
  \<open>src/src/urp/mod.rs\<close>: nodes with the source's variants and fields in the source's
  order, token usage, and the operations on single nodes and on node lists (identity and
  matching, the removal of nested extra fields, of foreign provider items and of
  downstream-only reasoning). A function that mutates its argument returns the new value.
\<close>

section \<open>Nodes\<close>

datatype provider_protocol =
  PpResponses | PpChatCompletion | PpMessages | PpGemini | PpOpenaiImage | PpReplicate

fun ProviderProtocol_as_str :: "provider_protocol \<Rightarrow> string" where
  "ProviderProtocol_as_str PpResponses = ''responses''"
| "ProviderProtocol_as_str PpChatCompletion = ''chat_completion''"
| "ProviderProtocol_as_str PpMessages = ''messages''"
| "ProviderProtocol_as_str PpGemini = ''gemini''"
| "ProviderProtocol_as_str PpOpenaiImage = ''openai_image''"
| "ProviderProtocol_as_str PpReplicate = ''replicate''"

datatype ordinary_role = System | Developer | User | Assistant

datatype tool_call_type = Function | Custom

datatype image_source =
    ImageUrl string "string option"
  | ImageBase64 string string
  | ImageFileId string "string option"

datatype audio_source =
    AudioUrl string
  | AudioBase64 string string

datatype file_source =
    FileUrl string
  | FileFileId string
  | FileText string
  | FileContent "json list"
  | FileBase64 "string option" string string

datatype tool_result_content =
    TrText string json_map
  | TrImage image_source json_map
  | TrFile file_source json_map
  | TrProviderItem provider_protocol string json json_map

datatype node =
    Text "string option" ordinary_role string "string option" json_map
  | Image "string option" ordinary_role image_source json_map
  | Audio "string option" ordinary_role audio_source json_map
  | File "string option" ordinary_role file_source json_map
  | Refusal "string option" string json_map
  | Reasoning "string option" "string option" "json option" "string option" "string option" json_map
  | ToolCall "string option" tool_call_type string string string json_map
  | ProviderItem "string option" provider_protocol ordinary_role string json json_map
  | ToolResult "string option" tool_call_type string bool "tool_result_content list" json_map
  | NextDownstreamEnvelopeExtra json_map

section \<open>Single nodes\<close>

fun node_role :: "node \<Rightarrow> ordinary_role option" where
  "node_role (Text _ role _ _ _) = Some role"
| "node_role (Image _ role _ _) = Some role"
| "node_role (Audio _ role _ _) = Some role"
| "node_role (File _ role _ _) = Some role"
| "node_role (ProviderItem _ _ role _ _ _) = Some role"
| "node_role (Refusal _ _ _) = Some Assistant"
| "node_role (Reasoning _ _ _ _ _ _) = Some Assistant"
| "node_role (ToolCall _ _ _ _ _ _) = Some Assistant"
| "node_role (ToolResult _ _ _ _ _ _) = None"
| "node_role (NextDownstreamEnvelopeExtra _) = None"

fun node_id :: "node \<Rightarrow> string option" where
  "node_id (Text i _ _ _ _) = i"
| "node_id (Image i _ _ _) = i"
| "node_id (Audio i _ _ _) = i"
| "node_id (File i _ _ _) = i"
| "node_id (Refusal i _ _) = i"
| "node_id (Reasoning i _ _ _ _ _) = i"
| "node_id (ToolCall i _ _ _ _ _) = i"
| "node_id (ProviderItem i _ _ _ _ _) = i"
| "node_id (ToolResult i _ _ _ _ _) = i"
| "node_id (NextDownstreamEnvelopeExtra _) = None"

fun set_node_id :: "string option \<Rightarrow> node \<Rightarrow> node" where
  "set_node_id i (Text _ r c p e) = Text i r c p e"
| "set_node_id i (Image _ r s e) = Image i r s e"
| "set_node_id i (Audio _ r s e) = Audio i r s e"
| "set_node_id i (File _ r s e) = File i r s e"
| "set_node_id i (Refusal _ c e) = Refusal i c e"
| "set_node_id i (Reasoning _ c enc su so e) = Reasoning i c enc su so e"
| "set_node_id i (ToolCall _ t c n a e) = ToolCall i t c n a e"
| "set_node_id i (ProviderItem _ p r t b e) = ProviderItem i p r t b e"
| "set_node_id i (ToolResult _ t c er con e) = ToolResult i t c er con e"
| "set_node_id i (NextDownstreamEnvelopeExtra e) = NextDownstreamEnvelopeExtra e"

text \<open>\<open>extra_body_mut\<close>: the extra fields of a node, and the node with them replaced.\<close>

fun node_extra :: "node \<Rightarrow> json_map" where
  "node_extra (Text _ _ _ _ e) = e"
| "node_extra (Image _ _ _ e) = e"
| "node_extra (Audio _ _ _ e) = e"
| "node_extra (File _ _ _ e) = e"
| "node_extra (Refusal _ _ e) = e"
| "node_extra (Reasoning _ _ _ _ _ e) = e"
| "node_extra (ToolCall _ _ _ _ _ e) = e"
| "node_extra (ProviderItem _ _ _ _ _ e) = e"
| "node_extra (ToolResult _ _ _ _ _ e) = e"
| "node_extra (NextDownstreamEnvelopeExtra e) = e"

fun set_node_extra :: "json_map \<Rightarrow> node \<Rightarrow> node" where
  "set_node_extra e (Text i r c p _) = Text i r c p e"
| "set_node_extra e (Image i r s _) = Image i r s e"
| "set_node_extra e (Audio i r s _) = Audio i r s e"
| "set_node_extra e (File i r s _) = File i r s e"
| "set_node_extra e (Refusal i c _) = Refusal i c e"
| "set_node_extra e (Reasoning i c enc su so _) = Reasoning i c enc su so e"
| "set_node_extra e (ToolCall i t c n a _) = ToolCall i t c n a e"
| "set_node_extra e (ProviderItem i p r t b _) = ProviderItem i p r t b e"
| "set_node_extra e (ToolResult i t c er con _) = ToolResult i t c er con e"
| "set_node_extra e (NextDownstreamEnvelopeExtra _) = NextDownstreamEnvelopeExtra e"

fun tool_result_content_extra :: "tool_result_content \<Rightarrow> json_map" where
  "tool_result_content_extra (TrText _ e) = e"
| "tool_result_content_extra (TrImage _ e) = e"
| "tool_result_content_extra (TrFile _ e) = e"
| "tool_result_content_extra (TrProviderItem _ _ _ e) = e"

fun set_tool_result_content_extra :: "json_map \<Rightarrow> tool_result_content \<Rightarrow> tool_result_content" where
  "set_tool_result_content_extra e (TrText t _) = TrText t e"
| "set_tool_result_content_extra e (TrImage s _) = TrImage s e"
| "set_tool_result_content_extra e (TrFile s _) = TrFile s e"
| "set_tool_result_content_extra e (TrProviderItem p t b _) = TrProviderItem p t b e"

fun node_is_empty_text :: "node \<Rightarrow> bool" where
  "node_is_empty_text (Text _ _ content _ _) \<longleftrightarrow> content = []"
| "node_is_empty_text _ \<longleftrightarrow> False"

text \<open>Two optional ids are the same id.\<close>

definition same_id :: "string option \<Rightarrow> string option \<Rightarrow> bool" where
  "same_id left right \<longleftrightarrow> left \<noteq> None \<and> left = right"

definition nodes_semantically_match :: "node \<Rightarrow> node \<Rightarrow> bool" where
  "nodes_semantically_match left right =
     (case left of
        Text li lr lc lp _ \<Rightarrow>
          (case right of
             Text ri rr rc rp _ \<Rightarrow>
               same_id li ri
               \<or> (lr = rr \<and> (lp = rp \<or> lp = None \<or> rp = None) \<and> lc = rc)
           | _ \<Rightarrow> left = right)
      | Image li _ ls _ \<Rightarrow>
          (case right of Image ri _ rs _ \<Rightarrow> same_id li ri \<or> ls = rs | _ \<Rightarrow> left = right)
      | Audio li _ _ _ \<Rightarrow> (case right of Audio ri _ _ _ \<Rightarrow> same_id li ri | _ \<Rightarrow> left = right)
      | File li _ _ _ \<Rightarrow> (case right of File ri _ _ _ \<Rightarrow> same_id li ri | _ \<Rightarrow> left = right)
      | Refusal li _ _ \<Rightarrow> (case right of Refusal ri _ _ \<Rightarrow> same_id li ri | _ \<Rightarrow> left = right)
      | ProviderItem li lo _ _ _ _ \<Rightarrow>
          (case right of ProviderItem ri ro _ _ _ _ \<Rightarrow> lo = ro \<and> same_id li ri | _ \<Rightarrow> left = right)
      | Reasoning li lc le lsu lso lx \<Rightarrow>
          (case right of
             Reasoning ri rc re rsu rso rx \<Rightarrow>
               same_id li ri \<or> (lc = rc \<and> le = re \<and> lsu = rsu \<and> lso = rso \<and> lx = rx)
           | _ \<Rightarrow> left = right)
      | ToolCall li _ lc _ _ _ \<Rightarrow>
          (case right of ToolCall ri _ rc _ _ _ \<Rightarrow> lc = rc \<or> same_id li ri | _ \<Rightarrow> left = right)
      | ToolResult li _ lc _ _ _ \<Rightarrow>
          (case right of ToolResult ri _ rc _ _ _ \<Rightarrow> lc = rc \<or> same_id li ri | _ \<Rightarrow> left = right)
      | NextDownstreamEnvelopeExtra _ \<Rightarrow> left = right)"

section \<open>Node lists\<close>

definition push_unique_node :: "node list \<Rightarrow> node \<Rightarrow> node list" where
  "push_unique_node out n =
     (if node_is_empty_text n then out
      else if list_ex (\<lambda>candidate. nodes_semantically_match candidate n) out then out
      else out @ [n])"

definition is_internal_extra_key :: "string \<Rightarrow> bool" where
  "is_internal_extra_key key = prefix ''_monoize_'' key"

definition retain_internal_metadata :: "json_map \<Rightarrow> json_map" where
  "retain_internal_metadata e = fmfilter (\<lambda>key. prefix ''_monoize_'' key) e"

fun strip_node_extra :: "node \<Rightarrow> node" where
  "strip_node_extra (ToolResult i t c er con e) =
     ToolResult i t c er
       (map (\<lambda>item. set_tool_result_content_extra
                      (retain_internal_metadata (tool_result_content_extra item)) item) con)
       (retain_internal_metadata e)"
| "strip_node_extra (NextDownstreamEnvelopeExtra e) = NextDownstreamEnvelopeExtra e"
| "strip_node_extra n = set_node_extra (retain_internal_metadata (node_extra n)) n"

fun is_envelope_extra :: "node \<Rightarrow> bool" where
  "is_envelope_extra (NextDownstreamEnvelopeExtra _) \<longleftrightarrow> True"
| "is_envelope_extra _ \<longleftrightarrow> False"

definition strip_nested_extra_body :: "node list \<Rightarrow> node list" where
  "strip_nested_extra_body nodes = filter (\<lambda>n. \<not> is_envelope_extra n) (map strip_node_extra nodes)"

fun foreign_content :: "provider_protocol \<Rightarrow> tool_result_content \<Rightarrow> bool" where
  "foreign_content target (TrProviderItem origin _ _ _) \<longleftrightarrow> origin \<noteq> target"
| "foreign_content target _ \<longleftrightarrow> False"

fun foreign_node :: "provider_protocol \<Rightarrow> node \<Rightarrow> bool" where
  "foreign_node target (ProviderItem _ origin _ _ _ _) \<longleftrightarrow> origin \<noteq> target"
| "foreign_node target _ \<longleftrightarrow> False"

fun retain_content_for_protocol :: "provider_protocol \<Rightarrow> node \<Rightarrow> node" where
  "retain_content_for_protocol target (ToolResult i t c er con e) =
     ToolResult i t c er (filter (\<lambda>item. \<not> foreign_content target item) con) e"
| "retain_content_for_protocol target n = n"

definition retain_provider_items_for_protocol :: "node list \<Rightarrow> provider_protocol \<Rightarrow> node list" where
  "retain_provider_items_for_protocol nodes target =
     filter (\<lambda>n. \<not> foreign_node target n) (map (retain_content_for_protocol target) nodes)"

definition REASONING_DOWNSTREAM_ONLY_PRESENTATION_EXTRA_KEY :: string where
  "REASONING_DOWNSTREAM_ONLY_PRESENTATION_EXTRA_KEY =
     ''_monoize_reasoning_downstream_only_presentation''"

fun is_downstream_only_reasoning :: "node \<Rightarrow> bool" where
  "is_downstream_only_reasoning (Reasoning _ _ _ _ _ e) \<longleftrightarrow>
     Option.bind (fmlookup e REASONING_DOWNSTREAM_ONLY_PRESENTATION_EXTRA_KEY) as_bool = Some True"
| "is_downstream_only_reasoning _ \<longleftrightarrow> False"

definition remove_downstream_only_reasoning_for_responses :: "node list \<Rightarrow> node list" where
  "remove_downstream_only_reasoning_for_responses nodes =
     filter (\<lambda>n. \<not> is_downstream_only_reasoning n) nodes"

section \<open>Usage\<close>

record modality_breakdown =
  text_tokens :: "nat option"
  image_tokens :: "nat option"
  audio_tokens :: "nat option"
  video_tokens :: "nat option"
  document_tokens :: "nat option"

record input_details =
  in_standard_tokens :: nat
  cache_read_tokens :: nat
  cache_read_modality_breakdown :: "modality_breakdown option"
  cache_creation_tokens :: nat
  cache_creation_5m_tokens :: nat
  cache_creation_1h_tokens :: nat
  tool_prompt_tokens :: nat
  in_modality_breakdown :: "modality_breakdown option"

record output_details =
  out_standard_tokens :: nat
  out_reasoning_tokens :: nat
  accepted_prediction_tokens :: nat
  rejected_prediction_tokens :: nat
  out_modality_breakdown :: "modality_breakdown option"

record usage =
  input_tokens :: nat
  output_tokens :: nat
  usage_input_details :: "input_details option"
  usage_output_details :: "output_details option"
  usage_extra_body :: json_map

text \<open>\<open>Usage::default\<close>.\<close>

definition Usage_default :: usage where
  "Usage_default = \<lparr>input_tokens = 0, output_tokens = 0, usage_input_details = None,
     usage_output_details = None, usage_extra_body = fmempty\<rparr>"

definition total_tokens :: "usage \<Rightarrow> nat" where
  "total_tokens u = saturating_add_u64 (input_tokens u) (output_tokens u)"

definition cached_tokens :: "usage \<Rightarrow> nat option" where
  "cached_tokens u = option_filter (\<lambda>v. 0 < v) (map_option cache_read_tokens (usage_input_details u))"

definition reasoning_tokens :: "usage \<Rightarrow> nat option" where
  "reasoning_tokens u = option_filter (\<lambda>v. 0 < v) (map_option out_reasoning_tokens (usage_output_details u))"

section \<open>Matching and filtering\<close>

lemma same_id_sym: "same_id a b \<longleftrightarrow> same_id b a"
  by (auto simp: same_id_def)

lemma nodes_semantically_match_sym:
  "nodes_semantically_match a b \<longleftrightarrow> nodes_semantically_match b a"
  by (cases a; cases b) (auto simp: nodes_semantically_match_def same_id_def)

lemma nodes_semantically_match_id:
  "nodes_semantically_match n n \<longleftrightarrow>
     (case n of Audio i _ _ _ \<Rightarrow> i \<noteq> None | File i _ _ _ \<Rightarrow> i \<noteq> None | Refusal i _ _ \<Rightarrow> i \<noteq> None
      | ProviderItem i _ _ _ _ _ \<Rightarrow> i \<noteq> None | _ \<Rightarrow> True)"
  by (cases n) (auto simp: nodes_semantically_match_def same_id_def)

text \<open>No two nodes of the list match and none is an empty text.\<close>

fun unique_nodes :: "node list \<Rightarrow> bool" where
  "unique_nodes [] \<longleftrightarrow> True"
| "unique_nodes (n # ns) \<longleftrightarrow>
     \<not> node_is_empty_text n \<and> (\<forall>m \<in> set ns. \<not> nodes_semantically_match n m) \<and> unique_nodes ns"

lemma unique_nodes_snoc:
  "unique_nodes (ns @ [n]) \<longleftrightarrow>
     unique_nodes ns \<and> \<not> node_is_empty_text n \<and> (\<forall>m \<in> set ns. \<not> nodes_semantically_match m n)"
  by (induction ns) auto

lemma push_unique_node_unique: "unique_nodes ns \<Longrightarrow> unique_nodes (push_unique_node ns n)"
  by (auto simp: push_unique_node_def unique_nodes_snoc list_ex_iff)

lemma push_unique_node_extends: "prefix ns (push_unique_node ns n)"
  by (simp add: push_unique_node_def)

lemma foreign_node_retain [simp]:
  "foreign_node t (retain_content_for_protocol t n) \<longleftrightarrow> foreign_node t n"
  by (cases n) auto

lemma retain_content_idem [simp]:
  "retain_content_for_protocol t (retain_content_for_protocol t n) = retain_content_for_protocol t n"
  by (cases n) auto

lemma strip_node_extra_envelope [simp]: "is_envelope_extra (strip_node_extra n) \<longleftrightarrow> is_envelope_extra n"
  by (cases n) auto

lemma retain_internal_metadata_idem [simp]:
  "retain_internal_metadata (retain_internal_metadata e) = retain_internal_metadata e"
  by (simp add: retain_internal_metadata_def)

lemma tool_result_content_extra_set [simp]:
  "tool_result_content_extra (set_tool_result_content_extra e c) = e"
  by (cases c) simp_all

lemma set_tool_result_content_extra_set [simp]:
  "set_tool_result_content_extra e (set_tool_result_content_extra e' c) = set_tool_result_content_extra e c"
  by (cases c) simp_all

lemma strip_node_extra_idem [simp]: "strip_node_extra (strip_node_extra n) = strip_node_extra n"
  by (cases n) simp_all

lemma strip_nested_extra_body_idem:
  "strip_nested_extra_body (strip_nested_extra_body ns) = strip_nested_extra_body ns"
  by (simp add: strip_nested_extra_body_def filter_map comp_def)

lemma retain_provider_items_idem:
  "retain_provider_items_for_protocol (retain_provider_items_for_protocol ns t) t
     = retain_provider_items_for_protocol ns t"
  by (simp add: retain_provider_items_for_protocol_def filter_map comp_def)

lemma push_unique_node_subseq: "subseq out ns \<Longrightarrow> subseq (push_unique_node out n) (ns @ [n])"
  by (auto simp: push_unique_node_def intro: list_emb_append2 list_emb_append_mono)

text \<open>The list accounts for a node: it is an empty text, or the list has it or a match of it.\<close>

definition accounts_for :: "node list \<Rightarrow> node \<Rightarrow> bool" where
  "accounts_for out n \<longleftrightarrow>
     node_is_empty_text n \<or> list_ex (\<lambda>m. m = n \<or> nodes_semantically_match m n) out"

lemma accounts_for_push [simp]: "accounts_for (push_unique_node out n) n"
  by (auto simp: accounts_for_def push_unique_node_def list_ex_iff)

lemma accounts_for_mono: "accounts_for out m \<Longrightarrow> accounts_for (push_unique_node out n) m"
  by (auto simp: accounts_for_def push_unique_node_def)

text \<open>
  A list that is built up with \<open>push_unique_node\<close> from the empty list keeps the order of
  the pushed nodes, never holds an empty text or two nodes that match semantically, and accounts
  for every pushed node: the merged output of a stream has no duplicate and loses nothing.
\<close>

theorem push_unique_nodes_no_duplicates:
  "let out = foldl push_unique_node [] ns
   in unique_nodes out \<and> subseq out ns \<and> list_all (accounts_for out) ns"
proof -
  let ?out = "\<lambda>ns. foldl push_unique_node [] ns"
  have "unique_nodes (?out ns) \<and> subseq (?out ns) ns \<and> list_all (accounts_for (?out ns)) ns"
  proof (induction ns rule: rev_induct)
    case Nil
    show ?case by simp
  next
    case (snoc n ns)
    then show ?case
      by (simp add: push_unique_node_unique push_unique_node_subseq)
         (auto simp: list_all_iff intro: accounts_for_mono)
  qed
  then show ?thesis by (simp add: Let_def)
qed

end
