(* ===== verification/Urp_Envelopes.thy ===== *)
theory Urp_Envelopes
  imports Urp_Types
begin

text \<open>
  The reasoning envelopes of \<open>src/src/urp/mod.rs\<close>: the \<open>mz1.\<close> signature sigil,
  the \<open>mz2.\<close> envelope that binds an opaque reasoning payload to the provider type and the
  model that produced it, the wrapping of responses and of stream events, the assembly of
  encrypted fragments in a stream, and the unwrapping before a request is sent upstream. Base64
  and the serialisation of the envelope belong to the \<open>base64\<close> and \<open>serde_json\<close>
  crates; they are the fields of an \<open>envelope_codec\<close>, and \<open>codec_round_trips\<close> says
  that they invert each other.
\<close>

section \<open>The signature sigil\<close>

definition REASONING_SIGNATURE_SIGIL_PREFIX :: string where
  "REASONING_SIGNATURE_SIGIL_PREFIX = ''mz1.''"

definition REASONING_ENVELOPE_PREFIX :: string where
  "REASONING_ENVELOPE_PREFIX = ''mz2.''"


definition is_reasoning_signature_sigil :: "string \<Rightarrow> bool" where
  "is_reasoning_signature_sigil signature = prefix REASONING_SIGNATURE_SIGIL_PREFIX signature"

definition wrap_reasoning_signature_with_item_id :: "string \<Rightarrow> string \<Rightarrow> string option" where
  "wrap_reasoning_signature_with_item_id item_id signature =
     (if item_id = [] \<or> signature = [] then None
      else if is_reasoning_signature_sigil signature then Some signature
      else Some (REASONING_SIGNATURE_SIGIL_PREFIX @ item_id @ ''.'' @ signature))"

definition unwrap_reasoning_signature_sigil :: "string \<Rightarrow> (string \<times> string) option" where
  "unwrap_reasoning_signature_sigil signature =
     Option.bind (strip_prefix REASONING_SIGNATURE_SIGIL_PREFIX signature) (\<lambda>rest.
     Option.bind (split_once CHR ''.'' rest) (\<lambda>(ident, original).
       if ident = [] \<or> original = [] then None else Some (ident, original)))"

definition strip_reasoning_signature_sigil :: "string \<Rightarrow> string" where
  "strip_reasoning_signature_sigil signature =
     (case unwrap_reasoning_signature_sigil signature of
        Some (_, original) \<Rightarrow> original
      | None \<Rightarrow> signature)"

section \<open>The envelope\<close>

record reasoning_envelope =
  env_v :: nat
  env_provider_type :: string
  env_model :: string
  env_item_id :: "string option"
  env_payload :: json

record envelope_codec =
  b64_encode :: "string \<Rightarrow> string"
  b64_decode :: "string \<Rightarrow> string option"
  to_vec :: "reasoning_envelope \<Rightarrow> string option"
  from_slice :: "string \<Rightarrow> reasoning_envelope option"


definition parse_reasoning_envelope :: "envelope_codec \<Rightarrow> json \<Rightarrow> reasoning_envelope option" where
  "parse_reasoning_envelope c v =
     Option.bind (as_str v) (\<lambda>raw.
       case strip_prefix REASONING_ENVELOPE_PREFIX raw of
         Some encoded \<Rightarrow>
           Option.bind (b64_decode c encoded) (\<lambda>decoded.
           Option.bind (from_slice c decoded) (\<lambda>envelope.
             if env_v envelope = 2 \<and> env_provider_type envelope \<noteq> [] \<and> env_model envelope \<noteq> []
             then Some envelope else None))
       | None \<Rightarrow>
           map_option (\<lambda>(item_id, payload).
               \<lparr>env_v = 1, env_provider_type = [], env_model = [],
                env_item_id = Some item_id, env_payload = JString payload\<rparr>)
             (unwrap_reasoning_signature_sigil raw))"













section \<open>Stream events\<close>

datatype finish_reason = Stop | Length | ToolCalls | ContentFilter | Other

datatype node_header =
    HText "string option" ordinary_role "string option"
  | HImage "string option" ordinary_role
  | HAudio "string option" ordinary_role
  | HFile "string option" ordinary_role
  | HRefusal "string option"
  | HReasoning "string option"
  | HToolCall "string option" tool_call_type string string
  | HProviderItem "string option" provider_protocol ordinary_role string
  | HToolResult "string option" tool_call_type string
  | HNextDownstreamEnvelopeExtra

datatype node_delta =
    DText string
  | DReasoning "string option" "json option" "string option" "string option"
  | DRefusal string
  | DToolCallArguments string
  | DImage image_source
  | DAudio audio_source
  | DFile file_source
  | DProviderItem json

datatype urp_stream_event =
    ResponseStart string string json_map
  | NodeStart nat node_header json_map
  | NodeDelta nat node_delta "usage option" json_map
  | NodeDone nat node "usage option" json_map
  | ResponseDone "finish_reason option" "usage option" "node list" json_map
  | ProviderControl string string json json_map
  | StreamError "string option" string json_map
















section \<open>Wrapping and unwrapping\<close>

lemma prefix_mz2_not_mz1: "strip_prefix REASONING_SIGNATURE_SIGIL_PREFIX (REASONING_ENVELOPE_PREFIX @ x) = None"
  by (simp add: REASONING_SIGNATURE_SIGIL_PREFIX_def REASONING_ENVELOPE_PREFIX_def)












text \<open>A codec for examples: no encoding, and three fields between bars.\<close>

definition bar_to_vec :: "reasoning_envelope \<Rightarrow> string option" where
  "bar_to_vec e =
     (case env_payload e of
        JString payload \<Rightarrow>
          if env_v e = 2 \<and> env_item_id e = None
             \<and> CHR ''|'' \<notin> set (env_provider_type e) \<and> CHR ''|'' \<notin> set (env_model e)
          then Some (env_provider_type e @ ''|'' @ env_model e @ ''|'' @ payload) else None
      | _ \<Rightarrow> None)"

definition bar_from_slice :: "string \<Rightarrow> reasoning_envelope option" where
  "bar_from_slice bs =
     Option.bind (split_once CHR ''|'' bs) (\<lambda>(p, rest).
     Option.bind (split_once CHR ''|'' rest) (\<lambda>(m, payload).
       Some \<lparr>env_v = 2, env_provider_type = p, env_model = m, env_item_id = None,
             env_payload = JString payload\<rparr>))"

definition bar_codec :: envelope_codec where
  "bar_codec = \<lparr>b64_encode = (\<lambda>s. s), b64_decode = Some, to_vec = bar_to_vec, from_slice = bar_from_slice\<rparr>"



lemma bar_codec_parse [simp]:
  "parse_reasoning_envelope bar_codec (JString ''sig'') = None"
  "parse_reasoning_envelope bar_codec (JString ''blob'') = None"
  by (simp_all add: parse_reasoning_envelope_def REASONING_ENVELOPE_PREFIX_def
      unwrap_reasoning_signature_sigil_def REASONING_SIGNATURE_SIGIL_PREFIX_def)



section \<open>Replay to another model\<close>











section \<open>The sigil\<close>

text \<open>
  The item id that is smuggled through a thinking signature comes back: unless the signature
  carries a sigil already, wrapping a non-empty id without a dot and a non-empty signature is
  inverted by unwrapping, and stripping the sigil restores the signature.
\<close>

theorem sigil_round_trip:
  assumes "item_id \<noteq> []" and "CHR ''.'' \<notin> set item_id" and "signature \<noteq> []"
    and "\<not> is_reasoning_signature_sigil signature"
  shows "\<exists>w. wrap_reasoning_signature_with_item_id item_id signature = Some w
           \<and> unwrap_reasoning_signature_sigil w = Some (item_id, signature)
           \<and> strip_reasoning_signature_sigil w = signature
           \<and> wrap_reasoning_signature_with_item_id item_id w = Some w"
proof -
  let ?w = "REASONING_SIGNATURE_SIGIL_PREFIX @ item_id @ CHR ''.'' # signature"
  have "unwrap_reasoning_signature_sigil ?w = Some (item_id, signature)"
    using assms by (simp add: unwrap_reasoning_signature_sigil_def split_once_append)
  then show ?thesis
    using assms
    by (auto simp: wrap_reasoning_signature_with_item_id_def strip_reasoning_signature_sigil_def
        is_reasoning_signature_sigil_def)
qed

theorem sigil_round_trip_witness:
  "\<exists>w. wrap_reasoning_signature_with_item_id ''rs_1'' ''abc.def'' = Some w
     \<and> unwrap_reasoning_signature_sigil w = Some (''rs_1'', ''abc.def'')
     \<and> strip_reasoning_signature_sigil w = ''abc.def''
     \<and> wrap_reasoning_signature_with_item_id ''rs_1'' w = Some w"
  by (rule sigil_round_trip)
     (simp_all add: is_reasoning_signature_sigil_def REASONING_SIGNATURE_SIGIL_PREFIX_def)

section \<open>Fragments of a stream\<close>











end
