(* ===== verification/Urp_Greedy.thy ===== *)
theory Urp_Greedy
  imports Urp_Types
begin

text \<open>
  The greedy merger of \<open>src/src/urp/greedy.rs\<close>, which cuts the flat node list of a response
  into messages of the form reasoning, content, actions. \<open>feed\<close> and \<open>finish\<close>
  thread the merger's state; \<open>merge_all\<close> is the loop its clients write around it.
\<close>

datatype phase_zone = Empty | InReasoning | InContent | InAction

datatype part_kind = KReasoning | KContent | KAction

datatype node_action = Append | FlushAndNew "node list"

record node_greedy_merger =
  zone :: phase_zone
  current_role :: "ordinary_role option"
  pending :: "node list"

definition NodeGreedyMerger_new :: node_greedy_merger where
  "NodeGreedyMerger_new = \<lparr>zone = Empty, current_role = None, pending = []\<rparr>"

fun kind :: "node \<Rightarrow> part_kind" where
  "kind (Reasoning _ _ _ _ _ _) = KReasoning"
| "kind (Text _ _ _ _ _) = KContent"
| "kind (Image _ _ _ _) = KContent"
| "kind (Audio _ _ _ _) = KContent"
| "kind (File _ _ _ _) = KContent"
| "kind (Refusal _ _ _) = KContent"
| "kind (ToolCall _ _ _ _ _ _) = KAction"
| "kind (ProviderItem _ _ _ _ _ _) = KAction"
| "kind (ToolResult _ _ _ _ _ _) = KAction"
| "kind (NextDownstreamEnvelopeExtra _) = KAction"

definition zone_for :: "node \<Rightarrow> phase_zone" where
  "zone_for n = (case kind n of KReasoning \<Rightarrow> InReasoning | KContent \<Rightarrow> InContent | KAction \<Rightarrow> InAction)"

definition feed :: "node_greedy_merger \<Rightarrow> node \<Rightarrow> node_action \<times> node_greedy_merger" where
  "feed m n =
     (let role = node_role n in
      if role \<noteq> None \<and> current_role m \<noteq> None \<and> current_role m \<noteq> role \<and> pending m \<noteq> []
      then (FlushAndNew (pending m), m\<lparr>current_role := role, zone := zone_for n, pending := [n]\<rparr>)
      else
        (let m = (if role \<noteq> None then m\<lparr>current_role := role\<rparr> else m) in
         case kind n of
           KReasoning \<Rightarrow>
             if zone m = InContent \<or> zone m = InAction
             then (FlushAndNew (pending m), m\<lparr>zone := InReasoning, pending := [n]\<rparr>)
             else (Append, m\<lparr>zone := InReasoning, pending := pending m @ [n]\<rparr>)
         | KContent \<Rightarrow>
             if zone m = InContent \<or> zone m = InAction
             then (FlushAndNew (pending m), m\<lparr>zone := InContent, pending := [n]\<rparr>)
             else (Append, m\<lparr>zone := InContent, pending := pending m @ [n]\<rparr>)
         | KAction \<Rightarrow> (Append, m\<lparr>zone := InAction, pending := pending m @ [n]\<rparr>)))"

definition finish :: "node_greedy_merger \<Rightarrow> node list option \<times> node_greedy_merger" where
  "finish m =
     (if pending m = [] then (None, m\<lparr>zone := Empty, current_role := None\<rparr>)
      else (Some (pending m), m\<lparr>pending := [], zone := Empty, current_role := None\<rparr>))"

text \<open>Feeding a whole list and finishing: the groups in order.\<close>

fun merge_from :: "node_greedy_merger \<Rightarrow> node list \<Rightarrow> node list list" where
  "merge_from m [] = (case fst (finish m) of None \<Rightarrow> [] | Some g \<Rightarrow> [g])"
| "merge_from m (n # ns) =
     (case feed m n of
        (Append, m') \<Rightarrow> merge_from m' ns
      | (FlushAndNew g, m') \<Rightarrow> g # merge_from m' ns)"

definition merge_all :: "node list \<Rightarrow> node list list" where
  "merge_all ns = merge_from NodeGreedyMerger_new ns"

section \<open>The shape of a group\<close>

text \<open>Reasoning nodes, then at most one content node, then actions.\<close>

fun phased :: "node list \<Rightarrow> bool" where
  "phased [] \<longleftrightarrow> True"
| "phased (n # ns) \<longleftrightarrow>
     (if kind n = KReasoning then phased ns else list_all (\<lambda>n. kind n = KAction) ns)"

text \<open>All nodes with a role have the same one.\<close>

definition one_role :: "node list \<Rightarrow> bool" where
  "one_role ns \<longleftrightarrow> (\<exists>r. \<forall>n \<in> set ns. node_role n = None \<or> node_role n = Some r)"

text \<open>What the state says of the pending nodes.\<close>

definition zone_ok :: "node_greedy_merger \<Rightarrow> bool" where
  "zone_ok m \<longleftrightarrow>
     (case zone m of
        Empty \<Rightarrow> pending m = []
      | InReasoning \<Rightarrow> pending m \<noteq> [] \<and> list_all (\<lambda>n. kind n = KReasoning) (pending m)
      | InContent \<Rightarrow>
          pending m \<noteq> [] \<and> list_all (\<lambda>n. kind n = KReasoning) (butlast (pending m))
          \<and> kind (List.last (pending m)) = KContent
      | InAction \<Rightarrow>
          pending m \<noteq> [] \<and> phased (pending m) \<and> kind (List.last (pending m)) = KAction)"

definition role_ok :: "node_greedy_merger \<Rightarrow> bool" where
  "role_ok m \<longleftrightarrow>
     (\<forall>n \<in> set (pending m). node_role n = None \<or> node_role n = current_role m)
     \<and> (current_role m = None \<or> (\<exists>n \<in> set (pending m). node_role n = current_role m))"

definition merger_ok :: "node_greedy_merger \<Rightarrow> bool" where
  "merger_ok m \<longleftrightarrow> zone_ok m \<and> role_ok m"

lemma phased_reasoning: "list_all (\<lambda>n. kind n = KReasoning) ns \<Longrightarrow> phased ns"
  by (induction ns) auto

lemma phased_content:
  "list_all (\<lambda>n. kind n = KReasoning) ns \<Longrightarrow> phased (ns @ [n])"
  by (induction ns) auto

lemma phased_action: "phased ns \<Longrightarrow> kind n = KAction \<Longrightarrow> phased (ns @ [n])"
  by (induction ns) auto

lemma zone_ok_phased: "zone_ok m \<Longrightarrow> phased (pending m)"
proof (cases "zone m")
  case InContent
  moreover assume "zone_ok m"
  ultimately have "phased (butlast (pending m) @ [List.last (pending m)])" and "pending m \<noteq> []"
    using phased_content by (auto simp: zone_ok_def simp del: append_butlast_last_id)
  then show ?thesis by simp
qed (auto simp: zone_ok_def phased_reasoning)

lemma role_ok_one_role: "role_ok m \<Longrightarrow> one_role (pending m)"
  by (cases "current_role m") (auto simp: role_ok_def one_role_def)

text \<open>Appending another node breaks the shape or the role.\<close>

definition extends :: "node list \<Rightarrow> node \<Rightarrow> bool" where
  "extends g n \<longleftrightarrow> phased (g @ [n]) \<and> one_role (g @ [n])"

lemma not_phased_after_content:
  "list_all (\<lambda>n. kind n = KReasoning) ns \<Longrightarrow> kind c = KContent \<Longrightarrow> kind n \<noteq> KAction
     \<Longrightarrow> \<not> phased (ns @ [c, n])"
  by (induction ns) auto

lemma not_phased_after_action:
  "kind a = KAction \<Longrightarrow> kind n \<noteq> KAction \<Longrightarrow> \<not> phased (ns @ [a, n])"
  by (induction ns) auto

lemma not_phased_zone:
  assumes "zone_ok m" and "zone m = InContent \<or> zone m = InAction" and "kind n \<noteq> KAction"
  shows "\<not> phased (pending m @ [n])"
proof -
  from assms(1,2) have "pending m \<noteq> []" by (auto simp: zone_ok_def)
  then obtain ns c where p: "pending m = ns @ [c]" by (metis append_butlast_last_id)
  with assms show ?thesis
    using not_phased_after_content [of ns c n] not_phased_after_action [of c n ns]
    by (auto simp: zone_ok_def)
qed

lemma not_one_role_change:
  assumes "role_ok m" and "current_role m \<noteq> None" and "node_role n \<noteq> None"
    and "current_role m \<noteq> node_role n"
  shows "\<not> one_role (pending m @ [n])"
proof
  assume "one_role (pending m @ [n])"
  then obtain r where r: "\<forall>k \<in> set (pending m) \<union> {n}. node_role k = None \<or> node_role k = Some r"
    by (auto simp: one_role_def)
  moreover from assms(1,2) obtain k where "k \<in> set (pending m)" and "node_role k = current_role m"
    by (auto simp: role_ok_def)
  ultimately show False using assms(2-4) by auto
qed

text \<open>One step: the state stays consistent, and a flush happens only when it must.\<close>

lemma zone_ok_new: "zone_ok \<lparr>zone = zone_for n, current_role = r, pending = [n]\<rparr>"
  by (cases "kind n") (auto simp: zone_ok_def zone_for_def)

lemma feed_append:
  assumes "merger_ok m" and "feed m n = (Append, m')"
  shows "merger_ok m' \<and> pending m' = pending m @ [n]"
proof -
  from assms(2) have role: "node_role n = None \<or> current_role m = None \<or> current_role m = node_role n
      \<or> pending m = []"
    and m': "pending m' = pending m @ [n]" "zone m' = zone_for n"
      "current_role m' = (if node_role n = None then current_role m else node_role n)"
    and z: "kind n = KAction \<or> zone m = Empty \<or> zone m = InReasoning"
    by (cases "zone m"; auto simp: feed_def Let_def zone_for_def split: if_splits part_kind.splits)+
  have "role_ok m'"
    using assms(1) role m' by (auto simp: merger_ok_def role_ok_def)
  moreover have "zone_ok m'"
    using assms(1) m' z zone_ok_phased [of m]
    by (cases "kind n"; cases "zone m")
       (auto simp: merger_ok_def zone_ok_def zone_for_def phased_action)
  ultimately show ?thesis using m' by (simp add: merger_ok_def)
qed

lemma feed_flush:
  assumes "merger_ok m" and "feed m n = (FlushAndNew g, m')"
  shows "merger_ok m' \<and> g = pending m \<and> pending m' = [n] \<and> g \<noteq> [] \<and> \<not> extends g n"
proof -
  from assms(2) have g: "g = pending m" "pending m' = [n]" "zone m' = zone_for n"
      "current_role m' = (if node_role n = None then current_role m else node_role n)"
    and cause: "node_role n \<noteq> None \<and> current_role m \<noteq> None \<and> current_role m \<noteq> node_role n
          \<and> pending m \<noteq> []
        \<or> kind n \<noteq> KAction \<and> (zone m = InContent \<or> zone m = InAction)"
    by (auto simp: feed_def Let_def zone_for_def split: if_splits part_kind.splits)
  have role: "kind n \<noteq> KAction \<Longrightarrow> node_role n \<noteq> None" by (cases n) auto
  have "m' = \<lparr>zone = zone_for n, current_role = current_role m', pending = [n]\<rparr>"
    using g by simp
  then have "zone_ok m'" using zone_ok_new by metis
  moreover have "role_ok m'" using g cause role by (auto simp: role_ok_def)
  moreover have "g \<noteq> []"
    using assms(1) g(1) cause by (auto simp: merger_ok_def zone_ok_def)
  moreover have "\<not> extends g n"
    using assms(1) g(1) cause not_phased_zone [of m n] not_one_role_change [of m n]
    by (auto simp: merger_ok_def extends_def)
  ultimately show ?thesis using g by (simp add: merger_ok_def)
qed

text \<open>Every group ends where the next node would not fit.\<close>

fun cuts_forced :: "node list list \<Rightarrow> bool" where
  "cuts_forced (g # (n # ns) # gs) \<longleftrightarrow> \<not> extends g n \<and> cuts_forced ((n # ns) # gs)"
| "cuts_forced _ \<longleftrightarrow> True"

definition well_formed_group :: "node list \<Rightarrow> bool" where
  "well_formed_group g \<longleftrightarrow> g \<noteq> [] \<and> phased g \<and> one_role g"

lemma merger_ok_group: "merger_ok m \<Longrightarrow> pending m \<noteq> [] \<Longrightarrow> well_formed_group (pending m)"
  by (simp add: well_formed_group_def merger_ok_def zone_ok_phased role_ok_one_role)

lemma merge_from_correct:
  assumes "merger_ok m"
  shows "concat (merge_from m ns) = pending m @ ns
     \<and> list_all well_formed_group (merge_from m ns)
     \<and> cuts_forced (merge_from m ns)
     \<and> (pending m \<noteq> [] \<longrightarrow> (\<exists>g gs. merge_from m ns = g # gs \<and> prefix (pending m) g))"
  using assms
proof (induction m ns rule: merge_from.induct)
  case (1 m)
  then show ?case by (auto simp: finish_def merger_ok_group)
next
  case (2 m n ns)
  show ?case
  proof (cases "feed m n")
    case (Pair act m')
    show ?thesis
    proof (cases act)
      case Append
      with Pair 2 feed_append [OF "2.prems", of n m'] show ?thesis
        by (auto simp: prefix_def)
    next
      case (FlushAndNew g)
      with Pair feed_flush [OF "2.prems", of n g m']
      have f: "merger_ok m'" "g = pending m" "pending m' = [n]" "g \<noteq> []" "\<not> extends g n" by auto
      with "2.IH"(2) Pair FlushAndNew obtain h gs where h: "merge_from m' ns = h # gs" "prefix [n] h"
        and ih: "concat (merge_from m' ns) = n # ns" "list_all well_formed_group (merge_from m' ns)"
          "cuts_forced (merge_from m' ns)" by fastforce
      from h(2) obtain h' where "h = n # h'" by (auto simp: prefix_def)
      with Pair FlushAndNew f h ih merger_ok_group [OF "2.prems"] show ?thesis by auto
    qed
  qed
qed

lemma merger_ok_new: "merger_ok NodeGreedyMerger_new"
  by (simp add: merger_ok_def zone_ok_def role_ok_def NodeGreedyMerger_new_def)

text \<open>
  C24: The merger partitions any node list into consecutive messages without losing or reordering
  a node; each message has one role and the shape reasoning, at most one content node, actions;
  and it is greedy: no message could have taken the first node of the next one.
\<close>

theorem merge_all_partition:
  "concat (merge_all ns) = ns \<and> list_all well_formed_group (merge_all ns) \<and> cuts_forced (merge_all ns)"
  using merge_from_correct [OF merger_ok_new, of ns]
  by (simp add: merge_all_def NodeGreedyMerger_new_def)

end
