(* ===== verification/Usage_Parsing.thy ===== *)
theory Usage_Parsing
  imports Urp_Types
begin

text \<open>
  Reading token usage from upstream bodies and printing it for Chat Completions clients,
  \<open>src/src/handlers/usage.rs\<close>. A chain of \<open>or_else\<close> over alternative keys is
  \<open>find_map\<close> over the keys: the first key that is present decides, even when its value
  is not a number.
\<close>

section \<open>Helpers\<close>

definition get_first :: "json_map \<Rightarrow> string list \<Rightarrow> json option" where
  "get_first m keys = find_map (fmlookup m) keys"

definition get_first_u64 :: "json_map \<Rightarrow> string list \<Rightarrow> nat option" where
  "get_first_u64 m keys = Option.bind (get_first m keys) as_u64"

text \<open>The same one level down: the first of the paths that leads to a value.\<close>

definition nested_u64 :: "(string \<Rightarrow> json option) \<Rightarrow> (string \<times> string) list \<Rightarrow> nat" where
  "nested_u64 get paths =
     unwrap_or (Option.bind
       (find_map (\<lambda>(outer, inner). Option.bind (get outer) (\<lambda>v. json_get v inner)) paths) as_u64) 0"

definition response_service_tier :: "json \<Rightarrow> string option" where
  "response_service_tier v =
     option_filter (\<lambda>tier. tier \<noteq> [])
       (map_option trim
         (Option.bind
           (or_else (json_get v ''service_tier'')
             (or_else (Option.bind (json_get v ''response'') (\<lambda>r. json_get r ''service_tier''))
               (Option.bind (json_get v ''message'') (\<lambda>r. json_get r ''service_tier''))))
           as_str))"

definition drop_internal_keys :: "json \<Rightarrow> json" where
  "drop_internal_keys v =
     (case v of JObject m \<Rightarrow> JObject (fmfilter (\<lambda>k. \<not> is_internal_extra_key k) m) | _ \<Rightarrow> v)"

definition split_usage_extra :: "json_map \<Rightarrow> string list \<Rightarrow> json_map" where
  "split_usage_extra u known_keys =
     fmmap drop_internal_keys
       (fmfilter (\<lambda>k. \<not> (k \<in> set known_keys \<or> is_internal_extra_key k)) u)"

definition some_modality :: "modality_breakdown \<Rightarrow> modality_breakdown option" where
  "some_modality b =
     (if text_tokens b \<noteq> None \<or> image_tokens b \<noteq> None \<or> audio_tokens b \<noteq> None
         \<or> video_tokens b \<noteq> None \<or> document_tokens b \<noteq> None
      then Some b else None)"

definition parse_modality_breakdown_from_detail_object ::
    "json_map option \<Rightarrow> modality_breakdown option" where
  "parse_modality_breakdown_from_detail_object detail =
     Option.bind detail (\<lambda>detail.
       let modality = unwrap_or (Option.bind (fmlookup detail ''modality_breakdown'') as_object) detail
       in some_modality
            \<lparr>text_tokens = Option.bind (fmlookup modality ''text_tokens'') as_u64,
             image_tokens = Option.bind (fmlookup modality ''image_tokens'') as_u64,
             audio_tokens = Option.bind (fmlookup modality ''audio_tokens'') as_u64,
             video_tokens = Option.bind (fmlookup modality ''video_tokens'') as_u64,
             document_tokens = Option.bind (fmlookup modality ''document_tokens'') as_u64\<rparr>)"

definition parse_cache_read_modality_breakdown_from_detail_object ::
    "json_map option \<Rightarrow> modality_breakdown option" where
  "parse_cache_read_modality_breakdown_from_detail_object detail =
     Option.bind detail (\<lambda>detail.
       or_else
         (find_map (\<lambda>key. parse_modality_breakdown_from_detail_object
                            (Option.bind (fmlookup detail key) as_object))
            [''cache_read_tokens_details'', ''cached_tokens_details'', ''cached_input_tokens_details''])
         (some_modality
            \<lparr>text_tokens = get_first_u64 detail
               [''cache_read_text_tokens'', ''cached_text_tokens'', ''cached_input_text_tokens''],
             image_tokens = get_first_u64 detail
               [''cache_read_image_tokens'', ''cached_image_tokens'', ''cached_input_image_tokens''],
             audio_tokens = get_first_u64 detail
               [''cache_read_audio_tokens'', ''cached_audio_tokens'', ''cached_input_audio_tokens''],
             video_tokens = get_first_u64 detail
               [''cache_read_video_tokens'', ''cached_video_tokens'', ''cached_input_video_tokens''],
             document_tokens = get_first_u64 detail
               [''cache_read_document_tokens'', ''cached_document_tokens'', ''cached_input_document_tokens'']\<rparr>))"

definition make_input_details ::
    "nat \<Rightarrow> nat \<Rightarrow> modality_breakdown option \<Rightarrow> nat \<Rightarrow> nat \<Rightarrow> modality_breakdown option
       \<Rightarrow> input_details option" where
  "make_input_details standard cache_read cache_read_modality cache_creation tool_prompt modality =
     (if 0 < standard \<or> 0 < cache_read \<or> cache_read_modality \<noteq> None \<or> 0 < cache_creation
         \<or> 0 < tool_prompt \<or> modality \<noteq> None
      then Some \<lparr>in_standard_tokens = standard, cache_read_tokens = cache_read,
                 cache_read_modality_breakdown = cache_read_modality,
                 cache_creation_tokens = cache_creation, cache_creation_5m_tokens = 0,
                 cache_creation_1h_tokens = 0, tool_prompt_tokens = tool_prompt,
                 in_modality_breakdown = modality\<rparr>
      else None)"

definition make_output_details ::
    "nat \<Rightarrow> nat \<Rightarrow> nat \<Rightarrow> nat \<Rightarrow> modality_breakdown option \<Rightarrow> output_details option" where
  "make_output_details standard reasoning accepted rejected modality =
     (if 0 < standard \<or> 0 < reasoning \<or> 0 < accepted \<or> 0 < rejected \<or> modality \<noteq> None
      then Some \<lparr>out_standard_tokens = standard, out_reasoning_tokens = reasoning,
                 accepted_prediction_tokens = accepted, rejected_prediction_tokens = rejected,
                 out_modality_breakdown = modality\<rparr>
      else None)"

section \<open>The parsers\<close>


definition parse_usage_from_responses_object :: "json \<Rightarrow> usage option" where
  "parse_usage_from_responses_object obj =
     Option.bind (or_else (json_get obj ''usage'')
                    (Option.bind (json_get obj ''response'') (\<lambda>v. json_get v ''usage''))) (\<lambda>u.
     Option.bind (Option.bind (find_map (json_get u) [''input_tokens'', ''prompt_tokens'']) as_u64) (\<lambda>inp.
     Option.bind (Option.bind (find_map (json_get u) [''output_tokens'', ''completion_tokens'']) as_u64) (\<lambda>outp.
     Option.bind (as_object u) (\<lambda>m.
       let input_obj =
             Option.bind (find_map (json_get u) [''input_tokens_details'', ''prompt_tokens_details'']) as_object;
           output_obj =
             Option.bind (find_map (json_get u) [''output_tokens_details'', ''completion_tokens_details'']) as_object;
           cached = nested_u64 (json_get u)
             [(''input_tokens_details'', ''cached_tokens''), (''prompt_tokens_details'', ''cached_tokens'')];
           reasoning = nested_u64 (json_get u)
             [(''output_tokens_details'', ''reasoning_tokens''),
              (''completion_tokens_details'', ''reasoning_tokens'')];
           creation = nested_u64 (json_get u)
             [(''input_tokens_details'', ''cache_creation_tokens''),
              (''input_tokens_details'', ''cache_write_tokens''),
              (''prompt_tokens_details'', ''cache_creation_tokens''),
              (''prompt_tokens_details'', ''cache_write_tokens'')];
           tool_prompt = nested_u64 (json_get u)
             [(''input_tokens_details'', ''tool_prompt_tokens''),
              (''prompt_tokens_details'', ''tool_prompt_tokens'')];
           accepted = nested_u64 (json_get u) [(''output_tokens_details'', ''accepted_prediction_tokens'')];
           rejected = nested_u64 (json_get u) [(''output_tokens_details'', ''rejected_prediction_tokens'')]
       in Some \<lparr>input_tokens = inp, output_tokens = outp,
            usage_input_details =
              make_input_details 0 cached
                (parse_cache_read_modality_breakdown_from_detail_object input_obj) creation tool_prompt
                (parse_modality_breakdown_from_detail_object input_obj),
            usage_output_details =
              make_output_details 0 reasoning accepted rejected
                (parse_modality_breakdown_from_detail_object output_obj),
            usage_extra_body = split_usage_extra m
              [''input_tokens'', ''output_tokens'', ''prompt_tokens'', ''completion_tokens'']\<rparr>))))"

definition checked_add_u64 :: "nat \<Rightarrow> nat \<Rightarrow> nat option" where
  "checked_add_u64 a b = (if a + b \<le> u64_max then Some (a + b) else None)"

definition parse_usage_from_gemini_object :: "json \<Rightarrow> usage option" where
  "parse_usage_from_gemini_object obj =
     Option.bind (Option.bind (json_get obj ''usageMetadata'') as_object) (\<lambda>u.
     Option.bind (get_first_u64 u [''promptTokenCount'', ''prompt_token_count'']) (\<lambda>prompt.
     Option.bind (get_first_u64 u [''candidatesTokenCount'', ''candidates_token_count'']) (\<lambda>candidates.
       let cache_read = unwrap_or (get_first_u64 u
             [''cachedContentTokenCount'', ''cached_content_token_count'', ''cached_tokens'',
              ''cache_read_tokens'', ''cache_read_input_tokens'', ''cacheReadInputTokens'']) 0;
           creation = unwrap_or (get_first_u64 u
             [''cacheCreationTokenCount'', ''cache_creation_token_count'', ''cacheCreationInputTokens'',
              ''cache_creation_input_tokens'', ''cache_creation_tokens'', ''cache_write_tokens'']) 0;
           tool_prompt = unwrap_or (get_first_u64 u
             [''toolUsePromptTokenCount'', ''tool_use_prompt_token_count'', ''toolPromptTokenCount'',
              ''tool_prompt_token_count'', ''tool_prompt_tokens'']) 0;
           reasoning = unwrap_or (get_first_u64 u
             [''thoughtsTokenCount'', ''thoughts_token_count'', ''reasoning_tokens'']) 0;
           accepted = unwrap_or (get_first_u64 u
             [''acceptedPredictionOutputTokenCount'', ''accepted_prediction_output_token_count'',
              ''acceptedPredictionTokenCount'', ''accepted_prediction_token_count'',
              ''accepted_prediction_tokens'']) 0;
           rejected = unwrap_or (get_first_u64 u
             [''rejectedPredictionOutputTokenCount'', ''rejected_prediction_output_token_count'',
              ''rejectedPredictionTokenCount'', ''rejected_prediction_token_count'',
              ''rejected_prediction_tokens'']) 0
       in Option.bind (checked_add_u64 prompt tool_prompt) (\<lambda>inp.
          Option.bind (checked_add_u64 candidates reasoning) (\<lambda>outp.
            Some \<lparr>input_tokens = inp, output_tokens = outp,
              usage_input_details = make_input_details 0 cache_read None creation tool_prompt None,
              usage_output_details = make_output_details 0 reasoning accepted rejected None,
              usage_extra_body = split_usage_extra u
                [''promptTokenCount'', ''prompt_token_count'', ''candidatesTokenCount'',
                 ''candidates_token_count'', ''cachedContentTokenCount'', ''cached_content_token_count'',
                 ''cacheCreationTokenCount'', ''cache_creation_token_count'', ''toolUsePromptTokenCount'',
                 ''tool_use_prompt_token_count'', ''thoughtsTokenCount'', ''thoughts_token_count'',
                 ''acceptedPredictionOutputTokenCount'', ''accepted_prediction_output_token_count'',
                 ''rejectedPredictionOutputTokenCount'', ''rejected_prediction_output_token_count'']\<rparr>)))))"

definition parse_usage_from_embeddings_object :: "json \<Rightarrow> usage option" where
  "parse_usage_from_embeddings_object obj =
     Option.bind (Option.bind (json_get obj ''usage'') as_object) (\<lambda>u.
     Option.bind (Option.bind (fmlookup u ''prompt_tokens'') as_u64) (\<lambda>inp.
     Option.bind (Option.bind (fmlookup u ''total_tokens'') as_u64) (\<lambda>total.
       Some \<lparr>input_tokens = inp, output_tokens = 0, usage_input_details = None,
             usage_output_details = None,
             usage_extra_body = fmupd ''total_tokens'' (json_of_nat total) fmempty\<rparr>)))"

section \<open>The printer\<close>

definition in_detail :: "usage \<Rightarrow> (input_details \<Rightarrow> nat) \<Rightarrow> nat" where
  "in_detail u f = unwrap_or (map_option f (usage_input_details u)) 0"

definition out_detail :: "usage \<Rightarrow> (output_details \<Rightarrow> nat) \<Rightarrow> nat" where
  "out_detail u f = unwrap_or (map_option f (usage_output_details u)) 0"

definition generated_completion_details :: "usage \<Rightarrow> json_map" where
  "generated_completion_details u = fmap_of_list
     [(''reasoning_tokens'', json_of_nat (unwrap_or (reasoning_tokens u) 0)),
      (''accepted_prediction_tokens'', json_of_nat (out_detail u accepted_prediction_tokens)),
      (''rejected_prediction_tokens'', json_of_nat (out_detail u rejected_prediction_tokens))]"

definition generated_prompt_details :: "usage \<Rightarrow> json_map" where
  "generated_prompt_details u = fmap_of_list
     [(''cached_tokens'', json_of_nat (unwrap_or (cached_tokens u) 0)),
      (''cache_write_tokens'', json_of_nat (in_detail u cache_creation_tokens)),
      (''cache_creation_tokens'', json_of_nat (in_detail u cache_creation_tokens)),
      (''tool_prompt_tokens'', json_of_nat (in_detail u tool_prompt_tokens))]"

text \<open>The extra detail fields of one key, without overwriting a generated field.\<close>

definition merge_detail :: "usage \<Rightarrow> string \<Rightarrow> json_map \<Rightarrow> json_map" where
  "merge_detail u detail_key generated =
     (case Option.bind (fmlookup (usage_extra_body u) detail_key) as_object of
        None \<Rightarrow> generated
      | Some extra \<Rightarrow> fmfilter (\<lambda>k. \<not> prefix ''_monoize_'' k) extra ++\<^sub>f generated)"


section \<open>Bounds and the round trip\<close>



declare as_u64_json_of_nat [simp]

lemma unwrap_or_positive [simp]:
  "unwrap_or (option_filter (\<lambda>v. 0 < v) m) 0 = unwrap_or m (0 :: nat)"
  by (cases m) auto

lemma in_detail_make [simp]:
  "unwrap_or (map_option cache_read_tokens (make_input_details s r rm cr t m)) 0 = r"
  "unwrap_or (map_option cache_creation_tokens (make_input_details s r rm cr t m)) 0 = cr"
  "unwrap_or (map_option tool_prompt_tokens (make_input_details s r rm cr t m)) 0 = t"
  by (simp_all add: make_input_details_def)

lemma out_detail_make [simp]:
  "unwrap_or (map_option out_reasoning_tokens (make_output_details s r a j m)) 0 = r"
  "unwrap_or (map_option accepted_prediction_tokens (make_output_details s r a j m)) 0 = a"
  "unwrap_or (map_option rejected_prediction_tokens (make_output_details s r a j m)) 0 = j"
  by (simp_all add: make_output_details_def)

lemma merge_detail_lookup:
  "fmlookup generated k = Some v \<Longrightarrow> fmlookup (merge_detail u key generated) k = Some v"
  by (auto simp: merge_detail_def fmlookup_dom_iff split: option.split)

lemma generated_prompt_lookup [simp]:
  "fmlookup (merge_detail u key (generated_prompt_details u)) ''cached_tokens''
     = Some (json_of_nat (in_detail u cache_read_tokens))"
  "fmlookup (merge_detail u key (generated_prompt_details u)) ''cache_write_tokens''
     = Some (json_of_nat (in_detail u cache_creation_tokens))"
  "fmlookup (merge_detail u key (generated_prompt_details u)) ''tool_prompt_tokens''
     = Some (json_of_nat (in_detail u tool_prompt_tokens))"
  by (simp_all add: merge_detail_lookup generated_prompt_details_def fmlookup_of_list cached_tokens_def
      in_detail_def)

lemma generated_completion_lookup [simp]:
  "fmlookup (merge_detail u key (generated_completion_details u)) ''reasoning_tokens''
     = Some (json_of_nat (out_detail u out_reasoning_tokens))"
  "fmlookup (merge_detail u key (generated_completion_details u)) ''accepted_prediction_tokens''
     = Some (json_of_nat (out_detail u accepted_prediction_tokens))"
  "fmlookup (merge_detail u key (generated_completion_details u)) ''rejected_prediction_tokens''
     = Some (json_of_nat (out_detail u rejected_prediction_tokens))"
  by (simp_all add: merge_detail_lookup generated_completion_details_def fmlookup_of_list
      reasoning_tokens_def out_detail_def)




lemma get_first_u64_bound: "get_first_u64 m keys = Some n \<Longrightarrow> n \<le> u64_max"
  by (auto simp: get_first_u64_def result_simps dest: as_u64_bound)

text \<open>
  A Gemini body is read with inclusive totals that cannot overflow: the tool prompt is part of
  the input count, the thoughts are part of the output count, and both totals stay in the range of
  a 64-bit count, so that the billing code splits the output without clamping.
\<close>

theorem gemini_usage_inclusive:
  assumes "parse_usage_from_gemini_object obj = Some u"
  shows "in_detail u tool_prompt_tokens \<le> input_tokens u
       \<and> out_detail u out_reasoning_tokens \<le> output_tokens u
       \<and> input_tokens u \<le> u64_max \<and> output_tokens u \<le> u64_max"
  using assms
  by (auto simp: parse_usage_from_gemini_object_def Let_def result_simps checked_add_u64_def
      in_detail_def out_detail_def split: if_splits)

definition sample_gemini :: json where
  "sample_gemini = JObject (fmap_of_list [(''usageMetadata'', JObject (fmap_of_list
     [(''promptTokenCount'', JNumber ''9''), (''candidatesTokenCount'', JNumber ''5''),
      (''thoughtsTokenCount'', JNumber ''2'')]))])"

theorem gemini_usage_inclusive_witness:
  "\<exists>u. parse_usage_from_gemini_object sample_gemini = Some u \<and> output_tokens u = 7
     \<and> out_detail u out_reasoning_tokens \<le> output_tokens u"
proof -
  obtain u where u: "parse_usage_from_gemini_object sample_gemini = Some u" "output_tokens u = 7"
    by (simp add: sample_gemini_def parse_usage_from_gemini_object_def get_first_u64_def get_first_def
        fmlookup_of_list parse_unsigned_def all_digits_def is_ascii_digit_def digits_value_def
        digit_value_def u64_max_def Let_def checked_add_u64_def)
  with gemini_usage_inclusive [OF u(1)] show ?thesis by blast
qed

end
