(* ===== verification/Glob.thy ===== *)
theory Glob
  imports Std_Strings
begin

text \<open>
  Glob matching of model names, \<open>glob_matches\<close> of
  \<open>src/src/billing_rate_store.rs\<close> and \<open>case_sensitive_glob_match\<close> of
  \<open>src/src/glob.rs\<close>: a loop over indices that remembers the last
  star and backtracks to it. The loop is kept as it is written, as a partial function into
  \<open>option\<close>; the main lemma shows that it always returns and decides the declarative
  matching relation \<open>glob_ref\<close>.
\<close>

section \<open>The loop\<close>

text \<open>
  The program has this loop twice, with two notions of a character. Both are instances of one
  loop, over the test for a star and the test whether another pattern character accepts a
  character of the value.
\<close>

partial_function (option) glob_stars :: "('p \<Rightarrow> bool) \<Rightarrow> 'p list \<Rightarrow> nat \<Rightarrow> nat option" where
  "glob_stars S pat pattern_index =
     (if pattern_index < length pat \<and> S (pat ! pattern_index)
      then glob_stars S pat (pattern_index + 1)
      else Some pattern_index)"

partial_function (option) glob_loop ::
    "('p \<Rightarrow> bool) \<Rightarrow> ('p \<Rightarrow> 'c \<Rightarrow> bool) \<Rightarrow> 'p list \<Rightarrow> 'c list \<Rightarrow> nat \<Rightarrow> nat \<Rightarrow> nat option \<Rightarrow> nat
       \<Rightarrow> bool option" where
  "glob_loop S M pat val pattern_index value_index last_star_index last_star_match_index =
     (if value_index < length val
      then if pattern_index < length pat \<and> \<not> S (pat ! pattern_index)
              \<and> M (pat ! pattern_index) (val ! value_index)
           then glob_loop S M pat val (pattern_index + 1) (value_index + 1) last_star_index
                  last_star_match_index
           else if pattern_index < length pat \<and> S (pat ! pattern_index)
           then glob_loop S M pat val (pattern_index + 1) value_index (Some pattern_index) value_index
           else (case last_star_index of
                   Some star_index \<Rightarrow>
                     glob_loop S M pat val (star_index + 1) (last_star_match_index + 1) (Some star_index)
                       (last_star_match_index + 1)
                 | None \<Rightarrow> Some False)
      else Option.bind (glob_stars S pat pattern_index) (\<lambda>i. Some (i = length pat)))"

text \<open>Patterns of billing rates: bytes, and letters ignore their case.\<close>

definition glob_matches :: "string \<Rightarrow> string \<Rightarrow> bool option" where
  "glob_matches pat val =
     glob_loop (\<lambda>p. p = CHR ''*'') (\<lambda>p c. p = CHR ''?'' \<or> eq_ignore_ascii_case p c) pat val 0 0 None 0"

text \<open>Patterns of API types and transforms: Unicode scalar values, and the case matters.\<close>

definition case_sensitive_glob_match :: "string \<Rightarrow> string \<Rightarrow> bool option" where
  "case_sensitive_glob_match pat val =
     (if pat = ''*'' then Some True
      else glob_loop (\<lambda>p. p = ''*'') (\<lambda>p c. p = ''?'' \<or> p = c) (utf8_chars pat) (utf8_chars val) 0 0 None 0)"

section \<open>The matching relation\<close>

text \<open>A star stands for any string, another character for one character that it accepts.\<close>

fun glob_ref :: "('p \<Rightarrow> bool) \<Rightarrow> ('p \<Rightarrow> 'c \<Rightarrow> bool) \<Rightarrow> 'p list \<Rightarrow> 'c list \<Rightarrow> bool" where
  "glob_ref S M [] v \<longleftrightarrow> v = []"
| "glob_ref S M (p # ps) [] \<longleftrightarrow> S p \<and> glob_ref S M ps []"
| "glob_ref S M (p # ps) (c # cs) \<longleftrightarrow>
     (if S p then glob_ref S M ps (c # cs) \<or> glob_ref S M (p # ps) cs
      else M p c \<and> glob_ref S M ps cs)"

lemma glob_ref_star:
  assumes "S p"
  shows "glob_ref S M (p # ps) v \<longleftrightarrow> (\<exists>k \<le> length v. glob_ref S M ps (drop k v))"
proof (induction v)
  case Nil
  show ?case using assms by simp
next
  case (Cons c cs)
  have "(\<exists>k \<le> length (c # cs). glob_ref S M ps (drop k (c # cs)))
      \<longleftrightarrow> glob_ref S M ps (c # cs) \<or> (\<exists>k \<le> length cs. glob_ref S M ps (drop k cs))"
    by (auto simp: Ex_less_Suc2 less_Suc_eq_le [symmetric] drop_Cons' gr0_conv_Suc
        intro: exI [of _ 0])
  with Cons assms show ?case by simp
qed

lemma glob_ref_Nil: "glob_ref S M ps [] \<longleftrightarrow> list_all S ps"
  by (induction ps) auto

text \<open>A part without stars consumes exactly its length.\<close>

lemma glob_ref_star_free:
  assumes "\<forall>c \<in> set q. \<not> S c" and "glob_ref S M (q @ r) w"
  shows "length q \<le> length w \<and> glob_ref S M r (drop (length q) w)"
  using assms
proof (induction q arbitrary: w)
  case Nil
  then show ?case by simp
next
  case (Cons p q)
  then show ?case by (cases w) auto
qed

section \<open>Correctness\<close>

lemma glob_stars_correct:
  "i \<le> length pat \<Longrightarrow>
     \<exists>j. glob_stars S pat i = Some j \<and> (j = length pat \<longleftrightarrow> list_all S (drop i pat))"
proof (induction "length pat - i" arbitrary: i)
  case 0
  then show ?case by (subst glob_stars.simps) simp
next
  case (Suc n)
  then have i: "i < length pat" by simp
  show ?case
  proof (cases "S (pat ! i)")
    case True
    with Suc i obtain j where "glob_stars S pat (i + 1) = Some j"
      and "j = length pat \<longleftrightarrow> list_all S (drop (i + 1) pat)"
      by (metis Suc_diff_Suc Suc_eq_plus1 Suc_leI diff_Suc_1)
    with True i show ?thesis
      by (subst glob_stars.simps) (simp add: Cons_nth_drop_Suc [symmetric])
  next
    case False
    with i show ?thesis
      by (subst glob_stars.simps) (simp add: Cons_nth_drop_Suc [symmetric])
  qed
qed

text \<open>
  The state of the loop: since the last star, pattern and value have advanced by the same number
  of bytes, and the pattern has no further star there.
\<close>

definition loop_inv :: "('p \<Rightarrow> bool) \<Rightarrow> 'p list \<Rightarrow> 'c list \<Rightarrow> nat \<Rightarrow> nat \<Rightarrow> nat option \<Rightarrow> nat \<Rightarrow> bool" where
  "loop_inv S pat val pi vi star smi \<longleftrightarrow>
     smi \<le> vi \<and> vi \<le> length val \<and> pi \<le> length pat
     \<and> (\<forall>s. star = Some s \<longrightarrow>
          s < pi \<and> pi - Suc s = vi - smi \<and> (\<forall>c \<in> set (take (pi - Suc s) (drop (Suc s) pat)). \<not> S c))"

text \<open>What the loop decides in a state: a match from here, or from the last star later on.\<close>

definition loop_spec ::
    "('p \<Rightarrow> bool) \<Rightarrow> ('p \<Rightarrow> 'c \<Rightarrow> bool) \<Rightarrow> 'p list \<Rightarrow> 'c list \<Rightarrow> nat \<Rightarrow> nat \<Rightarrow> nat option \<Rightarrow> nat \<Rightarrow> bool" where
  "loop_spec S M pat val pi vi star smi \<longleftrightarrow>
     glob_ref S M (drop pi pat) (drop vi val)
     \<or> (\<exists>s k. star = Some s \<and> smi < k \<and> k \<le> length val \<and> glob_ref S M (drop (Suc s) pat) (drop k val))"

lemma later_match_from_here:
  assumes "loop_inv S pat val pi vi (Some s) smi" and "smi < k" and "k \<le> length val"
    and "glob_ref S M (drop (Suc s) pat) (drop k val)"
  shows "\<exists>j. vi < j \<and> j \<le> length val \<and> glob_ref S M (drop pi pat) (drop j val)"
proof -
  let ?n = "pi - Suc s"
  let ?q = "take ?n (drop (Suc s) pat)"
  from assms(1) have inv: "s < pi" "?n = vi - smi" "\<forall>c \<in> set ?q. \<not> S c" "pi \<le> length pat" "smi \<le> vi"
    by (auto simp: loop_inv_def)
  have "drop ?n (drop (Suc s) pat) = drop pi pat" using inv(1) by simp
  then have split: "drop (Suc s) pat = ?q @ drop pi pat"
    using append_take_drop_id [of ?n "drop (Suc s) pat"] by metis
  have len: "length ?q = ?n" using inv by simp
  from glob_ref_star_free [OF inv(3), of M "drop pi pat" "drop k val"] assms(4) split len
  have "?n \<le> length val - k" and "glob_ref S M (drop pi pat) (drop (?n + k) val)" by auto
  with inv assms(2,3) show ?thesis by (intro exI [of _ "?n + k"]) auto
qed

text \<open>The three ways the loop goes on keep the invariant.\<close>

lemma loop_inv_match:
  assumes "loop_inv S pat val pi vi star smi" and "vi < length val" and "pi < length pat"
    and "\<not> S (pat ! pi)"
  shows "loop_inv S pat val (pi + 1) (vi + 1) star smi"
proof -
  have "(\<forall>c \<in> set (take (pi - s) (drop (Suc s) pat)). \<not> S c)" if "star = Some s" for s
  proof -
    from that assms(1) have s: "s < pi" "(\<forall>c \<in> set (take (pi - Suc s) (drop (Suc s) pat)). \<not> S c)"
      by (auto simp: loop_inv_def)
    then have "take (Suc (pi - Suc s)) (drop (Suc s) pat) = take (pi - Suc s) (drop (Suc s) pat) @ [pat ! pi]"
      using assms(3) by (subst take_Suc_conv_app_nth) auto
    moreover have "Suc (pi - Suc s) = pi - s" using s(1) by simp
    ultimately show ?thesis using s(2) assms(4) by auto
  qed
  with assms show ?thesis by (auto simp: loop_inv_def)
qed

lemma loop_inv_star:
  "loop_inv S pat val pi vi star smi \<Longrightarrow> pi < length pat \<Longrightarrow> loop_inv S pat val (pi + 1) vi (Some pi) vi"
  by (auto simp: loop_inv_def)

lemma loop_inv_backtrack:
  "loop_inv S pat val pi vi (Some s) smi \<Longrightarrow> vi < length val
     \<Longrightarrow> loop_inv S pat val (s + 1) (smi + 1) (Some s) (smi + 1)"
  by (auto simp: loop_inv_def)

text \<open>And they keep what is to be decided.\<close>

lemma loop_spec_match:
  "vi < length val \<Longrightarrow> pi < length pat \<Longrightarrow> \<not> S (pat ! pi) \<Longrightarrow> M (pat ! pi) (val ! vi)
     \<Longrightarrow> loop_spec S M pat val (pi + 1) (vi + 1) star smi = loop_spec S M pat val pi vi star smi"
  by (auto simp: loop_spec_def Cons_nth_drop_Suc [symmetric])

lemma ex_shift:
  fixes L j :: nat
  assumes "j \<le> L"
  shows "(\<exists>k \<le> L - j. P (k + j)) \<longleftrightarrow> (\<exists>k. j \<le> k \<and> k \<le> L \<and> P k)"
proof
  assume "\<exists>k \<le> L - j. P (k + j)"
  then obtain k where "k \<le> L - j" and "P (k + j)" by blast
  with assms show "\<exists>k. j \<le> k \<and> k \<le> L \<and> P k" by (intro exI [of _ "k + j"]) auto
next
  assume "\<exists>k. j \<le> k \<and> k \<le> L \<and> P k"
  then obtain k where "j \<le> k" and "k \<le> L" and "P k" by blast
  then show "\<exists>k \<le> L - j. P (k + j)" by (intro exI [of _ "k - j"]) auto
qed

lemma loop_spec_star:
  assumes "loop_inv S pat val pi vi star smi" and "pi < length pat" and "S (pat ! pi)"
  shows "loop_spec S M pat val (pi + 1) vi (Some pi) vi = loop_spec S M pat val pi vi star smi"
proof -
  have vi: "vi \<le> length val" using assms(1) by (simp add: loop_inv_def)
  let ?r = "drop (Suc pi) pat"
  have star: "glob_ref S M (drop pi pat) (drop j val) \<longleftrightarrow> (\<exists>k. j \<le> k \<and> k \<le> length val \<and> glob_ref S M ?r (drop k val))"
    if "j \<le> length val" for j
  proof -
    have "glob_ref S M (drop pi pat) (drop j val) \<longleftrightarrow> (\<exists>k \<le> length val - j. glob_ref S M ?r (drop (k + j) val))"
      using assms(2,3) by (simp add: Cons_nth_drop_Suc [symmetric] glob_ref_star)
    also have "\<dots> \<longleftrightarrow> (\<exists>k. j \<le> k \<and> k \<le> length val \<and> glob_ref S M ?r (drop k val))"
      using that by (rule ex_shift)
    finally show ?thesis .
  qed
  have "loop_spec S M pat val (pi + 1) vi (Some pi) vi = glob_ref S M (drop pi pat) (drop vi val)"
    using star [OF vi] vi by (auto simp: loop_spec_def) (metis le_neq_implies_less)
  moreover have "glob_ref S M (drop pi pat) (drop vi val)" if "loop_spec S M pat val pi vi star smi"
  proof (cases "glob_ref S M (drop pi pat) (drop vi val)")
    case False
    with that obtain s k where "star = Some s" "smi < k" "k \<le> length val"
      "glob_ref S M (drop (Suc s) pat) (drop k val)" by (auto simp: loop_spec_def)
    with later_match_from_here assms(1) obtain j where "vi < j" "j \<le> length val"
      "glob_ref S M (drop pi pat) (drop j val)" by blast
    with star [of j] star [OF vi] show ?thesis by (meson less_or_eq_imp_le order_trans)
  qed
  ultimately show ?thesis by (auto simp: loop_spec_def)
qed

lemma loop_spec_backtrack:
  assumes "loop_inv S pat val pi vi (Some s) smi" and "vi < length val"
    and "pi < length pat \<Longrightarrow> \<not> S (pat ! pi) \<and> \<not> M (pat ! pi) (val ! vi)"
  shows "loop_spec S M pat val (s + 1) (smi + 1) (Some s) (smi + 1) = loop_spec S M pat val pi vi (Some s) smi"
proof -
  have "\<not> glob_ref S M (drop pi pat) (drop vi val)"
    using assms by (cases "pi < length pat") (simp_all add: Cons_nth_drop_Suc [symmetric])
  moreover have "smi < length val" using assms by (auto simp: loop_inv_def)
  ultimately show ?thesis
    by (auto simp: loop_spec_def) (metis Suc_leI Suc_lessI Suc_lessD less_eq_Suc_le)+
qed

lemma loop_spec_end:
  assumes "loop_inv S pat val pi vi star smi" and "\<not> vi < length val"
  shows "loop_spec S M pat val pi vi star smi \<longleftrightarrow> list_all S (drop pi pat)"
proof -
  have vi: "vi = length val" using assms by (simp add: loop_inv_def)
  moreover have "\<not> (\<exists>s k. star = Some s \<and> smi < k \<and> k \<le> length val
      \<and> glob_ref S M (drop (Suc s) pat) (drop k val))"
    using later_match_from_here [of S pat val pi vi _ smi] assms(1) vi
    by (metis leD)
  ultimately show ?thesis by (auto simp: loop_spec_def glob_ref_Nil)
qed

lemma glob_loop_correct:
  "loop_inv S pat val pi vi star smi
     \<Longrightarrow> glob_loop S M pat val pi vi star smi = Some (loop_spec S M pat val pi vi star smi)"
proof (induction "(pi, vi, star, smi)" arbitrary: pi vi star smi
    rule: wf_induct_rule [OF wf_measures [of "[\<lambda>(pi, vi, star, smi). length val - smi,
      \<lambda>(pi, vi, star, smi). length pat - pi]"]])
  case (1 pi vi star smi)
  note inv = "1.prems"
  show ?case
  proof (cases "vi < length val")
    case False
    with inv glob_stars_correct [of pi pat S] loop_spec_end [OF inv, of M] show ?thesis
      by (subst glob_loop.simps) (auto simp: loop_inv_def)
  next
    case vi: True
    then have smi: "smi < length val" using inv by (simp add: loop_inv_def)
    consider (match) "pi < length pat" "\<not> S (pat ! pi)" "M (pat ! pi) (val ! vi)"
      | (star) "pi < length pat" "S (pat ! pi)"
      | (other) "pi < length pat \<Longrightarrow> \<not> S (pat ! pi) \<and> \<not> M (pat ! pi) (val ! vi)"
      by blast
    then show ?thesis
    proof cases
      case match
      then have "glob_loop S M pat val pi vi star smi = glob_loop S M pat val (pi + 1) (vi + 1) star smi"
        using vi by (subst glob_loop.simps) simp
      moreover have "glob_loop S M pat val (pi + 1) (vi + 1) star smi
          = Some (loop_spec S M pat val (pi + 1) (vi + 1) star smi)"
        using match loop_inv_match [OF inv vi match(1,2)] by (intro "1.hyps") auto
      ultimately show ?thesis using loop_spec_match [of vi val pi pat S M] vi match by simp
    next
      case star
      then have "glob_loop S M pat val pi vi star smi = glob_loop S M pat val (pi + 1) vi (Some pi) vi"
        using vi by (subst glob_loop.simps) simp
      moreover have "glob_loop S M pat val (pi + 1) vi (Some pi) vi
          = Some (loop_spec S M pat val (pi + 1) vi (Some pi) vi)"
        using star loop_inv_star [OF inv star(1)] inv vi
        by (intro "1.hyps") (auto simp: loop_inv_def)
      ultimately show ?thesis using loop_spec_star [OF inv star] by simp
    next
      case other
      show ?thesis
      proof (cases star)
        case None
        with other vi show ?thesis
          by (subst glob_loop.simps)
             (cases "pi < length pat"; auto simp: loop_spec_def Cons_nth_drop_Suc [symmetric])
      next
        case (Some s)
        with other vi have "glob_loop S M pat val pi vi star smi
            = glob_loop S M pat val (s + 1) (smi + 1) (Some s) (smi + 1)"
          by (subst glob_loop.simps) auto
        moreover have "glob_loop S M pat val (s + 1) (smi + 1) (Some s) (smi + 1)
            = Some (loop_spec S M pat val (s + 1) (smi + 1) (Some s) (smi + 1))"
          using Some loop_inv_backtrack [of S pat val pi vi s smi] inv vi smi
          by (intro "1.hyps") auto
        ultimately show ?thesis
          using loop_spec_backtrack [of S pat val pi vi s smi] inv vi Some other by auto
      qed
    qed
  qed
qed

lemma glob_loop_start:
  "glob_loop S M pat val 0 0 None 0 = Some (glob_ref S M pat val)"
  using glob_loop_correct [of S pat val 0 0 None 0 M]
  by (simp add: loop_inv_def loop_spec_def)

lemma glob_ref_single_star: "S p \<Longrightarrow> glob_ref S M [p] v"
  by (induction v) auto

lemma case_sensitive_glob_match_eq:
  "case_sensitive_glob_match pat val
     = Some (glob_ref (\<lambda>p. p = ''*'') (\<lambda>p c. p = ''?'' \<or> p = c) (utf8_chars pat) (utf8_chars val))"
  by (simp add: case_sensitive_glob_match_def glob_loop_start glob_ref_single_star)

text \<open>
  C19: Matching a model name against a pattern always ends, and its answer is the declarative one:
  a star stands for any string, a question mark for one character, and every other character for
  itself. Patterns of billing rates compare bytes up to ASCII case; the patterns of API types and
  transforms compare Unicode scalar values exactly, and their shortcut for a lone star agrees.
\<close>

theorem glob_matches_correct:
  "glob_matches pat val
     = Some (glob_ref (\<lambda>p. p = CHR ''*'') (\<lambda>p c. p = CHR ''?'' \<or> eq_ignore_ascii_case p c) pat val)
   \<and> case_sensitive_glob_match pat val
     = Some (glob_ref (\<lambda>p. p = ''*'') (\<lambda>p c. p = ''?'' \<or> p = c) (utf8_chars pat) (utf8_chars val))"
  by (simp add: glob_matches_def glob_loop_start case_sensitive_glob_match_eq)

end
