(* ===== verification/Billing_Rates.thy ===== *)
theory Billing_Rates
  imports Glob Urp_Types Exact_Decimal "HOL-Library.Char_ord" "HOL-Library.List_Lexorder"
    "HOL-Library.Product_Lexorder"
begin

text \<open>
  Billing rates and their selection: the rate record of
  \<open>src/src/billing_rate_store.rs\<close>, the pricing model key of
  \<open>src/src/settings.rs\<close>, and from \<open>src/src/handlers/billing.rs\<close> the currency
  conversion, the resolution of a rate matrix from a snapshot, the admission check
  \<open>billing_rate_matrix_allows_request\<close> and the lookups by dimension. The exchange rate is
  a \<open>rust_decimal::Decimal\<close>: its type is the variable \<open>'d\<close> and the operations the
  code calls are the fields of \<open>decimal_ops\<close>. An error message is a constructor with the
  values it prints.
\<close>

section \<open>Data\<close>

datatype provider_type =
  Responses | ChatCompletion | Messages | Gemini | OpenaiImage | Replicate | Group

fun reasoning_envelope_provider_type :: "provider_type \<Rightarrow> string" where
  "reasoning_envelope_provider_type Responses = ''responses''"
| "reasoning_envelope_provider_type ChatCompletion = ''chat_completion''"
| "reasoning_envelope_provider_type Messages = ''messages''"
| "reasoning_envelope_provider_type Gemini = ''gemini''"
| "reasoning_envelope_provider_type OpenaiImage = ''openai_image''"
| "reasoning_envelope_provider_type Replicate = ''replicate''"
| "reasoning_envelope_provider_type Group = ''group''"

record billing_rate =
  rate_id :: string
  rate_source :: string
  rate_pricing_profile :: string
  model_pattern :: "string option"
  rate_provider_type :: "string option"
  rate_kind :: string
  usage_class :: string
  rate_unit :: string
  unit_price_nano_text :: string
  unit_price_currency :: string
  rate_context_tier :: "string option"
  rate_service_tier :: "string option"
  rate_modality :: "string option"
  rate_cache_ttl :: "string option"
  match_json :: json
  rate_priority :: int
  rate_enabled :: bool
  raw_json :: json
  rate_updated_at :: int

record 'd decimal_ops =
  is_sign_positive :: "'d \<Rightarrow> bool"
  is_zero :: "'d \<Rightarrow> bool"
  from_i128 :: "int \<Rightarrow> 'd"
  checked_div :: "'d \<Rightarrow> 'd \<Rightarrow> 'd option"
  round_dp0 :: "'d \<Rightarrow> 'd"
  decimal_to_i128 :: "'d \<Rightarrow> int option"
  decimal_one :: 'd

record 'd billing_rate_resolution =
  res_pricing_profile :: string
  res_pricing_model :: string
  rates :: "billing_rate list"
  cny_per_usd :: "'d option"

datatype billing_error =
    InvalidUnitPrice string
  | NonCanonicalUnitPrice string
  | NoExchangeRate string
  | ConversionOverflow string
  | ConversionRange string
  | ContextThresholdRequired
  | MissingTierRate string string
  | MeterRateRequired string
  | MissingTokenRate "string list" "string option" "string option" "string option" "string option"
  | ModalitySumMismatch string
  | ModalityCacheReadMismatch string
  | CacheCreationModalityRequired
  | CacheReadModalityRequired
  | AuthoritativeUsageRequired string
  | MissingSettledTokenRate string "string option" string
  | MissingSettledMeterRate string "string option" string
  | CacheSplitRequired
  | TokenChargeOverflow
  | MeterChargeOverflow
  | ChargeOverflow

section \<open>Prices and currency\<close>

definition unit_price_nano :: "billing_rate \<Rightarrow> (billing_error, int) result" where
  "unit_price_nano r = ok_or (InvalidUnitPrice (rate_id r)) (parse_i128 (unit_price_nano_text r))"

definition is_cny_basis :: "billing_rate \<Rightarrow> bool" where
  "is_cny_basis r \<longleftrightarrow> unit_price_currency r = ''CNY''"

definition nano_charge_to_usd ::
    "'d decimal_ops \<Rightarrow> int \<Rightarrow> bool \<Rightarrow> 'd option \<Rightarrow> string \<Rightarrow> (billing_error, int) result" where
  "nano_charge_to_usd D charge is_cny fx rid =
     (if \<not> is_cny then Inr charge
      else rbind (ok_or (NoExchangeRate rid)
                    (option_filter (\<lambda>v. is_sign_positive D v \<and> \<not> is_zero D v) fx)) (\<lambda>fx.
           rbind (ok_or (ConversionOverflow rid) (checked_div D (from_i128 D charge) fx)) (\<lambda>charge.
             ok_or (ConversionRange rid) (decimal_to_i128 D (round_dp0 D charge)))))"

definition charge_in_usd ::
    "'d decimal_ops \<Rightarrow> int \<Rightarrow> billing_rate \<Rightarrow> 'd option \<Rightarrow> (billing_error, int) result" where
  "charge_in_usd D charge r fx = nano_charge_to_usd D charge (is_cny_basis r) fx (rate_id r)"

section \<open>The pricing model key\<close>

definition BUILTIN_REASONING_EFFORT_SUFFIXES :: "(string \<times> string) list" where
  "BUILTIN_REASONING_EFFORT_SUFFIXES =
     [(''-none'', ''none''), (''-minimum'', ''minimum''), (''-low'', ''low''), (''-medium'', ''medium''),
      (''-high'', ''high''), (''-xhigh'', ''xhigh''), (''-max'', ''max'')]"

definition strip_suffix :: "string \<Rightarrow> string \<Rightarrow> string option" where
  "strip_suffix suf s = map_option rev (strip_prefix (rev suf) (rev s))"

definition sorted_suffixes :: "(string \<times> string) list \<Rightarrow> string list" where
  "sorted_suffixes suffix_map =
     remdups_adj (sort_key (\<lambda>s. (- int (length s), s))
       (map fst suffix_map @ map fst BUILTIN_REASONING_EFFORT_SUFFIXES))"

definition normalize_pricing_model_key :: "string \<Rightarrow> (string \<times> string) list \<Rightarrow> string" where
  "normalize_pricing_model_key model_id suffix_map =
     (let trimmed = trim model_id in
      if trimmed = [] then []
      else unwrap_or (find_map (\<lambda>suf. option_filter (\<lambda>base. base \<noteq> []) (strip_suffix suf trimmed))
                        (sorted_suffixes suffix_map)) trimmed)"

section \<open>Resolving a rate matrix\<close>

definition rate_applies :: "string \<Rightarrow> string \<Rightarrow> string \<Rightarrow> billing_rate \<Rightarrow> bool" where
  "rate_applies model ptype pricing_profile r \<longleftrightarrow>
     rate_pricing_profile r = pricing_profile
     \<and> (case rate_provider_type r of None \<Rightarrow> True | Some v \<Rightarrow> v = ptype)
     \<and> (case model_pattern r of None \<Rightarrow> True | Some pat \<Rightarrow> glob_matches pat model = Some True)"

definition resolve_billing_rate_matrix_from_snapshot ::
    "billing_rate list \<Rightarrow> string \<Rightarrow> string \<Rightarrow> string \<Rightarrow> 'd option \<Rightarrow> 'd billing_rate_resolution option" where
  "resolve_billing_rate_matrix_from_snapshot candidate_rates model ptype pricing_profile fx =
     (let profile_rates = filter (rate_applies model ptype pricing_profile) candidate_rates in
      if profile_rates = [] then None
      else Some \<lparr>res_pricing_profile = pricing_profile, res_pricing_model = model,
                 rates = profile_rates, cny_per_usd = fx\<rparr>)"

text \<open>\<open>is_none_or (|tier| tier == "default")\<close>.\<close>

definition none_or_default :: "string option \<Rightarrow> bool" where
  "none_or_default t \<longleftrightarrow> t = None \<or> t = Some ''default''"

definition has_dimensionless_fallback :: "billing_rate list \<Rightarrow> string \<Rightarrow> string option \<Rightarrow> bool" where
  "has_dimensionless_fallback rs uclass tier =
     list_ex (\<lambda>r. rate_kind r = ''token'' \<and> usage_class r = uclass \<and> rate_modality r = None
                 \<and> rate_cache_ttl r = None \<and> none_or_default (rate_service_tier r)
                 \<and> (case tier of
                      Some t \<Rightarrow> rate_context_tier r = Some t
                    | None \<Rightarrow> none_or_default (rate_context_tier r))) rs"

definition meter_matches_tier :: "billing_rate list \<Rightarrow> string \<Rightarrow> string option \<Rightarrow> bool" where
  "meter_matches_tier rs uclass tier =
     list_ex (\<lambda>r. rate_kind r = ''meter'' \<and> usage_class r = uclass \<and> rate_modality r = None
                 \<and> rate_cache_ttl r = None \<and> none_or_default (rate_service_tier r)
                 \<and> (none_or_default (rate_context_tier r)
                    \<or> (tier \<noteq> None \<and> rate_context_tier r = tier))) rs"

definition has_threshold :: "billing_rate list \<Rightarrow> bool" where
  "has_threshold rs =
     list_ex (\<lambda>v. parse_u64_value v \<noteq> None)
       (List.map_filter (\<lambda>r. json_get (match_json r) ''context_threshold_tokens'') rs)"

text \<open>A loop that stops at the first error, and the loops of the admission check.\<close>

fun for_each :: "('a \<Rightarrow> ('e, unit) result) \<Rightarrow> 'a list \<Rightarrow> ('e, unit) result" where
  "for_each f [] = Inr ()"
| "for_each f (x # xs) = rbind (f x) (\<lambda>_. for_each f xs)"

definition check_canonical_price :: "billing_rate \<Rightarrow> (billing_error, unit) result" where
  "check_canonical_price r =
     rbind (unit_price_nano r) (\<lambda>unit_price.
       if unit_price < 0 \<or> show_int unit_price \<noteq> unit_price_nano_text r
       then Inl (NonCanonicalUnitPrice (rate_id r)) else Inr ())"

definition context_tiers :: "billing_rate list \<Rightarrow> string list" where
  "context_tiers rs =
     remdups_adj (sort (filter (\<lambda>t. t \<noteq> ''default'') (List.map_filter rate_context_tier rs)))"

definition check_tier_rates :: "billing_rate list \<Rightarrow> (billing_error, unit) result" where
  "check_tier_rates rs =
     for_each (\<lambda>tier. for_each (\<lambda>uclass.
         if has_dimensionless_fallback rs uclass (Some tier) then Inr ()
         else Inl (MissingTierRate uclass tier)) [''input_uncached'', ''output'']) (context_tiers rs)"

definition has_meter :: "billing_rate list \<Rightarrow> string \<Rightarrow> bool" where
  "has_meter rs uclass =
     (if context_tiers rs = [] then meter_matches_tier rs uclass None
      else list_all (\<lambda>tier. meter_matches_tier rs uclass (Some tier)) (context_tiers rs))"

definition billing_rate_matrix_allows_request ::
    "'d billing_rate_resolution \<Rightarrow> string list \<Rightarrow> (billing_error, bool) result" where
  "billing_rate_matrix_allows_request resolution server_tool_usage_classes =
     (let rs = rates resolution in
      rbind (for_each check_canonical_price rs) (\<lambda>_.
      if cny_per_usd resolution = None \<and> list_ex is_cny_basis rs then Inr False
      else if context_tiers rs = []
              \<and> (\<not> has_dimensionless_fallback rs ''input_uncached'' None
                 \<or> \<not> has_dimensionless_fallback rs ''output'' None) then Inr False
      else rbind (if context_tiers rs \<noteq> []
                  then if has_threshold rs then check_tier_rates rs else Inl ContextThresholdRequired
                  else Inr ()) (\<lambda>_.
           rbind (for_each (\<lambda>uclass. if has_meter rs uclass then Inr () else Inl (MeterRateRequired uclass))
                    server_tool_usage_classes) (\<lambda>_.
             Inr True))))"

definition billing_rates_form_complete_matrix :: "'d decimal_ops \<Rightarrow> billing_rate list \<Rightarrow> bool" where
  "billing_rates_form_complete_matrix D rs =
     (billing_rate_matrix_allows_request
        \<lparr>res_pricing_profile = [], res_pricing_model = [], rates = rs,
         cny_per_usd = Some (decimal_one D)\<rparr> [] = Inr True)"

record 'd billing_rate_resolution_snapshot =
  reasoning_suffix_map :: "(string \<times> string) list"
  resolutions :: "(string \<times> string \<times> string, 'd billing_rate_resolution option) fmap"

text \<open>\<open>get(..).cloned().flatten()\<close>.\<close>

definition snapshot_get ::
    "'d billing_rate_resolution_snapshot \<Rightarrow> string \<times> string \<times> string \<Rightarrow> 'd billing_rate_resolution option" where
  "snapshot_get snap k = Option.bind (fmlookup (resolutions snap) k) (\<lambda>m. m)"

definition snapshot_resolve ::
    "'d billing_rate_resolution_snapshot \<Rightarrow> string \<Rightarrow> string \<Rightarrow> provider_type \<Rightarrow> string
       \<Rightarrow> 'd billing_rate_resolution option" where
  "snapshot_resolve snap upstream_model logical_model ptype pricing_profile =
     (let pt = reasoning_envelope_provider_type ptype;
          normalized_upstream = normalize_pricing_model_key upstream_model (reasoning_suffix_map snap);
          normalized_logical = normalize_pricing_model_key logical_model (reasoning_suffix_map snap);
          first = option_filter (\<lambda>r. billing_rate_matrix_allows_request r [] = Inr True)
                    (snapshot_get snap (normalized_upstream, pt, pricing_profile))
      in case first of
           Some r \<Rightarrow> Some r
         | None \<Rightarrow>
             if normalized_logical = normalized_upstream then None
             else snapshot_get snap (normalized_logical, pt, pricing_profile))"

text \<open>
  The snapshot for the attempts of one request, with the candidate rates and the exchange rate of
  the stores as arguments.
\<close>

definition snapshot_pairs ::
    "(string \<times> provider_type \<times> string) list \<Rightarrow> string \<Rightarrow> (string \<times> string) list
       \<Rightarrow> (string \<times> string \<times> string) list" where
  "snapshot_pairs attempts logical_model suffix_map =
     concat (map (\<lambda>(upstream_model, ptype, pricing_profile).
       let pt = reasoning_envelope_provider_type ptype in
       [(normalize_pricing_model_key upstream_model suffix_map, pt, pricing_profile),
        (normalize_pricing_model_key logical_model suffix_map, pt, pricing_profile)]) attempts)"

definition build_billing_rate_resolution_snapshot ::
    "'d decimal_ops \<Rightarrow> (string \<times> string) list \<Rightarrow> billing_rate list \<Rightarrow> 'd option
       \<Rightarrow> (string \<times> provider_type \<times> string) list \<Rightarrow> string \<Rightarrow> 'd billing_rate_resolution_snapshot" where
  "build_billing_rate_resolution_snapshot D suffix_map candidate_rates current_fx attempts logical_model =
     (let fx = option_filter (\<lambda>v. is_sign_positive D v \<and> \<not> is_zero D v) current_fx in
      \<lparr>reasoning_suffix_map = suffix_map,
       resolutions = fmap_of_list (map (\<lambda>(model, pt, profile).
           ((model, pt, profile),
            resolve_billing_rate_matrix_from_snapshot candidate_rates model pt profile fx))
         (snapshot_pairs attempts logical_model suffix_map))\<rparr>)"

section \<open>Dimensions\<close>

definition determine_context_tier ::
    "usage \<Rightarrow> billing_rate list \<Rightarrow> (billing_error, string option) result" where
  "determine_context_tier u rs =
     (case option_filter (\<lambda>s. s \<noteq> [])
             (Option.bind (fmlookup (usage_extra_body u) ''context_tier'') as_str) of
        Some tier \<Rightarrow> Inr (Some tier)
      | None \<Rightarrow>
          if \<not> list_ex (\<lambda>r. rate_context_tier r \<noteq> None \<and> rate_context_tier r \<noteq> Some ''default'') rs
          then Inr None
          else rbind (ok_or ContextThresholdRequired
                 (find_map parse_u64_value
                   (List.map_filter (\<lambda>r. json_get (match_json r) ''context_threshold_tokens'') rs)))
               (\<lambda>threshold. Inr (Some (if threshold < input_tokens u then ''long'' else ''short''))))"

definition rate_matches_dimension ::
    "billing_rate \<Rightarrow> string option \<Rightarrow> string option \<Rightarrow> string option \<Rightarrow> string option \<Rightarrow> bool" where
  "rate_matches_dimension r modality context_tier service_tier cache_ttl =
     (if rate_modality r \<noteq> None \<and> rate_modality r \<noteq> modality then False
      else if rate_modality r = None \<and> modality \<noteq> None then False
      else if rate_context_tier r \<noteq> None \<and> rate_context_tier r \<noteq> context_tier
              \<and> rate_context_tier r \<noteq> Some ''default'' then False
      else if service_tier \<noteq> None \<and> service_tier \<noteq> Some ''default''
              \<and> rate_service_tier r \<noteq> service_tier then False
      else if none_or_default service_tier
              \<and> rate_service_tier r \<noteq> None \<and> rate_service_tier r \<noteq> Some ''default'' then False
      else if rate_cache_ttl r \<noteq> None \<and> rate_cache_ttl r \<noteq> cache_ttl then False
      else True)"

definition find_rate ::
    "billing_rate list \<Rightarrow> string \<Rightarrow> string \<Rightarrow> string option \<Rightarrow> string option \<Rightarrow> string option
       \<Rightarrow> string option \<Rightarrow> billing_rate option" where
  "find_rate rs kind uclass modality context_tier service_tier cache_ttl =
     find (\<lambda>r. rate_kind r = kind \<and> usage_class r = uclass
               \<and> rate_matches_dimension r modality context_tier service_tier cache_ttl) rs"

definition find_rate_for_usage_classes ::
    "billing_rate list \<Rightarrow> string \<Rightarrow> string list \<Rightarrow> string option \<Rightarrow> string option \<Rightarrow> string option
       \<Rightarrow> string option \<Rightarrow> billing_rate option" where
  "find_rate_for_usage_classes rs kind uclasses modality context_tier service_tier cache_ttl =
     find_map (\<lambda>uclass. find_rate rs kind uclass modality context_tier service_tier cache_ttl) uclasses"

definition has_matching_modality_rates ::
    "billing_rate list \<Rightarrow> string list \<Rightarrow> string option \<Rightarrow> string option \<Rightarrow> string option \<Rightarrow> bool" where
  "has_matching_modality_rates rs uclasses context_tier service_tier cache_ttl =
     list_ex (\<lambda>r. rate_kind r = ''token'' \<and> usage_class r \<in> set uclasses \<and> rate_modality r \<noteq> None
                 \<and> rate_matches_dimension r (rate_modality r) context_tier service_tier cache_ttl) rs"

end
