(* ===== verification/Billing_Charge.thy ===== *)
theory Billing_Charge
  imports Billing_Rates
begin

text \<open>
  Settling one request against a rate matrix, \<open>src/src/handlers/billing.rs\<close>: the
  modality arithmetic, the token and meter line items and
  \<open>calculate_rate_matrix_charge_components\<close>. A function that appends to
  \<open>line_items\<close> takes the list and returns it with the charge. A line item is a record
  with the keys of the JSON object the code builds; prices and charges are printed, as there.
  The lemmas show that the charge is the sum of the printed line items, that every token is
  billed exactly once, and that a matrix which preflight admits has a rate for every bucket.
\<close>

section \<open>Modalities\<close>

definition modality_quantity_sum :: "modality_breakdown \<Rightarrow> nat" where
  "modality_quantity_sum b =
     saturating_add_u64 (saturating_add_u64 (saturating_add_u64 (saturating_add_u64
       (unwrap_or (text_tokens b) 0) (unwrap_or (image_tokens b) 0)) (unwrap_or (audio_tokens b) 0))
       (unwrap_or (video_tokens b) 0)) (unwrap_or (document_tokens b) 0)"

definition validate_modality_sum ::
    "string \<Rightarrow> modality_breakdown \<Rightarrow> nat \<Rightarrow> (billing_error, unit) result" where
  "validate_modality_sum uclass b expected =
     (if modality_quantity_sum b \<noteq> expected then Inl (ModalitySumMismatch uclass) else Inr ())"

definition subtract_optional_modality ::
    "nat option \<Rightarrow> nat option \<Rightarrow> string \<Rightarrow> (billing_error, nat option) result" where
  "subtract_optional_modality tot sub uclass =
     (case (tot, sub) of
        (Some t, Some s) \<Rightarrow> if s \<le> t then Inr (Some (t - s)) else Inl (ModalityCacheReadMismatch uclass)
      | (Some t, None) \<Rightarrow> Inr (Some t)
      | (None, Some s) \<Rightarrow> if s = 0 then Inr None else Inl (ModalityCacheReadMismatch uclass)
      | (None, None) \<Rightarrow> Inr None)"

definition subtract_modality_breakdown ::
    "modality_breakdown \<Rightarrow> modality_breakdown \<Rightarrow> string \<Rightarrow> (billing_error, modality_breakdown) result" where
  "subtract_modality_breakdown tot sub uclass =
     rbind (subtract_optional_modality (text_tokens tot) (text_tokens sub) uclass) (\<lambda>t.
     rbind (subtract_optional_modality (image_tokens tot) (image_tokens sub) uclass) (\<lambda>i.
     rbind (subtract_optional_modality (audio_tokens tot) (audio_tokens sub) uclass) (\<lambda>a.
     rbind (subtract_optional_modality (video_tokens tot) (video_tokens sub) uclass) (\<lambda>v.
     rbind (subtract_optional_modality (document_tokens tot) (document_tokens sub) uclass) (\<lambda>d.
       Inr \<lparr>text_tokens = t, image_tokens = i, audio_tokens = a, video_tokens = v,
            document_tokens = d\<rparr>)))))"

definition input_uncached_modality_breakdown ::
    "input_details option \<Rightarrow> nat \<Rightarrow> (billing_error, modality_breakdown option) result" where
  "input_uncached_modality_breakdown details uncached =
     (case details of
        None \<Rightarrow> Inr None
      | Some d \<Rightarrow>
          (case in_modality_breakdown d of
             None \<Rightarrow> Inr None
           | Some tot \<Rightarrow>
               if 0 < cache_creation_tokens d then Inl CacheCreationModalityRequired
               else if cache_read_tokens d = 0
               then rbind (validate_modality_sum ''input_uncached'' tot uncached) (\<lambda>_. Inr (Some tot))
               else
                 rbind (ok_or CacheReadModalityRequired (cache_read_modality_breakdown d)) (\<lambda>cached.
                 rbind (validate_modality_sum ''cache_read'' cached (cache_read_tokens d)) (\<lambda>_.
                 rbind (subtract_modality_breakdown tot cached ''input_uncached'') (\<lambda>b.
                 rbind (validate_modality_sum ''input_uncached'' b uncached) (\<lambda>_. Inr (Some b)))))))"

section \<open>Token lines\<close>

record token_line =
  tl_rate_id :: string
  tl_usage_class :: string
  tl_unit :: string
  tl_unit_price_nano :: string
  tl_unit_price_currency :: string
  tl_quantity :: nat
  tl_charge_nano :: string
  tl_modality :: "string option"
  tl_context_tier :: "string option"
  tl_service_tier :: "string option"
  tl_cache_ttl :: "string option"

type_synonym token_result = "(billing_error, int \<times> token_line list) result"

definition add_token_line_for_usage_classes ::
    "'d decimal_ops \<Rightarrow> token_line list \<Rightarrow> billing_rate list \<Rightarrow> string list \<Rightarrow> nat \<Rightarrow> string option
       \<Rightarrow> string option \<Rightarrow> string option \<Rightarrow> string option \<Rightarrow> 'd option \<Rightarrow> token_result" where
  "add_token_line_for_usage_classes D items rs uclasses quantity modality ctier stier ttl fx =
     (if quantity = 0 then Inr (0, items)
      else
        rbind (ok_or (MissingTokenRate uclasses modality ctier stier ttl)
                 (find_rate_for_usage_classes rs ''token'' uclasses modality ctier stier ttl)) (\<lambda>r.
        rbind (unit_price_nano r) (\<lambda>unit_price.
        rbind (ok_or TokenChargeOverflow (checked_mul_i128 (int quantity) unit_price)) (\<lambda>charge.
        rbind (charge_in_usd D charge r fx) (\<lambda>charge.
          Inr (charge, items @
            [\<lparr>tl_rate_id = rate_id r, tl_usage_class = usage_class r, tl_unit = rate_unit r,
              tl_unit_price_nano = show_int unit_price, tl_unit_price_currency = unit_price_currency r,
              tl_quantity = quantity, tl_charge_nano = show_int charge, tl_modality = modality,
              tl_context_tier = ctier, tl_service_tier = stier, tl_cache_ttl = ttl\<rparr>]))))))"

definition add_token_line ::
    "'d decimal_ops \<Rightarrow> token_line list \<Rightarrow> billing_rate list \<Rightarrow> string \<Rightarrow> nat \<Rightarrow> string option
       \<Rightarrow> string option \<Rightarrow> string option \<Rightarrow> string option \<Rightarrow> 'd option \<Rightarrow> token_result" where
  "add_token_line D items rs uclass quantity modality ctier stier ttl fx =
     add_token_line_for_usage_classes D items rs [uclass] quantity modality ctier stier ttl fx"

text \<open>The loop over the modalities with its running total.\<close>

fun add_modality_loop ::
    "'d decimal_ops \<Rightarrow> billing_rate list \<Rightarrow> string list \<Rightarrow> string option \<Rightarrow> string option \<Rightarrow> 'd option
       \<Rightarrow> (string \<times> nat option) list \<Rightarrow> int \<Rightarrow> token_line list \<Rightarrow> token_result" where
  "add_modality_loop D rs uclasses ctier stier fx [] tot items = Inr (tot, items)"
| "add_modality_loop D rs uclasses ctier stier fx ((modality, quantity) # ms) tot items =
     rbind (add_token_line_for_usage_classes D items rs uclasses (unwrap_or quantity 0) (Some modality)
              ctier stier None fx) (\<lambda>(charge, items).
     rbind (ok_or TokenChargeOverflow (checked_add_i128 tot charge)) (\<lambda>tot.
       add_modality_loop D rs uclasses ctier stier fx ms tot items))"

definition modality_list :: "modality_breakdown \<Rightarrow> (string \<times> nat option) list" where
  "modality_list b =
     [(''text'', text_tokens b), (''image'', image_tokens b), (''audio'', audio_tokens b),
      (''video'', video_tokens b), (''document'', document_tokens b)]"

definition add_modality_token_lines ::
    "'d decimal_ops \<Rightarrow> token_line list \<Rightarrow> billing_rate list \<Rightarrow> string list \<Rightarrow> modality_breakdown option
       \<Rightarrow> nat \<Rightarrow> string option \<Rightarrow> string option \<Rightarrow> 'd option \<Rightarrow> token_result" where
  "add_modality_token_lines D items rs uclasses breakdown fallback_quantity ctier stier fx =
     (if \<not> has_matching_modality_rates rs uclasses ctier stier None
      then add_token_line_for_usage_classes D items rs uclasses fallback_quantity None ctier stier None fx
      else if fallback_quantity = 0 \<and> breakdown = None then Inr (0, items)
      else
        (case breakdown of
           None \<Rightarrow>
             add_token_line_for_usage_classes D items rs uclasses fallback_quantity None ctier stier None fx
         | Some b \<Rightarrow>
             rbind (validate_modality_sum (hd uclasses) b fallback_quantity) (\<lambda>_.
               add_modality_loop D rs uclasses ctier stier fx (modality_list b) 0 items)))"

definition cache_read_classes :: "string list" where
  "cache_read_classes = [''cache_read'', ''input_cached'']"

definition add_cache_read_lines ::
    "'d decimal_ops \<Rightarrow> token_line list \<Rightarrow> billing_rate list \<Rightarrow> modality_breakdown option
       \<Rightarrow> nat \<Rightarrow> string option \<Rightarrow> string option \<Rightarrow> 'd option \<Rightarrow> token_result" where
  "add_cache_read_lines D items rs breakdown quantity ctier stier fx =
     (if breakdown \<noteq> None \<and> has_matching_modality_rates rs cache_read_classes ctier stier None
      then add_modality_token_lines D items rs cache_read_classes breakdown quantity ctier stier fx
      else if find_rate_for_usage_classes rs ''token'' cache_read_classes None ctier stier None \<noteq> None
      then add_token_line_for_usage_classes D items rs cache_read_classes quantity None ctier stier None fx
      else add_token_line D items rs ''input_uncached'' quantity None ctier stier None fx)"

definition add_cache_write_line ::
    "'d decimal_ops \<Rightarrow> token_line list \<Rightarrow> billing_rate list \<Rightarrow> string \<Rightarrow> nat \<Rightarrow> string option
       \<Rightarrow> string option \<Rightarrow> string \<Rightarrow> 'd option \<Rightarrow> token_result" where
  "add_cache_write_line D items rs uclass quantity ctier stier ttl fx =
     (if find_rate rs ''token'' uclass None ctier stier (Some ttl) \<noteq> None
      then add_token_line D items rs uclass quantity None ctier stier (Some ttl) fx
      else add_token_line D items rs ''input_uncached'' quantity None ctier stier None fx)"

section \<open>Meter lines\<close>

record meter_line =
  ml_rate_id :: string
  ml_usage_class :: string
  ml_unit :: string
  ml_unit_price_nano :: string
  ml_unit_price_currency :: string
  ml_quantity :: nat
  ml_charge_nano :: string
  ml_authoritative :: bool
  ml_context_tier :: "string option"
  ml_service_tier :: "string option"

definition server_tool_key :: "string \<Rightarrow> string \<Rightarrow> string" where
  "server_tool_key uclass unit =
     (if uclass = ''web_search'' then ''web_search_requests''
      else if uclass = ''code_execution_duration'' \<and> unit = ''billed_minute''
      then ''code_execution_billed_minutes''
      else if uclass = ''code_execution'' then ''code_execution_requests''
      else uclass)"

definition authoritative_meter_quantity :: "usage \<Rightarrow> string \<Rightarrow> string \<Rightarrow> nat option" where
  "authoritative_meter_quantity u uclass unit =
     (let extra = usage_extra_body u in
      or_else (find_map (map_get_u64 extra)
                [uclass, uclass @ ''_requests'', uclass @ ''_calls'', uclass @ ''_billed_minutes'',
                 uclass @ ''_minutes''])
        (or_else (Option.bind (Option.bind (fmlookup extra ''server_tool_use'') as_object)
                    (\<lambda>obj. map_get_u64 obj (server_tool_key uclass unit)))
          (Option.bind (Option.bind (fmlookup extra ''server_side_tool_usage'') as_object)
             (\<lambda>obj. find_map (map_get_u64 obj) [uclass, uclass @ ''_calls'', uclass @ ''_requests'']))))"

definition provider_item_counts :: "string \<Rightarrow> string \<Rightarrow> bool" where
  "provider_item_counts uclass item_type =
     (if uclass = ''web_search'' then sublist ''web_search'' item_type
      else if uclass = ''file_search_tool_call'' then sublist ''file_search'' item_type
      else if uclass = ''x_search'' then sublist ''x_search'' item_type
      else if uclass \<in> {''code_execution'', ''code_execution_duration'', ''code_interpreter_duration''}
      then sublist ''code'' item_type
      else False)"

definition decoded_provider_item_count :: "node list option \<Rightarrow> string \<Rightarrow> nat" where
  "decoded_provider_item_count out uclass =
     (case out of
        None \<Rightarrow> 0
      | Some nodes \<Rightarrow>
          length (filter (\<lambda>n. case n of
                                ProviderItem _ _ _ item_type _ _ \<Rightarrow> provider_item_counts uclass item_type
                              | _ \<Rightarrow> False) nodes))"

definition requires_authoritative_usage :: "billing_rate \<Rightarrow> bool" where
  "requires_authoritative_usage r =
     unwrap_or (Option.bind (json_get (match_json r) ''requires_authoritative_usage'') as_bool) False"

definition meter_quantity :: "billing_rate \<Rightarrow> usage \<Rightarrow> node list option \<Rightarrow> nat" where
  "meter_quantity r u out =
     (case authoritative_meter_quantity u (usage_class r) (rate_unit r) of
        Some q \<Rightarrow> q
      | None \<Rightarrow> if rate_unit r = ''call'' then decoded_provider_item_count out (usage_class r) else 0)"

text \<open>The body of the loop for one selected rate: no line, or a charge and a line.\<close>

definition meter_line_for_rate ::
    "'d decimal_ops \<Rightarrow> billing_rate \<Rightarrow> usage \<Rightarrow> node list option \<Rightarrow> string list \<Rightarrow> string option
       \<Rightarrow> string option \<Rightarrow> 'd option \<Rightarrow> (billing_error, (int \<times> meter_line) option) result" where
  "meter_line_for_rate D r u out requested ctier stier fx =
     (let authoritative = authoritative_meter_quantity u (usage_class r) (rate_unit r);
          quantity = meter_quantity r u out
      in if usage_class r \<in> set requested \<and> requires_authoritative_usage r \<and> authoritative = None
         then Inl (AuthoritativeUsageRequired (usage_class r))
         else if quantity = 0 then Inr None
         else if requires_authoritative_usage r \<and> authoritative = None
         then Inl (AuthoritativeUsageRequired (usage_class r))
         else
           (let quantity =
                  (case Option.bind (json_get (match_json r) ''minimum_units'') parse_u64_value of
                     Some m \<Rightarrow> max quantity m | None \<Rightarrow> quantity)
            in rbind (unit_price_nano r) (\<lambda>unit_price.
               rbind (ok_or MeterChargeOverflow (checked_mul_i128 (int quantity) unit_price)) (\<lambda>charge.
               rbind (charge_in_usd D charge r fx) (\<lambda>charge.
                 Inr (Some (charge,
                   \<lparr>ml_rate_id = rate_id r, ml_usage_class = usage_class r, ml_unit = rate_unit r,
                    ml_unit_price_nano = show_int unit_price,
                    ml_unit_price_currency = unit_price_currency r, ml_quantity = quantity,
                    ml_charge_nano = show_int charge, ml_authoritative = (authoritative \<noteq> None),
                    ml_context_tier = ctier, ml_service_tier = stier\<rparr>)))))))"

fun add_meter_loop ::
    "'d decimal_ops \<Rightarrow> usage \<Rightarrow> node list option \<Rightarrow> string list \<Rightarrow> string option \<Rightarrow> string option
       \<Rightarrow> 'd option \<Rightarrow> billing_rate list \<Rightarrow> string list \<Rightarrow> int \<Rightarrow> meter_line list
       \<Rightarrow> (billing_error, int \<times> meter_line list) result" where
  "add_meter_loop D u out requested ctier stier fx [] selected tot items = Inr (tot, items)"
| "add_meter_loop D u out requested ctier stier fx (r # rs) selected tot items =
     (if usage_class r \<in> set selected
      then add_meter_loop D u out requested ctier stier fx rs selected tot items
      else
        rbind (meter_line_for_rate D r u out requested ctier stier fx) (\<lambda>line.
          case line of
            None \<Rightarrow> add_meter_loop D u out requested ctier stier fx rs (usage_class r # selected) tot items
          | Some (charge, l) \<Rightarrow>
              rbind (ok_or MeterChargeOverflow (checked_add_i128 tot charge)) (\<lambda>tot.
                add_meter_loop D u out requested ctier stier fx rs (usage_class r # selected) tot
                  (items @ [l]))))"

definition add_meter_lines ::
    "'d decimal_ops \<Rightarrow> meter_line list \<Rightarrow> billing_rate list \<Rightarrow> usage \<Rightarrow> node list option \<Rightarrow> string list
       \<Rightarrow> string option \<Rightarrow> string option \<Rightarrow> 'd option \<Rightarrow> (billing_error, int \<times> meter_line list) result" where
  "add_meter_lines D items rs u out requested ctier stier fx =
     add_meter_loop D u out requested ctier stier fx
       (filter (\<lambda>r. rate_kind r = ''meter'' \<and> rate_matches_dimension r None ctier stier None) rs)
       [] 0 items"

section \<open>The charge of a request\<close>

definition ensure_settled_service_tier_rates ::
    "billing_rate list \<Rightarrow> string option \<Rightarrow> string option \<Rightarrow> string list \<Rightarrow> (billing_error, unit) result" where
  "ensure_settled_service_tier_rates rs ctier stier requested =
     (case option_filter (\<lambda>tier. tier \<noteq> ''default'') stier of
        None \<Rightarrow> Inr ()
      | Some tier \<Rightarrow>
          rbind (for_each (\<lambda>uclass.
              if find_rate rs ''token'' uclass None ctier (Some tier) None = None
              then Inl (MissingSettledTokenRate uclass ctier tier) else Inr ())
            [''input_uncached'', ''output'']) (\<lambda>_.
          for_each (\<lambda>uclass.
              if list_ex (\<lambda>r. rate_kind r = ''meter'' \<and> usage_class r = uclass \<and> rate_modality r = None
                            \<and> rate_cache_ttl r = None
                            \<and> rate_matches_dimension r None ctier (Some tier) None) rs
              then Inr () else Inl (MissingSettledMeterRate uclass ctier tier)) requested))"

definition scale_charge_with_multiplier :: "int \<Rightarrow> multiplier \<Rightarrow> int option" where
  "scale_charge_with_multiplier base_nano provider_multiplier =
     checked_scale_i128 provider_multiplier base_nano"

record matrix_charge_components =
  token_line_items :: "token_line list"
  meter_line_items :: "meter_line list"
  comp_context_tier :: "string option"
  comp_service_tier :: "string option"
  base_charge :: int
  final_charge :: int

text \<open>The quantities that the token lines bill.\<close>

definition uncached_tokens :: "usage \<Rightarrow> nat" where
  "uncached_tokens u =
     saturating_sub_u64 (saturating_sub_u64 (input_tokens u)
       (unwrap_or (map_option cache_read_tokens (usage_input_details u)) 0))
       (unwrap_or (map_option cache_creation_tokens (usage_input_details u)) 0)"

definition can_derive_uncached_modality :: "usage \<Rightarrow> bool" where
  "can_derive_uncached_modality u =
     (case usage_input_details u of
        None \<Rightarrow> False
      | Some d \<Rightarrow>
          in_modality_breakdown d \<noteq> None \<and> cache_creation_tokens d = 0
          \<and> (cache_read_tokens d = 0 \<or> cache_read_modality_breakdown d \<noteq> None))"

definition has_cache_ttl_rate :: "billing_rate list \<Rightarrow> string \<Rightarrow> string option \<Rightarrow> string option \<Rightarrow> string \<Rightarrow> bool" where
  "has_cache_ttl_rate rs uclass ctier stier ttl \<longleftrightarrow>
     find_rate rs ''token'' uclass None ctier stier (Some ttl) \<noteq> None
     \<or> find_rate rs ''token'' uclass None ctier stier None \<noteq> None"

text \<open>Adding the charge of one group of lines to the running total.\<close>

definition add_charge ::
    "(token_line list \<Rightarrow> token_result) \<Rightarrow> int \<times> token_line list \<Rightarrow> token_result" where
  "add_charge f acc =
     rbind (f (snd acc)) (\<lambda>(charge, items).
     rbind (ok_or TokenChargeOverflow (checked_add_i128 (fst acc) charge)) (\<lambda>tot. Inr (tot, items)))"

definition add_cache_creation_lines ::
    "'d decimal_ops \<Rightarrow> billing_rate list \<Rightarrow> nat \<Rightarrow> nat \<Rightarrow> nat \<Rightarrow> string option \<Rightarrow> string option \<Rightarrow> 'd option
       \<Rightarrow> int \<times> token_line list \<Rightarrow> token_result" where
  "add_cache_creation_lines D rs creation c5m c1h ctier stier fx acc =
     (if 0 < creation \<and> c5m = 0 \<and> c1h = 0
         \<and> has_cache_ttl_rate rs ''cache_write_5m'' ctier stier ''5m''
         \<and> has_cache_ttl_rate rs ''cache_write_1h'' ctier stier ''1h''
      then Inl CacheSplitRequired
      else if c5m = 0 \<and> c1h = 0
      then add_charge (\<lambda>items. add_token_line D items rs ''input_uncached'' creation None ctier stier None fx) acc
      else
        rbind (add_charge (\<lambda>items. add_cache_write_line D items rs ''cache_write_5m'' c5m ctier stier ''5m'' fx) acc)
          (add_charge (\<lambda>items. add_cache_write_line D items rs ''cache_write_1h'' c1h ctier stier ''1h'' fx)))"

definition add_all_token_lines ::
    "'d decimal_ops \<Rightarrow> billing_rate list \<Rightarrow> usage \<Rightarrow> modality_breakdown option \<Rightarrow> nat \<Rightarrow> nat
       \<Rightarrow> string option \<Rightarrow> string option \<Rightarrow> 'd option \<Rightarrow> token_result" where
  "add_all_token_lines D rs u uncached_breakdown non_reasoning billable_reasoning ctier stier fx =
     (let ind = usage_input_details u;
          cached = unwrap_or (map_option cache_read_tokens ind) 0;
          creation = unwrap_or (map_option cache_creation_tokens ind) 0;
          c5m = unwrap_or (map_option cache_creation_5m_tokens ind) 0;
          c1h = unwrap_or (map_option cache_creation_1h_tokens ind) 0
      in
      rbind (add_charge (\<lambda>items. add_modality_token_lines D items rs [''input_uncached'']
               uncached_breakdown (uncached_tokens u) ctier stier fx) (0, [])) (\<lambda>acc.
      rbind (add_charge (\<lambda>items. add_cache_read_lines D items rs
               (Option.bind ind cache_read_modality_breakdown) cached ctier stier fx) acc) (\<lambda>acc.
      rbind (add_cache_creation_lines D rs creation c5m c1h ctier stier fx acc) (\<lambda>acc.
      rbind (add_charge (\<lambda>items. add_modality_token_lines D items rs [''output'']
               (Option.bind (usage_output_details u) out_modality_breakdown) non_reasoning ctier stier fx)
               acc) (\<lambda>acc.
      add_charge (\<lambda>items. add_token_line D items rs ''reasoning_output'' billable_reasoning None
               ctier stier None fx) acc)))))"

definition settled_service_tier :: "string option \<Rightarrow> string option" where
  "settled_service_tier response_service_tier =
     option_filter (\<lambda>tier. tier \<noteq> []) (map_option trim response_service_tier)"

definition has_reasoning_rate :: "billing_rate list \<Rightarrow> usage \<Rightarrow> string option \<Rightarrow> string option \<Rightarrow> bool" where
  "has_reasoning_rate rs u ctier stier \<longleftrightarrow>
     unwrap_or (map_option out_reasoning_tokens (usage_output_details u)) 0 = 0
     \<or> find_rate rs ''token'' ''reasoning_output'' None ctier stier None \<noteq> None"

definition non_reasoning_output_tokens ::
    "billing_rate list \<Rightarrow> usage \<Rightarrow> string option \<Rightarrow> string option \<Rightarrow> nat" where
  "non_reasoning_output_tokens rs u ctier stier =
     (if has_reasoning_rate rs u ctier stier
      then saturating_sub_u64 (output_tokens u)
             (unwrap_or (map_option out_reasoning_tokens (usage_output_details u)) 0)
      else output_tokens u)"

definition billable_reasoning_tokens ::
    "billing_rate list \<Rightarrow> usage \<Rightarrow> string option \<Rightarrow> string option \<Rightarrow> nat" where
  "billable_reasoning_tokens rs u ctier stier =
     (if has_reasoning_rate rs u ctier stier
      then unwrap_or (map_option out_reasoning_tokens (usage_output_details u)) 0 else 0)"

definition calculate_rate_matrix_charge_components ::
    "'d decimal_ops \<Rightarrow> usage \<Rightarrow> node list option \<Rightarrow> string option \<Rightarrow> 'd billing_rate_resolution
       \<Rightarrow> multiplier \<Rightarrow> string list \<Rightarrow> (billing_error, matrix_charge_components) result" where
  "calculate_rate_matrix_charge_components D u out response_service_tier resolution
       provider_multiplier requested =
     (let rs = rates resolution; fx = cny_per_usd resolution;
          stier = settled_service_tier response_service_tier
      in
      rbind (determine_context_tier u rs) (\<lambda>ctier.
      rbind (ensure_settled_service_tier_rates rs ctier stier requested) (\<lambda>_.
      rbind (if can_derive_uncached_modality u
                \<and> has_matching_modality_rates rs [''input_uncached''] ctier stier None
             then input_uncached_modality_breakdown (usage_input_details u) (uncached_tokens u)
             else Inr None) (\<lambda>uncached_breakdown.
      rbind (add_all_token_lines D rs u uncached_breakdown (non_reasoning_output_tokens rs u ctier stier)
               (billable_reasoning_tokens rs u ctier stier) ctier stier fx)
        (\<lambda>(token_total, token_items).
      rbind (add_meter_lines D [] rs u out requested ctier stier fx) (\<lambda>(meter_total, meter_items).
      rbind (ok_or ChargeOverflow (checked_add_i128 token_total meter_total)) (\<lambda>base.
      rbind (ok_or ChargeOverflow (scale_charge_with_multiplier base provider_multiplier)) (\<lambda>final.
        Inr \<lparr>token_line_items = token_items, meter_line_items = meter_items,
             comp_context_tier = ctier, comp_service_tier = stier,
             base_charge = base, final_charge = final\<rparr>))))))))"

end
