(* ===== verification/Billing_Correct.thy ===== *)
theory Billing_Correct
  imports Billing_Charge
begin

text \<open>
  What the settlement of \<open>Billing_Charge\<close> guarantees. A producer of token lines
  \<open>bills\<close> a quantity when, whenever it succeeds, it only appends lines, the printed
  charges of those lines add up to the charge it returns, their quantities add up to the
  quantity, and each line is the exact price of its quantity under a rate of the matrix. The
  predicate is shown for each of the five producers and composed over the whole settlement.
\<close>

section \<open>Lines and producers\<close>

text \<open>What the decimal library promises: a conversion to \<open>i128\<close> is in range.\<close>

definition decimal_laws :: "'d decimal_ops \<Rightarrow> bool" where
  "decimal_laws D \<longleftrightarrow> (\<forall>v z. decimal_to_i128 D v = Some z \<longrightarrow> in_i128 z)"

definition line_charge :: "token_line \<Rightarrow> int" where
  "line_charge l = unwrap_or (parse_i128 (tl_charge_nano l)) 0"

definition meter_charge :: "meter_line \<Rightarrow> int" where
  "meter_charge l = unwrap_or (parse_i128 (ml_charge_nano l)) 0"

text \<open>A line that prices a positive quantity with a token rate of one of the classes.\<close>

definition priced_line ::
    "'d decimal_ops \<Rightarrow> billing_rate list \<Rightarrow> 'd option \<Rightarrow> string list \<Rightarrow> token_line \<Rightarrow> bool" where
  "priced_line D rs fx uclasses l \<longleftrightarrow>
     0 < tl_quantity l
     \<and> list_ex (\<lambda>r. rate_kind r = ''token'' \<and> usage_class r \<in> set uclasses
          \<and> tl_rate_id l = rate_id r \<and> tl_usage_class l = usage_class r
          \<and> tl_unit_price_currency l = unit_price_currency r
          \<and> rbind (unit_price_nano r) (\<lambda>p.
              rbind (ok_or ChargeOverflow (checked_mul_i128 (int (tl_quantity l)) p)) (\<lambda>a.
              rbind (charge_in_usd D a r fx) (\<lambda>c. Inr (show_int p, show_int c)))) = Inr (tl_unit_price_nano l, tl_charge_nano l)) rs"

definition bills ::
    "'d decimal_ops \<Rightarrow> billing_rate list \<Rightarrow> 'd option \<Rightarrow> string list \<Rightarrow> nat
       \<Rightarrow> (token_line list \<Rightarrow> token_result) \<Rightarrow> bool" where
  "bills D rs fx uclasses q f \<longleftrightarrow>
     (\<forall>items charge items'. f items = Inr (charge, items') \<longrightarrow>
        (\<exists>ls. items' = items @ ls \<and> in_i128 charge \<and> sum_list (map line_charge ls) = charge
           \<and> sum_list (map tl_quantity ls) = q \<and> list_all (priced_line D rs fx uclasses) ls))"

lemma billsI:
  assumes "\<And>items charge items'. f items = Inr (charge, items') \<Longrightarrow>
        \<exists>ls. items' = items @ ls \<and> in_i128 charge \<and> sum_list (map line_charge ls) = charge
           \<and> sum_list (map tl_quantity ls) = q \<and> list_all (priced_line D rs fx uclasses) ls"
  shows "bills D rs fx uclasses q f"
  using assms by (auto simp: bills_def)

lemma billsE:
  assumes "bills D rs fx uclasses q f" and "f items = Inr (charge, items')"
  obtains ls where "items' = items @ ls" and "in_i128 charge" and "sum_list (map line_charge ls) = charge"
    and "sum_list (map tl_quantity ls) = q" and "list_all (priced_line D rs fx uclasses) ls"
  using assms unfolding bills_def by blast

lemma priced_line_mono:
  "priced_line D rs fx uclasses l \<Longrightarrow> set uclasses \<subseteq> set uclasses' \<Longrightarrow> priced_line D rs fx uclasses' l"
  by (auto simp: priced_line_def list_ex_iff)

lemma bills_mono:
  assumes "bills D rs fx uclasses q f" and "set uclasses \<subseteq> set uclasses'"
  shows "bills D rs fx uclasses' q f"
proof (rule billsI)
  fix items charge items' assume "f items = Inr (charge, items')"
  with assms(1) show "\<exists>ls. items' = items @ ls \<and> in_i128 charge \<and> sum_list (map line_charge ls) = charge
      \<and> sum_list (map tl_quantity ls) = q \<and> list_all (priced_line D rs fx uclasses') ls"
    by (rule billsE) (auto simp: list_all_iff intro: priced_line_mono [OF _ assms(2)])
qed

lemma bills_zero: "bills D rs fx uclasses 0 (\<lambda>items. Inr (0, items))"
  by (simp add: bills_def)

lemma bills_if:
  "bills D rs fx uclasses q f \<Longrightarrow> bills D rs fx uclasses q g
     \<Longrightarrow> bills D rs fx uclasses q (\<lambda>items. if c then f items else g items)"
  by (cases c) simp_all

section \<open>The producers\<close>

lemma find_rate_for_usage_classes_Some:
  "find_rate_for_usage_classes rs kind uclasses modality ctier stier ttl = Some r
     \<Longrightarrow> r \<in> set rs \<and> rate_kind r = kind \<and> usage_class r \<in> set uclasses"
  by (auto simp: find_rate_for_usage_classes_def find_rate_def find_Some_iff dest!: find_map_Some)

lemma charge_in_usd_range:
  "decimal_laws D \<Longrightarrow> in_i128 c \<Longrightarrow> charge_in_usd D c r fx = Inr c' \<Longrightarrow> in_i128 c'"
  by (auto simp: charge_in_usd_def nano_charge_to_usd_def decimal_laws_def result_simps split: if_splits)

lemma bills_token_line:
  assumes "decimal_laws D"
  shows "bills D rs fx uclasses q
           (\<lambda>items. add_token_line_for_usage_classes D items rs uclasses q modality ctier stier ttl fx)"
proof (cases "q = 0")
  case True
  then show ?thesis by (simp add: add_token_line_for_usage_classes_def bills_zero)
next
  case False
  show ?thesis
  proof (rule billsI)
    fix items charge items'
    assume "add_token_line_for_usage_classes D items rs uclasses q modality ctier stier ttl fx
      = Inr (charge, items')"
    with False obtain r p where
      r: "find_rate_for_usage_classes rs ''token'' uclasses modality ctier stier ttl = Some r"
      and p: "unit_price_nano r = Inr p" and range: "in_i128 (int q * p)"
      and c: "charge_in_usd D (int q * p) r fx = Inr charge"
      and items: "items' = items @
        [\<lparr>tl_rate_id = rate_id r, tl_usage_class = usage_class r, tl_unit = rate_unit r,
          tl_unit_price_nano = show_int p, tl_unit_price_currency = unit_price_currency r,
          tl_quantity = q, tl_charge_nano = show_int charge, tl_modality = modality,
          tl_context_tier = ctier, tl_service_tier = stier, tl_cache_ttl = ttl\<rparr>]"
      by (auto simp: add_token_line_for_usage_classes_def result_simps)
    have "in_i128 charge" using charge_in_usd_range [OF assms range c] .
    moreover note find_rate_for_usage_classes_Some [OF r]
    ultimately show "\<exists>ls. items' = items @ ls \<and> in_i128 charge
        \<and> sum_list (map line_charge ls) = charge \<and> sum_list (map tl_quantity ls) = q
        \<and> list_all (priced_line D rs fx uclasses) ls"
      using False p c items range
      by (auto simp: line_charge_def parse_i128_show_int priced_line_def list_ex_iff result_simps
          intro!: bexI [of _ r])
  qed
qed

lemma bills_add_token_line:
  "decimal_laws D \<Longrightarrow>
     bills D rs fx [uclass] q (\<lambda>items. add_token_line D items rs uclass q modality ctier stier ttl fx)"
  by (simp add: add_token_line_def bills_token_line)

text \<open>The running total: two producers in a row.\<close>

lemma add_charge_lines:
  assumes "bills D rs fx uclasses q f" and "add_charge f (tot, items) = Inr (tot', items')"
  obtains ls where "items' = items @ ls" and "in_i128 tot'"
    and "tot' = tot + sum_list (map line_charge ls)" and "sum_list (map tl_quantity ls) = q"
    and "list_all (priced_line D rs fx uclasses) ls"
proof -
  from assms(2) obtain charge where f: "f items = Inr (charge, items')"
    and t: "tot' = tot + charge" "in_i128 tot'"
    by (auto simp: add_charge_def result_simps)
  from assms(1) f obtain ls where "items' = items @ ls" and "sum_list (map line_charge ls) = charge"
    and "sum_list (map tl_quantity ls) = q" and "list_all (priced_line D rs fx uclasses) ls"
    by (rule billsE)
  with t show thesis by (intro that [of ls]) simp_all
qed

lemma add_modality_loop_lines:
  assumes "decimal_laws D"
    and "add_modality_loop D rs uclasses ctier stier fx ms tot items = Inr (tot', items')"
    and "in_i128 tot"
  shows "\<exists>ls. items' = items @ ls \<and> in_i128 tot' \<and> tot' = tot + sum_list (map line_charge ls)
      \<and> sum_list (map tl_quantity ls) = sum_list (map (\<lambda>(m, q). unwrap_or q 0) ms)
      \<and> list_all (priced_line D rs fx uclasses) ls"
  using assms(2,3)
proof (induction ms arbitrary: tot items)
  case Nil
  then show ?case by simp
next
  case (Cons m ms)
  obtain modality q where m: "m = (modality, q)" by (cases m)
  with Cons.prems obtain charge items1 where
    f: "add_token_line_for_usage_classes D items rs uclasses (unwrap_or q 0) (Some modality) ctier stier
          None fx = Inr (charge, items1)"
    and r: "in_i128 (tot + charge)"
    and rest: "add_modality_loop D rs uclasses ctier stier fx ms (tot + charge) items1 = Inr (tot', items')"
    by (auto simp: result_simps)
  obtain ls1 where ls1: "items1 = items @ ls1" "sum_list (map line_charge ls1) = charge"
      "sum_list (map tl_quantity ls1) = unwrap_or q 0" "list_all (priced_line D rs fx uclasses) ls1"
    using billsE [OF bills_token_line [OF assms(1)] f] by metis
  from Cons.IH [OF rest r] obtain ls2 where ls2: "items' = items1 @ ls2" "in_i128 tot'"
    "tot' = tot + charge + sum_list (map line_charge ls2)"
    "sum_list (map tl_quantity ls2) = sum_list (map (\<lambda>(m, q). unwrap_or q 0) ms)"
    "list_all (priced_line D rs fx uclasses) ls2" by auto
  with ls1 m show ?case by (intro exI [of _ "ls1 @ ls2"]) auto
qed

lemma saturating_add_exact: "saturating_add_u64 a b = n \<Longrightarrow> n < u64_max \<Longrightarrow> a + b = n"
  by (auto simp: saturating_add_u64_def min_def split: if_splits)

lemma modality_quantity_sum_exact:
  assumes "modality_quantity_sum b = q" and "q < u64_max"
  shows "sum_list (map (\<lambda>(m, q). unwrap_or q 0) (modality_list b)) = q"
proof -
  let ?t = "unwrap_or (text_tokens b) 0" and ?i = "unwrap_or (image_tokens b) 0"
  let ?a = "unwrap_or (audio_tokens b) 0" and ?v = "unwrap_or (video_tokens b) 0"
  let ?d = "unwrap_or (document_tokens b) 0"
  have d: "saturating_add_u64 (saturating_add_u64 (saturating_add_u64 ?t ?i) ?a) ?v + ?d = q"
    using assms by (auto simp: modality_quantity_sum_def intro: saturating_add_exact)
  then have v: "saturating_add_u64 (saturating_add_u64 ?t ?i) ?a + ?v = q - ?d"
    using assms(2) by (intro saturating_add_exact) auto
  then have a: "saturating_add_u64 ?t ?i + ?a = q - ?d - ?v"
    using assms(2) by (intro saturating_add_exact) auto
  then have "?t + ?i = q - ?d - ?v - ?a"
    using assms(2) by (intro saturating_add_exact) auto
  with a v d show ?thesis by (simp add: modality_list_def)
qed

lemma bills_modality_lines:
  assumes "decimal_laws D" and "q < u64_max"
  shows "bills D rs fx uclasses q
           (\<lambda>items. add_modality_token_lines D items rs uclasses breakdown q ctier stier fx)"
proof -
  let ?plain = "\<lambda>items. add_token_line_for_usage_classes D items rs uclasses q None ctier stier None fx"
  have plain: "bills D rs fx uclasses q ?plain" by (rule bills_token_line [OF assms(1)])
  show ?thesis
  proof (cases "has_matching_modality_rates rs uclasses ctier stier None \<and> breakdown \<noteq> None")
    case False
    with plain show ?thesis
      by (auto simp: add_modality_token_lines_def bills_zero add_token_line_for_usage_classes_def
          cong: if_cong)
  next
    case True
    then obtain b where b: "breakdown = Some b" by auto
    show ?thesis
    proof (rule billsI)
      fix items charge items'
      assume "add_modality_token_lines D items rs uclasses breakdown q ctier stier fx = Inr (charge, items')"
      with True b have sum: "modality_quantity_sum b = q"
        and loop: "add_modality_loop D rs uclasses ctier stier fx (modality_list b) 0 items = Inr (charge, items')"
        by (auto simp: add_modality_token_lines_def validate_modality_sum_def result_simps split: if_splits)
      from add_modality_loop_lines [OF assms(1) loop] modality_quantity_sum_exact [OF sum assms(2)]
      show "\<exists>ls. items' = items @ ls \<and> in_i128 charge \<and> sum_list (map line_charge ls) = charge
          \<and> sum_list (map tl_quantity ls) = q \<and> list_all (priced_line D rs fx uclasses) ls" by auto
    qed
  qed
qed

text \<open>Every class that an input bucket can be billed under.\<close>

definition input_classes :: "string list" where
  "input_classes =
     [''input_uncached'', ''cache_read'', ''input_cached'', ''cache_write_5m'', ''cache_write_1h'']"

definition output_classes :: "string list" where
  "output_classes = [''output'', ''reasoning_output'']"

lemma bills_cache_read_lines:
  assumes "decimal_laws D" and "q < u64_max"
  shows "bills D rs fx input_classes q
           (\<lambda>items. add_cache_read_lines D items rs breakdown q ctier stier fx)"
proof -
  have "set cache_read_classes \<subseteq> set input_classes" and "set [''input_uncached''] \<subseteq> set input_classes"
    by (simp_all add: cache_read_classes_def input_classes_def)
  then show ?thesis
    unfolding add_cache_read_lines_def
    by (intro bills_if bills_mono [OF bills_modality_lines [OF assms]]
        bills_mono [OF bills_token_line [OF assms(1)]] bills_mono [OF bills_add_token_line [OF assms(1)]])
qed

lemma bills_cache_write_line:
  assumes "decimal_laws D" and "uclass \<in> set input_classes"
  shows "bills D rs fx input_classes q
           (\<lambda>items. add_cache_write_line D items rs uclass q ctier stier ttl fx)"
proof -
  have "set [uclass] \<subseteq> set input_classes" and "set [''input_uncached''] \<subseteq> set input_classes"
    using assms(2) by (simp_all add: input_classes_def)
  then show ?thesis
    unfolding add_cache_write_line_def
    by (intro bills_if bills_mono [OF bills_add_token_line [OF assms(1)]])
qed

section \<open>The whole settlement\<close>

text \<open>A run of producers from one total to the next: the appended lines.\<close>

definition appended ::
    "'d decimal_ops \<Rightarrow> billing_rate list \<Rightarrow> 'd option \<Rightarrow> string list \<Rightarrow> nat
       \<Rightarrow> int \<times> token_line list \<Rightarrow> int \<times> token_line list \<Rightarrow> bool" where
  "appended D rs fx uclasses q acc acc' \<longleftrightarrow>
     (\<exists>ls. snd acc' = snd acc @ ls \<and> in_i128 (fst acc')
        \<and> fst acc' = fst acc + sum_list (map line_charge ls)
        \<and> sum_list (map tl_quantity ls) = q \<and> list_all (priced_line D rs fx uclasses) ls)"

lemma appended_add_charge:
  assumes "bills D rs fx uclasses q f" and "add_charge f acc = Inr acc'"
  shows "appended D rs fx uclasses q acc acc'"
proof -
  obtain tot items tot' items' where acc: "acc = (tot, items)" "acc' = (tot', items')"
    by (cases acc; cases acc')
  with assms obtain ls where "items' = items @ ls" "in_i128 tot'"
    "tot' = tot + sum_list (map line_charge ls)" "sum_list (map tl_quantity ls) = q"
    "list_all (priced_line D rs fx uclasses) ls" by (auto elim: add_charge_lines)
  with acc show ?thesis by (auto simp: appended_def)
qed

lemma appended_trans:
  assumes "appended D rs fx uclasses q a b" and "appended D rs fx uclasses q' b c"
  shows "appended D rs fx uclasses (q + q') a c"
proof -
  from assms(1) obtain ls where "snd b = snd a @ ls" "fst b = fst a + sum_list (map line_charge ls)"
    "sum_list (map tl_quantity ls) = q" "list_all (priced_line D rs fx uclasses) ls"
    by (auto simp: appended_def)
  moreover from assms(2) obtain ls' where "snd c = snd b @ ls'" "in_i128 (fst c)"
    "fst c = fst b + sum_list (map line_charge ls')"
    "sum_list (map tl_quantity ls') = q'" "list_all (priced_line D rs fx uclasses) ls'"
    by (auto simp: appended_def)
  ultimately show ?thesis
    unfolding appended_def by (intro exI [of _ "ls @ ls'"]) auto
qed

text \<open>How many tokens of cache creation are billed: the split parts, or the aggregate.\<close>

definition billed_creation :: "nat \<Rightarrow> nat \<Rightarrow> nat \<Rightarrow> nat" where
  "billed_creation creation c5m c1h = (if c5m = 0 \<and> c1h = 0 then creation else c5m + c1h)"

lemma appended_cache_creation:
  assumes "decimal_laws D"
    and "add_cache_creation_lines D rs creation c5m c1h ctier stier fx acc = Inr acc'"
  shows "appended D rs fx input_classes (billed_creation creation c5m c1h) acc acc'"
proof (cases "c5m = 0 \<and> c1h = 0")
  case True
  have "bills D rs fx input_classes creation
      (\<lambda>items. add_token_line D items rs ''input_uncached'' creation None ctier stier None fx)"
    by (rule bills_mono [OF bills_add_token_line [OF assms(1)]]) (simp add: input_classes_def)
  with True assms(2) show ?thesis
    by (auto simp: add_cache_creation_lines_def billed_creation_def split: if_splits
        intro: appended_add_charge)
next
  case False
  with assms(2) obtain acc1 where
    "add_charge (\<lambda>items. add_cache_write_line D items rs ''cache_write_5m'' c5m ctier stier ''5m'' fx) acc
       = Inr acc1"
    "add_charge (\<lambda>items. add_cache_write_line D items rs ''cache_write_1h'' c1h ctier stier ''1h'' fx) acc1
       = Inr acc'"
    by (auto simp: add_cache_creation_lines_def result_simps split: if_splits)
  moreover have "''cache_write_5m'' \<in> set input_classes" "''cache_write_1h'' \<in> set input_classes"
    by (simp_all add: input_classes_def)
  ultimately have "appended D rs fx input_classes (c5m + c1h) acc acc'"
    by (blast intro: appended_trans appended_add_charge bills_cache_write_line [OF assms(1)])
  with False show ?thesis by (auto simp: billed_creation_def)
qed

definition cached_of :: "usage \<Rightarrow> nat" where
  "cached_of u = unwrap_or (map_option cache_read_tokens (usage_input_details u)) 0"

definition creation_of :: "usage \<Rightarrow> nat" where
  "creation_of u = unwrap_or (map_option cache_creation_tokens (usage_input_details u)) 0"

definition c5m_of :: "usage \<Rightarrow> nat" where
  "c5m_of u = unwrap_or (map_option cache_creation_5m_tokens (usage_input_details u)) 0"

definition c1h_of :: "usage \<Rightarrow> nat" where
  "c1h_of u = unwrap_or (map_option cache_creation_1h_tokens (usage_input_details u)) 0"

definition reasoning_of :: "usage \<Rightarrow> nat" where
  "reasoning_of u = unwrap_or (map_option out_reasoning_tokens (usage_output_details u)) 0"

text \<open>Counts below the saturation point of the modality sums.\<close>

definition usage_small :: "usage \<Rightarrow> bool" where
  "usage_small u \<longleftrightarrow> input_tokens u < u64_max \<and> output_tokens u < u64_max \<and> cached_of u < u64_max"

lemma add_all_token_lines_appended:
  assumes "decimal_laws D" and "usage_small u" and "non_reasoning \<le> output_tokens u"
    and "add_all_token_lines D rs u breakdown non_reasoning billable ctier stier fx = Inr acc"
  shows "\<exists>mid. appended D rs fx input_classes
             (uncached_tokens u + cached_of u + billed_creation (creation_of u) (c5m_of u) (c1h_of u))
             (0, []) mid
         \<and> appended D rs fx output_classes (non_reasoning + billable) mid acc"
proof -
  have u: "uncached_tokens u < u64_max" "cached_of u < u64_max" "non_reasoning < u64_max"
    using assms(2,3) by (auto simp: usage_small_def uncached_tokens_def saturating_sub_u64_def)
  from assms(4) obtain a1 a2 a3 a4 where
    "add_charge (\<lambda>items. add_modality_token_lines D items rs [''input_uncached''] breakdown
       (uncached_tokens u) ctier stier fx) (0, []) = Inr a1"
    "add_charge (\<lambda>items. add_cache_read_lines D items rs
       (Option.bind (usage_input_details u) cache_read_modality_breakdown) (cached_of u) ctier stier fx) a1
       = Inr a2"
    "add_cache_creation_lines D rs (creation_of u) (c5m_of u) (c1h_of u) ctier stier fx a2 = Inr a3"
    "add_charge (\<lambda>items. add_modality_token_lines D items rs [''output'']
       (Option.bind (usage_output_details u) out_modality_breakdown) non_reasoning ctier stier fx) a3 = Inr a4"
    "add_charge (\<lambda>items. add_token_line D items rs ''reasoning_output'' billable None ctier stier None fx) a4
       = Inr acc"
    by (auto simp: add_all_token_lines_def Let_def result_simps cached_of_def creation_of_def c5m_of_def
        c1h_of_def)
  moreover have "set [''input_uncached''] \<subseteq> set input_classes" "set [''output''] \<subseteq> set output_classes"
    "set [''reasoning_output''] \<subseteq> set output_classes"
    by (simp_all add: input_classes_def output_classes_def)
  ultimately show ?thesis
    by (intro exI [of _ a3] conjI)
       (blast intro: appended_trans appended_add_charge appended_cache_creation [OF assms(1)]
         bills_mono [OF bills_modality_lines [OF assms(1) u(1)]]
         bills_mono [OF bills_modality_lines [OF assms(1) u(3)]]
         bills_mono [OF bills_add_token_line [OF assms(1)]]
         bills_cache_read_lines [OF assms(1) u(2)])+
qed

text \<open>Meter lines.\<close>

lemma add_meter_loop_sum:
  assumes "decimal_laws D"
    and "add_meter_loop D u out requested ctier stier fx rs selected tot items = Inr (tot', items')"
  shows "\<exists>ls. items' = items @ ls \<and> tot' = tot + sum_list (map meter_charge ls)"
  using assms(2)
proof (induction rs arbitrary: selected tot items)
  case Nil
  then show ?case by simp
next
  case (Cons r rs)
  show ?case
  proof (cases "usage_class r \<in> set selected")
    case True
    with Cons show ?thesis by auto
  next
    case False
    with Cons.prems obtain line where line: "meter_line_for_rate D r u out requested ctier stier fx = Inr line"
      by (auto simp: result_simps)
    show ?thesis
    proof (cases line)
      case None
      with Cons False line show ?thesis by auto
    next
      case (Some cl)
      obtain charge l where cl: "cl = (charge, l)" by (cases cl)
      with Some line have l: "ml_charge_nano l = show_int charge" and c: "in_i128 charge"
        using charge_in_usd_range [OF assms(1)]
        by (auto simp: meter_line_for_rate_def Let_def result_simps split: if_splits option.splits)
      from Cons.prems False line Some cl
      have "add_meter_loop D u out requested ctier stier fx rs (usage_class r # selected) (tot + charge)
          (items @ [l]) = Inr (tot', items')"
        by (auto simp: result_simps)
      from Cons.IH [OF this] obtain ls where "items' = (items @ [l]) @ ls"
        "tot' = tot + charge + sum_list (map meter_charge ls)" by blast
      moreover have "meter_charge l = charge" using l c by (simp add: meter_charge_def parse_i128_show_int)
      ultimately show ?thesis by (intro exI [of _ "l # ls"]) simp
    qed
  qed
qed

lemma billing_components_cases:
  assumes "calculate_rate_matrix_charge_components D u out rst res m requested = Inr c"
  obtains ctier breakdown tot meter_tot where
    "add_all_token_lines D (rates res) u breakdown
       (non_reasoning_output_tokens (rates res) u ctier (settled_service_tier rst))
       (billable_reasoning_tokens (rates res) u ctier (settled_service_tier rst))
       ctier (settled_service_tier rst) (cny_per_usd res) = Inr (tot, token_line_items c)"
    and "add_meter_lines D [] (rates res) u out requested ctier (settled_service_tier rst) (cny_per_usd res)
           = Inr (meter_tot, meter_line_items c)"
    and "base_charge c = tot + meter_tot" and "in_i128 (base_charge c)"
    and "checked_scale_i128 m (base_charge c) = Some (final_charge c)"
    and "determine_context_tier u (rates res) = Inr ctier"
  using assms
  by (auto simp: calculate_rate_matrix_charge_components_def Let_def result_simps
      scale_charge_with_multiplier_def)

lemma output_tokens_split:
  "non_reasoning_output_tokens rs u ctier stier \<le> output_tokens u"
  "reasoning_of u \<le> output_tokens u \<Longrightarrow>
     non_reasoning_output_tokens rs u ctier stier + billable_reasoning_tokens rs u ctier stier = output_tokens u"
  by (simp_all add: non_reasoning_output_tokens_def billable_reasoning_tokens_def saturating_sub_u64_def
      reasoning_of_def)

lemma settlement_lines:
  assumes "decimal_laws D" and "usage_small u"
    and "calculate_rate_matrix_charge_components D u out rst res m requested = Inr c"
  obtains ins outs ctier where "token_line_items c = ins @ outs"
    and "base_charge c = sum_list (map line_charge (token_line_items c))
           + sum_list (map meter_charge (meter_line_items c))"
    and "sum_list (map tl_quantity ins)
           = uncached_tokens u + cached_of u + billed_creation (creation_of u) (c5m_of u) (c1h_of u)"
    and "sum_list (map tl_quantity outs)
           = non_reasoning_output_tokens (rates res) u ctier (settled_service_tier rst)
             + billable_reasoning_tokens (rates res) u ctier (settled_service_tier rst)"
    and "list_all (priced_line D (rates res) (cny_per_usd res) input_classes) ins"
    and "list_all (priced_line D (rates res) (cny_per_usd res) output_classes) outs"
proof -
  obtain ctier breakdown tot meter_tot where
    tok: "add_all_token_lines D (rates res) u breakdown
       (non_reasoning_output_tokens (rates res) u ctier (settled_service_tier rst))
       (billable_reasoning_tokens (rates res) u ctier (settled_service_tier rst))
       ctier (settled_service_tier rst) (cny_per_usd res) = Inr (tot, token_line_items c)"
    and met: "add_meter_lines D [] (rates res) u out requested ctier (settled_service_tier rst)
           (cny_per_usd res) = Inr (meter_tot, meter_line_items c)"
    and base: "base_charge c = tot + meter_tot"
    using assms(3) by (rule billing_components_cases)
  from add_all_token_lines_appended [OF assms(1,2) output_tokens_split(1) tok] obtain mid where
    mid: "appended D (rates res) (cny_per_usd res) input_classes
             (uncached_tokens u + cached_of u + billed_creation (creation_of u) (c5m_of u) (c1h_of u))
             (0, []) mid"
    and out: "appended D (rates res) (cny_per_usd res) output_classes
             (non_reasoning_output_tokens (rates res) u ctier (settled_service_tier rst)
              + billable_reasoning_tokens (rates res) u ctier (settled_service_tier rst))
             mid (tot, token_line_items c)"
    by blast
  from mid obtain ins where "snd mid = ins" "fst mid = sum_list (map line_charge ins)"
    "sum_list (map tl_quantity ins)
       = uncached_tokens u + cached_of u + billed_creation (creation_of u) (c5m_of u) (c1h_of u)"
    "list_all (priced_line D (rates res) (cny_per_usd res) input_classes) ins"
    by (auto simp: appended_def)
  moreover from out obtain outs where "token_line_items c = snd mid @ outs"
    "tot = fst mid + sum_list (map line_charge outs)"
    "sum_list (map tl_quantity outs)
       = non_reasoning_output_tokens (rates res) u ctier (settled_service_tier rst)
         + billable_reasoning_tokens (rates res) u ctier (settled_service_tier rst)"
    "list_all (priced_line D (rates res) (cny_per_usd res) output_classes) outs"
    by (auto simp: appended_def)
  moreover from met have "meter_tot = sum_list (map meter_charge (meter_line_items c))"
    using add_meter_loop_sum [OF assms(1)] by (fastforce simp: add_meter_lines_def)
  ultimately show thesis using base
    by (intro that [of ins outs ctier]) simp_all
qed

text \<open>
  The counts of a usage record agree: cache tokens are part of the input, reasoning is part of the
  output, and a split of the cache creation is complete.
\<close>

definition consistent_usage :: "usage \<Rightarrow> bool" where
  "consistent_usage u \<longleftrightarrow>
     usage_small u \<and> cached_of u + creation_of u \<le> input_tokens u
     \<and> reasoning_of u \<le> output_tokens u
     \<and> ((c5m_of u = 0 \<and> c1h_of u = 0) \<or> c5m_of u + c1h_of u = creation_of u)"

text \<open>
  C2: A settled charge is exactly what its breakdown says: the base charge is the sum of the
  charges printed in the token and meter line items, and the final charge is the base charge times
  the multiplier, truncated towards zero.
\<close>

theorem settlement_charge_exact:
  assumes "decimal_laws D" and "usage_small u" and "well_formed_multiplier m"
    and "calculate_rate_matrix_charge_components D u out rst res m requested = Inr c"
  shows "base_charge c = sum_list (map line_charge (token_line_items c))
           + sum_list (map meter_charge (meter_line_items c))
       \<and> final_charge c = (base_charge c * mantissa m) sdiv 10 ^ scale m"
proof -
  have "in_i128 (base_charge c)" and s: "checked_scale_i128 m (base_charge c) = Some (final_charge c)"
    using assms(4) by (auto elim: billing_components_cases)
  then have "final_charge c = (base_charge c * mantissa m) sdiv 10 ^ scale m"
    using checked_scale_i128_eq [OF assms(3)] by (simp add: result_simps)
  moreover have "base_charge c = sum_list (map line_charge (token_line_items c))
           + sum_list (map meter_charge (meter_line_items c))"
    using assms(1,2,4) by (rule settlement_lines)
  ultimately show ?thesis by simp
qed

text \<open>A matrix with two dollar rates, and whole numbers for the decimal library.\<close>

definition int_decimal :: "int decimal_ops" where
  "int_decimal = \<lparr>is_sign_positive = (\<lambda>v. 0 \<le> v), is_zero = (\<lambda>v. v = 0), from_i128 = (\<lambda>v. v),
     checked_div = (\<lambda>a b. if b = 0 then None else Some (a sdiv b)), round_dp0 = (\<lambda>v. v),
     decimal_to_i128 = to_i128, decimal_one = 1\<rparr>"

definition sample_rate :: "string \<Rightarrow> string \<Rightarrow> string \<Rightarrow> billing_rate" where
  "sample_rate rid uclass price = \<lparr>rate_id = rid, rate_source = ''manual'', rate_pricing_profile = ''p'',
     model_pattern = None, rate_provider_type = None, rate_kind = ''token'', usage_class = uclass,
     rate_unit = ''token'', unit_price_nano_text = price, unit_price_currency = ''USD'',
     rate_context_tier = None, rate_service_tier = None, rate_modality = None, rate_cache_ttl = None,
     match_json = JNull, rate_priority = 0, rate_enabled = True, raw_json = JNull, rate_updated_at = 0\<rparr>"

definition sample_resolution :: "int billing_rate_resolution" where
  "sample_resolution = \<lparr>res_pricing_profile = ''p'', res_pricing_model = ''m'',
     rates = [sample_rate ''a'' ''input_uncached'' ''3'', sample_rate ''b'' ''output'' ''15'',
              sample_rate ''c'' ''cache_read'' ''1''],
     cny_per_usd = None\<rparr>"

definition sample_billed_usage :: usage where
  "sample_billed_usage = \<lparr>input_tokens = 12, output_tokens = 7,
     usage_input_details = Some \<lparr>in_standard_tokens = 0, cache_read_tokens = 4,
       cache_read_modality_breakdown = None, cache_creation_tokens = 2, cache_creation_5m_tokens = 0,
       cache_creation_1h_tokens = 0, tool_prompt_tokens = 0, in_modality_breakdown = None\<rparr>,
     usage_output_details = Some \<lparr>out_standard_tokens = 0, out_reasoning_tokens = 3,
       accepted_prediction_tokens = 0, rejected_prediction_tokens = 0, out_modality_breakdown = None\<rparr>,
     usage_extra_body = fmempty\<rparr>"

lemma int_decimal_laws: "decimal_laws int_decimal"
  by (simp add: decimal_laws_def int_decimal_def result_simps)

lemma sample_settlement:
  obtains c where "calculate_rate_matrix_charge_components int_decimal sample_billed_usage None None
      sample_resolution Multiplier_ONE [] = Inr c" and "base_charge c = 133"
proof -
  have "(case calculate_rate_matrix_charge_components int_decimal sample_billed_usage None None
      sample_resolution Multiplier_ONE [] of Inr c \<Rightarrow> base_charge c = 133 | Inl _ \<Rightarrow> False)"
    by code_simp
  then show thesis using that by (auto split: sum.splits)
qed

lemma sample_usage_consistent: "consistent_usage sample_billed_usage"
  by (simp add: consistent_usage_def usage_small_def cached_of_def creation_of_def c5m_of_def c1h_of_def
      reasoning_of_def sample_billed_usage_def u64_max_def)

theorem settlement_charge_exact_witness:
  "\<exists>c. calculate_rate_matrix_charge_components int_decimal sample_billed_usage None None
         sample_resolution Multiplier_ONE [] = Inr c
     \<and> base_charge c = 133 \<and> sum_list (map line_charge (token_line_items c)) + sum_list (map meter_charge (meter_line_items c)) = 133"
proof -
  obtain c where c: "calculate_rate_matrix_charge_components int_decimal sample_billed_usage None None
      sample_resolution Multiplier_ONE [] = Inr c" "base_charge c = 133" by (rule sample_settlement)
  have "usage_small sample_billed_usage" "well_formed_multiplier Multiplier_ONE"
    using sample_usage_consistent
    by (simp_all add: consistent_usage_def well_formed_multiplier_def Multiplier_ONE_def)
  from settlement_charge_exact [OF int_decimal_laws this c(1)] c show ?thesis by auto
qed

lemma token_lines_split:
  assumes "decimal_laws D" and "consistent_usage u"
    and "calculate_rate_matrix_charge_components D u out rst res m requested = Inr c"
  obtains ins outs where "token_line_items c = ins @ outs"
    and "sum_list (map tl_quantity ins) = input_tokens u"
    and "sum_list (map tl_quantity outs) = output_tokens u"
    and "list_all (priced_line D (rates res) (cny_per_usd res) input_classes) ins"
    and "list_all (priced_line D (rates res) (cny_per_usd res) output_classes) outs"
proof -
  from assms(2) have small: "usage_small u" by (simp add: consistent_usage_def)
  obtain ins outs ctier where l: "token_line_items c = ins @ outs"
    "list_all (priced_line D (rates res) (cny_per_usd res) input_classes) ins"
    "list_all (priced_line D (rates res) (cny_per_usd res) output_classes) outs"
    and i: "sum_list (map tl_quantity ins)
           = uncached_tokens u + cached_of u + billed_creation (creation_of u) (c5m_of u) (c1h_of u)"
    and o: "sum_list (map tl_quantity outs)
           = non_reasoning_output_tokens (rates res) u ctier (settled_service_tier rst)
             + billable_reasoning_tokens (rates res) u ctier (settled_service_tier rst)"
    using assms(1) small assms(3) by (rule settlement_lines)
  have "billed_creation (creation_of u) (c5m_of u) (c1h_of u) = creation_of u"
    using assms(2) by (auto simp: consistent_usage_def billed_creation_def)
  moreover have "uncached_tokens u = input_tokens u - cached_of u - creation_of u"
    by (simp add: uncached_tokens_def saturating_sub_u64_def cached_of_def creation_of_def)
  ultimately have "sum_list (map tl_quantity ins) = input_tokens u"
    using i assms(2) by (simp add: consistent_usage_def)
  moreover have "sum_list (map tl_quantity outs) = output_tokens u"
    using o assms(2) output_tokens_split(2) by (simp add: consistent_usage_def)
  ultimately show thesis using l by (intro that)
qed

text \<open>
  C1: Every token is billed exactly once. When the counts of the usage record agree, the token
  lines split into lines of input classes whose quantities add up to the input tokens and lines of
  output classes whose quantities add up to the output tokens, and each line prices a positive
  quantity under a token rate of the matrix.
\<close>

theorem tokens_billed_once:
  assumes "decimal_laws D" and "consistent_usage u"
    and "calculate_rate_matrix_charge_components D u out rst res m requested = Inr c"
  shows "\<exists>ins outs. token_line_items c = ins @ outs
           \<and> sum_list (map tl_quantity ins) = input_tokens u
           \<and> sum_list (map tl_quantity outs) = output_tokens u
           \<and> list_all (priced_line D (rates res) (cny_per_usd res) input_classes) ins
           \<and> list_all (priced_line D (rates res) (cny_per_usd res) output_classes) outs"
  using token_lines_split [OF assms] by metis

theorem tokens_billed_once_witness:
  "\<exists>c ins outs. calculate_rate_matrix_charge_components int_decimal sample_billed_usage None None
         sample_resolution Multiplier_ONE [] = Inr c
     \<and> token_line_items c = ins @ outs \<and> sum_list (map tl_quantity ins) = 12
     \<and> sum_list (map tl_quantity outs) = 7"
proof -
  obtain c where c: "calculate_rate_matrix_charge_components int_decimal sample_billed_usage None None
      sample_resolution Multiplier_ONE [] = Inr c" by (rule sample_settlement)
  from tokens_billed_once [OF int_decimal_laws sample_usage_consistent c] c show ?thesis
    by (auto simp: sample_billed_usage_def)
qed

end
