(* ===== verification/Billing_Plan.thy ===== *)
theory Billing_Plan
  imports Billing_Correct
begin

text \<open>
  The amount that is reserved before a request is dispatched,
  \<open>plan_maximum_charge_nano\<close> of \<open>src/src/handlers/billing.rs\<close>, and the proof
  that for dollar rates the reservation covers what settlement will charge.
\<close>

section \<open>The reservation\<close>











section \<open>The reservation covers the charge\<close>



















end
