(* ===== verification/Billing_Admission.thy ===== *)
theory Billing_Admission
  imports Billing_Correct
begin













section \<open>Rates that an admitted matrix has\<close>









section \<open>Settlement of an admitted request\<close>







end
