(* ===== verification/Routing_Types.thy ===== *)
theory Routing_Types
  imports Billing_Rates
begin

text \<open>
  The data of the upstream router: providers with their channel, the runtime configuration, the
  health and affinity records of a channel (\<open>src/src/monoize_routing.rs\<close>), one routing attempt
  (\<open>src/src/handlers/mod.rs\<close>), the errors of an upstream call (\<open>src/src/upstream.rs\<close>,
  \<open>src/src/error.rs\<close>) and the limits that the environment can set. A \<open>HashMap\<close> is a finite map,
  an \<open>i64\<close> timestamp an \<open>int\<close>, a status code a \<open>nat\<close>.
\<close>

section \<open>Providers and channels\<close>

datatype monoize_provider_type =
    MptResponses | MptChatCompletion | MptMessages | MptGemini | MptOpenaiImage | MptReplicate

definition MonoizeProviderType_from_str :: "string \<Rightarrow> monoize_provider_type option" where
  "MonoizeProviderType_from_str s =
     (if s = ''responses'' then Some MptResponses
      else if s = ''chat_completion'' then Some MptChatCompletion
      else if s = ''messages'' then Some MptMessages
      else if s = ''gemini'' then Some MptGemini
      else if s = ''openai_image'' then Some MptOpenaiImage
      else if s = ''replicate'' then Some MptReplicate
      else None)"

fun MonoizeProviderType_as_str :: "monoize_provider_type \<Rightarrow> string" where
  "MonoizeProviderType_as_str MptResponses = ''responses''"
| "MonoizeProviderType_as_str MptChatCompletion = ''chat_completion''"
| "MonoizeProviderType_as_str MptMessages = ''messages''"
| "MonoizeProviderType_as_str MptGemini = ''gemini''"
| "MonoizeProviderType_as_str MptOpenaiImage = ''openai_image''"
| "MonoizeProviderType_as_str MptReplicate = ''replicate''"

fun to_config_type :: "monoize_provider_type \<Rightarrow> provider_type" where
  "to_config_type MptResponses = Responses"
| "to_config_type MptChatCompletion = ChatCompletion"
| "to_config_type MptMessages = Messages"
| "to_config_type MptGemini = Gemini"
| "to_config_type MptOpenaiImage = OpenaiImage"
| "to_config_type MptReplicate = Replicate"

datatype affinity_failback_mode = Sticky | PreferHigherPriority

fun AffinityFailbackMode_as_str :: "affinity_failback_mode \<Rightarrow> string" where
  "AffinityFailbackMode_as_str Sticky = ''sticky''"
| "AffinityFailbackMode_as_str PreferHigherPriority = ''prefer_higher_priority''"

definition AffinityFailbackMode_from_str :: "string \<Rightarrow> affinity_failback_mode option" where
  "AffinityFailbackMode_from_str s =
     (if s = ''sticky'' then Some Sticky
      else if s = ''prefer_higher_priority'' then Some PreferHigherPriority
      else None)"

record api_type_override =
  ov_pattern :: string
  ov_api_type :: monoize_provider_type

datatype pricing_profile_mode = Inherit | Override | Unpriced

record monoize_model_entry =
  redirect :: "string option"
  entry_pricing_profile_mode :: pricing_profile_mode
  pricing_profile_override :: "string option"
  multiplier_override :: "multiplier option"

datatype transform_phase = RequestPhase | ResponsePhase

record transform_rule_config =
  tr_transform :: string
  tr_enabled :: bool
  tr_models :: "string list option"
  tr_phase :: transform_phase
  tr_config :: json

text \<open>A channel, without the fields that only the dashboard fills in.\<close>

record monoize_channel =
  ch_id :: string
  ch_name :: string
  ch_provider_type :: monoize_provider_type
  ch_base_url :: string
  ch_api_key :: string
  ch_enabled :: bool
  ch_allow_missing_usage :: bool
  passive_failure_count_threshold_override :: "nat option"
  passive_cooldown_seconds_override :: "nat option"
  passive_window_seconds_override :: "nat option"
  passive_rate_limit_cooldown_seconds_override :: "nat option"
  ch_models :: "(string, monoize_model_entry) fmap"
  active_probe_enabled_override :: "bool option"
  active_probe_interval_seconds_override :: "nat option"
  active_probe_success_threshold_override :: "nat option"
  active_probe_model_override :: "string option"
  affinity_enabled_override :: "bool option"
  affinity_idle_ttl_seconds_override :: "nat option"
  affinity_failback_mode_override :: "affinity_failback_mode option"
  affinity_failback_delay_seconds_override :: "nat option"
  ch_proxy_url :: "string option"
  ch_extra_headers :: "(string, string) fmap option"
  ch_session_affinity_auto :: "bool option"

record monoize_provider =
  pv_id :: string
  pv_name :: string
  pv_channel :: monoize_channel
  pv_pricing_profile :: "string option"
  pv_multiplier :: multiplier
  pv_channel_max_retries :: int
  pv_channel_retry_interval_ms :: int
  pv_circuit_breaker_enabled :: bool
  pv_per_model_circuit_break :: bool
  pv_transforms :: "transform_rule_config list"
  pv_api_type_overrides :: "api_type_override list"
  pv_active_probe_enabled_override :: "bool option"
  pv_active_probe_interval_seconds_override :: "nat option"
  pv_active_probe_success_threshold_override :: "nat option"
  pv_active_probe_model_override :: "string option"
  request_timeout_ms_override :: "nat option"
  pv_extra_fields_whitelist :: "string list option"
  pv_strip_cross_protocol_nested_extra :: "bool option"
  pv_group_id :: string
  pv_enabled :: bool
  pv_priority :: int

definition effective_pricing_profile :: "monoize_provider \<Rightarrow> monoize_model_entry \<Rightarrow> string option" where
  "effective_pricing_profile p e =
     (case entry_pricing_profile_mode e of
        Inherit \<Rightarrow> pv_pricing_profile p
      | Override \<Rightarrow> pricing_profile_override e
      | Unpriced \<Rightarrow> None)"

definition effective_model_multiplier :: "monoize_provider \<Rightarrow> monoize_model_entry \<Rightarrow> multiplier" where
  "effective_model_multiplier p e = unwrap_or (multiplier_override e) (pv_multiplier p)"

text \<open>The order of \<open>Multiplier\<close> is the order of the decimals.\<close>

definition Multiplier_le :: "multiplier \<Rightarrow> multiplier \<Rightarrow> bool" where
  "Multiplier_le a b \<longleftrightarrow> mantissa a * 10 ^ scale b \<le> mantissa b * 10 ^ scale a"

text \<open>The part of the runtime configuration that routing reads.\<close>

record monoize_runtime_config =
  rt_request_timeout_ms :: nat
  rt_passive_failure_count_threshold :: nat
  rt_passive_cooldown_seconds :: nat
  rt_passive_window_seconds :: nat
  rt_passive_rate_limit_cooldown_seconds :: nat
  rt_active_enabled :: bool
  rt_active_interval_seconds :: nat
  rt_active_success_threshold :: nat
  rt_active_probe_model :: "string option"
  rt_reasoning_suffix_map :: "(string \<times> string) list"
  rt_extra_fields_whitelist :: "(string, string list) fmap"
  rt_strip_cross_protocol_nested_extra :: bool
  rt_mask_sensitive_info :: bool
  rt_affinity_enabled :: bool
  rt_affinity_idle_ttl_seconds :: nat
  rt_affinity_failback_mode :: affinity_failback_mode
  rt_affinity_failback_delay_seconds :: nat

section \<open>Channel state\<close>

record channel_health_state =
  healthy :: bool
  last_success_at :: "int option"
  cooldown_until :: "int option"
  probe_success_count :: nat
  last_probe_at :: "int option"
  passive_failure_timestamps :: "int list"

definition ChannelHealthState_new :: channel_health_state where
  "ChannelHealthState_new = \<lparr>healthy = True, last_success_at = None, cooldown_until = None,
     probe_success_count = 0, last_probe_at = None, passive_failure_timestamps = []\<rparr>"

definition ChannelHealthState_status :: "channel_health_state \<Rightarrow> int \<Rightarrow> string" where
  "ChannelHealthState_status h now =
     (if healthy h then ''healthy''
      else (case cooldown_until h of
              Some until \<Rightarrow> if now < until then ''unhealthy'' else ''probing''
            | None \<Rightarrow> ''probing''))"

record channel_affinity_binding =
  ab_provider_id :: string
  ab_channel_id :: string
  bound_at :: int
  last_used_at :: int
  expires_at :: int

section \<open>Limits from the environment\<close>

definition DEFAULT_CHANNEL_AFFINITY_MAX_ENTRIES :: nat where
  "DEFAULT_CHANNEL_AFFINITY_MAX_ENTRIES = 4096"

definition DEFAULT_CHANNEL_AFFINITY_CLEANUP_INTERVAL_SECONDS :: nat where
  "DEFAULT_CHANNEL_AFFINITY_CLEANUP_INTERVAL_SECONDS = 60"

definition DEFAULT_CHANNEL_HEALTH_MAX_ENTRIES :: nat where
  "DEFAULT_CHANNEL_HEALTH_MAX_ENTRIES = 10000"

definition DEFAULT_CHANNEL_PASSIVE_FAILURE_SAMPLE_MAX_ENTRIES :: nat where
  "DEFAULT_CHANNEL_PASSIVE_FAILURE_SAMPLE_MAX_ENTRIES = 1024"

definition DEFAULT_PROVIDER_REORDER_MAX_IDS :: nat where
  "DEFAULT_PROVIDER_REORDER_MAX_IDS = 199"

definition parse_positive_entry_limit :: "string option \<Rightarrow> nat \<Rightarrow> nat" where
  "parse_positive_entry_limit raw dflt =
     unwrap_or (option_filter (\<lambda>v. 0 < v) (Option.bind raw (\<lambda>v. parse_unsigned u64_max (trim v)))) dflt"

definition parse_provider_reorder_limit :: "string option \<Rightarrow> nat" where
  "parse_provider_reorder_limit raw =
     min (parse_positive_entry_limit raw DEFAULT_PROVIDER_REORDER_MAX_IDS) DEFAULT_PROVIDER_REORDER_MAX_IDS"

definition parse_channel_affinity_cleanup_interval :: "string option \<Rightarrow> nat" where
  "parse_channel_affinity_cleanup_interval raw =
     unwrap_or (option_filter (\<lambda>v. 0 < v) (Option.bind raw (\<lambda>v. parse_unsigned u64_max (trim v))))
       DEFAULT_CHANNEL_AFFINITY_CLEANUP_INTERVAL_SECONDS"

text \<open>The process environment, \<open>std::env::var\<close>.\<close>

type_synonym environment = "string \<Rightarrow> string option"

definition channel_affinity_max_entries :: "environment \<Rightarrow> nat" where
  "channel_affinity_max_entries env =
     parse_positive_entry_limit (env ''MONOIZE_CHANNEL_AFFINITY_MAX_ENTRIES'')
       DEFAULT_CHANNEL_AFFINITY_MAX_ENTRIES"

definition channel_health_max_entries :: "environment \<Rightarrow> nat" where
  "channel_health_max_entries env =
     parse_positive_entry_limit (env ''MONOIZE_CHANNEL_HEALTH_MAX_ENTRIES'')
       DEFAULT_CHANNEL_HEALTH_MAX_ENTRIES"

definition channel_passive_failure_sample_max_entries :: "environment \<Rightarrow> nat" where
  "channel_passive_failure_sample_max_entries env =
     parse_positive_entry_limit (env ''MONOIZE_CHANNEL_PASSIVE_FAILURE_SAMPLE_MAX_ENTRIES'')
       DEFAULT_CHANNEL_PASSIVE_FAILURE_SAMPLE_MAX_ENTRIES"

lemma parse_positive_entry_limit_pos: "0 < d \<Longrightarrow> 0 < parse_positive_entry_limit raw d"
  by (auto simp: parse_positive_entry_limit_def option_filter_def split: option.splits)

lemma entry_limits_pos [simp]:
  "0 < channel_affinity_max_entries env" "0 < channel_health_max_entries env"
  "0 < channel_passive_failure_sample_max_entries env"
  by (simp_all add: channel_affinity_max_entries_def channel_health_max_entries_def
      channel_passive_failure_sample_max_entries_def parse_positive_entry_limit_pos
      DEFAULT_CHANNEL_AFFINITY_MAX_ENTRIES_def DEFAULT_CHANNEL_HEALTH_MAX_ENTRIES_def
      DEFAULT_CHANNEL_PASSIVE_FAILURE_SAMPLE_MAX_ENTRIES_def)

section \<open>Errors\<close>

record app_error =
  err_status :: nat
  err_code :: string
  err_message :: string
  err_error_type :: string
  err_param :: "string option"
  err_upstream_status :: "nat option"
  err_upstream_code :: "string option"
  err_upstream_type :: "string option"
  err_upstream_param :: "string option"
  err_internal_message :: "string option"

definition AppError_new :: "nat \<Rightarrow> string \<Rightarrow> string \<Rightarrow> app_error" where
  "AppError_new status code message = \<lparr>err_status = status, err_code = code, err_message = message,
     err_error_type = ''invalid_request_error'', err_param = None, err_upstream_status = None,
     err_upstream_code = None, err_upstream_type = None, err_upstream_param = None,
     err_internal_message = None\<rparr>"

definition with_internal_message :: "string \<Rightarrow> app_error \<Rightarrow> app_error" where
  "with_internal_message msg e = e\<lparr>err_internal_message := Some msg\<rparr>"

definition with_type :: "string \<Rightarrow> app_error \<Rightarrow> app_error" where
  "with_type t e = e\<lparr>err_error_type := t\<rparr>"

definition with_param :: "string \<Rightarrow> app_error \<Rightarrow> app_error" where
  "with_param p e = e\<lparr>err_param := Some p\<rparr>"

definition with_upstream_error ::
    "nat option \<Rightarrow> string option \<Rightarrow> string option \<Rightarrow> string option \<Rightarrow> app_error \<Rightarrow> app_error" where
  "with_upstream_error status code etype param e =
     e\<lparr>err_upstream_status := status, err_upstream_code := code, err_upstream_type := etype,
       err_upstream_param := param\<rparr>"

datatype upstream_error_kind = Network | Http

datatype upstream_error_source = Transport | StructuredBody | UnparsedBody | EmptyBody | Internal

record upstream_call_error =
  uc_kind :: upstream_error_kind
  uc_status :: "nat option"
  uc_code :: "string option"
  uc_error_type :: "string option"
  uc_param :: "string option"
  uc_message :: string
  uc_source :: upstream_error_source

definition UpstreamCallError_new :: "upstream_error_kind \<Rightarrow> nat option \<Rightarrow> string \<Rightarrow> upstream_call_error" where
  "UpstreamCallError_new kind status message = \<lparr>uc_kind = kind, uc_status = status, uc_code = None,
     uc_error_type = None, uc_param = None, uc_message = message,
     uc_source = (case kind of Network \<Rightarrow> Transport | Http \<Rightarrow> Internal)\<rparr>"

section \<open>Attempts\<close>

record urp_routing_request =
  rq_model :: string
  rq_max_multiplier :: "multiplier option"
  rq_server_tool_usage_classes :: "string list"
  affinity_explicit :: "string option"
  affinity_prefix_hash :: string

record 'd monoize_attempt =
  at_provider_id :: string
  at_group_id :: string
  at_provider_name :: string
  at_provider_type :: provider_type
  at_channel_id :: string
  at_channel_name :: string
  at_base_url :: string
  at_api_key :: string
  at_logical_model :: string
  at_upstream_model :: string
  at_pricing_profile :: "string option"
  at_model_multiplier :: multiplier
  at_server_tool_usage_classes :: "string list"
  at_provider_transforms :: "transform_rule_config list"
  at_passive_failure_count_threshold :: nat
  at_passive_cooldown_seconds :: nat
  at_passive_window_seconds :: nat
  at_passive_rate_limit_cooldown_seconds :: nat
  at_channel_max_retries :: int
  at_channel_retry_interval_ms :: nat
  at_circuit_breaker_enabled :: bool
  at_per_model_circuit_break :: bool
  at_request_timeout_ms :: nat
  at_extra_fields_whitelist :: "string list option"
  at_strip_cross_protocol_nested_extra :: bool
  at_billable_pricing_available :: bool
  at_billing_rate_resolution :: "'d billing_rate_resolution option"
  at_affinity_key :: "string option"
  at_affinity_key_hash :: "string option"
  at_affinity_hit :: "bool option"
  at_affinity_target :: "string option"
  at_affinity_enabled :: bool
  at_affinity_idle_ttl_seconds :: nat
  at_affinity_failback_mode :: affinity_failback_mode
  at_affinity_failback_delay_seconds :: nat
  at_routing_config_revision :: nat
  at_proxy_url :: "string option"
  at_extra_headers :: "(string, string) fmap option"
  at_session_affinity_auto :: bool
  at_allow_missing_usage :: bool
  at_client_session_id :: "string option"
  at_derived_session_affinity :: "string option"
  at_session_affinity_value :: "string option"
  at_origin_key :: "string option"
  at_origin_peer_channel_ids :: "string list"

text \<open>
  The shared state that routing reads and writes: the two maps behind their locks, the revision
  counter of the routing configuration and the runtime configuration.
\<close>

record app_state =
  channel_health :: "(string, channel_health_state) fmap"
  channel_affinity :: "(string, channel_affinity_binding) fmap"
  routing_config_revision :: nat
  monoize_runtime :: monoize_runtime_config
  process_env :: environment

end
