(* ===== verification/Bounded_Map.thy ===== *)
theory Bounded_Map
  imports Prelude "HOL-Library.Finite_Map"
begin

text \<open>
  The contract of the maps that the gateway keeps in memory for channels and tenants: a new key
  is refused when the map is full, an existing key can always be written, and nothing is
  evicted to make room. The lemmas follow from the contract alone; the health map and the
  affinity map provide it.
\<close>

definition map_len :: "('k, 'v) fmap \<Rightarrow> nat" where
  "map_len m = fcard (fmdom m)"

lemma map_len_empty [simp]: "map_len fmempty = 0"
  by (simp add: map_len_def)

lemma map_len_fmupd: "map_len (fmupd k v m) = (if k |\<in>| fmdom m then map_len m else Suc (map_len m))"
  by (simp add: map_len_def fcard_finsert_if insert_absorb)

lemma map_len_fmdrop_le: "map_len (fmdrop k m) \<le> map_len m"
  by (auto simp: map_len_def intro: fcard_mono)

lemma map_len_fmfilter_le: "map_len (fmfilter P m) \<le> map_len m"
  by (auto simp: map_len_def intro: fcard_mono)

locale bounded_store =
  fixes put :: "'k \<Rightarrow> 'v \<Rightarrow> ('k, 'v) fmap \<Rightarrow> ('k, 'v) fmap" and limit :: nat
  assumes put_room: "fmlookup m k \<noteq> None \<or> map_len m < limit \<Longrightarrow> put k v m = fmupd k v m"
    and put_full: "fmlookup m k = None \<Longrightarrow> limit \<le> map_len m \<Longrightarrow> put k v m = m"
begin

lemma put_cases:
  obtains "put k v m = m" and "fmlookup m k = None" and "limit \<le> map_len m"
  | "put k v m = fmupd k v m" and "fmlookup m k \<noteq> None \<or> map_len m < limit"
  using put_room [of m k v] put_full [of m k v] by (meson not_le)

lemma put_capacity: "map_len m \<le> limit \<Longrightarrow> map_len (put k v m) \<le> limit"
  by (cases rule: put_cases [of k v m]) (auto simp: map_len_fmupd fmdom_notI)

lemma put_other: "k' \<noteq> k \<Longrightarrow> fmlookup (put k v m) k' = fmlookup m k'"
  by (cases rule: put_cases [of k v m]) auto

lemma put_no_eviction: "fmlookup m k' \<noteq> None \<Longrightarrow> fmlookup (put k v m) k' \<noteq> None"
  by (cases rule: put_cases [of k v m]) auto

lemma put_present: "fmlookup m k \<noteq> None \<Longrightarrow> fmlookup (put k v m) k = Some v"
  using put_room [of m k v] by simp

lemma put_lookup: "fmlookup (put k v m) k = Some v \<or> (fmlookup m k = None \<and> put k v m = m)"
  by (cases rule: put_cases [of k v m]) auto

lemma put_entries:
  assumes "\<forall>k v. fmlookup m k = Some v \<longrightarrow> P v" and "P v"
  shows "\<forall>k' v'. fmlookup (put k v m) k' = Some v' \<longrightarrow> P v'"
  using assms by (cases rule: put_cases [of k v m]) auto

text \<open>Over a sequence of writes the map stays within its limit and keeps every key.\<close>

lemma puts_capacity: "map_len m \<le> limit \<Longrightarrow> map_len (fold (\<lambda>(k, v). put k v) kvs m) \<le> limit"
  by (induction kvs arbitrary: m) (auto simp: put_capacity)

lemma puts_no_eviction:
  "fmlookup m k \<noteq> None \<Longrightarrow> fmlookup (fold (\<lambda>(k, v). put k v) kvs m) k \<noteq> None"
proof (induction kvs arbitrary: m)
  case (Cons kv kvs)
  from Cons.IH [OF put_no_eviction [OF Cons.prems]] show ?case by (cases kv) simp
qed simp

end

end
