(* ===== verification/Routing_Health.thy ===== *)
theory Routing_Health
  imports Routing_Types Bounded_Map
begin

text \<open>
  Channel health: the classification of failures, the passive circuit breaker of
  \<open>src/src/handlers/routing.rs\<close>, the result handling of the active probe in \<open>src/src/app.rs\<close> and
  the resets of \<open>src/src/dashboard_handlers/\<close>. Every write happens under the lock of the health
  map, so each operation is one step on the map; the time is an argument.
\<close>

section \<open>Keys and limits\<close>

definition health_key :: "string \<Rightarrow> string option \<Rightarrow> string" where
  "health_key channel_id model =
     (case model of Some m \<Rightarrow> channel_id @ ''::'' @ m | None \<Rightarrow> channel_id)"

definition effective_passive_failure_threshold_with_limit :: "nat \<Rightarrow> nat \<Rightarrow> nat" where
  "effective_passive_failure_threshold_with_limit resolved limit = min (max resolved 1) (max limit 1)"

definition effective_passive_failure_threshold :: "environment \<Rightarrow> nat \<Rightarrow> nat" where
  "effective_passive_failure_threshold env resolved =
     effective_passive_failure_threshold_with_limit resolved
       (channel_passive_failure_sample_max_entries env)"

type_synonym health_map = "(string, channel_health_state) fmap"

definition prepare_channel_health_insert_with_limit :: "health_map \<Rightarrow> string \<Rightarrow> nat \<Rightarrow> bool" where
  "prepare_channel_health_insert_with_limit health key limit \<longleftrightarrow>
     fmlookup health key \<noteq> None \<or> map_len health < limit"

definition prepare_channel_health_insert :: "environment \<Rightarrow> health_map \<Rightarrow> string \<Rightarrow> bool" where
  "prepare_channel_health_insert env health key =
     prepare_channel_health_insert_with_limit health key (channel_health_max_entries env)"

definition missing_channel_health_is_saturated_with_limit :: "health_map \<Rightarrow> string \<Rightarrow> nat \<Rightarrow> bool" where
  "missing_channel_health_is_saturated_with_limit health key limit \<longleftrightarrow>
     fmlookup health key = None \<and> limit \<le> map_len health"

definition missing_channel_health_is_saturated :: "environment \<Rightarrow> health_map \<Rightarrow> string \<Rightarrow> bool" where
  "missing_channel_health_is_saturated env health key =
     missing_channel_health_is_saturated_with_limit health key (channel_health_max_entries env)"

text \<open>\<open>health.get(key).cloned().unwrap_or_else(ChannelHealthState::new)\<close>.\<close>

definition health_entry :: "health_map \<Rightarrow> string \<Rightarrow> channel_health_state" where
  "health_entry health key = unwrap_or (fmlookup health key) ChannelHealthState_new"

definition attempt_health_model :: "'d monoize_attempt \<Rightarrow> string option" where
  "attempt_health_model a = (if at_per_model_circuit_break a then Some (at_logical_model a) else None)"

definition attempt_health_key :: "'d monoize_attempt \<Rightarrow> string" where
  "attempt_health_key a = health_key (at_channel_id a) (attempt_health_model a)"

section \<open>Classification of failures\<close>

datatype retryable_failure_class = RateLimited | Transient | Persistent

definition status_allows_same_channel_retry :: "nat \<Rightarrow> bool" where
  "status_allows_same_channel_retry status \<longleftrightarrow>
     status = 408 \<or> status = 429 \<or> (500 \<le> status \<and> status < 600)"

definition is_same_channel_retryable_error :: "upstream_call_error \<Rightarrow> bool" where
  "is_same_channel_retryable_error e \<longleftrightarrow>
     uc_kind e = Network
     \<or> (case uc_status e of Some s \<Rightarrow> status_allows_same_channel_retry s | None \<Rightarrow> False)"

text \<open>\<open>StatusCode::from_u16\<close> accepts the codes from 100 to 999.\<close>

definition StatusCode_from_u16 :: "nat \<Rightarrow> nat option" where
  "StatusCode_from_u16 s = (if 100 \<le> s \<and> s < 1000 then Some s else None)"

definition is_same_channel_retryable_app_error :: "app_error \<Rightarrow> bool" where
  "is_same_channel_retryable_app_error e \<longleftrightarrow>
     (case Option.bind (err_upstream_status e) StatusCode_from_u16 of
        Some s \<Rightarrow> status_allows_same_channel_retry s | None \<Rightarrow> False)"

definition classify_retryable_failure :: "upstream_call_error \<Rightarrow> retryable_failure_class" where
  "classify_retryable_failure e = (if uc_status e = Some 429 then RateLimited else Transient)"

definition classify_retryable_app_failure :: "app_error \<Rightarrow> retryable_failure_class" where
  "classify_retryable_app_failure e = (if err_upstream_status e = Some 429 then RateLimited else Transient)"

definition normalized_failure_signal :: "string option \<Rightarrow> string option" where
  "normalized_failure_signal v =
     map_option to_ascii_lowercase (option_filter (\<lambda>v. v \<noteq> []) (map_option trim v))"

definition has_signal :: "string option \<Rightarrow> string option \<Rightarrow> string list \<Rightarrow> bool" where
  "has_signal error_code error_type expected =
     list_ex (\<lambda>signal. case signal of Some s \<Rightarrow> s \<in> set expected | None \<Rightarrow> False)
       [normalized_failure_signal error_code, normalized_failure_signal error_type]"

definition classify_channel_health_failure ::
    "nat option \<Rightarrow> string option \<Rightarrow> string option \<Rightarrow> retryable_failure_class option" where
  "classify_channel_health_failure http_status error_code error_type =
     (if http_status = Some 429 then Some RateLimited
      else if list_ex (\<lambda>s. http_status = Some s) [401, 402, 403, 404, 405, 407, 410, 415, 426, 451]
      then Some Persistent
      else if has_signal error_code error_type
                [''rate_limit_error'', ''rate_limit_exceeded'', ''too_many_requests'']
      then Some RateLimited
      else if has_signal error_code error_type
                [''account_deactivated'', ''account_suspended'', ''authentication_error'',
                 ''billing_hard_limit_reached'', ''credit_balance_too_low'', ''deployment_not_found'',
                 ''insufficient_balance'', ''insufficient_quota'', ''invalid_api_key'', ''model_not_found'',
                 ''model_not_supported'', ''no_available_account'', ''permission_denied'',
                 ''quota_exceeded'', ''unsupported_model'']
      then Some Persistent
      else if http_status = Some 408
              \<or> (case http_status of Some s \<Rightarrow> 500 \<le> s \<and> s < 600 | None \<Rightarrow> False)
              \<or> has_signal error_code error_type
                   [''overloaded_error'', ''server_error'', ''service_unavailable'', ''temporarily_unavailable'']
      then Some Transient
      else None)"

definition midstream_terminal_failure_class ::
    "nat \<Rightarrow> string option \<Rightarrow> string option \<Rightarrow> retryable_failure_class option" where
  "midstream_terminal_failure_class http_status error_code error_type =
     classify_channel_health_failure (Some http_status) error_code error_type"

definition is_upstream_adapter_failure :: "app_error \<Rightarrow> bool" where
  "is_upstream_adapter_failure e \<longleftrightarrow> prefix ''upstream_'' (err_code e)"

definition is_shared_origin_status :: "nat option \<Rightarrow> bool" where
  "is_shared_origin_status status \<longleftrightarrow> status = Some 502 \<or> status = Some 503 \<or> status = Some 524"

section \<open>The passive breaker\<close>

definition prune_passive_failure_timestamps :: "int list \<Rightarrow> int \<Rightarrow> nat \<Rightarrow> int list" where
  "prune_passive_failure_timestamps timestamps now window_seconds =
     (let cutoff = saturating_sub_i64 now (u64_to_i64_or_max window_seconds)
      in dropWhile (\<lambda>front. front < cutoff) timestamps)"

text \<open>The update of one entry by a failure.\<close>

definition fail_entry ::
    "environment \<Rightarrow> 'd monoize_attempt \<Rightarrow> retryable_failure_class \<Rightarrow> int
       \<Rightarrow> channel_health_state \<Rightarrow> channel_health_state" where
  "fail_entry env a failure_class now entry =
     (let pruned = prune_passive_failure_timestamps (passive_failure_timestamps entry) now
                     (at_passive_window_seconds a);
          failure_threshold = effective_passive_failure_threshold env (at_passive_failure_count_threshold a);
          samples = (if length pruned < failure_threshold then pruned @ [now] else pruned);
          entry = entry\<lparr>passive_failure_timestamps := samples\<rparr>
      in if failure_class = Persistent \<or> failure_threshold \<le> length samples
         then entry\<lparr>healthy := False,
                cooldown_until := Some (wrap_i64 (now + u64_as_i64
                  (if failure_class = RateLimited then at_passive_rate_limit_cooldown_seconds a
                   else at_passive_cooldown_seconds a))),
                probe_success_count := 0, last_probe_at := None\<rparr>
         else entry)"

definition apply_retryable_failure_to_channel ::
    "app_state \<Rightarrow> 'd monoize_attempt \<Rightarrow> string \<Rightarrow> retryable_failure_class \<Rightarrow> int \<Rightarrow> app_state" where
  "apply_retryable_failure_to_channel st a channel_id failure_class now =
     (if \<not> at_circuit_breaker_enabled a then st
      else if routing_config_revision st \<noteq> at_routing_config_revision a then st
      else
        (let key = health_key channel_id (attempt_health_model a); health = channel_health st
         in if \<not> prepare_channel_health_insert (process_env st) health key then st
            else st\<lparr>channel_health :=
                   fmupd key (fail_entry (process_env st) a failure_class now (health_entry health key)) health\<rparr>))"

definition mark_channel_retryable_failure ::
    "app_state \<Rightarrow> 'd monoize_attempt \<Rightarrow> retryable_failure_class \<Rightarrow> int \<Rightarrow> app_state" where
  "mark_channel_retryable_failure st a failure_class now =
     apply_retryable_failure_to_channel st a (at_channel_id a) failure_class now"

text \<open>The peers of the failed channel, in order; \<open>clock i\<close> is the time read for the \<open>i\<close>-th.\<close>

fun mark_peers ::
    "'d monoize_attempt \<Rightarrow> retryable_failure_class \<Rightarrow> (nat \<Rightarrow> int) \<Rightarrow> nat \<Rightarrow> string list \<Rightarrow> app_state \<Rightarrow> app_state" where
  "mark_peers a failure_class clock i [] st = st"
| "mark_peers a failure_class clock i (peer # peers) st =
     (if peer = at_channel_id a then mark_peers a failure_class clock i peers st
      else mark_peers a failure_class clock (Suc i) peers
             (apply_retryable_failure_to_channel st a peer failure_class (clock i)))"

definition mark_shared_origin_peer_failures ::
    "app_state \<Rightarrow> 'd monoize_attempt \<Rightarrow> retryable_failure_class \<Rightarrow> (nat \<Rightarrow> int) \<Rightarrow> app_state" where
  "mark_shared_origin_peer_failures st a failure_class clock =
     mark_peers a failure_class clock 0 (at_origin_peer_channel_ids a) st"

definition succeed_entry :: "nat \<Rightarrow> int \<Rightarrow> channel_health_state \<Rightarrow> channel_health_state" where
  "succeed_entry window_seconds now entry =
     entry\<lparr>healthy := True, cooldown_until := None, last_success_at := Some now,
       probe_success_count := 0, last_probe_at := None,
       passive_failure_timestamps :=
         prune_passive_failure_timestamps (passive_failure_timestamps entry) now window_seconds\<rparr>"

definition mark_channel_success :: "app_state \<Rightarrow> 'd monoize_attempt \<Rightarrow> int \<Rightarrow> app_state" where
  "mark_channel_success st a now =
     (if \<not> at_circuit_breaker_enabled a then st
      else if routing_config_revision st \<noteq> at_routing_config_revision a then st
      else
        (let key = attempt_health_key a; health = channel_health st
         in if fmlookup health key = None \<and> channel_health_max_entries (process_env st) \<le> map_len health
            then st
            else st\<lparr>channel_health :=
                   fmupd key (succeed_entry (at_passive_window_seconds a) now (health_entry health key)) health\<rparr>))"

definition is_attempt_channel_healthy :: "app_state \<Rightarrow> 'd monoize_attempt \<Rightarrow> bool" where
  "is_attempt_channel_healthy st a =
     (if \<not> at_circuit_breaker_enabled a then True
      else
        (let health = channel_health st; key = attempt_health_key a
         in if missing_channel_health_is_saturated (process_env st) health key then False
            else healthy (health_entry health key)))"

definition is_candidate :: "channel_health_state \<Rightarrow> int \<Rightarrow> bool" where
  "is_candidate h now =
     (if healthy h then True
      else (case cooldown_until h of Some until \<Rightarrow> until \<le> now | None \<Rightarrow> True))"

definition channel_eligible :: "app_state \<Rightarrow> bool \<Rightarrow> string option \<Rightarrow> int \<Rightarrow> monoize_channel \<Rightarrow> bool" where
  "channel_eligible st circuit_breaker_enabled model now channel =
     (if \<not> ch_enabled channel then False
      else if \<not> circuit_breaker_enabled then True
      else
        (let key = health_key (ch_id channel) model
         in if missing_channel_health_is_saturated (process_env st) (channel_health st) key then False
            else is_candidate (health_entry (channel_health st) key) now))"

definition filter_eligible_channels ::
    "app_state \<Rightarrow> monoize_channel list \<Rightarrow> bool \<Rightarrow> string option \<Rightarrow> int \<Rightarrow> monoize_channel list" where
  "filter_eligible_channels st channels circuit_breaker_enabled model now =
     filter (channel_eligible st circuit_breaker_enabled model now) channels"

section \<open>Active probes\<close>

definition probe_due :: "channel_health_state \<Rightarrow> int \<Rightarrow> nat \<Rightarrow> bool" where
  "probe_due h now probe_interval_seconds \<longleftrightarrow>
     \<not> healthy h
     \<and> (case cooldown_until h of None \<Rightarrow> True | Some until \<Rightarrow> until \<le> now)
     \<and> (case last_probe_at h of None \<Rightarrow> True
          | Some probed \<Rightarrow> u64_as_i64 probe_interval_seconds \<le> saturating_sub_i64 now probed)"

definition probe_interval :: "monoize_provider \<Rightarrow> monoize_runtime_config \<Rightarrow> nat" where
  "probe_interval p rt =
     max 1 (unwrap_or (or_else (active_probe_interval_seconds_override (pv_channel p))
                         (pv_active_probe_interval_seconds_override p))
              (rt_active_interval_seconds rt))"

definition probe_success_threshold :: "monoize_provider \<Rightarrow> monoize_runtime_config \<Rightarrow> nat" where
  "probe_success_threshold p rt =
     max 1 (unwrap_or (or_else (active_probe_success_threshold_override (pv_channel p))
                         (pv_active_probe_success_threshold_override p))
              (rt_active_success_threshold rt))"

text \<open>\<open>channel.models.keys().min()\<close>, and the keys in the order that \<open>sort\<close> gives them.\<close>

definition sorted_models :: "monoize_channel \<Rightarrow> string list" where
  "sorted_models c = sorted_list_of_set (fset (fmdom (ch_models c)))"

definition probe_model :: "health_map \<Rightarrow> monoize_provider \<Rightarrow> monoize_runtime_config \<Rightarrow> int \<Rightarrow> string option" where
  "probe_model health p rt now =
     (let channel = pv_channel p;
          configured_model = or_else (or_else (active_probe_model_override channel)
                                        (pv_active_probe_model_override p)) (rt_active_probe_model rt);
          first_model = (case sorted_models channel of [] \<Rightarrow> None | m # _ \<Rightarrow> Some m);
          interval = probe_interval p rt
      in if pv_per_model_circuit_break p
         then (let due_models = filter (\<lambda>m. case fmlookup health (health_key (ch_id channel) (Some m)) of
                                   Some h \<Rightarrow> probe_due h now interval | None \<Rightarrow> False)
                                 (sorted_models channel)
               in or_else (option_filter (\<lambda>m. m \<in> set due_models) configured_model)
                    (case due_models of [] \<Rightarrow> None | m # _ \<Rightarrow> Some m))
         else if probe_due (health_entry health (health_key (ch_id channel) None)) now interval
         then or_else configured_model first_model else None)"

text \<open>The guards of the scheduler before a probe is sent.\<close>

definition scheduled_probe ::
    "health_map \<Rightarrow> monoize_provider \<Rightarrow> monoize_runtime_config \<Rightarrow> int \<Rightarrow> string option" where
  "scheduled_probe health p rt now =
     (if \<not> pv_circuit_breaker_enabled p then None
      else if ch_provider_type (pv_channel p) = MptReplicate then None
      else if \<not> unwrap_or (or_else (active_probe_enabled_override (pv_channel p))
                          (pv_active_probe_enabled_override p)) (rt_active_enabled rt) then None
      else (case probe_model health p rt now of
              None \<Rightarrow> None
            | Some m \<Rightarrow> if fmlookup (ch_models (pv_channel p)) m = None then None else Some m))"

definition clear_channel_health_state :: "int \<Rightarrow> channel_health_state \<Rightarrow> channel_health_state" where
  "clear_channel_health_state now h =
     h\<lparr>healthy := True, cooldown_until := None, last_success_at := Some now, probe_success_count := 0,
       last_probe_at := None\<rparr>"

definition probe_ok_entry :: "nat \<Rightarrow> int \<Rightarrow> channel_health_state \<Rightarrow> channel_health_state" where
  "probe_ok_entry threshold now h =
     (let h = h\<lparr>last_probe_at := Some now,
                probe_success_count := min u32_max (probe_success_count h + 1)\<rparr>
      in if threshold \<le> probe_success_count h then clear_channel_health_state now h else h)"

definition probe_failed_entry :: "nat \<Rightarrow> int \<Rightarrow> channel_health_state \<Rightarrow> channel_health_state" where
  "probe_failed_entry cooldown_seconds now h =
     h\<lparr>healthy := False, probe_success_count := 0, last_probe_at := Some now,
       cooldown_until := Some (wrap_i64 (now + u64_as_i64 cooldown_seconds))\<rparr>"

definition apply_probe_result ::
    "app_state \<Rightarrow> monoize_provider \<Rightarrow> monoize_runtime_config \<Rightarrow> string \<Rightarrow> bool \<Rightarrow> nat \<Rightarrow> int \<Rightarrow> app_state" where
  "apply_probe_result st p rt model_name ok revision now =
     (if routing_config_revision st \<noteq> revision then st
      else
        (let channel = pv_channel p; health = channel_health st;
             update = (if ok then probe_ok_entry (probe_success_threshold p rt) now
                       else probe_failed_entry
                              (max 1 (unwrap_or (passive_cooldown_seconds_override channel)
                                        (rt_passive_cooldown_seconds rt))) now)
         in if pv_per_model_circuit_break p
            then (let key = health_key (ch_id channel) (Some model_name)
                  in case fmlookup health key of
                       None \<Rightarrow> st
                     | Some h \<Rightarrow> st\<lparr>channel_health := fmupd key (update h) health\<rparr>)
            else (let key = health_key (ch_id channel) None
                  in if \<not> prepare_channel_health_insert (process_env st) health key then st
                     else st\<lparr>channel_health := fmupd key (update (health_entry health key)) health\<rparr>)))"

section \<open>Resets from the dashboard\<close>

definition reset_channel_health_after_successful_test ::
    "health_map \<Rightarrow> string \<Rightarrow> bool \<Rightarrow> string \<Rightarrow> int \<Rightarrow> nat \<Rightarrow> health_map" where
  "reset_channel_health_after_successful_test health channel_id per_model_circuit_break model_id now max_entries =
     (let key = health_key channel_id (if per_model_circuit_break then Some model_id else None)
      in if fmlookup health key = None \<and> max_entries \<le> map_len health then health
         else fmupd key (clear_channel_health_state now (health_entry health key)) health)"

definition health_key_channel :: "string \<Rightarrow> string" where
  "health_key_channel channel_key =
     (case split_once_str ''::'' channel_key of Some (channel_id, _) \<Rightarrow> channel_id | None \<Rightarrow> channel_key)"

definition prune_provider_channel_health :: "health_map \<Rightarrow> string list \<Rightarrow> health_map" where
  "prune_provider_channel_health health channel_ids =
     (if channel_ids = [] then health
      else fmfilter (\<lambda>channel_key. health_key_channel channel_key \<notin> set channel_ids) health)"

text \<open>A change of the settings: three separate steps on the shared state.\<close>

definition bump_routing_config_revision :: "app_state \<Rightarrow> app_state" where
  "bump_routing_config_revision st =
     st\<lparr>routing_config_revision := (routing_config_revision st + 1) mod (u64_max + 1)\<rparr>"

definition clear_affinity_map :: "app_state \<Rightarrow> app_state" where
  "clear_affinity_map st = st\<lparr>channel_affinity := fmempty\<rparr>"

definition clear_health_map :: "app_state \<Rightarrow> app_state" where
  "clear_health_map st = st\<lparr>channel_health := fmempty\<rparr>"

definition apply_routing_settings_change :: "app_state \<Rightarrow> bool \<Rightarrow> bool \<Rightarrow> app_state" where
  "apply_routing_settings_change st affinity_changed health_changed =
     (let st = (if affinity_changed \<or> health_changed then bump_routing_config_revision st else st);
          st = (if affinity_changed then clear_affinity_map st else st)
      in if health_changed then clear_health_map st else st)"

end
