(* ===== verification/Routing_Samples.thy ===== *)
theory Routing_Samples
  imports Routing_Types
begin

text \<open>Concrete routing data for the examples: a configuration, a state, a channel and an attempt.\<close>

definition sample_runtime :: monoize_runtime_config where
  "sample_runtime = \<lparr>rt_request_timeout_ms = 30000, rt_passive_failure_count_threshold = 3,
     rt_passive_cooldown_seconds = 60, rt_passive_window_seconds = 30,
     rt_passive_rate_limit_cooldown_seconds = 15, rt_active_enabled = True, rt_active_interval_seconds = 30,
     rt_active_success_threshold = 1, rt_active_probe_model = None, rt_reasoning_suffix_map = [],
     rt_extra_fields_whitelist = fmempty, rt_strip_cross_protocol_nested_extra = True,
     rt_mask_sensitive_info = True, rt_affinity_enabled = True, rt_affinity_idle_ttl_seconds = 1800,
     rt_affinity_failback_mode = Sticky, rt_affinity_failback_delay_seconds = 300\<rparr>"

definition sample_state :: app_state where
  "sample_state = \<lparr>channel_health = fmempty, channel_affinity = fmempty, routing_config_revision = 0,
     monoize_runtime = sample_runtime, process_env = (\<lambda>_. None)\<rparr>"

definition sample_attempt :: "unit monoize_attempt" where
  "sample_attempt = \<lparr>at_provider_id = ''p1'', at_group_id = ''g'', at_provider_name = ''P'',
     at_provider_type = Responses, at_channel_id = ''c1'', at_channel_name = ''C'',
     at_base_url = ''https://up.example'', at_api_key = ''k'', at_logical_model = ''m'',
     at_upstream_model = ''m'', at_pricing_profile = None, at_model_multiplier = Multiplier_ONE,
     at_server_tool_usage_classes = [], at_provider_transforms = [],
     at_passive_failure_count_threshold = 3, at_passive_cooldown_seconds = 60,
     at_passive_window_seconds = 30, at_passive_rate_limit_cooldown_seconds = 15,
     at_channel_max_retries = 1, at_channel_retry_interval_ms = 0, at_circuit_breaker_enabled = True,
     at_per_model_circuit_break = False, at_request_timeout_ms = 30000, at_extra_fields_whitelist = None,
     at_strip_cross_protocol_nested_extra = True, at_billable_pricing_available = True,
     at_billing_rate_resolution = None, at_affinity_key = None, at_affinity_key_hash = None,
     at_affinity_hit = None, at_affinity_target = None, at_affinity_enabled = True,
     at_affinity_idle_ttl_seconds = 1800, at_affinity_failback_mode = Sticky,
     at_affinity_failback_delay_seconds = 300, at_routing_config_revision = 0, at_proxy_url = None,
     at_extra_headers = None, at_session_affinity_auto = False, at_allow_missing_usage = False,
     at_client_session_id = None, at_derived_session_affinity = None, at_session_affinity_value = None,
     at_origin_key = None, at_origin_peer_channel_ids = []\<rparr>"

definition sample_channel :: monoize_channel where
  "sample_channel = \<lparr>ch_id = ''c1'', ch_name = ''C'', ch_provider_type = MptResponses,
     ch_base_url = ''https://up.example'', ch_api_key = ''k'', ch_enabled = True, ch_allow_missing_usage = False,
     passive_failure_count_threshold_override = None, passive_cooldown_seconds_override = None,
     passive_window_seconds_override = None, passive_rate_limit_cooldown_seconds_override = None,
     ch_models = fmempty, active_probe_enabled_override = None,
     active_probe_interval_seconds_override = None, active_probe_success_threshold_override = None,
     active_probe_model_override = None, affinity_enabled_override = None,
     affinity_idle_ttl_seconds_override = None, affinity_failback_mode_override = None,
     affinity_failback_delay_seconds_override = None, ch_proxy_url = None, ch_extra_headers = None,
     ch_session_affinity_auto = None\<rparr>"

end
