(* ===== verification/Routing_Breaker.thy ===== *)
theory Routing_Breaker
  imports Routing_Health Routing_Samples
begin

text \<open>
  What the circuit breaker guarantees: the health map is a bounded store, its entries are
  consistent in every reachable state, a channel opens exactly when a window holds enough
  failures, and an open channel is left alone until its cooldown is over.
\<close>

section \<open>The health map as a bounded store\<close>

definition put_health ::
    "environment \<Rightarrow> string \<Rightarrow> channel_health_state \<Rightarrow> health_map \<Rightarrow> health_map" where
  "put_health env key entry health =
     (if prepare_channel_health_insert env health key then fmupd key entry health else health)"

interpretation health_store: bounded_store "put_health env" "channel_health_max_entries env" for env
  by unfold_locales
     (auto simp: put_health_def prepare_channel_health_insert_def
       prepare_channel_health_insert_with_limit_def)

definition breaker_active :: "app_state \<Rightarrow> 'd monoize_attempt \<Rightarrow> bool" where
  "breaker_active st a \<longleftrightarrow>
     at_circuit_breaker_enabled a \<and> routing_config_revision st = at_routing_config_revision a"

lemma apply_failure_health:
  "apply_retryable_failure_to_channel st a channel_id cls now =
     (if breaker_active st a
      then (let key = health_key channel_id (attempt_health_model a)
            in st\<lparr>channel_health := put_health (process_env st) key
                   (fail_entry (process_env st) a cls now (health_entry (channel_health st) key))
                   (channel_health st)\<rparr>)
      else st)"
  by (simp add: apply_retryable_failure_to_channel_def breaker_active_def put_health_def Let_def)

lemma mark_success_health:
  "mark_channel_success st a now =
     (if breaker_active st a
      then st\<lparr>channel_health := put_health (process_env st) (attempt_health_key a)
               (succeed_entry (at_passive_window_seconds a) now
                  (health_entry (channel_health st) (attempt_health_key a)))
               (channel_health st)\<rparr>
      else st)"
  by (auto simp: mark_channel_success_def breaker_active_def put_health_def Let_def
      prepare_channel_health_insert_def prepare_channel_health_insert_with_limit_def)

lemma put_existing: "fmlookup health key \<noteq> None \<Longrightarrow> put_health env key e health = fmupd key e health"
  by (rule health_store.put_room) simp

section \<open>Consistency of the entries in every reachable state\<close>

definition entry_ok :: "environment \<Rightarrow> channel_health_state \<Rightarrow> bool" where
  "entry_ok env h \<longleftrightarrow>
     (healthy h \<longleftrightarrow> cooldown_until h = None)
     \<and> length (passive_failure_timestamps h) \<le> channel_passive_failure_sample_max_entries env
     \<and> probe_success_count h \<le> u32_max"

lemma entry_ok_new [simp]: "entry_ok env ChannelHealthState_new"
  by (simp add: entry_ok_def ChannelHealthState_new_def)

lemma prune_shorter:
  "length (prune_passive_failure_timestamps ts now w) \<le> length ts"
  by (simp add: prune_passive_failure_timestamps_def Let_def length_dropWhile_le)

lemma threshold_bounds:
  "0 < effective_passive_failure_threshold env n"
  "effective_passive_failure_threshold env n \<le> channel_passive_failure_sample_max_entries env"
  using entry_limits_pos(3) [of env]
  unfolding effective_passive_failure_threshold_def effective_passive_failure_threshold_with_limit_def
  by linarith+

lemma fail_entry_ok:
  assumes "entry_ok env h"
  shows "entry_ok env (fail_entry env a cls now h)"
proof -
  let ?p = "prune_passive_failure_timestamps (passive_failure_timestamps h) now (at_passive_window_seconds a)"
  have "length ?p \<le> channel_passive_failure_sample_max_entries env"
    using prune_shorter assms by (meson entry_ok_def order_trans)
  with assms threshold_bounds [of env "at_passive_failure_count_threshold a"] show ?thesis
    by (auto simp: fail_entry_def entry_ok_def Let_def)
qed

lemma succeed_entry_ok: "entry_ok env h \<Longrightarrow> entry_ok env (succeed_entry w now h)"
  using prune_shorter [of "passive_failure_timestamps h" now w]
  by (auto simp: entry_ok_def succeed_entry_def)

lemma clear_entry_ok: "entry_ok env h \<Longrightarrow> entry_ok env (clear_channel_health_state now h)"
  by (simp add: entry_ok_def clear_channel_health_state_def)

lemma probe_entries_ok:
  assumes "entry_ok env h"
  shows "entry_ok env (probe_ok_entry threshold now h)" and "entry_ok env (probe_failed_entry cooldown now h)"
  using assms clear_entry_ok
  by (auto simp: entry_ok_def probe_ok_entry_def probe_failed_entry_def clear_channel_health_state_def Let_def)

text \<open>Every operation that writes the health map or the revision, and their interleavings.\<close>

datatype 'd health_op =
    FailureOp "'d monoize_attempt" string retryable_failure_class int
  | SuccessOp "'d monoize_attempt" int
  | ProbeOp monoize_provider monoize_runtime_config string bool nat int
  | TestOp string bool string nat int
  | PruneOp "string list"
  | BumpOp
  | ClearOp

fun run_health_op :: "'d health_op \<Rightarrow> app_state \<Rightarrow> app_state" where
  "run_health_op (FailureOp a channel_id cls now) st = apply_retryable_failure_to_channel st a channel_id cls now"
| "run_health_op (SuccessOp a now) st = mark_channel_success st a now"
| "run_health_op (ProbeOp p rt model ok revision now) st = apply_probe_result st p rt model ok revision now"
| "run_health_op (TestOp channel_id per_model model revision now) st =
     (if routing_config_revision st = revision
      then st\<lparr>channel_health := reset_channel_health_after_successful_test (channel_health st) channel_id
               per_model model now (channel_health_max_entries (process_env st))\<rparr>
      else st)"
| "run_health_op (PruneOp ids) st = st\<lparr>channel_health := prune_provider_channel_health (channel_health st) ids\<rparr>"
| "run_health_op BumpOp st = bump_routing_config_revision st"
| "run_health_op ClearOp st = clear_health_map st"

definition health_ok :: "app_state \<Rightarrow> bool" where
  "health_ok st \<longleftrightarrow>
     map_len (channel_health st) \<le> channel_health_max_entries (process_env st)
     \<and> (\<forall>k h. fmlookup (channel_health st) k = Some h \<longrightarrow> entry_ok (process_env st) h)"

lemma health_ok_entry: "health_ok st \<Longrightarrow> entry_ok (process_env st) (health_entry (channel_health st) k)"
  by (cases "fmlookup (channel_health st) k") (auto simp: health_ok_def health_entry_def)

lemma health_ok_put:
  assumes "health_ok st" and "entry_ok (process_env st) h"
  shows "health_ok (st\<lparr>channel_health := put_health (process_env st) k h (channel_health st)\<rparr>)"
  using health_store.put_capacity [of "channel_health st" "process_env st" k h]
    health_store.put_entries [of "channel_health st" "entry_ok (process_env st)" h "process_env st" k] assms
  by (simp add: health_ok_def)

lemma health_ok_filter: "health_ok st \<Longrightarrow> health_ok (st\<lparr>channel_health := fmfilter P (channel_health st)\<rparr>)"
  using map_len_fmfilter_le [of P "channel_health st"] by (auto simp: health_ok_def)

lemma probe_result_put:
  "\<exists>k. apply_probe_result st p rt model ok revision now = st
     \<or> apply_probe_result st p rt model ok revision now =
         st\<lparr>channel_health := put_health (process_env st) k
              ((if ok then probe_ok_entry (probe_success_threshold p rt) now
                else probe_failed_entry (max 1 (unwrap_or (passive_cooldown_seconds_override (pv_channel p))
                       (rt_passive_cooldown_seconds rt))) now) (health_entry (channel_health st) k))
              (channel_health st)\<rparr>"
  by (rule exI [of _ "health_key (ch_id (pv_channel p)) (if pv_per_model_circuit_break p then Some model else None)"])
     (auto simp: apply_probe_result_def Let_def put_health_def prepare_channel_health_insert_def
       prepare_channel_health_insert_with_limit_def health_entry_def split: option.splits)

lemma run_health_op_ok:
  assumes "health_ok st"
  shows "health_ok (run_health_op op st)"
proof (cases op)
  case (FailureOp a channel_id cls now)
  then show ?thesis
    using assms by (auto simp: apply_failure_health Let_def intro!: health_ok_put fail_entry_ok health_ok_entry)
next
  case (SuccessOp a now)
  then show ?thesis
    using assms by (auto simp: mark_success_health intro!: health_ok_put succeed_entry_ok health_ok_entry)
next
  case (ProbeOp p rt model ok revision now)
  then show ?thesis
    using assms probe_result_put [of st p rt model ok revision now]
    by (auto intro!: health_ok_put probe_entries_ok health_ok_entry)
next
  case (TestOp channel_id per_model model revision now)
  let ?k = "health_key channel_id (if per_model then Some model else None)"
  have "reset_channel_health_after_successful_test (channel_health st) channel_id per_model model now
      (channel_health_max_entries (process_env st))
    = put_health (process_env st) ?k (clear_channel_health_state now (health_entry (channel_health st) ?k))
        (channel_health st)"
    by (auto simp: reset_channel_health_after_successful_test_def Let_def put_health_def
        prepare_channel_health_insert_def prepare_channel_health_insert_with_limit_def)
  with TestOp assms show ?thesis
    by (simp add: health_ok_put clear_entry_ok health_ok_entry)
next
  case (PruneOp ids)
  then show ?thesis using assms health_ok_filter by (simp add: prune_provider_channel_health_def)
next
  case BumpOp
  then show ?thesis using assms by (simp add: health_ok_def bump_routing_config_revision_def)
next
  case ClearOp
  then show ?thesis by (simp add: health_ok_def clear_health_map_def)
qed

text \<open>
  C14: In every state that any interleaving of failures, successes, probe results, channel tests,
  pruning and configuration changes can reach from an empty health map, the map holds at most its
  configured number of entries, and each entry is consistent: it is unhealthy exactly when it has
  a cooldown, and it keeps at most the configured number of failure samples.
\<close>

theorem health_map_invariant:
  assumes "channel_health st = fmempty"
  shows "health_ok (fold run_health_op ops st)"
proof -
  have "health_ok (fold run_health_op ops s)" if "health_ok s" for s
    using that by (induction ops arbitrary: s) (auto simp: run_health_op_ok)
  moreover have "health_ok st" using assms by (simp add: health_ok_def)
  ultimately show ?thesis by blast
qed

lemma sample_thresholds:
  "effective_passive_failure_threshold (\<lambda>_. None) (at_passive_failure_count_threshold sample_attempt) = 3"
  "at_passive_window_seconds sample_attempt = 30"
  "channel_health_max_entries (\<lambda>_. None) = 10000"
  by (simp_all add: effective_passive_failure_threshold_def effective_passive_failure_threshold_with_limit_def
      channel_passive_failure_sample_max_entries_def parse_positive_entry_limit_def sample_attempt_def
      channel_health_max_entries_def DEFAULT_CHANNEL_HEALTH_MAX_ENTRIES_def
      DEFAULT_CHANNEL_PASSIVE_FAILURE_SAMPLE_MAX_ENTRIES_def)

theorem health_map_invariant_witness:
  "health_ok (fold run_health_op
     [FailureOp sample_attempt ''c1'' Persistent 100, BumpOp, PruneOp [''c2''], SuccessOp sample_attempt 200]
     sample_state)"
  by (rule health_map_invariant) (simp add: sample_state_def)

section \<open>When the breaker opens\<close>

text \<open>The failure times that fall into the window that ends at \<open>now\<close>.\<close>

definition in_window :: "nat \<Rightarrow> int \<Rightarrow> int list \<Rightarrow> int list" where
  "in_window w now ts = filter (\<lambda>t. now - u64_to_i64_or_max w \<le> t) ts"

lemma cutoff_less_iff:
  assumes "in_i64 t" and "in_i64 now"
  shows "t < saturating_sub_i64 now (u64_to_i64_or_max w) \<longleftrightarrow> t < now - u64_to_i64_or_max w"
  using assms
  by (auto simp: saturating_sub_i64_def u64_to_i64_or_max_def in_i64_def i64_min_def i64_max_def)

lemma dropWhile_sorted: "sorted ts \<Longrightarrow> dropWhile (\<lambda>t. t < c) ts = filter (\<lambda>t. c \<le> t) ts" for c :: int
proof (induction ts)
  case (Cons t ts)
  then show ?case by (cases "t < c") (auto intro!: filter_True [symmetric])
qed simp

lemma prune_sorted:
  assumes "sorted ts" and "list_all in_i64 (now # ts)"
  shows "prune_passive_failure_timestamps ts now w = in_window w now ts"
proof -
  have "prune_passive_failure_timestamps ts now w = dropWhile (\<lambda>t. t < now - u64_to_i64_or_max w) ts"
    using assms(2) cutoff_less_iff
    by (auto simp: prune_passive_failure_timestamps_def Let_def list_all_iff intro!: dropWhile_cong)
  then show ?thesis using assms(1) by (simp add: dropWhile_sorted in_window_def)
qed

lemma in_window_later: "now \<le> now' \<Longrightarrow> in_window w now' (in_window w now ts) = in_window w now' ts"
  by (auto simp: in_window_def intro!: filter_cong)

abbreviation fail_entries ::
    "environment \<Rightarrow> 'd monoize_attempt \<Rightarrow> int list \<Rightarrow> channel_health_state \<Rightarrow> channel_health_state" where
  "fail_entries env a \<equiv> fold (fail_entry env a Transient)"

definition window_full :: "environment \<Rightarrow> 'd monoize_attempt \<Rightarrow> int list \<Rightarrow> nat \<Rightarrow> bool" where
  "window_full env a ts i \<longleftrightarrow>
     effective_passive_failure_threshold env (at_passive_failure_count_threshold a)
       \<le> length (in_window (at_passive_window_seconds a) (ts ! i) (take (Suc i) ts))"

lemma fail_entry_step:
  assumes "sorted ts" and "list_all in_i64 (now # ts)" and "list_all (\<lambda>t. t \<le> now) ts"
    and "passive_failure_timestamps h = in_window (at_passive_window_seconds a) c ts" and "c \<le> now"
    and "length (passive_failure_timestamps h)
           < effective_passive_failure_threshold env (at_passive_failure_count_threshold a)"
  shows "passive_failure_timestamps (fail_entry env a Transient now h)
           = in_window (at_passive_window_seconds a) now (ts @ [now])"
    and "healthy (fail_entry env a Transient now h) \<longleftrightarrow> healthy h
           \<and> length (in_window (at_passive_window_seconds a) now (ts @ [now]))
               < effective_passive_failure_threshold env (at_passive_failure_count_threshold a)"
proof -
  let ?w = "at_passive_window_seconds a"
  have "sorted (passive_failure_timestamps h)" "list_all in_i64 (now # passive_failure_timestamps h)"
    using assms(1,2,4) by (auto simp: in_window_def sorted_wrt_filter list_all_iff)
  then have "prune_passive_failure_timestamps (passive_failure_timestamps h) now ?w = in_window ?w now ts"
    using prune_sorted in_window_later [OF assms(5)] assms(4) by simp
  moreover have "in_window ?w now (ts @ [now]) = in_window ?w now ts @ [now]"
    by (simp add: in_window_def u64_to_i64_or_max_def i64_max_def)
  moreover have "length (in_window ?w now ts)
      < effective_passive_failure_threshold env (at_passive_failure_count_threshold a)"
    using assms(4,6) in_window_later [OF assms(5), of ?w ts]
    by (metis in_window_def length_filter_le order_le_less_trans)
  ultimately show "passive_failure_timestamps (fail_entry env a Transient now h) = in_window ?w now (ts @ [now])"
    and "healthy (fail_entry env a Transient now h) \<longleftrightarrow> healthy h
           \<and> length (in_window ?w now (ts @ [now]))
               < effective_passive_failure_threshold env (at_passive_failure_count_threshold a)"
    by (auto simp: fail_entry_def Let_def)
qed

lemma fail_entry_unhealthy: "\<not> healthy h \<Longrightarrow> \<not> healthy (fail_entry env a cls now h)"
  by (simp add: fail_entry_def Let_def)

definition never_full :: "environment \<Rightarrow> 'd monoize_attempt \<Rightarrow> int list \<Rightarrow> bool" where
  "never_full env a ts \<longleftrightarrow> (\<forall>i < length ts. \<not> window_full env a ts i)"

lemma never_full_snoc:
  "never_full env a (ts @ [t]) \<longleftrightarrow> never_full env a ts
     \<and> length (in_window (at_passive_window_seconds a) t (ts @ [t]))
         < effective_passive_failure_threshold env (at_passive_failure_count_threshold a)"
proof -
  have "window_full env a (ts @ [t]) i = window_full env a ts i" if "i < length ts" for i
    using that by (simp add: window_full_def nth_append)
  moreover have "window_full env a (ts @ [t]) (length ts) \<longleftrightarrow>
     effective_passive_failure_threshold env (at_passive_failure_count_threshold a)
       \<le> length (in_window (at_passive_window_seconds a) t (ts @ [t]))"
    by (simp add: window_full_def)
  ultimately show ?thesis by (auto simp: never_full_def less_Suc_eq not_le)
qed

text \<open>As long as the entry is healthy, it records exactly the failures of the current window.\<close>

definition records_window :: "environment \<Rightarrow> 'd monoize_attempt \<Rightarrow> int list \<Rightarrow> channel_health_state \<Rightarrow> bool" where
  "records_window env a ts h \<longleftrightarrow>
     length (passive_failure_timestamps h)
       < effective_passive_failure_threshold env (at_passive_failure_count_threshold a)
     \<and> (\<forall>now. list_all (\<lambda>t. t \<le> now) ts \<longrightarrow>
          (\<exists>c \<le> now. passive_failure_timestamps h = in_window (at_passive_window_seconds a) c ts))"

lemma fail_entries_exact:
  assumes "sorted ts" and "list_all in_i64 ts"
  shows "(healthy (fail_entries env a ts ChannelHealthState_new) \<longleftrightarrow> never_full env a ts)
     \<and> (healthy (fail_entries env a ts ChannelHealthState_new) \<longrightarrow>
          records_window env a ts (fail_entries env a ts ChannelHealthState_new))"
  using assms
proof (induction ts rule: rev_induct)
  case Nil
  then show ?case
    using threshold_bounds(1) [of env "at_passive_failure_count_threshold a"]
    by (auto simp: ChannelHealthState_new_def in_window_def never_full_def records_window_def)
next
  case (snoc t ts)
  let ?h = "fail_entries env a ts ChannelHealthState_new"
  let ?h' = "fail_entry env a Transient t ?h"
  from snoc.prems have ts: "sorted ts" "list_all in_i64 ts" "list_all in_i64 (t # ts)" "list_all (\<lambda>u. u \<le> t) ts"
    by (auto simp: sorted_append list_all_iff)
  note IH = snoc.IH [OF ts(1,2)]
  have fold: "fail_entries env a (ts @ [t]) ChannelHealthState_new = ?h'" by simp
  show ?case
  proof (cases "healthy ?h")
    case False
    then have "\<not> healthy ?h'" by (rule fail_entry_unhealthy)
    with False IH never_full_snoc [of env a ts t] show ?thesis unfolding fold by blast
  next
    case True
    with IH ts(4) obtain c where c: "c \<le> t"
      "passive_failure_timestamps ?h = in_window (at_passive_window_seconds a) c ts"
      "length (passive_failure_timestamps ?h)
         < effective_passive_failure_threshold env (at_passive_failure_count_threshold a)"
      unfolding records_window_def by blast
    note step = fail_entry_step [OF ts(1,3,4) c(2,1,3)]
    have "healthy ?h' \<longleftrightarrow> never_full env a (ts @ [t])"
      using True IH step(2) never_full_snoc [of env a ts t] by blast
    moreover have "records_window env a (ts @ [t]) ?h'" if "healthy ?h'"
      using that step by (auto simp: records_window_def)
    ultimately show ?thesis unfolding fold by blast
  qed
qed

text \<open>
  C12: The passive breaker opens exactly when it should. Starting from a fresh entry, a sequence of
  transient failures at non-decreasing times leaves the channel healthy if and only if at none of
  the failures the window that ends there holds as many failures as the effective threshold.
\<close>

theorem breaker_opens_exactly:
  assumes "sorted ts" and "list_all in_i64 ts"
  shows "healthy (fold (fail_entry env a Transient) ts ChannelHealthState_new)
           \<longleftrightarrow> (\<forall>i < length ts. \<not> window_full env a ts i)"
  using fail_entries_exact [OF assms] unfolding never_full_def by blast

theorem breaker_opens_exactly_witness:
  "healthy (fold (fail_entry (\<lambda>_. None) sample_attempt Transient) [100, 120, 140, 160] ChannelHealthState_new)
   \<and> \<not> healthy (fold (fail_entry (\<lambda>_. None) sample_attempt Transient) [100, 120, 125] ChannelHealthState_new)"
proof -
  have 1: "sorted [100, 120, 140, 160 :: int]" "list_all in_i64 [100, 120, 140, 160]"
    and 2: "sorted [100, 120, 125 :: int]" "list_all in_i64 [100, 120, 125]"
    by (simp_all add: in_i64_def i64_min_def i64_max_def)
  have "list_all (\<lambda>i. \<not> window_full (\<lambda>_. None) sample_attempt [100, 120, 140, 160] i) [0..<4]"
    and "window_full (\<lambda>_. None) sample_attempt [100, 120, 125] 2"
    by (simp_all add: upt_rec window_full_def in_window_def sample_thresholds u64_to_i64_or_max_def i64_max_def)
  with breaker_opens_exactly [OF 1, of "\<lambda>_. None" sample_attempt]
    breaker_opens_exactly [OF 2, of "\<lambda>_. None" sample_attempt]
  show ?thesis by (auto simp: list_all_iff)
qed

section \<open>Cooldown\<close>

definition cooldown_of :: "'d monoize_attempt \<Rightarrow> retryable_failure_class \<Rightarrow> nat" where
  "cooldown_of a cls = (if cls = RateLimited then at_passive_rate_limit_cooldown_seconds a
                        else at_passive_cooldown_seconds a)"

lemma opened_entry:
  assumes "healthy h" and "\<not> healthy (fail_entry env a cls now h)"
  shows "cooldown_until (fail_entry env a cls now h) = Some (wrap_i64 (now + u64_as_i64 (cooldown_of a cls)))"
  using assms by (auto simp: fail_entry_def Let_def cooldown_of_def split: if_splits)

lemma no_wrap: "in_i64 now \<Longrightarrow> in_i64 (now + int n) \<Longrightarrow> 0 \<le> now \<Longrightarrow> wrap_i64 (now + u64_as_i64 n) = now + int n"
  by (simp add: u64_as_i64_def in_i64_def i64_min_def i64_max_def wrap_i64_id)

lemma stored_entry:
  assumes "breaker_active st a" and "fmlookup (channel_health st) (health_key channel_id (attempt_health_model a)) \<noteq> None
      \<or> map_len (channel_health st) < channel_health_max_entries (process_env st)"
  defines "key \<equiv> health_key channel_id (attempt_health_model a)"
  shows "fmlookup (channel_health (apply_retryable_failure_to_channel st a channel_id cls now)) key
           = Some (fail_entry (process_env st) a cls now (health_entry (channel_health st) key))"
  using assms health_store.put_room by (simp add: apply_failure_health Let_def)

text \<open>
  C13: A channel whose breaker opens is left alone for exactly its cooldown. When a recorded failure
  turns the entry of an enabled channel unhealthy, then, as long as nobody writes the entry again,
  the channel is not eligible at any time before the cooldown of its failure class is over and it
  is eligible at any time from then on.
\<close>

theorem breaker_cooldown_exact:
  fixes st later :: app_state and a :: "'d monoize_attempt" and c :: monoize_channel
    and cls :: retryable_failure_class and now t :: int
  defines "key \<equiv> health_key (ch_id c) (attempt_health_model a)"
  defines "st' \<equiv> apply_retryable_failure_to_channel st a (ch_id c) cls now"
  assumes "breaker_active st a" and "ch_enabled c"
    and "fmlookup (channel_health st) key \<noteq> None
         \<or> map_len (channel_health st) < channel_health_max_entries (process_env st)"
    and "healthy (health_entry (channel_health st) key)"
    and "\<not> healthy (health_entry (channel_health st') key)"
    and "0 \<le> now" and "in_i64 (now + int (cooldown_of a cls))"
    and "fmlookup (channel_health later) key = fmlookup (channel_health st') key"
  shows "channel_eligible later True (attempt_health_model a) t c \<longleftrightarrow> now + int (cooldown_of a cls) \<le> t"
proof -
  let ?h = "fail_entry (process_env st) a cls now (health_entry (channel_health st) key)"
  have stored: "fmlookup (channel_health st') key = Some ?h"
    using stored_entry [OF assms(3) assms(5) [unfolded key_def]] by (simp add: st'_def key_def)
  then have "\<not> healthy ?h" using assms(7) by (simp add: health_entry_def)
  with assms(6) have "cooldown_until ?h = Some (wrap_i64 (now + u64_as_i64 (cooldown_of a cls)))"
    by (rule opened_entry)
  moreover have "in_i64 now" using assms(8,9) by (simp add: in_i64_def i64_min_def)
  ultimately have "cooldown_until ?h = Some (now + int (cooldown_of a cls))"
    using no_wrap assms(8,9) by simp
  with stored \<open>\<not> healthy ?h\<close> assms(4,10) show ?thesis
    by (simp add: channel_eligible_def Let_def key_def [symmetric] health_entry_def is_candidate_def
        missing_channel_health_is_saturated_def missing_channel_health_is_saturated_with_limit_def)
qed

theorem breaker_cooldown_exact_witness:
  "\<not> channel_eligible (apply_retryable_failure_to_channel sample_state sample_attempt ''c1'' Persistent 100)
       True None 159 sample_channel
   \<and> channel_eligible (apply_retryable_failure_to_channel sample_state sample_attempt ''c1'' Persistent 100)
       True None 160 sample_channel"
proof -
  let ?st = "apply_retryable_failure_to_channel sample_state sample_attempt (ch_id sample_channel) Persistent 100"
  let ?key = "health_key (ch_id sample_channel) (attempt_health_model sample_attempt)"
  have 1: "breaker_active sample_state sample_attempt" "ch_enabled sample_channel"
    by (simp_all add: breaker_active_def sample_state_def sample_attempt_def sample_channel_def)
  have 2: "fmlookup (channel_health sample_state) ?key \<noteq> None
      \<or> map_len (channel_health sample_state) < channel_health_max_entries (process_env sample_state)"
    "healthy (health_entry (channel_health sample_state) ?key)"
    by (simp_all add: sample_state_def health_entry_def ChannelHealthState_new_def)
  have 3: "\<not> healthy (health_entry (channel_health ?st) ?key)"
    using stored_entry [OF 1(1) 2(1), of Persistent 100]
    by (simp add: health_entry_def fail_entry_def Let_def)
  have 4: "(0::int) \<le> 100" "in_i64 (100 + int (cooldown_of sample_attempt Persistent))"
    "cooldown_of sample_attempt Persistent = 60"
    by (simp_all add: cooldown_of_def sample_attempt_def in_i64_def i64_min_def i64_max_def)
  from breaker_cooldown_exact [OF 1 2 3 4(1,2) refl, of 159]
    breaker_cooldown_exact [OF 1 2 3 4(1,2) refl, of 160] 4(3)
  show ?thesis by (simp add: sample_channel_def attempt_health_model_def sample_attempt_def)
qed

end
