(* ===== verification/Routing_Affinity.thy ===== *)
theory Routing_Affinity
  imports Routing_Health Routing_Samples
begin

text \<open>
  Channel affinity of \<open>src/src/handlers/routing.rs\<close> and \<open>src/src/monoize_routing.rs\<close>: which
  channel served a conversation last, kept per tenant, model and conversation, and how the binding
  reorders the attempts of the next request. The hash of the key is a parameter (\<open>xxh3\<close>); it is
  only logged.
\<close>

section \<open>Keys\<close>

record api_key_channel_binding =
  bd_group_id :: string
  bd_model :: string
  bd_channel_id :: string

datatype account_class = Standard | Enterprise | Private

text \<open>The authenticated caller: the fields that routing reads.\<close>

record auth_result =
  auth_tenant_id :: string
  auth_user_id :: "string option"
  auth_account_class :: account_class
  auth_api_key_id :: "string option"
  auth_max_multiplier :: "multiplier option"
  auth_effective_groups :: "string list option"
  auth_channel_bindings :: "api_key_channel_binding list"

definition affinity_tenant :: "auth_result \<Rightarrow> string option" where
  "affinity_tenant auth =
     or_else (map_option (\<lambda>i. ''api_key:'' @ i) (auth_api_key_id auth))
       (map_option (\<lambda>i. ''user:'' @ i) (auth_user_id auth))"

definition affinity_source :: "urp_routing_request \<Rightarrow> string" where
  "affinity_source urp =
     unwrap_or (map_option (\<lambda>v. ''explicit:'' @ v) (affinity_explicit urp))
       (''prefix:'' @ affinity_prefix_hash urp)"

definition affinity_key :: "string \<Rightarrow> string \<Rightarrow> string \<Rightarrow> string" where
  "affinity_key tenant model source = ''v1|'' @ tenant @ ''|model:'' @ model @ ''|'' @ source"

definition affinity_key_for_request ::
    "(string \<Rightarrow> string) \<Rightarrow> urp_routing_request \<Rightarrow> auth_result \<Rightarrow> (string \<times> string) option" where
  "affinity_key_for_request xxh3 urp auth =
     Option.bind (affinity_tenant auth) (\<lambda>tenant.
       let key = affinity_key tenant (rq_model urp) (affinity_source urp)
       in Some (key, xxh3 key))"

definition response_id_affinity_key :: "string \<Rightarrow> string \<Rightarrow> auth_result \<Rightarrow> string option" where
  "response_id_affinity_key logical_model response_id auth =
     map_option (\<lambda>tenant. affinity_key tenant logical_model (''explicit:previous_response_id:'' @ response_id))
       (affinity_tenant auth)"

section \<open>The affinity map\<close>

type_synonym affinity_map = "(string, channel_affinity_binding) fmap"

definition insert_channel_affinity_with_limit ::
    "affinity_map \<Rightarrow> string \<Rightarrow> channel_affinity_binding \<Rightarrow> nat \<Rightarrow> affinity_map" where
  "insert_channel_affinity_with_limit cache key binding limit =
     (if fmlookup cache key = None \<and> limit \<le> map_len cache then cache else fmupd key binding cache)"

definition insert_channel_affinity ::
    "environment \<Rightarrow> affinity_map \<Rightarrow> string \<Rightarrow> channel_affinity_binding \<Rightarrow> affinity_map" where
  "insert_channel_affinity env cache key binding =
     insert_channel_affinity_with_limit cache key binding (channel_affinity_max_entries env)"

definition channel_affinity_expires_at :: "int \<Rightarrow> nat \<Rightarrow> int" where
  "channel_affinity_expires_at now idle_ttl_seconds =
     saturating_add_i64 now (max (u64_to_i64_or_max idle_ttl_seconds) 1)"

definition binds_attempt :: "channel_affinity_binding \<Rightarrow> 'd monoize_attempt \<Rightarrow> bool" where
  "binds_attempt b a \<longleftrightarrow> ab_provider_id b = at_provider_id a \<and> ab_channel_id b = at_channel_id a"

definition refreshed_binding :: "affinity_map \<Rightarrow> string option \<Rightarrow> 'd monoize_attempt \<Rightarrow> int
       \<Rightarrow> channel_affinity_binding" where
  "refreshed_binding cache source_key a now =
     \<lparr>ab_provider_id = at_provider_id a, ab_channel_id = at_channel_id a,
      bound_at = (if at_affinity_hit a = Some True
                  then unwrap_or (map_option bound_at
                         (option_filter (\<lambda>b. binds_attempt b a) (Option.bind source_key (fmlookup cache)))) now
                  else now),
      last_used_at = now,
      expires_at = channel_affinity_expires_at now (at_affinity_idle_ttl_seconds a)\<rparr>"

definition refresh_channel_affinity :: "app_state \<Rightarrow> 'd monoize_attempt \<Rightarrow> int \<Rightarrow> app_state" where
  "refresh_channel_affinity st a now =
     (case at_affinity_key a of
        None \<Rightarrow> st
      | Some key \<Rightarrow>
          if routing_config_revision st \<noteq> at_routing_config_revision a then st
          else if \<not> at_affinity_enabled a then st\<lparr>channel_affinity := fmdrop key (channel_affinity st)\<rparr>
          else st\<lparr>channel_affinity := insert_channel_affinity (process_env st) (channel_affinity st) key
                   (refreshed_binding (channel_affinity st) (Some key) a now)\<rparr>)"

definition refresh_response_id_affinity ::
    "app_state \<Rightarrow> auth_result \<Rightarrow> string \<Rightarrow> string \<Rightarrow> 'd monoize_attempt \<Rightarrow> int \<Rightarrow> app_state" where
  "refresh_response_id_affinity st auth logical_model response_id a now =
     (if \<not> at_affinity_enabled a then st
      else if trim response_id = [] then st
      else (case response_id_affinity_key logical_model (trim response_id) auth of
              None \<Rightarrow> st
            | Some key \<Rightarrow>
                if routing_config_revision st \<noteq> at_routing_config_revision a then st
                else st\<lparr>channel_affinity := insert_channel_affinity (process_env st) (channel_affinity st) key
                         (refreshed_binding (channel_affinity st) (at_affinity_key a) a now)\<rparr>))"

definition clear_channel_affinity :: "app_state \<Rightarrow> 'd monoize_attempt \<Rightarrow> app_state" where
  "clear_channel_affinity st a =
     (case at_affinity_key a of
        None \<Rightarrow> st
      | Some key \<Rightarrow>
          if routing_config_revision st = at_routing_config_revision a
          then st\<lparr>channel_affinity := fmdrop key (channel_affinity st)\<rparr> else st)"

definition cleanup_channel_affinity :: "affinity_map \<Rightarrow> int \<Rightarrow> affinity_map \<times> nat" where
  "cleanup_channel_affinity cache now =
     (let kept = fmfilter (\<lambda>k. case fmlookup cache k of Some b \<Rightarrow> now < expires_at b | None \<Rightarrow> False) cache
      in (kept, map_len cache - map_len kept))"

definition prune_provider_channel_affinity :: "affinity_map \<Rightarrow> string list \<Rightarrow> affinity_map" where
  "prune_provider_channel_affinity cache channel_ids =
     (if channel_ids = [] then cache
      else fmfilter (\<lambda>k. case fmlookup cache k of Some b \<Rightarrow> ab_channel_id b \<notin> set channel_ids | None \<Rightarrow> False)
             cache)"

section \<open>Ordering the attempts\<close>

text \<open>The first lock section: an expired binding is dropped.\<close>

definition affinity_lookup :: "app_state \<Rightarrow> string \<Rightarrow> int \<Rightarrow> channel_affinity_binding option \<times> app_state" where
  "affinity_lookup st key now =
     (case fmlookup (channel_affinity st) key of
        Some b \<Rightarrow> if expires_at b \<le> now then (None, st\<lparr>channel_affinity := fmdrop key (channel_affinity st)\<rparr>)
                  else (Some b, st)
      | None \<Rightarrow> (None, st))"

fun position :: "('a \<Rightarrow> bool) \<Rightarrow> 'a list \<Rightarrow> nat option" where
  "position P [] = None"
| "position P (x # xs) = (if P x then Some 0 else map_option Suc (position P xs))"

definition move_to_front :: "nat \<Rightarrow> ('a \<Rightarrow> 'a) \<Rightarrow> 'a list \<Rightarrow> 'a list" where
  "move_to_front pos f xs = f (xs ! pos) # take pos xs @ drop (Suc pos) xs"

definition affinity_target_name :: "string \<Rightarrow> string \<Rightarrow> string" where
  "affinity_target_name provider_id channel_id = provider_id @ ''/'' @ channel_id"

definition failback_due :: "channel_affinity_binding \<Rightarrow> int \<Rightarrow> 'd monoize_attempt list \<Rightarrow> nat \<Rightarrow> bool" where
  "failback_due b now attempts pos \<longleftrightarrow>
     at_affinity_failback_mode (attempts ! pos) = PreferHigherPriority
     \<and> u64_to_i64_or_max (at_affinity_failback_delay_seconds (attempts ! pos))
         \<le> saturating_sub_i64 now (bound_at b)
     \<and> list_ex (\<lambda>a. at_provider_id a \<noteq> ab_provider_id b) (take pos attempts)"

definition stamp_hit :: "string \<Rightarrow> string \<Rightarrow> string \<Rightarrow> 'd monoize_attempt \<Rightarrow> 'd monoize_attempt" where
  "stamp_hit key key_hash target a =
     a\<lparr>at_affinity_key := Some key, at_affinity_key_hash := Some key_hash, at_affinity_hit := Some True,
       at_affinity_target := Some target\<rparr>"

definition place_bound ::
    "string \<Rightarrow> string \<Rightarrow> channel_affinity_binding \<Rightarrow> int \<Rightarrow> 'd monoize_attempt list \<Rightarrow> app_state
       \<Rightarrow> 'd monoize_attempt list \<times> string option \<times> app_state" where
  "place_bound key key_hash b now attempts st =
     (let target = affinity_target_name (ab_provider_id b) (ab_channel_id b)
      in case position (binds_attempt b) attempts of
           None \<Rightarrow> (attempts, Some target, st)
         | Some pos \<Rightarrow>
             if \<not> at_affinity_enabled (attempts ! pos)
             then (attempts, None, st\<lparr>channel_affinity := fmdrop key (channel_affinity st)\<rparr>)
             else if failback_due b now attempts pos then (attempts, Some target, st)
             else (move_to_front pos (stamp_hit key key_hash target) attempts, Some target, st))"

definition stamp_miss :: "string \<Rightarrow> string \<Rightarrow> string option \<Rightarrow> 'd monoize_attempt \<Rightarrow> 'd monoize_attempt" where
  "stamp_miss key key_hash bound_target a =
     (if at_affinity_key a = None
      then a\<lparr>at_affinity_key := Some key, at_affinity_key_hash := Some key_hash, at_affinity_hit := Some False,
             at_affinity_target := or_else bound_target
               (Some (affinity_target_name (at_provider_id a) (at_channel_id a)))\<rparr>
      else a)"

text \<open>
  Between the two lock sections other requests may run; \<open>others\<close> is what they do to the state.
\<close>

definition apply_channel_affinity ::
    "(string \<Rightarrow> string) \<Rightarrow> (app_state \<Rightarrow> app_state) \<Rightarrow> app_state \<Rightarrow> urp_routing_request \<Rightarrow> auth_result
       \<Rightarrow> 'd monoize_attempt list \<Rightarrow> int \<Rightarrow> 'd monoize_attempt list \<times> app_state" where
  "apply_channel_affinity xxh3 others st urp auth attempts now =
     (case affinity_key_for_request xxh3 urp auth of
        None \<Rightarrow> (attempts, st)
      | Some (key, key_hash) \<Rightarrow>
          (let (binding, st) = affinity_lookup st key now;
               (attempts, bound_target, st) =
                 (case binding of
                    None \<Rightarrow> (attempts, None, others st)
                  | Some b \<Rightarrow> place_bound key key_hash b now attempts (others st))
           in if binding = None \<and> \<not> list_ex at_affinity_enabled attempts then (attempts, st)
              else (map (stamp_miss key key_hash bound_target) attempts, st)))"

section \<open>Keys separate the tenants\<close>






definition sample_auth :: auth_result where
  "sample_auth = \<lparr>auth_tenant_id = ''u1'', auth_user_id = Some ''u1'', auth_account_class = Standard,
     auth_api_key_id = Some ''k1'', auth_max_multiplier = None, auth_effective_groups = None,
     auth_channel_bindings = []\<rparr>"

definition sample_request :: urp_routing_request where
  "sample_request = \<lparr>rq_model = ''m'', rq_max_multiplier = None, rq_server_tool_usage_classes = [],
     affinity_explicit = Some ''conv'', affinity_prefix_hash = ''00''\<rparr>"


section \<open>The affinity map as a bounded store\<close>

definition put_affinity ::
    "environment \<Rightarrow> string \<Rightarrow> channel_affinity_binding \<Rightarrow> affinity_map \<Rightarrow> affinity_map" where
  "put_affinity env key b cache = insert_channel_affinity env cache key b"

interpretation affinity_store: bounded_store "put_affinity env" "channel_affinity_max_entries env" for env
  by unfold_locales
     (auto simp: put_affinity_def insert_channel_affinity_def insert_channel_affinity_with_limit_def)

text \<open>Every operation that writes the affinity map.\<close>

datatype 'd affinity_op =
    RefreshOp "'d monoize_attempt" int
  | RefreshResponseOp auth_result string string "'d monoize_attempt" int
  | ClearAttemptOp "'d monoize_attempt"
  | LookupOp string int
  | CleanupOp int
  | PruneAffinityOp "string list"
  | ClearAllOp

fun run_affinity_op :: "'d affinity_op \<Rightarrow> app_state \<Rightarrow> app_state" where
  "run_affinity_op (RefreshOp a now) st = refresh_channel_affinity st a now"
| "run_affinity_op (RefreshResponseOp auth model rid a now) st = refresh_response_id_affinity st auth model rid a now"
| "run_affinity_op (ClearAttemptOp a) st = clear_channel_affinity st a"
| "run_affinity_op (LookupOp key now) st = snd (affinity_lookup st key now)"
| "run_affinity_op (CleanupOp now) st =
     st\<lparr>channel_affinity := fst (cleanup_channel_affinity (channel_affinity st) now)\<rparr>"
| "run_affinity_op (PruneAffinityOp ids) st =
     st\<lparr>channel_affinity := prune_provider_channel_affinity (channel_affinity st) ids\<rparr>"
| "run_affinity_op ClearAllOp st = clear_affinity_map st"

definition binding_ok :: "channel_affinity_binding \<Rightarrow> bool" where
  "binding_ok b \<longleftrightarrow> last_used_at b < expires_at b \<or> expires_at b = i64_max"

definition affinity_ok :: "app_state \<Rightarrow> bool" where
  "affinity_ok st \<longleftrightarrow>
     map_len (channel_affinity st) \<le> channel_affinity_max_entries (process_env st)
     \<and> (\<forall>k b. fmlookup (channel_affinity st) k = Some b \<longrightarrow> binding_ok b)"

lemma refreshed_binding_ok: "i64_min \<le> now \<Longrightarrow> binding_ok (refreshed_binding cache key a now)"
  by (auto simp: binding_ok_def refreshed_binding_def channel_affinity_expires_at_def saturating_add_i64_def
      u64_to_i64_or_max_def i64_max_def i64_min_def)

lemma affinity_ok_put:
  assumes "affinity_ok st" and "binding_ok b"
  shows "affinity_ok (st\<lparr>channel_affinity :=
           insert_channel_affinity (process_env st) (channel_affinity st) key b\<rparr>)"
  using affinity_store.put_capacity [of "channel_affinity st" "process_env st" key b]
    affinity_store.put_entries [of "channel_affinity st" binding_ok b "process_env st" key] assms
  by (simp add: affinity_ok_def put_affinity_def)

lemma affinity_ok_drop: "affinity_ok st \<Longrightarrow> affinity_ok (st\<lparr>channel_affinity := fmdrop key (channel_affinity st)\<rparr>)"
  using map_len_fmdrop_le [of key "channel_affinity st"] by (auto simp: affinity_ok_def)

lemma affinity_ok_filter: "affinity_ok st \<Longrightarrow> affinity_ok (st\<lparr>channel_affinity := fmfilter P (channel_affinity st)\<rparr>)"
  using map_len_fmfilter_le [of P "channel_affinity st"] by (auto simp: affinity_ok_def)

fun op_time :: "'d affinity_op \<Rightarrow> int" where
  "op_time (RefreshOp _ now) = now"
| "op_time (RefreshResponseOp _ _ _ _ now) = now"
| "op_time _ = 0"

lemma run_affinity_op_ok:
  assumes "affinity_ok st" and "i64_min \<le> op_time op"
  shows "affinity_ok (run_affinity_op op st)"
proof (cases op)
  case (RefreshOp a now)
  with assms show ?thesis
    by (auto simp: refresh_channel_affinity_def split: option.splits
        intro!: affinity_ok_put affinity_ok_drop refreshed_binding_ok)
next
  case (RefreshResponseOp auth model rid a now)
  with assms show ?thesis
    by (auto simp: refresh_response_id_affinity_def split: option.splits
        intro!: affinity_ok_put refreshed_binding_ok)
qed (use assms in \<open>auto simp: clear_channel_affinity_def affinity_lookup_def cleanup_channel_affinity_def
    prune_provider_channel_affinity_def clear_affinity_map_def Let_def
    intro!: affinity_ok_drop affinity_ok_filter split: option.splits\<close>,
    simp_all add: affinity_ok_def)

text \<open>
  C18: However refreshes, clears, lookups, cleanups and prunes of all requests interleave, the
  affinity map holds at most its configured number of bindings, and every binding expires only
  after its last use (or at the end of time).
\<close>

theorem affinity_map_invariant:
  assumes "channel_affinity st = fmempty" and "list_all (\<lambda>op. i64_min \<le> op_time op) ops"
  shows "affinity_ok (fold run_affinity_op ops st)"
proof -
  have "affinity_ok (fold run_affinity_op ops s)" if "affinity_ok s" for s
    using that assms(2) by (induction ops arbitrary: s) (auto simp: run_affinity_op_ok)
  moreover have "affinity_ok st" using assms(1) by (simp add: affinity_ok_def)
  ultimately show ?thesis by blast
qed

section \<open>What affinity does to the attempts\<close>

text \<open>An attempt without its affinity stamps.\<close>

definition erase_affinity :: "'d monoize_attempt \<Rightarrow> 'd monoize_attempt" where
  "erase_affinity a =
     a\<lparr>at_affinity_key := None, at_affinity_key_hash := None, at_affinity_hit := None, at_affinity_target := None\<rparr>"

lemma erase_stamps [simp]:
  "erase_affinity (stamp_hit key h target a) = erase_affinity a"
  "erase_affinity (stamp_miss key h bt a) = erase_affinity a"
  by (simp_all add: erase_affinity_def stamp_hit_def stamp_miss_def)

lemma erase_ids [simp]:
  "at_provider_id (erase_affinity a) = at_provider_id a" "at_channel_id (erase_affinity a) = at_channel_id a"
  by (simp_all add: erase_affinity_def)

lemma position_Some:
  "position P xs = Some i \<Longrightarrow> i < length xs \<and> P (xs ! i) \<and> (\<forall>j < i. \<not> P (xs ! j))"
proof (induction xs arbitrary: i)
  case (Cons x xs)
  then show ?case by (cases i) (auto simp: less_Suc_eq_0_disj split: if_splits)
qed simp


definition unstamped :: "'d monoize_attempt list \<Rightarrow> bool" where
  "unstamped as \<longleftrightarrow> list_all (\<lambda>a. at_affinity_key a = None \<and> at_affinity_hit a = None) as"

text \<open>The attempt that a live binding of the request's key moves to the front.\<close>

definition bound_position ::
    "(string \<Rightarrow> string) \<Rightarrow> app_state \<Rightarrow> urp_routing_request \<Rightarrow> auth_result \<Rightarrow> 'd monoize_attempt list \<Rightarrow> int
       \<Rightarrow> nat option" where
  "bound_position xxh3 st urp auth as now =
     Option.bind (affinity_key_for_request xxh3 urp auth) (\<lambda>(key, h).
     Option.bind (option_filter (\<lambda>b. now < expires_at b) (fmlookup (channel_affinity st) key)) (\<lambda>b.
     option_filter (\<lambda>pos. at_affinity_enabled (as ! pos) \<and> \<not> failback_due b now as pos)
       (position (binds_attempt b) as)))"

lemma stamp_miss_hit: "at_affinity_hit (stamp_miss key h bt a) = Some True \<Longrightarrow> at_affinity_hit a = Some True"
  by (simp add: stamp_miss_def split: if_splits)

lemma fst_place_bound:
  "fst (place_bound key h b now as st) =
     (case option_filter (\<lambda>pos. at_affinity_enabled (as ! pos) \<and> \<not> failback_due b now as pos)
             (position (binds_attempt b) as) of
        None \<Rightarrow> as
      | Some pos \<Rightarrow> move_to_front pos
          (stamp_hit key h (affinity_target_name (ab_provider_id b) (ab_channel_id b))) as)"
  by (simp add: place_bound_def Let_def split: option.split)

lemma apply_channel_affinity_bound:
  assumes "affinity_key_for_request xxh3 urp auth = Some (key, h)"
    and "fmlookup (channel_affinity st) key = Some b" and "now < expires_at b"
  shows "\<exists>bt. fst (apply_channel_affinity xxh3 others st urp auth as now)
           = map (stamp_miss key h bt) (fst (place_bound key h b now as (others st)))"
  using assms by (simp add: apply_channel_affinity_def affinity_lookup_def split_def Let_def) blast

lemma promoted_attempts:
  assumes "unstamped as" and "pos < length as"
    and as'_def: "as' = map (stamp_miss key h bt) (move_to_front pos (stamp_hit key h target) as)"
  shows "map erase_affinity as' = map erase_affinity (as ! pos # take pos as @ drop (Suc pos) as)"
    and "at_affinity_hit (hd as') = Some True"
    and "list_all (\<lambda>a. at_affinity_hit a \<noteq> Some True) (tl as')"
proof -
  show "map erase_affinity as' = map erase_affinity (as ! pos # take pos as @ drop (Suc pos) as)"
    by (simp add: as'_def move_to_front_def)
  show "at_affinity_hit (hd as') = Some True"
    by (simp add: as'_def move_to_front_def stamp_hit_def stamp_miss_def)
  show "list_all (\<lambda>a. at_affinity_hit a \<noteq> Some True) (tl as')"
    using assms(1)
    by (auto simp: as'_def move_to_front_def unstamped_def list_all_iff
        dest!: stamp_miss_hit in_set_takeD in_set_dropD)
qed

lemma apply_channel_affinity_promotes:
  assumes "unstamped as"
  shows "(case bound_position xxh3 st urp auth as now of
            None \<Rightarrow> map erase_affinity (fst (apply_channel_affinity xxh3 others st urp auth as now))
                      = map erase_affinity as
                    \<and> list_all (\<lambda>a. at_affinity_hit a \<noteq> Some True)
                        (fst (apply_channel_affinity xxh3 others st urp auth as now))
          | Some pos \<Rightarrow> map erase_affinity (fst (apply_channel_affinity xxh3 others st urp auth as now))
                      = map erase_affinity (as ! pos # take pos as @ drop (Suc pos) as)
                    \<and> at_affinity_hit (hd (fst (apply_channel_affinity xxh3 others st urp auth as now))) = Some True
                    \<and> list_all (\<lambda>a. at_affinity_hit a \<noteq> Some True)
                        (tl (fst (apply_channel_affinity xxh3 others st urp auth as now))))"
proof (cases "affinity_key_for_request xxh3 urp auth")
  case None
  then show ?thesis
    using assms by (auto simp: bound_position_def apply_channel_affinity_def unstamped_def list_all_iff)
next
  case (Some kh)
  then obtain key h where kh: "affinity_key_for_request xxh3 urp auth = Some (key, h)" by (cases kh) auto
  have miss: "list_all (\<lambda>a. at_affinity_hit a \<noteq> Some True) (map (stamp_miss key h bt) as)" for bt
    using assms by (auto simp: unstamped_def list_all_iff dest!: stamp_miss_hit)
  have plain: "list_all (\<lambda>a. at_affinity_hit a \<noteq> Some True) as"
    using assms by (auto simp: unstamped_def list_all_iff)
  show ?thesis
  proof (cases "option_filter (\<lambda>b. now < expires_at b) (fmlookup (channel_affinity st) key)")
    case None
    then have "fst (affinity_lookup st key now) = None"
      by (auto simp: affinity_lookup_def option_filter_def split: option.splits if_splits)
    then show ?thesis using None kh miss plain
      by (auto simp: bound_position_def apply_channel_affinity_def split_def Let_def)
  next
    case (Some b)
    then have b: "fmlookup (channel_affinity st) key = Some b" "now < expires_at b"
      by (simp_all add: option_filter_Some_iff)
    obtain bt where r: "fst (apply_channel_affinity xxh3 others st urp auth as now)
           = map (stamp_miss key h bt) (fst (place_bound key h b now as (others st)))"
      using apply_channel_affinity_bound [OF kh b] by blast
    let ?pos = "option_filter (\<lambda>pos. at_affinity_enabled (as ! pos) \<and> \<not> failback_due b now as pos)
        (position (binds_attempt b) as)"
    have bp: "bound_position xxh3 st urp auth as now = ?pos"
      using kh b by (simp add: bound_position_def)
    show ?thesis
    proof (cases ?pos)
      case None
      then show ?thesis using miss unfolding bp r fst_place_bound by simp
    next
      case (Some pos)
      then have "pos < length as"
        by (auto simp: option_filter_Some_iff dest: position_Some)
      from promoted_attempts [OF assms this refl] Some show ?thesis unfolding bp r fst_place_bound by simp
    qed
  qed
qed

lemma apply_channel_affinity_mem:
  assumes "unstamped as" and "a \<in> set (fst (apply_channel_affinity xxh3 others st urp auth as now))"
  shows "\<exists>x \<in> set as. erase_affinity a = erase_affinity x"
proof -
  have "erase_affinity a \<in> set (map erase_affinity (fst (apply_channel_affinity xxh3 others st urp auth as now)))"
    using assms(2) by simp
  moreover have "set (map erase_affinity (fst (apply_channel_affinity xxh3 others st urp auth as now)))
      \<subseteq> erase_affinity ` set as"
  proof (cases "bound_position xxh3 st urp auth as now")
    case None
    with apply_channel_affinity_promotes [OF assms(1), of xxh3 others st urp auth now] show ?thesis by simp
  next
    case (Some pos)
    then have "pos < length as"
      by (auto simp: bound_position_def result_simps dest!: position_Some)
    then have "set (as ! pos # take pos as @ drop (Suc pos) as) \<subseteq> set as"
      by (auto dest: in_set_takeD in_set_dropD)
    with Some apply_channel_affinity_promotes [OF assms(1), of xxh3 others st urp auth now] show ?thesis
      by (simp only: option.case set_map) blast
  qed
  ultimately show ?thesis by auto
qed

text \<open>
  C17: Affinity only promotes. The attempts of a request are, up to their affinity stamps, the
  given ones in the given order, except that the attempt named by a live binding of the request's
  own key is moved to the front when affinity is enabled for it and no failback is due; only that
  attempt is marked as a hit.
\<close>

theorem affinity_only_promotes:
  assumes "unstamped as"
  shows "(case bound_position xxh3 st urp auth as now of
            None \<Rightarrow> map erase_affinity (fst (apply_channel_affinity xxh3 others st urp auth as now))
                      = map erase_affinity as
                    \<and> list_all (\<lambda>a. at_affinity_hit a \<noteq> Some True)
                        (fst (apply_channel_affinity xxh3 others st urp auth as now))
          | Some pos \<Rightarrow> map erase_affinity (fst (apply_channel_affinity xxh3 others st urp auth as now))
                      = map erase_affinity (as ! pos # take pos as @ drop (Suc pos) as)
                    \<and> at_affinity_hit (hd (fst (apply_channel_affinity xxh3 others st urp auth as now))) = Some True
                    \<and> list_all (\<lambda>a. at_affinity_hit a \<noteq> Some True)
                        (tl (fst (apply_channel_affinity xxh3 others st urp auth as now))))"
  using assms by (rule apply_channel_affinity_promotes)


section \<open>Examples\<close>

definition affinity_attempt :: "string \<Rightarrow> string option \<Rightarrow> unit monoize_attempt" where
  "affinity_attempt channel key =
     sample_attempt\<lparr>at_provider_id := channel, at_channel_id := channel, at_affinity_key := key\<rparr>"

definition sample_binding :: channel_affinity_binding where
  "sample_binding = \<lparr>ab_provider_id = ''c2'', ab_channel_id = ''c2'', bound_at = 0, last_used_at = 0,
     expires_at = 1000\<rparr>"

lemma sample_key:
  "affinity_key_for_request (\<lambda>_. []) sample_request sample_auth
     = Some (''v1|api_key:k1|model:m|explicit:conv'', [])"
  by (simp add: affinity_key_for_request_def affinity_tenant_def affinity_key_def affinity_source_def
      sample_auth_def sample_request_def Let_def)

lemma sample_unstamped: "unstamped [affinity_attempt ''c1'' None, affinity_attempt ''c2'' None]"
  by (simp add: unstamped_def affinity_attempt_def sample_attempt_def)

theorem affinity_map_invariant_witness:
  "affinity_ok (fold run_affinity_op
     [RefreshOp (affinity_attempt ''c1'' (Some ''key'')) 100, CleanupOp 200, LookupOp ''key'' 5000,
      ClearAttemptOp (affinity_attempt ''c1'' (Some ''key''))] sample_state)"
  by (rule affinity_map_invariant) (simp_all add: sample_state_def i64_min_def)

theorem affinity_only_promotes_witness:
  "map at_channel_id (fst (apply_channel_affinity (\<lambda>_. []) id
      (sample_state\<lparr>channel_affinity := fmupd ''v1|api_key:k1|model:m|explicit:conv'' sample_binding fmempty\<rparr>)
      sample_request sample_auth [affinity_attempt ''c1'' None, affinity_attempt ''c2'' None] 10))
    = [''c2'', ''c1'']"
proof -
  let ?st = "sample_state\<lparr>channel_affinity := fmupd ''v1|api_key:k1|model:m|explicit:conv'' sample_binding fmempty\<rparr>"
  let ?as = "[affinity_attempt ''c1'' None, affinity_attempt ''c2'' None]"
  have "bound_position (\<lambda>_. []) ?st sample_request sample_auth ?as 10 = Some 1"
    by (simp add: bound_position_def sample_key sample_binding_def binds_attempt_def affinity_attempt_def
        sample_attempt_def failback_due_def)
  with affinity_only_promotes [OF sample_unstamped, of "\<lambda>_. []" id ?st sample_request sample_auth 10]
  have "map erase_affinity (fst (apply_channel_affinity (\<lambda>_. []) id ?st sample_request sample_auth ?as 10))
      = map erase_affinity [affinity_attempt ''c2'' None, affinity_attempt ''c1'' None]" by simp
  then have "map at_channel_id (map erase_affinity
        (fst (apply_channel_affinity (\<lambda>_. []) id ?st sample_request sample_auth ?as 10)))
      = map at_channel_id (map erase_affinity [affinity_attempt ''c2'' None, affinity_attempt ''c1'' None])"
    by (rule arg_cong)
  then show ?thesis by (simp add: comp_def affinity_attempt_def)
qed


end
