(* ===== verification/Routing_Plan.thy ===== *)
theory Routing_Plan
  imports Routing_Affinity Billing_Correct
begin

text \<open>
  Planning the attempts of a request, \<open>build_monoize_attempts_for_provider_type\<close> of
  \<open>src/src/handlers/routing.rs\<close>: the providers of the model in group order, one attempt per
  eligible channel, the price of every attempt, the channel selection of an API key and the
  affinity. The rows that the stores return and the URL parser are arguments.
\<close>

section \<open>Origins\<close>

text \<open>A parsed URL as far as the router looks at it.\<close>

record url =
  url_scheme :: string
  url_host_str :: "string option"
  url_port_or_known_default :: "nat option"
  url_path :: string
  url_query :: "string option"
  url_fragment :: "string option"

type_synonym url_parser = "string \<Rightarrow> url option"

definition channel_origin_key :: "url_parser \<Rightarrow> string \<Rightarrow> string option" where
  "channel_origin_key parse base_url =
     Option.bind (parse (trim base_url)) (\<lambda>u.
       let scheme = to_ascii_lowercase (url_scheme u) in
       if scheme \<noteq> ''http'' \<and> scheme \<noteq> ''https'' then None
       else Option.bind (url_host_str u) (\<lambda>host.
            Option.bind (url_port_or_known_default u) (\<lambda>port.
              Some (scheme @ ''://'' @ to_ascii_lowercase host @ '':'' @ show_nat port))))"

definition origin_peer_channel_ids :: "url_parser \<Rightarrow> monoize_channel list \<Rightarrow> string \<Rightarrow> string list" where
  "origin_peer_channel_ids parse channels origin_key =
     map ch_id (filter (\<lambda>c. channel_origin_key parse (ch_base_url c) = Some origin_key)
                  (filter ch_enabled channels))"

definition is_direct_cloudflare_workers_ai_url :: "url_parser \<Rightarrow> string \<Rightarrow> bool" where
  "is_direct_cloudflare_workers_ai_url parse base_url =
     (case parse (trim base_url) of
        None \<Rightarrow> False
      | Some u \<Rightarrow>
          if url_scheme u \<noteq> ''https'' \<or> url_host_str u \<noteq> Some ''api.cloudflare.com''
             \<or> url_query u \<noteq> None \<or> url_fragment u \<noteq> None then False
          else (case strip_prefix ''/client/v4/accounts/''
                       (unwrap_or (strip_suffix ''/'' (url_path u)) (url_path u)) of
                  None \<Rightarrow> False
                | Some account_and_suffix \<Rightarrow>
                    (case or_else (strip_suffix ''/ai/v1'' account_and_suffix)
                            (strip_suffix ''/ai'' account_and_suffix) of
                       None \<Rightarrow> False
                     | Some account_id \<Rightarrow> account_id \<noteq> [] \<and> CHR ''/'' \<notin> set account_id)))"

definition effective_session_affinity_auto :: "url_parser \<Rightarrow> string \<Rightarrow> bool option \<Rightarrow> bool" where
  "effective_session_affinity_auto parse base_url configured =
     unwrap_or configured (is_direct_cloudflare_workers_ai_url parse base_url)"

section \<open>Attempts of one provider\<close>

definition is_provider_group_eligible :: "string \<Rightarrow> string list option \<Rightarrow> bool" where
  "is_provider_group_eligible provider_group_id effective_groups =
     (case effective_groups of
        None \<Rightarrow> True
      | Some gs \<Rightarrow> gs = [] \<or> list_ex (\<lambda>g. g = provider_group_id) gs)"

definition provider_group_rank :: "string \<Rightarrow> string list option \<Rightarrow> nat" where
  "provider_group_rank provider_group_id effective_groups =
     (case effective_groups of
        None \<Rightarrow> 0
      | Some gs \<Rightarrow> if gs = [] then 0
                   else unwrap_or (position (\<lambda>g. g = provider_group_id) gs) u64_max)"

fun resolve_effective_api_type ::
    "api_type_override list \<Rightarrow> monoize_provider_type \<Rightarrow> string \<Rightarrow> monoize_provider_type" where
  "resolve_effective_api_type [] default_type model = default_type"
| "resolve_effective_api_type (e # es) default_type model =
     (if case_sensitive_glob_match (ov_pattern e) model = Some True then ov_api_type e
      else resolve_effective_api_type es default_type model)"

fun push_missing :: "string list \<Rightarrow> string list \<Rightarrow> string list" where
  "push_missing merged [] = merged"
| "push_missing merged (f # fs) = push_missing (if f \<in> set merged then merged else merged @ [f]) fs"

definition merge_extra_fields_whitelist ::
    "(string, string list) fmap \<Rightarrow> string list option \<Rightarrow> monoize_provider_type \<Rightarrow> string list option" where
  "merge_extra_fields_whitelist global provider_override effective_type =
     (case (fmlookup global (MonoizeProviderType_as_str effective_type), provider_override) of
        (None, None) \<Rightarrow> None
      | (Some g, None) \<Rightarrow> Some g
      | (None, Some p) \<Rightarrow> Some p
      | (Some g, Some p) \<Rightarrow> Some (push_missing g p))"

definition resolve_upstream_model :: "string \<Rightarrow> monoize_model_entry \<Rightarrow> string" where
  "resolve_upstream_model requested_model entry =
     unwrap_or (option_filter (\<lambda>v. v \<noteq> []) (map_option trim (redirect entry))) requested_model"

definition make_attempt ::
    "url_parser \<Rightarrow> monoize_runtime_config \<Rightarrow> urp_routing_request \<Rightarrow> monoize_provider \<Rightarrow> nat
       \<Rightarrow> monoize_channel \<Rightarrow> monoize_model_entry \<Rightarrow> 'd monoize_attempt" where
  "make_attempt parse rt urp p revision c entry =
     (let origin_key = channel_origin_key parse (ch_base_url c);
          api_type = resolve_effective_api_type (pv_api_type_overrides p) (ch_provider_type c) (rq_model urp)
      in \<lparr>at_provider_id = pv_id p, at_group_id = pv_group_id p, at_provider_name = pv_name p,
          at_provider_type = to_config_type api_type,
          at_channel_id = ch_id c, at_channel_name = ch_name c, at_base_url = ch_base_url c,
          at_api_key = ch_api_key c, at_logical_model = rq_model urp,
          at_upstream_model = resolve_upstream_model (rq_model urp) entry,
          at_pricing_profile = effective_pricing_profile p entry,
          at_model_multiplier = effective_model_multiplier p entry,
          at_server_tool_usage_classes = rq_server_tool_usage_classes urp,
          at_provider_transforms = pv_transforms p,
          at_passive_failure_count_threshold =
            max 1 (unwrap_or (passive_failure_count_threshold_override c) (rt_passive_failure_count_threshold rt)),
          at_passive_cooldown_seconds =
            max 1 (unwrap_or (passive_cooldown_seconds_override c) (rt_passive_cooldown_seconds rt)),
          at_passive_window_seconds =
            max 1 (unwrap_or (passive_window_seconds_override c) (rt_passive_window_seconds rt)),
          at_passive_rate_limit_cooldown_seconds =
            max 1 (unwrap_or (passive_rate_limit_cooldown_seconds_override c)
                     (rt_passive_rate_limit_cooldown_seconds rt)),
          at_channel_max_retries = pv_channel_max_retries p,
          at_channel_retry_interval_ms = nat (max 0 (pv_channel_retry_interval_ms p)),
          at_circuit_breaker_enabled = pv_circuit_breaker_enabled p,
          at_per_model_circuit_break = pv_per_model_circuit_break p,
          at_request_timeout_ms = max 1 (unwrap_or (request_timeout_ms_override p) (rt_request_timeout_ms rt)),
          at_extra_fields_whitelist =
            merge_extra_fields_whitelist (rt_extra_fields_whitelist rt) (pv_extra_fields_whitelist p) api_type,
          at_strip_cross_protocol_nested_extra =
            unwrap_or (pv_strip_cross_protocol_nested_extra p) (rt_strip_cross_protocol_nested_extra rt),
          at_billable_pricing_available = False, at_billing_rate_resolution = None,
          at_affinity_key = None, at_affinity_key_hash = None, at_affinity_hit = None,
          at_affinity_target = None,
          at_affinity_enabled = unwrap_or (affinity_enabled_override c) (rt_affinity_enabled rt),
          at_affinity_idle_ttl_seconds =
            max 1 (unwrap_or (affinity_idle_ttl_seconds_override c) (rt_affinity_idle_ttl_seconds rt)),
          at_affinity_failback_mode =
            unwrap_or (affinity_failback_mode_override c) (rt_affinity_failback_mode rt),
          at_affinity_failback_delay_seconds =
            unwrap_or (affinity_failback_delay_seconds_override c) (rt_affinity_failback_delay_seconds rt),
          at_routing_config_revision = revision, at_proxy_url = ch_proxy_url c,
          at_extra_headers = ch_extra_headers c,
          at_session_affinity_auto =
            effective_session_affinity_auto parse (ch_base_url c) (ch_session_affinity_auto c),
          at_allow_missing_usage = ch_allow_missing_usage c, at_client_session_id = None,
          at_derived_session_affinity = None, at_session_affinity_value = None,
          at_origin_key = origin_key,
          at_origin_peer_channel_ids =
            (case origin_key of None \<Rightarrow> [] | Some o' \<Rightarrow> origin_peer_channel_ids parse [pv_channel p] o')\<rparr>)"

definition supports_request :: "urp_routing_request \<Rightarrow> monoize_provider \<Rightarrow> monoize_channel \<Rightarrow> bool" where
  "supports_request urp p c =
     (case fmlookup (ch_models c) (rq_model urp) of
        None \<Rightarrow> False
      | Some entry \<Rightarrow>
          (case rq_max_multiplier urp of
             None \<Rightarrow> True
           | Some maximum \<Rightarrow> Multiplier_le (effective_model_multiplier p entry) maximum))"

text \<open>A channel that passed the filters has an entry for the model.\<close>

definition collect_provider_attempts ::
    "url_parser \<Rightarrow> app_state \<Rightarrow> urp_routing_request \<Rightarrow> string list option \<Rightarrow> nat \<Rightarrow> int
       \<Rightarrow> monoize_provider \<Rightarrow> 'd monoize_attempt list" where
  "collect_provider_attempts parse st urp effective_groups revision now p =
     (if \<not> pv_enabled p then []
      else if \<not> is_provider_group_eligible (pv_group_id p) effective_groups then []
      else
        (let supporting_channels = filter (supports_request urp p) [pv_channel p];
             channels = filter_eligible_channels st supporting_channels (pv_circuit_breaker_enabled p)
                          (if pv_per_model_circuit_break p then Some (rq_model urp) else None) now
         in List.map_filter (\<lambda>c. map_option (make_attempt parse (monoize_runtime st) urp p revision c)
              (fmlookup (ch_models c) (rq_model urp))) channels))"

section \<open>Prices\<close>

fun admission_error_text :: "billing_error \<Rightarrow> string" where
  "admission_error_text (InvalidUnitPrice rid) = ''invalid unit_price_nano for '' @ rid"
| "admission_error_text (NonCanonicalUnitPrice rid) =
     ''non-canonical or negative unit_price_nano for billing rate '' @ rid"
| "admission_error_text ContextThresholdRequired = ''context-tier rate requires context_threshold_tokens''"
| "admission_error_text (MissingTierRate uclass tier) =
     ''missing token rate for usage_class='' @ uclass @ '', context_tier='' @ tier"
| "admission_error_text (MeterRateRequired uclass) =
     ''meter rate required for server-native tool usage class: '' @ uclass"
| "admission_error_text _ = []"

type_synonym 'd pricing = "(string, 'd billing_rate_resolution option) result"

definition price_attempt ::
    "'d billing_rate_resolution_snapshot \<Rightarrow> urp_routing_request \<Rightarrow> 'd monoize_attempt \<Rightarrow> 'd pricing" where
  "price_attempt snap urp a =
     (case Option.bind (at_pricing_profile a)
             (snapshot_resolve snap (at_upstream_model a) (rq_model urp) (at_provider_type a)) of
        Some resolution \<Rightarrow>
          (case billing_rate_matrix_allows_request resolution (rq_server_tool_usage_classes urp) of
             Inr True \<Rightarrow> Inr (Some resolution)
           | Inr False \<Rightarrow> Inr None
           | Inl e \<Rightarrow> Inl (admission_error_text e))
      | None \<Rightarrow>
          if rq_server_tool_usage_classes urp = [] then Inr None
          else Inl (''meter rate required for server-native tool usage class: ''
                      @ join '', '' (rq_server_tool_usage_classes urp)))"

definition pricing_cache_key :: "urp_routing_request \<Rightarrow> 'd monoize_attempt \<Rightarrow> string \<times> string \<times> string" where
  "pricing_cache_key urp a =
     (at_upstream_model a, rq_model urp,
      reasoning_envelope_provider_type (at_provider_type a) @ '':'' @ unwrap_or (at_pricing_profile a) []
        @ '':'' @ join '','' (rq_server_tool_usage_classes urp))"

type_synonym 'd pricing_cache = "(string \<times> string \<times> string, 'd pricing) fmap"

definition cached_price ::
    "'d billing_rate_resolution_snapshot \<Rightarrow> urp_routing_request \<Rightarrow> 'd pricing_cache \<Rightarrow> 'd monoize_attempt
       \<Rightarrow> 'd pricing \<times> 'd pricing_cache" where
  "cached_price snap urp cache a =
     (let key = pricing_cache_key urp a
      in case fmlookup cache key of
           Some cached \<Rightarrow> (cached, cache)
         | None \<Rightarrow> (let priced = price_attempt snap urp a in (priced, fmupd key priced cache)))"

record 'd priced_attempts =
  allowed_attempts :: "'d monoize_attempt list"
  blocked_models :: "string list"
  blocked_meter_errors :: "string list"

definition book_price :: "'d monoize_attempt \<Rightarrow> 'd pricing \<Rightarrow> 'd priced_attempts \<Rightarrow> 'd priced_attempts" where
  "book_price a pricing acc =
     (case pricing of
        Inl err \<Rightarrow> acc\<lparr>blocked_meter_errors := err # blocked_meter_errors acc\<rparr>
      | Inr (Some resolution) \<Rightarrow>
          acc\<lparr>allowed_attempts := allowed_attempts acc
                @ [a\<lparr>at_billable_pricing_available := True, at_billing_rate_resolution := Some resolution\<rparr>]\<rparr>
      | Inr None \<Rightarrow> acc\<lparr>blocked_models := at_upstream_model a # blocked_models acc\<rparr>)"

fun price_loop ::
    "'d billing_rate_resolution_snapshot \<Rightarrow> urp_routing_request \<Rightarrow> 'd monoize_attempt list \<Rightarrow> 'd pricing_cache
       \<Rightarrow> 'd priced_attempts \<Rightarrow> 'd priced_attempts" where
  "price_loop snap urp [] cache acc = acc"
| "price_loop snap urp (a # as) cache acc =
     (let (pricing, cache) = cached_price snap urp cache a
      in price_loop snap urp as cache (book_price a pricing acc))"

text \<open>A \<open>BTreeSet<String>\<close> printed as a comma-separated list.\<close>

definition sorted_text :: "string list \<Rightarrow> string" where
  "sorted_text xs = join '', '' (remdups_adj (sort xs))"

definition check_pricing :: "'d priced_attempts \<Rightarrow> (app_error, 'd monoize_attempt list) result" where
  "check_pricing acc =
     (if blocked_meter_errors acc \<noteq> []
      then Inl (AppError_new 403 ''model_pricing_required'' (sorted_text (blocked_meter_errors acc)))
      else if allowed_attempts acc = [] \<and> blocked_models acc \<noteq> []
      then Inl (AppError_new 403 ''model_pricing_required''
             (''pricing metadata required for model(s): '' @ sorted_text (blocked_models acc)))
      else Inr (allowed_attempts acc))"

section \<open>Channel selection\<close>

definition attempt_scope :: "'d monoize_attempt \<Rightarrow> string \<times> string" where
  "attempt_scope a = (at_group_id a, at_logical_model a)"

definition scope_channels :: "'d monoize_attempt list \<Rightarrow> string \<times> string \<Rightarrow> string list" where
  "scope_channels as scope = remdups (map at_channel_id (filter (\<lambda>a. attempt_scope a = scope) as))"

definition conflicting_scopes :: "'d monoize_attempt list \<Rightarrow> (string \<times> string) list" where
  "conflicting_scopes as =
     filter (\<lambda>scope. 1 < length (scope_channels as scope)) (remdups_adj (sort (map attempt_scope as)))"

definition binding_for :: "api_key_channel_binding list \<Rightarrow> string \<times> string \<Rightarrow> string list \<Rightarrow> bool" where
  "binding_for bindings scope channels =
     list_ex (\<lambda>b. (bd_group_id b, bd_model b) = scope \<and> bd_channel_id b \<in> set channels) bindings"

definition select_bound_channels ::
    "auth_result \<Rightarrow> 'd monoize_attempt list \<Rightarrow> (app_error, 'd monoize_attempt list) result" where
  "select_bound_channels auth as =
     (if auth_api_key_id auth = None then Inr as
      else
        (let conflicts = conflicting_scopes as
         in case find (\<lambda>scope. \<not> binding_for (auth_channel_bindings auth) scope (scope_channels as scope)) conflicts of
              Some (group_id, model) \<Rightarrow>
                Inl (AppError_new 409 ''channel_selection_required''
                  (''select one Channel for Group '' @ group_id @ '' and model '' @ model))
            | None \<Rightarrow>
                Inr (filter (\<lambda>a. attempt_scope a \<notin> set conflicts
                       \<or> binding_for (auth_channel_bindings auth) (attempt_scope a) [at_channel_id a]) as)))"

section \<open>The plan\<close>

text \<open>
  What the stores answer: the providers of the model, the candidate rates for the profiles and
  provider types of the attempts, and the current exchange rate. \<open>views i\<close> is the shared state and
  the time that the \<open>i\<close>-th provider is filtered with, since other requests run in between.
\<close>

record 'd routing_stores =
  db_providers :: "(string, monoize_provider list) result"
  db_candidate_rates :: "(string, billing_rate list) result"
  db_cny_per_usd :: "'d option"

definition collect_attempts ::
    "url_parser \<Rightarrow> (nat \<Rightarrow> app_state \<times> int) \<Rightarrow> urp_routing_request \<Rightarrow> string list option \<Rightarrow> nat
       \<Rightarrow> monoize_provider list \<Rightarrow> 'd monoize_attempt list" where
  "collect_attempts parse views urp effective_groups revision providers =
     concat (map (\<lambda>(i, p). collect_provider_attempts parse (fst (views i)) urp effective_groups revision
                    (snd (views i)) p) (enumerate 0 providers))"

definition pricing_inputs :: "'d monoize_attempt list \<Rightarrow> (string \<times> provider_type \<times> string) list" where
  "pricing_inputs as =
     List.map_filter (\<lambda>a. map_option (\<lambda>profile. (at_upstream_model a, at_provider_type a, profile))
       (at_pricing_profile a)) as"

definition empty_priced :: "'d priced_attempts" where
  "empty_priced = \<lparr>allowed_attempts = [], blocked_models = [], blocked_meter_errors = []\<rparr>"

definition planned_attempts ::
    "url_parser \<Rightarrow> (nat \<Rightarrow> app_state \<times> int) \<Rightarrow> 'd routing_stores \<Rightarrow> app_state \<Rightarrow> urp_routing_request
       \<Rightarrow> auth_result \<Rightarrow> provider_type option \<Rightarrow> (app_error, 'd monoize_attempt list) result" where
  "planned_attempts parse views db st urp auth required_provider_type =
     (case db_providers db of
        Inl e \<Rightarrow> Inl (AppError_new 500 ''provider_store_error'' e)
      | Inr providers \<Rightarrow>
          (let providers = sort_key (\<lambda>p. provider_group_rank (pv_group_id p) (auth_effective_groups auth)) providers;
               attempts = collect_attempts parse views urp (auth_effective_groups auth)
                            (routing_config_revision st) providers
           in Inr (case required_provider_type of
                     None \<Rightarrow> attempts
                   | Some t \<Rightarrow> filter (\<lambda>a. at_provider_type a = t) attempts)))"

definition build_monoize_attempts_for_provider_type ::
    "'d decimal_ops \<Rightarrow> (string \<Rightarrow> string) \<Rightarrow> url_parser \<Rightarrow> (nat \<Rightarrow> app_state \<times> int) \<Rightarrow> (app_state \<Rightarrow> app_state)
       \<Rightarrow> 'd routing_stores \<Rightarrow> app_state \<Rightarrow> urp_routing_request \<Rightarrow> auth_result \<Rightarrow> provider_type option \<Rightarrow> int
       \<Rightarrow> (app_error, 'd monoize_attempt list \<times> app_state) result" where
  "build_monoize_attempts_for_provider_type D xxh3 parse views others db st urp auth required_provider_type now =
     rbind (planned_attempts parse views db st urp auth required_provider_type) (\<lambda>attempts.
       if attempts = [] then Inr ([], st)
       else
         (case db_candidate_rates db of
            Inl e \<Rightarrow> Inl (AppError_new 500 ''internal_error'' e)
          | Inr candidate_rates \<Rightarrow>
              (let snap = build_billing_rate_resolution_snapshot D (rt_reasoning_suffix_map (monoize_runtime st))
                            candidate_rates (db_cny_per_usd db) (pricing_inputs attempts) (rq_model urp)
               in rbind (check_pricing (price_loop snap urp attempts fmempty empty_priced)) (\<lambda>allowed.
                  rbind (select_bound_channels auth allowed) (\<lambda>allowed.
                    Inr (apply_channel_affinity xxh3 others st urp auth allowed now))))))"

section \<open>The pricing cache is transparent\<close>

lemma provider_type_name_inject:
  "reasoning_envelope_provider_type t = reasoning_envelope_provider_type u \<longleftrightarrow> t = u"
  by (cases t; cases u; simp)

lemma provider_type_name_colon: "CHR '':'' \<notin> set (reasoning_envelope_provider_type t)"
  by (cases t) simp_all

definition named_profile :: "'d monoize_attempt \<Rightarrow> bool" where
  "named_profile a \<longleftrightarrow> at_pricing_profile a \<noteq> Some []"

lemma pricing_cache_key_determines_price:
  assumes "pricing_cache_key urp a = pricing_cache_key urp b" and "named_profile a" and "named_profile b"
  shows "price_attempt snap urp a = price_attempt snap urp b"
proof -
  from assms(1) have m: "at_upstream_model a = at_upstream_model b"
    and k: "reasoning_envelope_provider_type (at_provider_type a) @ CHR '':''
              # (unwrap_or (at_pricing_profile a) [] @ '':'' @ join '','' (rq_server_tool_usage_classes urp))
          = reasoning_envelope_provider_type (at_provider_type b) @ CHR '':''
              # (unwrap_or (at_pricing_profile b) [] @ '':'' @ join '','' (rq_server_tool_usage_classes urp))"
    by (simp_all add: pricing_cache_key_def)
  from append_separator_inject [OF k provider_type_name_colon provider_type_name_colon]
  have "at_provider_type a = at_provider_type b"
    and "unwrap_or (at_pricing_profile a) [] = unwrap_or (at_pricing_profile b) []"
    by (simp_all add: provider_type_name_inject)
  moreover from this(2) assms(2,3) have "at_pricing_profile a = at_pricing_profile b"
    by (cases "at_pricing_profile a"; cases "at_pricing_profile b") (auto simp: named_profile_def)
  ultimately show ?thesis using m by (simp add: price_attempt_def)
qed

text \<open>A cache that only holds prices of attempts seen so far.\<close>

definition cache_ok ::
    "'d billing_rate_resolution_snapshot \<Rightarrow> urp_routing_request \<Rightarrow> 'd pricing_cache \<Rightarrow> bool" where
  "cache_ok snap urp cache \<longleftrightarrow>
     (\<forall>k v. fmlookup cache k = Some v \<longrightarrow>
        (\<exists>a. named_profile a \<and> k = pricing_cache_key urp a \<and> v = price_attempt snap urp a))"

lemma cached_price_eq:
  assumes "cache_ok snap urp cache" and "named_profile a"
  shows "fst (cached_price snap urp cache a) = price_attempt snap urp a"
    and "cache_ok snap urp (snd (cached_price snap urp cache a))"
proof -
  show "fst (cached_price snap urp cache a) = price_attempt snap urp a"
  proof (cases "fmlookup cache (pricing_cache_key urp a)")
    case (Some v)
    with assms(1) obtain b where "named_profile b" "pricing_cache_key urp a = pricing_cache_key urp b"
      "v = price_attempt snap urp b" unfolding cache_ok_def by blast
    with pricing_cache_key_determines_price assms(2) Some show ?thesis
      by (fastforce simp: cached_price_def Let_def)
  qed (simp add: cached_price_def Let_def)
  show "cache_ok snap urp (snd (cached_price snap urp cache a))"
    using assms by (auto simp: cached_price_def Let_def cache_ok_def split: option.splits)
qed

definition price_without_cache ::
    "'d billing_rate_resolution_snapshot \<Rightarrow> urp_routing_request \<Rightarrow> 'd monoize_attempt list
       \<Rightarrow> 'd priced_attempts \<Rightarrow> 'd priced_attempts" where
  "price_without_cache snap urp = fold (\<lambda>a. book_price a (price_attempt snap urp a))"

lemma price_loop_eq:
  assumes "cache_ok snap urp cache" and "list_all named_profile as"
  shows "price_loop snap urp as cache acc = price_without_cache snap urp as acc"
  using assms
proof (induction as arbitrary: cache acc)
  case (Cons a as)
  then show ?case
    using cached_price_eq [of snap urp cache a]
    by (simp add: price_without_cache_def split_def Let_def)
qed (simp add: price_without_cache_def)

text \<open>
  C11: The pricing cache is transparent. As long as no attempt has an empty pricing profile, pricing
  the attempts of a request with the shared cache gives the same allowed attempts, blocked models
  and errors as pricing each attempt on its own, although the cache key is a text that joins
  provider type, profile and tool classes.
\<close>

theorem pricing_cache_transparent:
  assumes "list_all named_profile as"
  shows "price_loop snap urp as fmempty empty_priced = price_without_cache snap urp as empty_priced"
  using price_loop_eq [of snap urp fmempty as empty_priced] assms by (simp add: cache_ok_def)

section \<open>What a planned attempt satisfies\<close>

definition plan_source ::
    "url_parser \<Rightarrow> monoize_provider list \<Rightarrow> urp_routing_request \<Rightarrow> string list option \<Rightarrow> 'd monoize_attempt \<Rightarrow> bool" where
  "plan_source parse providers urp groups a \<longleftrightarrow>
     (\<exists>p entry. p \<in> set providers \<and> pv_enabled p \<and> ch_enabled (pv_channel p)
        \<and> is_provider_group_eligible (pv_group_id p) groups
        \<and> fmlookup (ch_models (pv_channel p)) (rq_model urp) = Some entry
        \<and> (\<forall>maximum. rq_max_multiplier urp = Some maximum \<longrightarrow> Multiplier_le (at_model_multiplier a) maximum)
        \<and> at_provider_id a = pv_id p \<and> at_group_id a = pv_group_id p
        \<and> at_channel_id a = ch_id (pv_channel p) \<and> at_logical_model a = rq_model urp
        \<and> at_model_multiplier a = effective_model_multiplier p entry
        \<and> at_pricing_profile a = effective_pricing_profile p entry)"

definition priced_attempt :: "urp_routing_request \<Rightarrow> 'd monoize_attempt \<Rightarrow> bool" where
  "priced_attempt urp a \<longleftrightarrow>
     at_billable_pricing_available a
     \<and> (case at_billing_rate_resolution a of
          None \<Rightarrow> False
        | Some res \<Rightarrow> billing_rate_matrix_allows_request res (rq_server_tool_usage_classes urp) = Inr True)"

lemma collect_provider_attempts_mem:
  assumes "a \<in> set (collect_provider_attempts parse st urp groups revision now p)" and "p \<in> set providers"
  shows "plan_source parse providers urp groups a \<and> unstamped [a]"
proof -
  from assms(1) have on: "pv_enabled p" "is_provider_group_eligible (pv_group_id p) groups"
    by (auto simp: collect_provider_attempts_def split: if_splits)
  with assms(1) obtain c entry where c: "c = pv_channel p" "ch_enabled c" "supports_request urp p c"
    and entry: "fmlookup (ch_models c) (rq_model urp) = Some entry"
    and a: "a = make_attempt parse (monoize_runtime st) urp p revision c entry"
    by (auto simp: collect_provider_attempts_def Let_def filter_eligible_channels_def channel_eligible_def
        List.map_filter_def supports_request_def split: if_splits option.splits)
  have "\<forall>maximum. rq_max_multiplier urp = Some maximum \<longrightarrow> Multiplier_le (effective_model_multiplier p entry) maximum"
    using c(3) entry by (auto simp: supports_request_def)
  with on c entry a assms(2) show ?thesis
    by (auto simp: plan_source_def make_attempt_def Let_def unstamped_def)
qed

lemma collect_attempts_mem:
  assumes "a \<in> set (collect_attempts parse views urp groups revision providers)"
  shows "\<exists>i p. p \<in> set providers
           \<and> a \<in> set (collect_provider_attempts parse (fst (views i)) urp groups revision (snd (views i)) p)"
proof -
  from assms obtain ip where ip: "ip \<in> set (enumerate 0 providers)"
    and a: "a \<in> set (collect_provider_attempts parse (fst (views (fst ip))) urp groups revision
              (snd (views (fst ip))) (snd ip))"
    by (auto simp: collect_attempts_def split_def)
  from ip have "snd ip \<in> set providers" by (metis in_set_enumerate_eq add_0_right diff_zero nth_mem)
  with a show ?thesis by blast
qed

lemma planned_attempts_subset:
  assumes "planned_attempts parse views db st urp auth t = Inr as" and "db_providers db = Inr providers"
  shows "set as \<subseteq> set (collect_attempts parse views urp (auth_effective_groups auth) (routing_config_revision st)
           (sort_key (\<lambda>p. provider_group_rank (pv_group_id p) (auth_effective_groups auth)) providers))"
  using assms by (cases t) (auto simp: planned_attempts_def Let_def)

lemma planned_attempts_mem:
  assumes "planned_attempts parse views db st urp auth t = Inr as" and "db_providers db = Inr providers"
  shows "list_all (\<lambda>a. plan_source parse providers urp (auth_effective_groups auth) a) as" and "unstamped as"
proof -
  have "plan_source parse providers urp (auth_effective_groups auth) a \<and> unstamped [a]" if "a \<in> set as" for a
  proof -
    from collect_attempts_mem [OF subsetD [OF planned_attempts_subset [OF assms] that]]
    obtain i p where "p \<in> set providers"
      and "a \<in> set (collect_provider_attempts parse (fst (views i)) urp (auth_effective_groups auth)
             (routing_config_revision st) (snd (views i)) p)"
      by (auto simp only: set_sort)
    from collect_provider_attempts_mem [OF this(2,1)] show ?thesis .
  qed
  then show "list_all (\<lambda>a. plan_source parse providers urp (auth_effective_groups auth) a) as" and "unstamped as"
    by (simp_all add: list_all_iff unstamped_def)
qed

text \<open>Pricing only books attempts with an admitted matrix.\<close>

lemma price_attempt_admitted:
  "price_attempt snap urp a = Inr (Some res) \<Longrightarrow>
     billing_rate_matrix_allows_request res (rq_server_tool_usage_classes urp) = Inr True"
  by (auto simp: price_attempt_def split: option.splits sum.splits bool.splits if_splits)

definition cache_admits :: "urp_routing_request \<Rightarrow> 'd pricing_cache \<Rightarrow> bool" where
  "cache_admits urp cache \<longleftrightarrow>
     (\<forall>k res. fmlookup cache k = Some (Inr (Some res)) \<longrightarrow>
        billing_rate_matrix_allows_request res (rq_server_tool_usage_classes urp) = Inr True)"

lemma cached_price_admits:
  assumes "cache_admits urp cache"
  shows "cache_admits urp (snd (cached_price snap urp cache a))"
    and "fst (cached_price snap urp cache a) = Inr (Some res) \<Longrightarrow>
           billing_rate_matrix_allows_request res (rq_server_tool_usage_classes urp) = Inr True"
  using assms price_attempt_admitted [of snap urp a]
  by (auto simp: cached_price_def Let_def cache_admits_def pricing_cache_key_def split: option.splits if_splits)

definition booked_from :: "urp_routing_request \<Rightarrow> 'd monoize_attempt list \<Rightarrow> 'd monoize_attempt \<Rightarrow> bool" where
  "booked_from urp as a \<longleftrightarrow>
     (\<exists>x \<in> set as. \<exists>res. a = x\<lparr>at_billable_pricing_available := True, at_billing_rate_resolution := Some res\<rparr>
        \<and> billing_rate_matrix_allows_request res (rq_server_tool_usage_classes urp) = Inr True)"

lemma booked_from_Cons: "booked_from urp as a \<Longrightarrow> booked_from urp (x # as) a"
  by (auto simp: booked_from_def)

lemma price_loop_booked:
  assumes "cache_admits urp cache" and "a \<in> set (allowed_attempts (price_loop snap urp as cache acc))"
  shows "a \<in> set (allowed_attempts acc) \<or> booked_from urp as a"
  using assms
proof (induction as arbitrary: cache acc)
  case (Cons x as)
  obtain pricing cache' where c: "cached_price snap urp cache x = (pricing, cache')" by fastforce
  note admits = cached_price_admits [OF Cons.prems(1), of snap x, unfolded c fst_conv snd_conv]
  from Cons.IH [OF admits(1)] Cons.prems(2) c
  consider "a \<in> set (allowed_attempts (book_price x pricing acc))" | "booked_from urp as a" by auto
  then show ?case
  proof cases
    case 1
    then show ?thesis
      using admits(2) by (auto simp: book_price_def booked_from_def split: sum.splits option.splits)
  next
    case 2
    then show ?thesis by (blast intro: booked_from_Cons)
  qed
qed simp

lemma check_pricing_Inr: "check_pricing acc = Inr as \<Longrightarrow> as = allowed_attempts acc \<and> blocked_meter_errors acc = []"
  by (simp add: check_pricing_def split: if_splits)

lemma select_bound_subset: "select_bound_channels auth as = Inr bs \<Longrightarrow> set bs \<subseteq> set as"
  by (auto simp: select_bound_channels_def Let_def split: if_splits option.splits)

lemma plan_source_update [simp]:
  "plan_source parse providers urp groups
     (x\<lparr>at_billable_pricing_available := b, at_billing_rate_resolution := r\<rparr>) = plan_source parse providers urp groups x"
  "plan_source parse providers urp groups (erase_affinity x) = plan_source parse providers urp groups x"
  by (simp_all add: plan_source_def erase_affinity_def)

lemma priced_attempt_update [simp]:
  "priced_attempt urp (x\<lparr>at_billable_pricing_available := True, at_billing_rate_resolution := Some r\<rparr>) \<longleftrightarrow>
     billing_rate_matrix_allows_request r (rq_server_tool_usage_classes urp) = Inr True"
  "priced_attempt urp (erase_affinity x) = priced_attempt urp x"
  by (simp_all add: priced_attempt_def erase_affinity_def)

lemma build_attempts_cases:
  assumes "build_monoize_attempts_for_provider_type D xxh3 parse views others db st urp auth t now = Inr (as, st')"
  obtains (none) "planned_attempts parse views db st urp auth t = Inr []" and "as = []" and "st' = st"
  | (some) planned snap allowed where "planned_attempts parse views db st urp auth t = Inr planned"
      and "check_pricing (price_loop snap urp planned fmempty empty_priced) = Inr allowed"
      and "\<exists>selected. select_bound_channels auth allowed = Inr selected
             \<and> (as, st') = apply_channel_affinity xxh3 others st urp auth selected now"
proof -
  from assms obtain planned where planned: "planned_attempts parse views db st urp auth t = Inr planned"
    unfolding build_monoize_attempts_for_provider_type_def rbind_eq_Inr_iff by blast
  note build = assms [unfolded build_monoize_attempts_for_provider_type_def planned rbind_Inr Let_def]
  show thesis
  proof (cases "planned = []")
    case True
    from build have "as = []" "st' = st" unfolding if_P [OF True] by simp_all
    with planned True show thesis by (intro none) simp_all
  next
    case False
    from build [unfolded if_not_P [OF False]]
    obtain candidate_rates where rates: "db_candidate_rates db = Inr candidate_rates"
      by (cases "db_candidate_rates db") simp_all
    from build [unfolded if_not_P [OF False] rates sum.case rbind_eq_Inr_iff]
    obtain allowed selected where "check_pricing (price_loop
        (build_billing_rate_resolution_snapshot D (rt_reasoning_suffix_map (monoize_runtime st)) candidate_rates
           (db_cny_per_usd db) (pricing_inputs planned) (rq_model urp)) urp planned fmempty empty_priced) = Inr allowed"
      and "select_bound_channels auth allowed = Inr selected"
      and "Inr (apply_channel_affinity xxh3 others st urp auth selected now) = Inr (as, st')"
      by blast
    then show thesis by (intro some [OF planned]) auto
  qed
qed

lemma allowed_attempts_ok:
  assumes "planned_attempts parse views db st urp auth t = Inr planned" and "db_providers db = Inr providers"
    and "check_pricing (price_loop snap urp planned fmempty empty_priced) = Inr allowed"
  shows "\<forall>a \<in> set allowed. plan_source parse providers urp (auth_effective_groups auth) a \<and> priced_attempt urp a"
    and "unstamped allowed"
proof -
  note planned = planned_attempts_mem [OF assms(1,2)]
  have booked: "booked_from urp planned a" if "a \<in> set allowed" for a
    using price_loop_booked [of urp fmempty a snap planned empty_priced] that check_pricing_Inr [OF assms(3)]
    by (simp add: cache_admits_def empty_priced_def)
  show "\<forall>a \<in> set allowed. plan_source parse providers urp (auth_effective_groups auth) a \<and> priced_attempt urp a"
  proof
    fix a
    assume "a \<in> set allowed"
    from booked [OF this] planned(1) show "plan_source parse providers urp (auth_effective_groups auth) a
        \<and> priced_attempt urp a"
      by (auto simp: booked_from_def list_all_iff)
  qed
  show "unstamped allowed"
    using booked planned(2) by (fastforce simp: unstamped_def list_all_iff booked_from_def)
qed

text \<open>
  C9: No unauthorised or unpriced attempt is ever planned. Every attempt of a successful plan comes
  from an enabled provider with an enabled channel of a group the caller may use, the channel
  serves the requested model under the caller's price ceiling, and the attempt carries a rate
  matrix that admits the request, including a meter for every server tool the request may use.
\<close>

theorem planned_attempts_authorised:
  assumes "db_providers db = Inr providers"
    and "build_monoize_attempts_for_provider_type D xxh3 parse views others db st urp auth t now = Inr (as, st')"
  shows "\<forall>a \<in> set as. plan_source parse providers urp (auth_effective_groups auth) a \<and> priced_attempt urp a"
  using assms(2)
proof (cases rule: build_attempts_cases)
  case none
  then show ?thesis by simp
next
  case (some planned snap allowed)
  then obtain selected where sel: "select_bound_channels auth allowed = Inr selected"
    and as: "as = fst (apply_channel_affinity xxh3 others st urp auth selected now)"
    by (metis fst_conv)
  note ok = allowed_attempts_ok [OF some(1) assms(1) some(2)]
  have sub: "set selected \<subseteq> set allowed" by (rule select_bound_subset [OF sel])
  with ok(2) have un: "unstamped selected" by (auto simp: unstamped_def list_all_iff)
  show ?thesis
  proof
    fix a
    assume "a \<in> set as"
    from apply_channel_affinity_mem [OF un this [unfolded as]] obtain x where x: "x \<in> set selected"
      and e: "erase_affinity a = erase_affinity x" by blast
    from ok(1) sub x have "plan_source parse providers urp (auth_effective_groups auth) (erase_affinity x)
        \<and> priced_attempt urp (erase_affinity x)" by auto
    then show "plan_source parse providers urp (auth_effective_groups auth) a \<and> priced_attempt urp a"
      unfolding e [symmetric] by simp
  qed
qed

section \<open>Order and channel selection\<close>

lemma collect_attempts_Cons:
  "collect_attempts parse views urp groups revision (p # ps) =
     collect_provider_attempts parse (fst (views 0)) urp groups revision (snd (views 0)) p
     @ collect_attempts parse (\<lambda>i. views (Suc i)) urp groups revision ps"
proof -
  have "enumerate (Suc 0) ps = map (\<lambda>(i, p). (Suc i, p)) (enumerate 0 ps)"
    by (rule nth_equalityI) (simp_all add: nth_enumerate_eq)
  then show ?thesis by (simp add: collect_attempts_def comp_def split_def)
qed

lemma collect_provider_attempts_ids:
  "a \<in> set (collect_provider_attempts parse st urp groups revision now p) \<Longrightarrow>
     at_group_id a = pv_group_id p \<and> at_provider_id a = pv_id p"
  by (auto simp: collect_provider_attempts_def Let_def List.map_filter_def make_attempt_def split: if_splits)

lemma collect_provider_attempts_short:
  "length (collect_provider_attempts parse st urp groups revision now p) \<le> 1"
  by (simp add: collect_provider_attempts_def Let_def List.map_filter_def filter_eligible_channels_def)

text \<open>The attempts name their providers in the order of the provider list.\<close>

definition attempt_provider :: "'d monoize_attempt \<Rightarrow> string \<times> string" where
  "attempt_provider a = (at_provider_id a, at_group_id a)"

lemma collect_attempts_subseq:
  "subseq (map attempt_provider (collect_attempts parse views urp groups revision ps :: 'd monoize_attempt list))
     (map (\<lambda>p. (pv_id p, pv_group_id p)) ps)"
proof (induction ps arbitrary: views)
  case Nil
  then show ?case by (simp add: collect_attempts_def)
next
  case (Cons p ps)
  let ?as = "collect_provider_attempts parse (fst (views 0)) urp groups revision (snd (views 0)) p
    :: 'd monoize_attempt list"
  have "map attempt_provider ?as = [] \<or> map attempt_provider ?as = [(pv_id p, pv_group_id p)]"
  proof (cases ?as)
    case Nil
    then show ?thesis by simp
  next
    case (Cons a as)
    moreover have "length ?as \<le> 1" by (rule collect_provider_attempts_short)
    ultimately have "as = []" by simp
    moreover have "at_group_id a = pv_group_id p \<and> at_provider_id a = pv_id p"
      by (rule collect_provider_attempts_ids [of a parse "fst (views 0)" urp groups revision "snd (views 0)"])
        (simp add: Cons)
    ultimately show ?thesis using Cons by (simp add: attempt_provider_def)
  qed
  moreover have "subseq (map attempt_provider
        (collect_attempts parse (\<lambda>i. views (Suc i)) urp groups revision ps :: 'd monoize_attempt list))
      (map (\<lambda>p. (pv_id p, pv_group_id p)) ps)" by (rule Cons.IH)
  ultimately show ?case unfolding collect_attempts_Cons map_append by auto
qed

lemma sorted_map_subseq: "subseq xs ys \<Longrightarrow> sorted (map f ys) \<Longrightarrow> sorted (map f xs)"
  by (induction rule: list_emb.induct) (auto dest: list_emb_set)

lemma planned_attempts_subseq:
  fixes as :: "'d monoize_attempt list"
  assumes "planned_attempts parse views db st urp auth t = Inr as" and "db_providers db = Inr providers"
  shows "subseq (map attempt_provider as) (map (\<lambda>p. (pv_id p, pv_group_id p))
           (sort_key (\<lambda>p. provider_group_rank (pv_group_id p) (auth_effective_groups auth)) providers))"
proof -
  let ?cs = "collect_attempts parse views urp (auth_effective_groups auth) (routing_config_revision st)
      (sort_key (\<lambda>p. provider_group_rank (pv_group_id p) (auth_effective_groups auth)) providers)
      :: 'd monoize_attempt list"
  have "subseq as ?cs" using assms by (cases t) (auto simp: planned_attempts_def Let_def)
  then have "subseq (map attempt_provider as) (map attempt_provider ?cs)" by (rule subseq_map)
  then show ?thesis using collect_attempts_subseq by (rule subseq_order.order_trans)
qed

text \<open>
  C10: Attempts respect the caller's group order. The planned attempts are sorted by the rank of
  their group in the caller's effective groups, and attempts of equally ranked groups keep the
  priority order in which the store lists their providers.
\<close>

theorem planned_attempts_group_order:
  assumes "planned_attempts parse views db st urp auth t = Inr as" and "db_providers db = Inr providers"
  shows "sorted (map (\<lambda>a. provider_group_rank (at_group_id a) (auth_effective_groups auth)) as)
       \<and> subseq (map at_provider_id
             (filter (\<lambda>a. provider_group_rank (at_group_id a) (auth_effective_groups auth) = r) as))
           (map pv_id (filter (\<lambda>p. provider_group_rank (pv_group_id p) (auth_effective_groups auth) = r) providers))"
proof -
  let ?rank = "\<lambda>g. provider_group_rank g (auth_effective_groups auth)"
  let ?ps = "sort_key (\<lambda>p. ?rank (pv_group_id p)) providers"
  note sub = planned_attempts_subseq [OF assms]
  have "sorted (map (\<lambda>x. ?rank (snd x)) (map attempt_provider as))"
    by (rule sorted_map_subseq [OF sub]) (simp add: comp_def)
  moreover have "subseq (map fst (filter (\<lambda>x. ?rank (snd x) = r) (map attempt_provider as)))
      (map fst (filter (\<lambda>x. ?rank (snd x) = r) (map (\<lambda>p. (pv_id p, pv_group_id p)) ?ps)))"
    by (rule subseq_map [OF subseq_filter [OF sub]])
  ultimately show ?thesis
    by (simp add: attempt_provider_def comp_def filter_map sort_key_stable)
qed

definition sample_provider :: "string \<Rightarrow> string \<Rightarrow> monoize_provider" where
  "sample_provider i g = \<lparr>pv_id = i, pv_name = ''P'',
     pv_channel = sample_channel\<lparr>ch_id := i, ch_models := fmupd ''m''
       \<lparr>redirect = None, entry_pricing_profile_mode = Inherit, pricing_profile_override = None,
        multiplier_override = None\<rparr> fmempty\<rparr>,
     pv_pricing_profile = Some ''p'', pv_multiplier = Multiplier_ONE, pv_channel_max_retries = 1,
     pv_channel_retry_interval_ms = 0, pv_circuit_breaker_enabled = False, pv_per_model_circuit_break = False,
     pv_transforms = [], pv_api_type_overrides = [], pv_active_probe_enabled_override = None,
     pv_active_probe_interval_seconds_override = None, pv_active_probe_success_threshold_override = None,
     pv_active_probe_model_override = None, request_timeout_ms_override = None,
     pv_extra_fields_whitelist = None, pv_strip_cross_protocol_nested_extra = None, pv_group_id = g,
     pv_enabled = True, pv_priority = 0\<rparr>"

definition sample_stores :: "int routing_stores" where
  "sample_stores = \<lparr>db_providers = Inr [sample_provider ''p1'' ''g1'', sample_provider ''p2'' ''g2''],
     db_candidate_rates = Inr (rates sample_resolution), db_cny_per_usd = None\<rparr>"

theorem planned_attempts_authorised_witness:
  "\<exists>as st'. build_monoize_attempts_for_provider_type int_decimal (\<lambda>_. []) (\<lambda>_. None) (\<lambda>_. (sample_state, 0)) id
       sample_stores sample_state sample_request
       (sample_auth\<lparr>auth_effective_groups := Some [''g2'']\<rparr>) None 0 = Inr (as, st')
     \<and> map at_provider_id as = [''p2'']
     \<and> (\<forall>a \<in> set as. plan_source (\<lambda>_. None) [sample_provider ''p1'' ''g1'', sample_provider ''p2'' ''g2'']
          sample_request (Some [''g2'']) a \<and> priced_attempt sample_request a)"
proof -
  let ?auth = "sample_auth\<lparr>auth_effective_groups := Some [''g2'']\<rparr>"
  let ?plan = "build_monoize_attempts_for_provider_type int_decimal (\<lambda>_. []) (\<lambda>_. None) (\<lambda>_. (sample_state, 0)) id
       sample_stores sample_state sample_request ?auth None 0"
  have "(case ?plan of Inr (as, _) \<Rightarrow> map at_provider_id as = [''p2''] | Inl _ \<Rightarrow> False)"
    by code_simp
  then obtain as st' where plan: "?plan = Inr (as, st')" and ids: "map at_provider_id as = [''p2'']"
    by (auto split: sum.splits)
  have "db_providers sample_stores = Inr [sample_provider ''p1'' ''g1'', sample_provider ''p2'' ''g2'']"
    by (simp add: sample_stores_def)
  from planned_attempts_authorised [OF this plan] plan ids show ?thesis by auto
qed

text \<open>Two providers of two groups, listed in the opposite order of the caller's groups.\<close>

definition sample_plan :: "(app_error, int monoize_attempt list) result" where
  "sample_plan = planned_attempts (\<lambda>_. None) (\<lambda>_. (sample_state, 0)) sample_stores sample_state sample_request
     (sample_auth\<lparr>auth_effective_groups := Some [''g2'', ''g1'']\<rparr>) None"

definition sample_snapshot :: "int billing_rate_resolution_snapshot" where
  "sample_snapshot = \<lparr>reasoning_suffix_map = [],
     resolutions = fmap_of_list [((''m'', reasoning_envelope_provider_type ChatCompletion, ''p''), Some sample_resolution)]\<rparr>"

theorem planned_attempts_group_order_witness:
  "\<exists>as. sample_plan = Inr as \<and> map at_provider_id as = [''p2'', ''p1'']
     \<and> sorted (map (\<lambda>a. provider_group_rank (at_group_id a) (Some [''g2'', ''g1''])) as)"
proof -
  have "(case sample_plan of Inr as \<Rightarrow> map at_provider_id as = [''p2'', ''p1''] | Inl _ \<Rightarrow> False)"
    by code_simp
  then obtain as where plan: "sample_plan = Inr as" and ids: "map at_provider_id as = [''p2'', ''p1'']"
    by (auto split: sum.splits)
  have "db_providers sample_stores = Inr [sample_provider ''p1'' ''g1'', sample_provider ''p2'' ''g2'']"
    by (simp add: sample_stores_def)
  from planned_attempts_group_order [OF plan [unfolded sample_plan_def] this] plan ids show ?thesis by auto
qed

theorem pricing_cache_transparent_witness:
  "\<exists>as. sample_plan = Inr as \<and> length as = 2 \<and> list_all named_profile as
     \<and> price_loop sample_snapshot sample_request as fmempty empty_priced
       = price_without_cache sample_snapshot sample_request as empty_priced"
proof -
  have "(case sample_plan of Inr as \<Rightarrow> length as = 2 \<and> list_all named_profile as | Inl _ \<Rightarrow> False)"
    by code_simp
  then obtain as where "sample_plan = Inr as" "length as = 2" "list_all named_profile as"
    by (auto split: sum.splits)
  with pricing_cache_transparent [OF this(3)] show ?thesis by blast
qed

end
