(* ===== verification/Upstream_Errors.thy ===== *)
theory Upstream_Errors
  imports Routing_Health Json
begin

text \<open>
  How an upstream failure becomes an error of the gateway: the reading of error bodies
  (\<open>src/src/upstream.rs\<close>), the masking and truncation of texts (\<open>src/src/error_sanitize.rs\<close>), the
  conversion of a call error, the record of a failed attempt and the error of an exhausted request
  (\<open>src/src/handlers/routing.rs\<close> and \<open>mod.rs\<close>). The regular expressions, the URL parser, the JSON
  reader and the names of HTTP statuses are parameters.
\<close>

section \<open>Truncation\<close>

definition ERROR_DETAIL_MAX_CHARS :: nat where
  "ERROR_DETAIL_MAX_CHARS = 2048"

definition TRUNCATION_SUFFIX :: string where
  "TRUNCATION_SUFFIX = ''... (truncated)''"

definition truncate_error_detail :: "string \<Rightarrow> string" where
  "truncate_error_detail s =
     (if length (utf8_chars s) \<le> ERROR_DETAIL_MAX_CHARS then s
      else concat (take ERROR_DETAIL_MAX_CHARS (utf8_chars s)) @ TRUNCATION_SUFFIX)"

section \<open>Masking\<close>

definition preserved_tail_len :: "string list \<Rightarrow> nat" where
  "preserved_tail_len parts =
     (if length parts < 2 then length parts
      else if length (parts ! (length parts - 1)) = 2 \<and> length (parts ! (length parts - 2)) \<le> 3 then 2 else 1)"

definition mask_host_for_url :: "string \<Rightarrow> string" where
  "mask_host_for_url host =
     (let parts = split_char CHR ''.'' host in
      if length parts < 2 then ''***''
      else ''***.'' @ join ''.'' (drop (length parts - preserved_tail_len parts) parts))"

definition mask_host_for_plain_domain :: "string \<Rightarrow> string" where
  "mask_host_for_plain_domain domain =
     (let parts = split_char CHR ''.'' domain in
      if length parts < 2 then domain
      else
        (let tail_len = preserved_tail_len parts;
             star_count = max (length parts - tail_len) 1
         in concat (replicate star_count ''***.'') @ join ''.'' (drop (length parts - tail_len) parts)))"

text \<open>A parsed URL as far as the mask looks at it.\<close>

record web_url =
  wu_scheme :: string
  wu_host_str :: "string option"
  wu_port :: "nat option"
  wu_path :: string
  wu_query :: "string option"
  wu_query_pairs :: "(string \<times> string) list"

definition mask_path :: "string \<Rightarrow> string" where
  "mask_path path =
     (if path \<noteq> [] \<and> path \<noteq> ''/''
      then ''/'' @ join ''/'' (map (\<lambda>segment. if segment = [] then [] else ''***'')
             (split_char CHR ''/'' (trim_end_char CHR ''/'' (trim_start_char CHR ''/'' path))))
      else if path = ''/'' then ''/'' else [])"

definition mask_query :: "string option \<Rightarrow> (string \<times> string) list \<Rightarrow> string" where
  "mask_query query pairs =
     (if (case query of Some q \<Rightarrow> q \<noteq> [] | None \<Rightarrow> False)
      then (let masked_params = map (\<lambda>(key, _). key @ ''=***'') pairs in
            if masked_params = [] then ''?***'' else ''?'' @ join ''&'' masked_params)
      else [])"

definition mask_url :: "(string \<Rightarrow> web_url option) \<Rightarrow> string \<Rightarrow> string" where
  "mask_url parse url_str =
     (case parse url_str of
        None \<Rightarrow> url_str
      | Some u \<Rightarrow>
          (case wu_host_str u of
             None \<Rightarrow> url_str
           | Some host \<Rightarrow>
               wu_scheme u @ ''://'' @ mask_host_for_url host
               @ (case wu_port u of Some port \<Rightarrow> '':'' @ show_nat port | None \<Rightarrow> [])
               @ mask_path (wu_path u) @ mask_query (wu_query u) (wu_query_pairs u)))"

text \<open>
  The four compiled patterns: \<open>replace_all\<close> of the URL and the domain pattern with a function of the
  match, and of the address and the key pattern with a replacement text.
\<close>

record mask_patterns =
  url_replace_all :: "(string \<Rightarrow> string) \<Rightarrow> string \<Rightarrow> string"
  domain_replace_all :: "(string \<Rightarrow> string) \<Rightarrow> string \<Rightarrow> string"
  ip_replace_all :: "string \<Rightarrow> string \<Rightarrow> string"
  api_key_replace_all :: "string \<Rightarrow> string \<Rightarrow> string"
  mask_parse_url :: "string \<Rightarrow> web_url option"

definition mask_sensitive_text :: "mask_patterns \<Rightarrow> string \<Rightarrow> string" where
  "mask_sensitive_text P s =
     api_key_replace_all P ''${1}api_key:***${3}''
       (ip_replace_all P ''***.***.***.***''
         (domain_replace_all P mask_host_for_plain_domain
           (url_replace_all P (mask_url (mask_parse_url P)) s)))"

definition maybe_mask_sensitive_text :: "mask_patterns \<Rightarrow> string \<Rightarrow> bool \<Rightarrow> string" where
  "maybe_mask_sensitive_text P s mask_sensitive_info =
     (if mask_sensitive_info then mask_sensitive_text P s else s)"

section \<open>Error bodies\<close>

record upstream_error_info =
  info_code :: "string option"
  info_error_type :: "string option"
  info_param :: "string option"
  info_message :: "string option"

definition UpstreamErrorInfo_default :: upstream_error_info where
  "UpstreamErrorInfo_default = \<lparr>info_code = None, info_error_type = None, info_param = None, info_message = None\<rparr>"

fun json_scalar_string :: "json \<Rightarrow> string option" where
  "json_scalar_string (JString s) = (if s = [] then None else Some s)"
| "json_scalar_string (JNumber n) = Some n"
| "json_scalar_string (JBool b) = Some (if b then ''true'' else ''false'')"
| "json_scalar_string _ = None"

definition error_field :: "json \<Rightarrow> json_map option \<Rightarrow> string \<Rightarrow> string \<Rightarrow> string option" where
  "error_field error metadata key metadata_key =
     or_else (Option.bind (json_get error key) json_scalar_string)
       (Option.bind (Option.bind metadata (\<lambda>m. fmlookup m metadata_key)) json_scalar_string)"

definition extract_error_info :: "(string \<Rightarrow> json option) \<Rightarrow> string \<Rightarrow> upstream_error_info" where
  "extract_error_info from_str body =
     (case Option.bind (from_str body) (\<lambda>v. json_get v ''error'') of
        None \<Rightarrow> UpstreamErrorInfo_default
      | Some error \<Rightarrow>
          (let metadata = Option.bind (json_get error ''metadata'') as_object in
           \<lparr>info_code = error_field error metadata ''code'' ''provider_code'',
            info_error_type = error_field error metadata ''type'' ''error_type'',
            info_param = Option.bind (json_get error ''param'') as_str,
            info_message = Option.bind (json_get error ''message'') as_str\<rparr>))"

definition with_error_info :: "upstream_error_info \<Rightarrow> upstream_call_error \<Rightarrow> upstream_call_error" where
  "with_error_info info e = e\<lparr>uc_code := info_code info, uc_error_type := info_error_type info, uc_param := info_param info\<rparr>"

definition with_source :: "upstream_error_source \<Rightarrow> upstream_call_error \<Rightarrow> upstream_call_error" where
  "with_source src e = e\<lparr>uc_source := src\<rparr>"

text \<open>The body is what \<open>resp.text()\<close> gave, empty when it failed.\<close>

definition non_success_upstream_error :: "(string \<Rightarrow> json option) \<Rightarrow> string \<Rightarrow> nat \<Rightarrow> upstream_call_error" where
  "non_success_upstream_error from_str body status =
     (let info = extract_error_info from_str body;
          (message, src) = (case info_message info of
             Some message \<Rightarrow> (message, StructuredBody)
           | None \<Rightarrow> if body = [] then (''upstream returned an empty error body'', EmptyBody) else (body, UnparsedBody))
      in with_source src (with_error_info info (UpstreamCallError_new Http (Some status) message)))"

section \<open>Call errors\<close>

text \<open>\<open>show_status\<close> is \<open>Display\<close> of \<open>http::StatusCode\<close>.\<close>

definition client_message ::
    "(nat \<Rightarrow> string) \<Rightarrow> mask_patterns \<Rightarrow> upstream_call_error \<Rightarrow> nat \<Rightarrow> bool \<Rightarrow> string" where
  "client_message show_status P err status mask_sensitive_info =
     (case uc_source err of
        Transport \<Rightarrow>
          if mask_sensitive_info then ''failed to request upstream''
          else ''upstream status '' @ show_status status @ '': '' @ truncate_error_detail (uc_message err)
      | UnparsedBody \<Rightarrow>
          if mask_sensitive_info then ''upstream status '' @ show_status status
          else ''upstream status '' @ show_status status @ '': '' @ truncate_error_detail (uc_message err)
      | EmptyBody \<Rightarrow> ''upstream status '' @ show_status status
      | StructuredBody \<Rightarrow>
          ''upstream status '' @ show_status status @ '': '' @ maybe_mask_sensitive_text P (uc_message err) mask_sensitive_info
      | Internal \<Rightarrow>
          ''upstream status '' @ show_status status @ '': '' @ maybe_mask_sensitive_text P (uc_message err) mask_sensitive_info)"

definition upstream_error_to_app ::
    "(nat \<Rightarrow> string) \<Rightarrow> mask_patterns \<Rightarrow> upstream_call_error \<Rightarrow> bool \<Rightarrow> app_error" where
  "upstream_error_to_app show_status P err mask_sensitive_info =
     (let status = unwrap_or (uc_status err) 502;
          internal = ''upstream status '' @ show_status status @ '': '' @ truncate_error_detail (uc_message err);
          app_err = with_upstream_error (uc_status err) (uc_code err) (uc_error_type err) (uc_param err)
                      (with_internal_message internal
                        (AppError_new status ''upstream_error'' (client_message show_status P err status mask_sensitive_info)));
          app_err = (case uc_error_type err of Some t \<Rightarrow> with_type t app_err | None \<Rightarrow> app_err)
      in case uc_param err of Some p \<Rightarrow> with_param p app_err | None \<Rightarrow> app_err)"

section \<open>Failed attempts\<close>

record tried_provider =
  tp_attempt_number :: nat
  tp_provider_id :: string
  tp_channel_id :: string
  tp_provider_name :: string
  tp_channel_name :: string
  tp_error :: string
  tp_client_error :: string
  tp_upstream_status :: "nat option"
  tp_upstream_code :: "string option"
  tp_upstream_type :: "string option"
  tp_upstream_param :: "string option"
  tp_duration_ms :: "nat option"

definition TriedProvider_from_app_error ::
    "mask_patterns \<Rightarrow> nat \<Rightarrow> 'd monoize_attempt \<Rightarrow> app_error \<Rightarrow> nat option \<Rightarrow> bool \<Rightarrow> tried_provider" where
  "TriedProvider_from_app_error P attempt_number a e duration_ms mask_sensitive_info =
     \<lparr>tp_attempt_number = attempt_number, tp_provider_id = at_provider_id a, tp_channel_id = at_channel_id a,
      tp_provider_name = at_provider_name a, tp_channel_name = at_channel_name a,
      tp_error = unwrap_or (err_internal_message e) (truncate_error_detail (err_message e)),
      tp_client_error = maybe_mask_sensitive_text P (err_message e) mask_sensitive_info,
      tp_upstream_status = Some (unwrap_or (err_upstream_status e) (err_status e)),
      tp_upstream_code = Some (unwrap_or (err_upstream_code e) (err_code e)),
      tp_upstream_type = err_upstream_type e, tp_upstream_param = err_upstream_param e,
      tp_duration_ms = duration_ms\<rparr>"

definition no_provider_text :: "string \<Rightarrow> string" where
  "no_provider_text model = ''No available upstream provider for model: '' @ model"

definition build_exhausted_error_message :: "string \<Rightarrow> tried_provider list \<Rightarrow> string" where
  "build_exhausted_error_message model tried =
     (if tried = [] then no_provider_text model
      else ''All upstream attempts failed for model: '' @ model @ ''. Last error: '' @ tp_client_error (List.last tried))"

definition build_exhausted_error_detail :: "string \<Rightarrow> tried_provider list \<Rightarrow> string" where
  "build_exhausted_error_detail model tried =
     (if tried = [] then no_provider_text model
      else ''All '' @ show_nat (length tried) @ '' upstream attempt(s) failed for model: '' @ model
             @ ''. Last error: '' @ tp_error (List.last tried))"

text \<open>\<open>slice::last\<close>.\<close>

definition last_tried :: "tried_provider list \<Rightarrow> tried_provider option" where
  "last_tried tried = (if tried = [] then None else Some (List.last tried))"

definition build_exhausted_upstream_error :: "string \<Rightarrow> tried_provider list \<Rightarrow> app_error" where
  "build_exhausted_upstream_error model tried =
     (let final = last_tried tried;
          code = unwrap_or (option_filter (\<lambda>c. c \<noteq> []) (Option.bind final tp_upstream_code)) ''upstream_error'';
          signature_invalid = (code = ''thinking_signature_invalid'');
          status = (if signature_invalid
                    then unwrap_or (option_filter (\<lambda>s. 400 \<le> s \<and> s < 500)
                           (Option.bind (Option.bind final tp_upstream_status) StatusCode_from_u16)) 400
                    else 502);
          message = (if signature_invalid
                     then unwrap_or (map_option tp_client_error final) (build_exhausted_error_message model tried)
                     else build_exhausted_error_message model tried);
          internal = (if signature_invalid
                      then unwrap_or (map_option tp_error final) (build_exhausted_error_detail model tried)
                      else build_exhausted_error_detail model tried);
          err = with_internal_message internal (AppError_new status code message)
      in case final of
           Some t \<Rightarrow> with_upstream_error (tp_upstream_status t) (tp_upstream_code t) (tp_upstream_type t)
                      (tp_upstream_param t) err
         | None \<Rightarrow> err)"

text \<open>What the store answers about the model: an error, or the providers that serve it.\<close>

definition no_attempt_error :: "(string, monoize_provider list) result \<Rightarrow> string \<Rightarrow> app_error" where
  "no_attempt_error providers model =
     (if (case providers of Inr ps \<Rightarrow> ps \<noteq> [] | Inl _ \<Rightarrow> True)
      then AppError_new 503 ''no_healthy_upstream'' (no_provider_text model)
      else AppError_new 404 ''model_not_found'' (''Model not found: '' @ model))"

section \<open>What the client sees\<close>

text \<open>\<open>IntoResponse for AppError\<close>: the status and the body, which leaves the internal message out.\<close>

record error_body =
  eb_message :: string
  eb_error_type :: string
  eb_param :: "string option"
  eb_code :: string
  eb_upstream_status :: "nat option"
  eb_upstream_code :: "string option"
  eb_upstream_type :: "string option"
  eb_upstream_param :: "string option"

definition error_response :: "app_error \<Rightarrow> nat \<times> error_body" where
  "error_response e =
     (err_status e, \<lparr>eb_message = err_message e, eb_error_type = err_error_type e, eb_param = err_param e,
        eb_code = err_code e, eb_upstream_status = err_upstream_status e, eb_upstream_code = err_upstream_code e,
        eb_upstream_type = err_upstream_type e, eb_upstream_param = err_upstream_param e\<rparr>)"

section \<open>Truncation cuts between scalar values\<close>

lemma takeWhile_prefix: "r = [] \<or> \<not> P (hd r) \<Longrightarrow> takeWhile P (takeWhile P cs @ r) = takeWhile P cs"
  by (cases r; induction cs) (auto dest: set_takeWhileD)

lemma dropWhile_prefix: "r = [] \<or> \<not> P (hd r) \<Longrightarrow> dropWhile P (takeWhile P cs @ r) = r"
  by (cases r; induction cs) (auto dest: set_takeWhileD)

lemma utf8_chars_take:
  assumes "t = [] \<or> \<not> is_continuation (hd t)"
  shows "utf8_chars (concat (take k (utf8_chars s)) @ t) = take k (utf8_chars s) @ utf8_chars t"
proof (induction s arbitrary: k rule: utf8_chars.induct)
  case (2 c cs)
  show ?case
  proof (cases k)
    case (Suc j)
    let ?rest = "concat (take j (utf8_chars (dropWhile is_continuation cs))) @ t"
    have head: "?rest = [] \<or> \<not> is_continuation (hd ?rest)"
    proof (cases "dropWhile is_continuation cs")
      case Nil
      show ?thesis unfolding Nil using assms by simp
    next
      case (Cons d ds)
      then have "\<not> is_continuation d" by (metis hd_dropWhile list.distinct(1) list.sel(1))
      then show ?thesis unfolding Cons using assms by (cases j) auto
    qed
    have "takeWhile is_continuation (takeWhile is_continuation cs @ ?rest) = takeWhile is_continuation cs"
      and "dropWhile is_continuation (takeWhile is_continuation cs @ ?rest) = ?rest"
      using takeWhile_prefix [of ?rest is_continuation cs] dropWhile_prefix [of ?rest is_continuation cs] head by blast+
    then show ?thesis using Suc 2 [of j] by simp
  qed simp
qed simp

text \<open>
  C35: A truncated error text has at most 2048 scalar values and the marker; it never cuts a scalar
  value of the text apart, and a text within the bound is kept as it is.
\<close>

theorem truncation_keeps_scalars:
  "utf8_chars (truncate_error_detail s) =
     (if length (utf8_chars s) \<le> 2048 then utf8_chars s
      else take 2048 (utf8_chars s) @ map (\<lambda>c. [c]) ''... (truncated)'')"
proof -
  have suffix: "utf8_chars TRUNCATION_SUFFIX = map (\<lambda>c. [c]) ''... (truncated)''"
    by code_simp
  have "utf8_chars (concat (take 2048 (utf8_chars s)) @ TRUNCATION_SUFFIX) = take 2048 (utf8_chars s) @ utf8_chars TRUNCATION_SUFFIX"
    by (rule utf8_chars_take) code_simp
  then show ?thesis by (simp add: truncate_error_detail_def ERROR_DETAIL_MAX_CHARS_def suffix)
qed

section \<open>What masking hides\<close>

text \<open>The text of a transport failure or of a body that is not understood, which may hold addresses and keys.\<close>

definition without_raw_text :: "upstream_call_error \<Rightarrow> upstream_call_error" where
  "without_raw_text e =
     (if uc_source e = Transport \<or> uc_source e = UnparsedBody then e\<lparr>uc_message := []\<rparr> else e)"

text \<open>The attempts of a request with their numbers, call errors and durations.\<close>

definition tried_with_errors ::
    "(nat \<Rightarrow> string) \<Rightarrow> mask_patterns \<Rightarrow> (nat \<times> 'd monoize_attempt \<times> upstream_call_error \<times> nat option) list
       \<Rightarrow> tried_provider list" where
  "tried_with_errors show_status P attempts =
     map (\<lambda>(n, a, e, d). TriedProvider_from_app_error P n a (upstream_error_to_app show_status P e True) d True) attempts"

lemma client_message_hidden:
  "client_message show_status P (without_raw_text e) status True = client_message show_status P e status True"
  by (simp add: client_message_def without_raw_text_def split: upstream_error_source.split)

lemma without_raw_text_sel [simp]:
  "uc_status (without_raw_text e) = uc_status e" "uc_code (without_raw_text e) = uc_code e"
  "uc_error_type (without_raw_text e) = uc_error_type e" "uc_param (without_raw_text e) = uc_param e"
  by (simp_all add: without_raw_text_def)

lemmas app_error_builders = AppError_new_def with_internal_message_def with_upstream_error_def with_type_def with_param_def

lemma error_response_hidden:
  "error_response (upstream_error_to_app show_status P (without_raw_text e) True)
     = error_response (upstream_error_to_app show_status P e True)"
  by (simp add: error_response_def upstream_error_to_app_def client_message_hidden Let_def app_error_builders split: option.split)

definition client_view :: "tried_provider \<Rightarrow> string \<times> nat option \<times> string option \<times> string option \<times> string option" where
  "client_view t = (tp_client_error t, tp_upstream_status t, tp_upstream_code t, tp_upstream_type t, tp_upstream_param t)"

lemma client_view_hidden:
  "client_view (TriedProvider_from_app_error P n a (upstream_error_to_app show_status P (without_raw_text e) True) d True)
     = client_view (TriedProvider_from_app_error P n a (upstream_error_to_app show_status P e True) d True)"
proof -
  have "error_response e1 = error_response e2 \<Longrightarrow>
      client_view (TriedProvider_from_app_error P n a e1 d True) = client_view (TriedProvider_from_app_error P n a e2 d True)" for e1 e2
    by (simp add: error_response_def client_view_def TriedProvider_from_app_error_def)
  then show ?thesis using error_response_hidden by blast
qed

lemma error_response_internal:
  "error_response (with_upstream_error a b c d (with_internal_message detail e)) = error_response (with_upstream_error a b c d e)"
  by (simp add: error_response_def app_error_builders)

lemma exhausted_response_cong:
  assumes "map client_view ts = map client_view us"
  shows "error_response (build_exhausted_upstream_error model ts) = error_response (build_exhausted_upstream_error model us)"
proof (cases "ts = []")
  case False
  moreover from this have "us \<noteq> []" using assms by auto
  moreover from calculation have "client_view (List.last ts) = client_view (List.last us)" using assms by (metis last_map)
  ultimately show ?thesis
    by (simp only: build_exhausted_upstream_error_def build_exhausted_error_message_def last_tried_def client_view_def
        Let_def prod.inject if_False option.case option.map Option.bind.simps unwrap_or_simps error_response_internal)
qed (use assms in simp)

text \<open>
  C34: With masking on, the response to a request whose every attempt failed does not depend on the
  texts of transport failures and of bodies that are not understood: two runs that differ in these
  texts only give the client the same status and the same body.
\<close>

theorem masked_response_hides_raw_text:
  "error_response (build_exhausted_upstream_error model
       (tried_with_errors show_status P (map (\<lambda>(n, a, e, d). (n, a, without_raw_text e, d)) attempts)))
     = error_response (build_exhausted_upstream_error model (tried_with_errors show_status P attempts))"
proof (rule exhausted_response_cong)
  show "map client_view (tried_with_errors show_status P (map (\<lambda>(n, a, e, d). (n, a, without_raw_text e, d)) attempts))
      = map client_view (tried_with_errors show_status P attempts)"
    by (simp add: tried_with_errors_def client_view_hidden split_def)
qed

text \<open>Masking a domain once leaves a tail that the mask takes for a domain again.\<close>

lemma masked_tail_masked_again:
  "mask_host_for_plain_domain ''shop.co.uk'' = ''***.co.uk'' \<and> mask_host_for_plain_domain ''co.uk'' = ''***.co.uk''"
  by code_simp

end
