(* ===== verification/Plan_Quota.thy ===== *)
theory Plan_Quota
  imports Store_Money "HOL-Library.Char_ord" "HOL-Library.List_Lexorder" "HOL-Library.Product_Lexorder"
begin

text \<open>
  The plan quota store, \<open>src/src/store_billing/quota.rs\<close>. A user's plan entitlement has quota rules;
  each rule is enforced over windows, and a window of a rule is a bucket row with a settled and a
  reserved amount. A request reserves its maximum in one bucket per rule before it is sent
  upstream, and is later settled with its actual charge or released. The tables are lists of rows;
  a transaction is a function from the tables to an error, which leaves them as they were, or to a
  result and new tables. Amounts are stored as text, as in the database. Instants are nanoseconds,
  stored instants microseconds. The calendar of \<open>chrono\<close> and \<open>chrono_tz\<close>, the digest and fresh
  identifiers are arguments.
\<close>

section \<open>Data\<close>

datatype quota_error =
    QuotaCode string
  | QuotaStorage string
  | QuotaPanic

fun QuotaError_code :: "quota_error \<Rightarrow> string" where
  "QuotaError_code (QuotaCode code) = code"
| "QuotaError_code (QuotaStorage _) = ''quota_storage_error''"
| "QuotaError_code QuotaPanic = []"

fun QuotaError_text :: "quota_error \<Rightarrow> string" where
  "QuotaError_text (QuotaCode code) = code"
| "QuotaError_text (QuotaStorage message) = ''quota storage failed: '' @ message"
| "QuotaError_text QuotaPanic = []"

datatype window_kind = FiveHours | TwelveHours | Day | Week | Month | Custom

record plan_quota =
  pq_id :: string
  pq_window_kind :: window_kind
  pq_window_seconds :: int
  pq_quota_fen_cny :: string
  pq_sort_order :: int

record entitlement_generation_input =
  gi_expected_generation :: "int option"
  gi_user_id :: string
  gi_product_id :: string
  gi_product_name :: string
  gi_starts_at :: int
  gi_ends_at :: int
  gi_rate_numerator :: string
  gi_rate_denominator :: string
  gi_group_ids :: "string list"
  gi_quotas :: "plan_quota list"
  gi_source_kind :: string
  gi_source_id :: string

record entitlement_generation =
  eg_id :: string
  eg_user_id :: string
  eg_generation :: int
  eg_product_id :: string
  eg_product_name :: string
  eg_starts_at :: int
  eg_ends_at :: int
  eg_rate_numerator :: string
  eg_rate_denominator :: string
  eg_group_ids :: "string list"
  eg_quotas :: "plan_quota list"
  eg_source_kind :: string
  eg_source_id :: string

record quota_reservation_input =
  ri_user_id :: string
  ri_request_id :: string
  ri_maximum_nano_usd :: int
  ri_pricing_revision :: string
  ri_now :: int

record plan_funding_input =
  fi_user_id :: string
  fi_request_id :: string
  fi_effective_groups :: "string list"
  fi_maximum_nano_usd :: "int option"
  fi_pricing_revision :: string
  fi_now :: int
  fi_replica :: bool

datatype quota_terminal_state = Reserved | Settled | Released | Violated

fun QuotaTerminalState_as_str :: "quota_terminal_state \<Rightarrow> string" where
  "QuotaTerminalState_as_str Reserved = ''reserved''"
| "QuotaTerminalState_as_str Settled = ''settled''"
| "QuotaTerminalState_as_str Released = ''released''"
| "QuotaTerminalState_as_str Violated = ''violated''"

definition QuotaTerminalState_parse :: "string \<Rightarrow> (quota_error, quota_terminal_state) result" where
  "QuotaTerminalState_parse s =
     (if s = ''reserved'' then Inr Reserved
      else if s = ''settled'' then Inr Settled
      else if s = ''released'' then Inr Released
      else if s = ''violated'' then Inr Violated
      else Inl (QuotaStorage ''invalid quota reservation state''))"

record quota_reservation =
  rv_id :: string
  rv_request_id :: string
  rv_user_id :: string
  rv_entitlement_id :: string
  rv_generation :: int
  rv_maximum_nano_usd :: int
  rv_reserved_fen_cny :: int
  rv_rate_numerator :: string
  rv_rate_denominator :: string
  rv_pricing_revision :: string
  rv_actual_nano_usd :: "int option"
  rv_actual_fen_cny :: "int option"
  rv_state :: quota_terminal_state
  rv_admitted_at :: int
  rv_terminal_at :: "int option"
  rv_bucket_count :: nat

datatype plan_funding_admission = AdmitBalance | AdmitPlan quota_reservation

record quota_window_t =
  qw_start :: int
  qw_end :: int

record bucket_binding =
  bb_rule :: plan_quota
  bb_id :: string
  bb_window :: quota_window_t

section \<open>Tables\<close>

record bucket_row =
  bk_id :: string
  bk_entitlement_id :: string
  bk_generation :: int
  bk_quota_rule_id :: string
  bk_window_kind :: window_kind
  bk_window_start :: int
  bk_window_end :: int
  bk_settled_fen_cny :: string
  bk_reserved_fen_cny :: string
  bk_quota_fen_cny :: string

record reservation_row =
  qr_id :: string
  qr_request_id :: string
  qr_entitlement_id :: string
  qr_generation :: int
  qr_user_id :: string
  qr_maximum_nano_usd :: string
  qr_reserved_fen_cny :: string
  qr_rate_numerator :: string
  qr_rate_denominator :: string
  qr_pricing_revision :: string
  qr_actual_nano_usd :: "string option"
  qr_actual_fen_cny :: "string option"
  qr_state :: string
  qr_admitted_at :: int
  qr_terminal_at :: "int option"

record link_row =
  ln_reservation_id :: string
  ln_bucket_id :: string
  ln_reserved_fen_cny :: string

record violation_row =
  vi_id :: string
  vi_reservation_id :: string
  vi_user_id :: string
  vi_reserved_fen_cny :: string
  vi_actual_fen_cny :: string

record quota_db =
  db_plan_gate :: bool
  db_users :: "string list"
  db_generations :: "entitlement_generation list"
  db_lifecycle :: "(string \<times> int option \<times> int option) list"
  db_current :: "(string \<times> string \<times> int) list"
  db_buckets :: "bucket_row list"
  db_reservations :: "reservation_row list"
  db_links :: "link_row list"
  db_active_holds :: "string list"
  db_violations :: "violation_row list"
  db_admission_blocks :: "(string \<times> string) list"

text \<open>
  \<open>db_plan_gate\<close> says whether plan features are on: PostgreSQL, or a passed gate on SQLite.
  \<open>db_active_holds\<close> has the user of every active balance hold, \<open>db_admission_blocks\<close> the uncleared
  block of a user with its violation.
\<close>

definition require_passed_gate :: "quota_db \<Rightarrow> (quota_error, unit) result" where
  "require_passed_gate db = (if db_plan_gate db then Inr () else Inl (QuotaCode ''quota_gate_unavailable''))"

text \<open>\<open>?\<close> inside a loop that builds a vector.\<close>

fun traverse :: "('a \<Rightarrow> ('e, 'b) result) \<Rightarrow> 'a list \<Rightarrow> ('e, 'b list) result" where
  "traverse f [] = Inr []"
| "traverse f (x # xs) = rbind (f x) (\<lambda>y. rbind (traverse f xs) (\<lambda>ys. Inr (y # ys)))"

text \<open>\<open>transpose\<close> of an optional result.\<close>

definition transpose :: "('e, 'a) result option \<Rightarrow> ('e, 'a option) result" where
  "transpose r = (case r of None \<Rightarrow> Inr None | Some r \<Rightarrow> rbind r (\<lambda>x. Inr (Some x)))"

section \<open>Amounts and instants\<close>

definition NANO_USD_PER_CENT :: int where
  "NANO_USD_PER_CENT = 10000000"

definition quota_overflow :: quota_error where
  "quota_overflow = QuotaCode ''quota_amount_overflow''"

definition parse_canonical :: "string \<Rightarrow> (quota_error, int) result" where
  "parse_canonical v =
     (if v = [] \<or> \<not> all_digits v \<or> (1 < length v \<and> hd v = CHR ''0'') then Inl quota_overflow
      else ok_or quota_overflow (parse_i128 v))"

text \<open>A division by zero panics.\<close>

definition ceil_product_ratio :: "int \<Rightarrow> int \<Rightarrow> int \<Rightarrow> (quota_error, int) result" where
  "ceil_product_ratio v multiplier denominator =
     rbind (ok_or quota_overflow (checked_mul_i128 v multiplier)) (\<lambda>product.
     if denominator = 0 then Inl QuotaPanic
     else
       (let quotient = product sdiv denominator; remainder = product smod denominator
        in ok_or quota_overflow (checked_add_i128 quotient (if remainder \<noteq> 0 then 1 else 0))))"

definition round_product_ratio :: "int \<Rightarrow> int \<Rightarrow> int \<Rightarrow> (quota_error, int) result" where
  "round_product_ratio v multiplier denominator =
     rbind (ok_or quota_overflow (checked_mul_i128 v multiplier)) (\<lambda>product.
     if denominator = 0 then Inl QuotaPanic
     else
       (let quotient = product sdiv denominator; remainder = product smod denominator
        in rbind (ok_or quota_overflow (checked_mul_i128 remainder 2)) (\<lambda>doubled.
           ok_or quota_overflow (checked_add_i128 quotient (if denominator \<le> doubled then 1 else 0)))))"

text \<open>The microseconds that \<open>timestamp\<close> prints, and what \<open>parse_timestamp\<close> reads back.\<close>

definition timestamp :: "int \<Rightarrow> int" where
  "timestamp t = t div 1000"

definition from_timestamp :: "int \<Rightarrow> int" where
  "from_timestamp t = t * 1000"

section \<open>Windows\<close>

text \<open>
  The calendar: days are numbered, \<open>cal_date\<close> is the local day of an instant, \<open>cal_midnight\<close> the
  first instant of a local day when it is unique.
\<close>

record calendar =
  cal_add_seconds :: "int \<Rightarrow> int \<Rightarrow> int option"
  cal_date :: "int \<Rightarrow> int"
  cal_days_from_monday :: "int \<Rightarrow> int"
  cal_year :: "int \<Rightarrow> int"
  cal_month :: "int \<Rightarrow> int"
  cal_from_ymd :: "int \<Rightarrow> int \<Rightarrow> int \<Rightarrow> int option"
  cal_midnight :: "int \<Rightarrow> int option"

fun is_rolling :: "window_kind \<Rightarrow> bool" where
  "is_rolling FiveHours = True"
| "is_rolling TwelveHours = True"
| "is_rolling Custom = True"
| "is_rolling _ = False"

definition invalid_window :: quota_error where
  "invalid_window = QuotaCode ''invalid_quota_window''"

definition rolling_window :: "calendar \<Rightarrow> window_kind \<Rightarrow> int \<Rightarrow> int \<Rightarrow> (quota_error, quota_window_t) result" where
  "rolling_window cal kind window_seconds now =
     (let expected = (if kind = FiveHours then 18000 else if kind = TwelveHours then 43200 else window_seconds)
      in if window_seconds \<noteq> expected \<or> window_seconds \<le> 0
            \<or> (kind = Custom \<and> (31536000 < window_seconds \<or> window_seconds smod 3600 \<noteq> 0))
         then Inl invalid_window
         else rbind (ok_or invalid_window (cal_add_seconds cal now window_seconds))
                (\<lambda>end. Inr \<lparr>qw_start = now, qw_end = end\<rparr>))"

definition window_start_date :: "calendar \<Rightarrow> window_kind \<Rightarrow> int \<Rightarrow> (quota_error, int) result" where
  "window_start_date cal kind date =
     (if kind = Day then Inr date
      else if kind = Week then Inr (date - cal_days_from_monday cal date)
      else if kind = Month then ok_or invalid_window (cal_from_ymd cal (cal_year cal date) (cal_month cal date) 1)
      else Inl invalid_window)"

definition window_end_date :: "calendar \<Rightarrow> window_kind \<Rightarrow> int \<Rightarrow> (quota_error, int) result" where
  "window_end_date cal kind start_date =
     (if kind = Day then Inr (start_date + 1)
      else if kind = Week then Inr (start_date + 7)
      else
        (let (year, month) = (if cal_month cal start_date = 12 then (cal_year cal start_date + 1, 1)
                              else (cal_year cal start_date, cal_month cal start_date + 1))
         in ok_or invalid_window (cal_from_ymd cal year month 1)))"

definition quota_window :: "calendar \<Rightarrow> window_kind \<Rightarrow> int \<Rightarrow> int \<Rightarrow> (quota_error, quota_window_t) result" where
  "quota_window cal kind window_seconds now =
     (if is_rolling kind then rolling_window cal kind window_seconds now
      else
        rbind (window_start_date cal kind (cal_date cal now)) (\<lambda>start_date.
        rbind (window_end_date cal kind start_date) (\<lambda>end_date.
        rbind (ok_or invalid_window (cal_midnight cal start_date)) (\<lambda>local_start.
        rbind (ok_or invalid_window (cal_midnight cal end_date)) (\<lambda>local_end.
          Inr \<lparr>qw_start = local_start, qw_end = local_end\<rparr>)))))"

text \<open>The library functions of the store: the calendar, the hexadecimal digest and the printed instant.\<close>

record quota_lib =
  ql_calendar :: calendar
  ql_sha256_hex :: "string \<Rightarrow> string"
  ql_rfc3339_micros :: "int \<Rightarrow> string"

definition bucket_id :: "quota_lib \<Rightarrow> string \<Rightarrow> int \<Rightarrow> plan_quota \<Rightarrow> quota_window_t \<Rightarrow> string" where
  "bucket_id L entitlement_id generation rule window =
     ''quota-bucket-'' @ ql_sha256_hex L (entitlement_id @ CHR 0x00 # show_int generation @ CHR 0x00 # pq_id rule
       @ CHR 0x00 # ql_rfc3339_micros L (timestamp (qw_start window))
       @ CHR 0x00 # ql_rfc3339_micros L (timestamp (qw_end window)))"

section \<open>Reservations\<close>

definition links_of :: "quota_db \<Rightarrow> string \<Rightarrow> link_row list" where
  "links_of db reservation_id = filter (\<lambda>l. ln_reservation_id l = reservation_id) (db_links db)"

definition reservation_from_row :: "quota_db \<Rightarrow> reservation_row \<Rightarrow> (quota_error, quota_reservation) result" where
  "reservation_from_row db r =
     rbind (parse_canonical (qr_maximum_nano_usd r)) (\<lambda>maximum.
     rbind (parse_canonical (qr_reserved_fen_cny r)) (\<lambda>reserved.
     rbind (transpose (map_option parse_canonical (qr_actual_nano_usd r))) (\<lambda>actual_nano.
     rbind (transpose (map_option parse_canonical (qr_actual_fen_cny r))) (\<lambda>actual_fen.
     rbind (QuotaTerminalState_parse (qr_state r)) (\<lambda>state.
       Inr \<lparr>rv_id = qr_id r, rv_request_id = qr_request_id r, rv_user_id = qr_user_id r,
            rv_entitlement_id = qr_entitlement_id r, rv_generation = qr_generation r,
            rv_maximum_nano_usd = maximum, rv_reserved_fen_cny = reserved,
            rv_rate_numerator = qr_rate_numerator r, rv_rate_denominator = qr_rate_denominator r,
            rv_pricing_revision = qr_pricing_revision r, rv_actual_nano_usd = actual_nano,
            rv_actual_fen_cny = actual_fen, rv_state = state,
            rv_admitted_at = from_timestamp (qr_admitted_at r),
            rv_terminal_at = map_option from_timestamp (qr_terminal_at r),
            rv_bucket_count = length (links_of db (qr_id r))\<rparr>)))))"

text \<open>The join of the current pointer, the generation and its lifecycle.\<close>

definition current_entitlement_row ::
    "quota_db \<Rightarrow> string \<Rightarrow> (entitlement_generation \<times> int option \<times> int option) option" where
  "current_entitlement_row db user_id =
     Option.bind (map_of (db_current db) user_id) (\<lambda>(entitlement_id, _).
     Option.bind (find (\<lambda>g. eg_id g = entitlement_id) (db_generations db)) (\<lambda>g.
       map_option (\<lambda>lifecycle. (g, lifecycle)) (map_of (db_lifecycle db) (eg_id g))))"

definition inactive_entitlement :: quota_error where
  "inactive_entitlement = QuotaCode ''plan_entitlement_inactive''"

definition active_entitlement :: "quota_db \<Rightarrow> string \<Rightarrow> int \<Rightarrow> (quota_error, entitlement_generation) result" where
  "active_entitlement db user_id now =
     rbind (ok_or inactive_entitlement (current_entitlement_row db user_id)) (\<lambda>(g, suspended_at, revoked_at).
       if suspended_at \<noteq> None \<or> revoked_at \<noteq> None then Inl inactive_entitlement
       else if now < eg_starts_at g \<or> eg_ends_at g \<le> now then Inl inactive_entitlement
       else Inr g)"

definition bind_rules :: "quota_lib \<Rightarrow> entitlement_generation \<Rightarrow> int \<Rightarrow> (quota_error, bucket_binding list) result" where
  "bind_rules L g now =
     rbind (traverse (\<lambda>rule. rbind (quota_window (ql_calendar L) (pq_window_kind rule) (pq_window_seconds rule) now)
              (\<lambda>window. Inr \<lparr>bb_rule = rule, bb_id = bucket_id L (eg_id g) (eg_generation g) rule window,
                            bb_window = window\<rparr>)) (eg_quotas g)) (\<lambda>bindings.
       Inr (sort_key (\<lambda>b. (timestamp (qw_end (bb_window b)), pq_id (bb_rule b), bb_id b)) bindings))"

definition new_bucket :: "entitlement_generation \<Rightarrow> bucket_binding \<Rightarrow> bucket_row" where
  "new_bucket g b = \<lparr>bk_id = bb_id b, bk_entitlement_id = eg_id g, bk_generation = eg_generation g,
     bk_quota_rule_id = pq_id (bb_rule b), bk_window_kind = pq_window_kind (bb_rule b),
     bk_window_start = timestamp (qw_start (bb_window b)), bk_window_end = timestamp (qw_end (bb_window b)),
     bk_settled_fen_cny = ''0'', bk_reserved_fen_cny = ''0'', bk_quota_fen_cny = pq_quota_fen_cny (bb_rule b)\<rparr>"

text \<open>\<open>INSERT ... ON CONFLICT (id) DO NOTHING\<close> for every binding.\<close>

fun insert_buckets :: "entitlement_generation \<Rightarrow> bucket_binding list \<Rightarrow> bucket_row list \<Rightarrow> bucket_row list" where
  "insert_buckets g [] rows = rows"
| "insert_buckets g (b # bs) rows =
     insert_buckets g bs (if list_ex (\<lambda>r. bk_id r = bb_id b) rows then rows else rows @ [new_bucket g b])"

text \<open>The rows of \<open>active_bucket_lock_sql\<close>.\<close>

definition bucket_order :: "bucket_row \<Rightarrow> int \<times> string \<times> string" where
  "bucket_order r = (bk_window_end r, bk_quota_rule_id r, bk_id r)"

definition active_buckets :: "string \<Rightarrow> int \<Rightarrow> int \<Rightarrow> bucket_row list \<Rightarrow> bucket_row list" where
  "active_buckets entitlement_id generation now rows =
     sort_key bucket_order (filter (\<lambda>r. bk_entitlement_id r = entitlement_id \<and> bk_generation r = generation
       \<and> timestamp now < bk_window_end r) rows)"

text \<open>The two maps of the loop over those rows, newest entry first.\<close>

type_synonym amounts = "(string \<times> int) list"

definition amount_of :: "amounts \<Rightarrow> string \<Rightarrow> int" where
  "amount_of m k = unwrap_or (map_of m k) 0"

fun tally_buckets :: "bucket_row list \<Rightarrow> amounts \<Rightarrow> amounts \<Rightarrow> (quota_error, amounts \<times> amounts) result" where
  "tally_buckets [] used reserved_by = Inr (used, reserved_by)"
| "tally_buckets (r # rs) used reserved_by =
     rbind (parse_canonical (bk_settled_fen_cny r)) (\<lambda>settled.
     rbind (parse_canonical (bk_reserved_fen_cny r)) (\<lambda>reserved.
     rbind (ok_or quota_overflow (Option.bind (checked_add_i128 (amount_of used (bk_quota_rule_id r)) settled)
              (\<lambda>v. checked_add_i128 v reserved))) (\<lambda>total.
       tally_buckets rs ((bk_quota_rule_id r, total) # used) ((bk_id r, reserved) # reserved_by))))"

definition set_reserved :: "string \<Rightarrow> int \<Rightarrow> bucket_row list \<Rightarrow> bucket_row list" where
  "set_reserved bid reserved rows =
     map (\<lambda>r. if bk_id r = bid then r\<lparr>bk_reserved_fen_cny := show_int reserved\<rparr> else r) rows"

fun reserve_bindings ::
    "int \<Rightarrow> amounts \<Rightarrow> amounts \<Rightarrow> bucket_binding list \<Rightarrow> bucket_row list \<Rightarrow> (quota_error, bucket_row list) result" where
  "reserve_bindings reserved_fen used reserved_by [] rows = Inr rows"
| "reserve_bindings reserved_fen used reserved_by (b # bs) rows =
     rbind (parse_canonical (pq_quota_fen_cny (bb_rule b))) (\<lambda>quota.
     rbind (ok_or quota_overflow (checked_add_i128 (amount_of used (pq_id (bb_rule b))) reserved_fen)) (\<lambda>total.
     if quota < total then Inl (QuotaCode ''plan_quota_exhausted'')
     else
       rbind (ok_or (QuotaStorage ''quota bucket disappeared'') (map_of reserved_by (bb_id b))) (\<lambda>held.
       rbind (ok_or quota_overflow (checked_add_i128 held reserved_fen)) (\<lambda>target.
         reserve_bindings reserved_fen used reserved_by bs (set_reserved (bb_id b) target rows)))))"

definition new_reservation_row ::
    "entitlement_generation \<Rightarrow> quota_reservation_input \<Rightarrow> string \<Rightarrow> int \<Rightarrow> reservation_row" where
  "new_reservation_row g inp new_id reserved_fen =
     \<lparr>qr_id = new_id, qr_request_id = ri_request_id inp, qr_entitlement_id = eg_id g, qr_generation = eg_generation g,
      qr_user_id = ri_user_id inp, qr_maximum_nano_usd = show_int (ri_maximum_nano_usd inp),
      qr_reserved_fen_cny = show_int reserved_fen, qr_rate_numerator = eg_rate_numerator g,
      qr_rate_denominator = eg_rate_denominator g, qr_pricing_revision = ri_pricing_revision inp,
      qr_actual_nano_usd = None, qr_actual_fen_cny = None, qr_state = ''reserved'',
      qr_admitted_at = timestamp (ri_now inp), qr_terminal_at = None\<rparr>"

definition new_reservation ::
    "entitlement_generation \<Rightarrow> quota_reservation_input \<Rightarrow> string \<Rightarrow> int \<Rightarrow> nat \<Rightarrow> quota_reservation" where
  "new_reservation g inp new_id reserved_fen bucket_count =
     \<lparr>rv_id = new_id, rv_request_id = ri_request_id inp, rv_user_id = ri_user_id inp, rv_entitlement_id = eg_id g,
      rv_generation = eg_generation g, rv_maximum_nano_usd = ri_maximum_nano_usd inp,
      rv_reserved_fen_cny = reserved_fen, rv_rate_numerator = eg_rate_numerator g,
      rv_rate_denominator = eg_rate_denominator g, rv_pricing_revision = ri_pricing_revision inp,
      rv_actual_nano_usd = None, rv_actual_fen_cny = None, rv_state = Reserved, rv_admitted_at = ri_now inp,
      rv_terminal_at = None, rv_bucket_count = bucket_count\<rparr>"

text \<open>
  The inserts of the reservation and its links, which the primary keys \<open>id\<close> and
  \<open>(reservation_id, bucket_id)\<close> guard.
\<close>

definition constraint_violated :: quota_error where
  "constraint_violated = QuotaStorage ''unique constraint''"

definition insert_reservation ::
    "reservation_row \<Rightarrow> string list \<Rightarrow> string \<Rightarrow> quota_db \<Rightarrow> (quota_error, quota_db) result" where
  "insert_reservation row bucket_ids amount db =
     (if list_ex (\<lambda>r. qr_id r = qr_id row) (db_reservations db) \<or> \<not> distinct bucket_ids
      then Inl constraint_violated
      else Inr (db\<lparr>db_reservations := db_reservations db @ [row],
             db_links := db_links db @ map (\<lambda>bid. \<lparr>ln_reservation_id = qr_id row, ln_bucket_id = bid,
               ln_reserved_fen_cny = amount\<rparr>) bucket_ids\<rparr>))"

definition reserve_amount :: "entitlement_generation \<Rightarrow> int \<Rightarrow> (quota_error, int) result" where
  "reserve_amount g maximum_nano_usd =
     rbind (parse_canonical (eg_rate_numerator g)) (\<lambda>numerator.
     rbind (parse_canonical (eg_rate_denominator g)) (\<lambda>denominator.
     rbind (ok_or quota_overflow (checked_mul_i128 denominator NANO_USD_PER_CENT)) (\<lambda>scaled.
       ceil_product_ratio maximum_nano_usd numerator scaled)))"

text \<open>A request that has no reservation yet.\<close>

definition reserve_new ::
    "quota_lib \<Rightarrow> string \<Rightarrow> quota_reservation_input \<Rightarrow> quota_db \<Rightarrow> (quota_error, quota_reservation \<times> quota_db) result" where
  "reserve_new L new_id inp db =
     rbind (require_passed_gate db) (\<lambda>_.
     if ri_user_id inp \<in> set (db_active_holds db) then Inl (QuotaCode ''plan_payment_hold'')
     else if map_of (db_admission_blocks db) (ri_user_id inp) \<noteq> None
     then Inl (QuotaCode ''plan_quota_violation_blocked'')
     else
       rbind (active_entitlement db (ri_user_id inp) (ri_now inp)) (\<lambda>g.
       rbind (reserve_amount g (ri_maximum_nano_usd inp)) (\<lambda>reserved_fen.
       rbind (bind_rules L g (ri_now inp)) (\<lambda>bindings.
         (let rows = insert_buckets g bindings (db_buckets db) in
          rbind (tally_buckets (active_buckets (eg_id g) (eg_generation g) (ri_now inp) rows) [] [])
            (\<lambda>(used, reserved_by).
          rbind (reserve_bindings reserved_fen used reserved_by bindings rows) (\<lambda>rows.
          rbind (insert_reservation (new_reservation_row g inp new_id reserved_fen) (map bb_id bindings)
                   (show_int reserved_fen) (db\<lparr>db_buckets := rows\<rparr>)) (\<lambda>db.
            Inr (new_reservation g inp new_id reserved_fen (length bindings), db)))))))))"

definition reserve_tx ::
    "quota_lib \<Rightarrow> string \<Rightarrow> quota_reservation_input \<Rightarrow> (string \<times> int) option \<Rightarrow> quota_db
       \<Rightarrow> (quota_error, quota_reservation \<times> quota_db) result" where
  "reserve_tx L new_id inp expected_entitlement db =
     (let current_binding = map_of (db_current db) (ri_user_id inp) in
      if expected_entitlement \<noteq> None \<and> current_binding \<noteq> expected_entitlement then Inl inactive_entitlement
      else case find (\<lambda>r. qr_request_id r = ri_request_id inp) (db_reservations db) of
        Some row \<Rightarrow>
          rbind (reservation_from_row db row) (\<lambda>existing.
            if rv_user_id existing = ri_user_id inp \<and> rv_maximum_nano_usd existing = ri_maximum_nano_usd inp
               \<and> rv_pricing_revision existing = ri_pricing_revision inp
               \<and> current_binding = Some (rv_entitlement_id existing, rv_generation existing)
            then Inr (existing, db)
            else Inl (QuotaCode ''quota_idempotency_conflict''))
      | None \<Rightarrow> reserve_new L new_id inp db)"

definition reserve_bound ::
    "quota_lib \<Rightarrow> string \<Rightarrow> quota_reservation_input \<Rightarrow> (string \<times> int) option \<Rightarrow> quota_db
       \<Rightarrow> (quota_error, quota_reservation \<times> quota_db) result" where
  "reserve_bound L new_id inp expected_entitlement db =
     (if trim (ri_user_id inp) = [] \<or> trim (ri_request_id inp) = [] \<or> trim (ri_pricing_revision inp) = []
         \<or> ri_maximum_nano_usd inp \<le> 0
      then Inl (QuotaCode ''plan_request_unbounded'')
      else reserve_tx L new_id inp expected_entitlement db)"

text \<open>\<open>seen\<close> is the state that the first query reads, outside the transaction.\<close>

definition admit_funding ::
    "quota_lib \<Rightarrow> string \<Rightarrow> plan_funding_input \<Rightarrow> quota_db \<Rightarrow> quota_db
       \<Rightarrow> (quota_error, plan_funding_admission \<times> quota_db) result" where
  "admit_funding L new_id inp seen db =
     (case current_entitlement_row seen (fi_user_id inp) of
        None \<Rightarrow> Inr (AdmitBalance, db)
      | Some (g, suspended_at, revoked_at) \<Rightarrow>
          if fi_now inp < eg_starts_at g \<or> eg_ends_at g \<le> fi_now inp \<or> suspended_at \<noteq> None \<or> revoked_at \<noteq> None
          then Inr (AdmitBalance, db)
          else if eg_group_ids g \<noteq> [] \<and> \<not> list_ex (\<lambda>group_id. group_id \<in> set (fi_effective_groups inp)) (eg_group_ids g)
          then Inr (AdmitBalance, db)
          else if fi_replica inp then Inl (QuotaCode ''plan_admission_token_required'')
          else
            rbind (ok_or (QuotaCode ''plan_request_unbounded'') (option_filter (\<lambda>v. 0 < v) (fi_maximum_nano_usd inp)))
              (\<lambda>maximum.
            rbind (reserve_bound L new_id \<lparr>ri_user_id = fi_user_id inp, ri_request_id = fi_request_id inp,
                     ri_maximum_nano_usd = maximum, ri_pricing_revision = fi_pricing_revision inp, ri_now = fi_now inp\<rparr>
                     (Some (eg_id g, eg_generation g)) db) (\<lambda>(reservation, db).
              Inr (AdmitPlan reservation, db))))"

section \<open>Settlement and release\<close>

definition terminal_conflict :: quota_error where
  "terminal_conflict = QuotaCode ''quota_terminal_conflict''"

definition same_terminal :: "quota_reservation \<Rightarrow> int option \<Rightarrow> bool" where
  "same_terminal existing actual_nano_usd =
     (case (rv_state existing, actual_nano_usd) of
        (Released, None) \<Rightarrow> True
      | (Settled, Some actual) \<Rightarrow> rv_actual_nano_usd existing = Some actual
      | (Violated, Some actual) \<Rightarrow> rv_actual_nano_usd existing = Some actual
      | _ \<Rightarrow> False)"

definition settled_amount :: "quota_reservation \<Rightarrow> int \<Rightarrow> (quota_error, int) result" where
  "settled_amount existing actual =
     rbind (parse_canonical (rv_rate_numerator existing)) (\<lambda>numerator.
     rbind (parse_canonical (rv_rate_denominator existing)) (\<lambda>denominator.
     rbind (ok_or quota_overflow (checked_mul_i128 denominator NANO_USD_PER_CENT)) (\<lambda>scaled.
       round_product_ratio actual numerator scaled)))"

text \<open>The join of \<open>reservation_bucket_lock_sql\<close>: the links of the reservation with their buckets.\<close>

definition linked_buckets :: "quota_db \<Rightarrow> string \<Rightarrow> (link_row \<times> bucket_row) list" where
  "linked_buckets db reservation_id =
     sort_key (\<lambda>(l, b). bucket_order b)
       (concat (map (\<lambda>l. map (\<lambda>b. (l, b)) (filter (\<lambda>b. bk_id b = ln_bucket_id l) (db_buckets db)))
          (links_of db reservation_id)))"

definition set_amounts :: "string \<Rightarrow> int \<Rightarrow> int \<Rightarrow> bucket_row list \<Rightarrow> bucket_row list" where
  "set_amounts bid settled reserved rows =
     map (\<lambda>r. if bk_id r = bid
              then r\<lparr>bk_settled_fen_cny := show_int settled, bk_reserved_fen_cny := show_int reserved\<rparr> else r) rows"

fun settle_links :: "int \<Rightarrow> (link_row \<times> bucket_row) list \<Rightarrow> bucket_row list \<Rightarrow> (quota_error, bucket_row list) result" where
  "settle_links actual_fen [] rows = Inr rows"
| "settle_links actual_fen ((l, b) # links) rows =
     rbind (parse_canonical (ln_reserved_fen_cny l)) (\<lambda>linked_reserved.
     rbind (parse_canonical (bk_reserved_fen_cny b)) (\<lambda>held.
     rbind (ok_or (QuotaStorage ''quota reservation conservation failed'') (checked_sub_i128 held linked_reserved))
       (\<lambda>reserved.
     rbind (parse_canonical (bk_settled_fen_cny b)) (\<lambda>spent.
     rbind (ok_or quota_overflow (checked_add_i128 spent actual_fen)) (\<lambda>settled.
       settle_links actual_fen links (set_amounts (bk_id b) settled reserved rows))))))"

definition finish_row ::
    "int option \<Rightarrow> int option \<Rightarrow> quota_terminal_state \<Rightarrow> int \<Rightarrow> reservation_row \<Rightarrow> reservation_row" where
  "finish_row actual_nano_usd actual_fen state now r =
     (if qr_state r = ''reserved''
      then r\<lparr>qr_actual_nano_usd := map_option show_int actual_nano_usd, qr_actual_fen_cny := map_option show_int actual_fen,
             qr_state := QuotaTerminalState_as_str state, qr_terminal_at := Some (timestamp now)\<rparr>
      else r)"

definition record_violation :: "quota_reservation \<Rightarrow> int \<Rightarrow> string \<Rightarrow> quota_db \<Rightarrow> quota_db" where
  "record_violation existing actual_fen violation_id db =
     db\<lparr>db_violations := (if list_ex (\<lambda>v. vi_reservation_id v = rv_id existing) (db_violations db) then db_violations db
          else db_violations db @ [\<lparr>vi_id = violation_id, vi_reservation_id = rv_id existing,
            vi_user_id = rv_user_id existing, vi_reserved_fen_cny = show_int (rv_reserved_fen_cny existing),
            vi_actual_fen_cny = show_int actual_fen\<rparr>]),
        db_admission_blocks := (rv_user_id existing, violation_id)
          # filter (\<lambda>(user_id, _). user_id \<noteq> rv_user_id existing) (db_admission_blocks db)\<rparr>"

definition terminal_state :: "int option \<Rightarrow> int option \<Rightarrow> int \<Rightarrow> quota_terminal_state" where
  "terminal_state actual_nano_usd actual_fen reserved_fen =
     (if actual_nano_usd = None then Released
      else if (case actual_fen of Some actual \<Rightarrow> reserved_fen < actual | None \<Rightarrow> False) then Violated
      else Settled)"

definition terminal_tx ::
    "string \<Rightarrow> string \<Rightarrow> int option \<Rightarrow> int \<Rightarrow> quota_db \<Rightarrow> (quota_error, quota_reservation \<times> quota_db) result" where
  "terminal_tx violation_id reservation_id actual_nano_usd now db =
     rbind (ok_or (QuotaCode ''quota_reservation_not_found'')
              (find (\<lambda>r. qr_id r = reservation_id) (db_reservations db))) (\<lambda>row.
     rbind (reservation_from_row db row) (\<lambda>existing.
     if rv_state existing \<noteq> Reserved
     then if same_terminal existing actual_nano_usd then Inr (existing, db) else Inl terminal_conflict
     else
       rbind (transpose (map_option (settled_amount existing) actual_nano_usd)) (\<lambda>actual_fen.
         (let links = linked_buckets db reservation_id;
              state = terminal_state actual_nano_usd actual_fen (rv_reserved_fen_cny existing)
          in if length links \<noteq> rv_bucket_count existing
             then Inl (QuotaStorage ''quota reservation bucket links changed'')
             else
               rbind (settle_links (unwrap_or actual_fen 0) links (db_buckets db)) (\<lambda>rows.
                 (let db = db\<lparr>db_buckets := rows,
                            db_reservations := map (\<lambda>r. if qr_id r = reservation_id
                              then finish_row actual_nano_usd actual_fen state now r else r) (db_reservations db)\<rparr>;
                      db = (if state = Violated then record_violation existing (unwrap_or actual_fen 0) violation_id db
                            else db)
                  in Inr (existing\<lparr>rv_actual_nano_usd := actual_nano_usd, rv_actual_fen_cny := actual_fen,
                            rv_state := state, rv_terminal_at := Some now\<rparr>, db)))))))"

definition QuotaStore_settle ::
    "string \<Rightarrow> string \<Rightarrow> int \<Rightarrow> int \<Rightarrow> quota_db \<Rightarrow> (quota_error, quota_reservation \<times> quota_db) result" where
  "QuotaStore_settle violation_id reservation_id actual_nano_usd now db =
     (if trim reservation_id = [] \<or> actual_nano_usd < 0 then Inl terminal_conflict
      else terminal_tx violation_id reservation_id (Some actual_nano_usd) now db)"

definition QuotaStore_release ::
    "string \<Rightarrow> int \<Rightarrow> quota_db \<Rightarrow> (quota_error, quota_reservation \<times> quota_db) result" where
  "QuotaStore_release reservation_id now db =
     (if trim reservation_id = [] then Inl terminal_conflict else terminal_tx [] reservation_id None now db)"

definition reservation_id_for_request :: "quota_db \<Rightarrow> string \<Rightarrow> string option" where
  "reservation_id_for_request db request_id =
     (if request_id = [] then None
      else map_option qr_id (find (\<lambda>r. qr_request_id r = request_id) (db_reservations db)))"

definition reservation_for_request :: "quota_db \<Rightarrow> string \<Rightarrow> (quota_error, quota_reservation option) result" where
  "reservation_for_request db request_id =
     (if request_id = [] then Inr None
      else transpose (map_option (reservation_from_row db)
             (find (\<lambda>r. qr_request_id r = request_id) (db_reservations db))))"

definition settle_request_if_reserved ::
    "string \<Rightarrow> string \<Rightarrow> int \<Rightarrow> int \<Rightarrow> quota_db \<Rightarrow> (quota_error, quota_reservation option \<times> quota_db) result" where
  "settle_request_if_reserved violation_id request_id actual_nano_usd now db =
     (case reservation_id_for_request db request_id of
        None \<Rightarrow> Inr (None, db)
      | Some rid \<Rightarrow> rbind (QuotaStore_settle violation_id rid actual_nano_usd now db) (\<lambda>(r, db). Inr (Some r, db)))"

definition release_request_if_reserved ::
    "string \<Rightarrow> int \<Rightarrow> quota_db \<Rightarrow> (quota_error, quota_reservation option \<times> quota_db) result" where
  "release_request_if_reserved request_id now db =
     (case reservation_id_for_request db request_id of
        None \<Rightarrow> Inr (None, db)
      | Some rid \<Rightarrow> rbind (QuotaStore_release rid now db) (\<lambda>(r, db). Inr (Some r, db)))"

section \<open>Entitlements\<close>

definition invalid_entitlement :: quota_error where
  "invalid_entitlement = QuotaCode ''invalid_entitlement''"

fun validate_quotas :: "calendar \<Rightarrow> int \<Rightarrow> int list \<Rightarrow> plan_quota list \<Rightarrow> (quota_error, unit) result" where
  "validate_quotas cal starts_at windows [] = Inr ()"
| "validate_quotas cal starts_at windows (q # qs) =
     (if trim (pq_id q) = [] then Inl invalid_entitlement
      else
        rbind (parse_canonical (pq_quota_fen_cny q)) (\<lambda>amount.
        if amount = 0 \<or> pq_window_seconds q \<in> set windows then Inl invalid_entitlement
        else
          rbind (quota_window cal (pq_window_kind q) (pq_window_seconds q) starts_at) (\<lambda>_.
            validate_quotas cal starts_at (pq_window_seconds q # windows) qs)))"

definition validate_generation_input :: "calendar \<Rightarrow> entitlement_generation_input \<Rightarrow> (quota_error, unit) result" where
  "validate_generation_input cal inp =
     (if trim (gi_user_id inp) = [] \<or> trim (gi_product_id inp) = [] \<or> trim (gi_product_name inp) = []
         \<or> 100 < length (trim (gi_product_name inp)) \<or> gi_ends_at inp \<le> gi_starts_at inp
         \<or> gi_source_kind inp \<notin> {''order'', ''redemption''} \<or> trim (gi_source_id inp) = [] \<or> gi_quotas inp = []
      then Inl invalid_entitlement
      else
        rbind (parse_canonical (gi_rate_numerator inp)) (\<lambda>numerator.
        rbind (parse_canonical (gi_rate_denominator inp)) (\<lambda>denominator.
        if numerator = 0 \<or> denominator = 0 \<or> gcd_loop numerator denominator \<noteq> 1 then Inl invalid_entitlement
        else validate_quotas cal (gi_starts_at inp) [] (gi_quotas inp))))"

definition generation_matches_input :: "entitlement_generation \<Rightarrow> entitlement_generation_input \<Rightarrow> bool" where
  "generation_matches_input g inp \<longleftrightarrow>
     eg_user_id g = gi_user_id inp \<and> eg_product_id g = gi_product_id inp \<and> eg_product_name g = gi_product_name inp
     \<and> eg_starts_at g = gi_starts_at inp \<and> eg_ends_at g = gi_ends_at inp
     \<and> eg_rate_numerator g = gi_rate_numerator inp \<and> eg_rate_denominator g = gi_rate_denominator inp
     \<and> eg_group_ids g = gi_group_ids inp \<and> eg_quotas g = gi_quotas inp
     \<and> eg_source_kind g = gi_source_kind inp \<and> eg_source_id g = gi_source_id inp"

definition generation_of_input :: "entitlement_generation_input \<Rightarrow> string \<Rightarrow> int \<Rightarrow> entitlement_generation" where
  "generation_of_input inp new_id generation =
     \<lparr>eg_id = new_id, eg_user_id = gi_user_id inp, eg_generation = generation, eg_product_id = gi_product_id inp,
      eg_product_name = gi_product_name inp, eg_starts_at = gi_starts_at inp, eg_ends_at = gi_ends_at inp,
      eg_rate_numerator = gi_rate_numerator inp, eg_rate_denominator = gi_rate_denominator inp,
      eg_group_ids = gi_group_ids inp, eg_quotas = gi_quotas inp, eg_source_kind = gi_source_kind inp,
      eg_source_id = gi_source_id inp\<rparr>"

text \<open>A generation as its row gives it back: the instants lose the digits below a microsecond.\<close>

definition stored_generation :: "entitlement_generation \<Rightarrow> entitlement_generation" where
  "stored_generation g = g\<lparr>eg_starts_at := from_timestamp (timestamp (eg_starts_at g)),
     eg_ends_at := from_timestamp (timestamp (eg_ends_at g))\<rparr>"

definition generation_conflict :: quota_error where
  "generation_conflict = QuotaCode ''entitlement_generation_conflict''"

definition replace_entitlement_tx ::
    "string \<Rightarrow> entitlement_generation_input \<Rightarrow> quota_db \<Rightarrow> (quota_error, entitlement_generation \<times> quota_db) result" where
  "replace_entitlement_tx new_id inp db =
     rbind (require_passed_gate db) (\<lambda>_.
     if gi_user_id inp \<notin> set (db_users db) then Inl (QuotaCode ''plan_entitlement_user_not_found'')
     else case find (\<lambda>g. eg_source_kind g = gi_source_kind inp \<and> eg_source_id g = gi_source_id inp) (db_generations db) of
       Some existing \<Rightarrow>
         if generation_matches_input existing inp then Inr (existing, db)
         else Inl (QuotaCode ''entitlement_source_conflict'')
     | None \<Rightarrow>
         (let current_generation = map_option snd (map_of (db_current db) (gi_user_id inp)) in
          if current_generation \<noteq> gi_expected_generation inp then Inl generation_conflict
          else
            (let generation = unwrap_or current_generation 0 + 1;
                 g = generation_of_input inp new_id generation
             in if \<not> in_i64 generation then Inl generation_conflict
                else if list_ex (\<lambda>g. eg_id g = new_id) (db_generations db) then Inl constraint_violated
                else Inr (g, db\<lparr>db_generations := db_generations db @ [stored_generation g],
                       db_lifecycle := db_lifecycle db @ [(new_id, None, None)],
                       db_current := (gi_user_id inp, new_id, generation)
                         # filter (\<lambda>(user_id, _). user_id \<noteq> gi_user_id inp) (db_current db)\<rparr>))))"

definition replace_entitlement ::
    "calendar \<Rightarrow> string \<Rightarrow> entitlement_generation_input \<Rightarrow> quota_db
       \<Rightarrow> (quota_error, entitlement_generation \<times> quota_db) result" where
  "replace_entitlement cal new_id inp db =
     rbind (validate_generation_input cal inp) (\<lambda>_. replace_entitlement_tx new_id inp db)"

end
