(* ===== verification/Plan_Quota_Books.thy ===== *)
theory Plan_Quota_Books
  imports Plan_Quota
begin

text \<open>
  The books of the plan quota store balance: in every state that the transactions can reach, the
  reserved amount of a bucket is the sum over the open reservations linked to it and its settled
  amount the sum of what its finished reservations cost.
\<close>

section \<open>Amounts\<close>

definition amount_value :: "string \<Rightarrow> int" where
  "amount_value s = (case parse_canonical s of Inr v \<Rightarrow> v | Inl _ \<Rightarrow> 0)"

lemma parse_canonical_minor: "parse_canonical s = Inr v \<longleftrightarrow> parse_minor s = Inr v"
  by (simp add: parse_canonical_def parse_minor_def ok_or_eq_Inr_iff)

lemma parse_canonical_show [simp]: "0 \<le> v \<Longrightarrow> in_i128 v \<Longrightarrow> parse_canonical (show_int v) = Inr v"
  by (simp add: parse_canonical_minor parse_minor_show)

lemma parse_canonical_InrD: "parse_canonical s = Inr v \<Longrightarrow> 0 \<le> v \<and> in_i128 v \<and> s = show_int v"
  using parse_minor_InrD by (auto simp: parse_canonical_minor)

lemma amount_value_Inr [simp]: "parse_canonical s = Inr v \<Longrightarrow> amount_value s = v"
  by (simp add: amount_value_def)

lemma amount_value_nonneg [simp]: "0 \<le> amount_value s"
  by (auto simp: amount_value_def dest: parse_canonical_InrD split: sum.split)

lemma parse_canonical_zero [simp]: "parse_canonical ''0'' = Inr 0"
proof -
  have "show_int 0 = ''0''" by code_simp
  then show ?thesis using parse_canonical_show [of 0] by simp
qed

section \<open>The loops as maps\<close>

lemma find_SomeD: "find P xs = Some x \<Longrightarrow> x \<in> set xs \<and> P x"
  by (induction xs) (auto split: if_splits)

definition linked_update :: "int \<Rightarrow> (link_row \<times> bucket_row) list \<Rightarrow> bucket_row \<Rightarrow> bucket_row" where
  "linked_update fen links r =
     (case find (\<lambda>(l, b). bk_id b = bk_id r) links of
        None \<Rightarrow> r
      | Some (l, b) \<Rightarrow> r\<lparr>bk_settled_fen_cny := show_int (amount_value (bk_settled_fen_cny b) + fen),
          bk_reserved_fen_cny := show_int (amount_value (bk_reserved_fen_cny b) - amount_value (ln_reserved_fen_cny l))\<rparr>)"

lemma find_None_ids: "find (\<lambda>(l, b). bk_id b = x) links = None \<longleftrightarrow> x \<notin> bk_id ` snd ` set links"
  by (force simp: find_None_iff image_iff)

lemma settle_links_map:
  assumes "settle_links fen links rows = Inr rows'" and "distinct (map (bk_id \<circ> snd) links)"
  shows "rows' = map (linked_update fen links) rows"
  using assms
proof (induction links arbitrary: rows)
  case Nil
  then show ?case by (simp add: linked_update_def)
next
  case (Cons lb links)
  obtain l b where lb: "lb = (l, b)" by (cases lb)
  from Cons.prems obtain linked held spent where v:
    "parse_canonical (ln_reserved_fen_cny l) = Inr linked"
    "parse_canonical (bk_reserved_fen_cny b) = Inr held"
    "parse_canonical (bk_settled_fen_cny b) = Inr spent"
    and rest: "settle_links fen links (set_amounts (bk_id b) (spent + fen) (held - linked) rows) = Inr rows'"
    by (auto simp: lb result_simps)
  from Cons.IH [OF rest] Cons.prems(2)
  have "rows' = map (linked_update fen links) (set_amounts (bk_id b) (spent + fen) (held - linked) rows)"
    by simp
  moreover have "linked_update fen links r = r" if "bk_id r = bk_id b" for r
    using Cons.prems(2) that find_None_ids [of "bk_id r" links] by (auto simp: linked_update_def lb image_iff)
  ultimately show ?case
    by (auto simp: set_amounts_def linked_update_def lb v intro!: map_cong split: option.split)
qed

lemma settle_links_parts:
  assumes "settle_links fen links rows = Inr rows'" and "(l, b) \<in> set links"
  shows "(\<exists>v. parse_canonical (ln_reserved_fen_cny l) = Inr v) \<and> (\<exists>v. parse_canonical (bk_reserved_fen_cny b) = Inr v)
    \<and> (\<exists>v. parse_canonical (bk_settled_fen_cny b) = Inr v)
    \<and> in_i128 (amount_value (bk_reserved_fen_cny b) - amount_value (ln_reserved_fen_cny l))
    \<and> in_i128 (amount_value (bk_settled_fen_cny b) + fen)"
  using assms by (induction links arbitrary: rows) (auto simp: result_simps)

definition reserved_update :: "int \<Rightarrow> amounts \<Rightarrow> bucket_binding list \<Rightarrow> bucket_row \<Rightarrow> bucket_row" where
  "reserved_update fen reserved_by bs r =
     (if bk_id r \<in> set (map bb_id bs)
      then r\<lparr>bk_reserved_fen_cny := show_int (amount_of reserved_by (bk_id r) + fen)\<rparr> else r)"

lemma reserve_bindings_map:
  assumes "reserve_bindings fen used reserved_by bs rows = Inr rows'"
  shows "rows' = map (reserved_update fen reserved_by bs) rows"
  using assms
proof (induction bs arbitrary: rows)
  case Nil
  then show ?case by (simp add: reserved_update_def)
next
  case (Cons b bs)
  then obtain held where held: "map_of reserved_by (bb_id b) = Some held"
    and rest: "reserve_bindings fen used reserved_by bs (set_reserved (bb_id b) (held + fen) rows) = Inr rows'"
    by (auto simp: result_simps split: if_splits)
  from Cons.IH [OF rest]
  show ?case by (auto simp: set_reserved_def reserved_update_def amount_of_def held intro!: map_cong)
qed

lemma reserve_bindings_parts:
  assumes "reserve_bindings fen used reserved_by bs rows = Inr rows'" and "b \<in> set bs"
  shows "(\<exists>held. map_of reserved_by (bb_id b) = Some held) \<and> in_i128 (amount_of reserved_by (bb_id b) + fen)
    \<and> (\<exists>quota. parse_canonical (pq_quota_fen_cny (bb_rule b)) = Inr quota
         \<and> amount_of used (pq_id (bb_rule b)) + fen \<le> quota)"
  using assms
  by (induction bs arbitrary: rows) (auto simp: result_simps amount_of_def split: if_splits)

text \<open>What the tally of active buckets computes.\<close>

definition bucket_total :: "bucket_row \<Rightarrow> int" where
  "bucket_total r = amount_value (bk_settled_fen_cny r) + amount_value (bk_reserved_fen_cny r)"

lemma bucket_total_nonneg [simp]: "0 \<le> bucket_total r"
  by (simp add: bucket_total_def)

lemma tally_buckets_used:
  assumes "tally_buckets rs used reserved_by = Inr (used', reserved_by')"
  shows "amount_of used' rule =
    amount_of used rule + (\<Sum>r\<leftarrow>filter (\<lambda>r. bk_quota_rule_id r = rule) rs. bucket_total r)"
  using assms
  by (induction rs arbitrary: used reserved_by)
    (auto simp: result_simps amount_of_def bucket_total_def)

lemma tally_buckets_reserved:
  assumes "tally_buckets rs used reserved_by = Inr (used', reserved_by')" and "distinct (map bk_id rs)"
  shows "map_of reserved_by' bid =
    (case find (\<lambda>r. bk_id r = bid) rs of
       Some r \<Rightarrow> Some (amount_value (bk_reserved_fen_cny r)) | None \<Rightarrow> map_of reserved_by bid)"
  using assms
proof (induction rs arbitrary: used reserved_by)
  case (Cons r rs)
  then obtain reserved used2 where p: "parse_canonical (bk_reserved_fen_cny r) = Inr reserved"
    and rest: "tally_buckets rs used2 ((bk_id r, reserved) # reserved_by) = Inr (used', reserved_by')"
    by (auto simp: result_simps)
  have "find (\<lambda>x. bk_id x = bk_id r) rs = None"
    using Cons.prems(2) by (fastforce simp: find_None_iff image_iff)
  with Cons.IH [OF rest] Cons.prems(2) p show ?case by (auto split: option.split)
qed simp

section \<open>The invariant\<close>

definition reservation_row_of :: "quota_db \<Rightarrow> string \<Rightarrow> reservation_row option" where
  "reservation_row_of db rid = find (\<lambda>r. qr_id r = rid) (db_reservations db)"

definition held_of :: "quota_db \<Rightarrow> string \<Rightarrow> int" where
  "held_of db rid =
     (case reservation_row_of db rid of
        Some r \<Rightarrow> if qr_state r = ''reserved'' then amount_value (qr_reserved_fen_cny r) else 0
      | None \<Rightarrow> 0)"

definition spent_of :: "quota_db \<Rightarrow> string \<Rightarrow> int" where
  "spent_of db rid =
     (case Option.bind (reservation_row_of db rid) qr_actual_fen_cny of Some s \<Rightarrow> amount_value s | None \<Rightarrow> 0)"

definition link_sum :: "(string \<Rightarrow> int) \<Rightarrow> link_row list \<Rightarrow> string \<Rightarrow> int" where
  "link_sum f links bid = (\<Sum>l\<leftarrow>filter (\<lambda>l. ln_bucket_id l = bid) links. f (ln_reservation_id l))"

definition bucket_balanced :: "quota_db \<Rightarrow> bucket_row \<Rightarrow> bool" where
  "bucket_balanced db b \<longleftrightarrow>
     parse_canonical (bk_reserved_fen_cny b) = Inr (link_sum (held_of db) (db_links db) (bk_id b))
     \<and> parse_canonical (bk_settled_fen_cny b) = Inr (link_sum (spent_of db) (db_links db) (bk_id b))"

definition reservation_ok :: "reservation_row \<Rightarrow> bool" where
  "reservation_ok r \<longleftrightarrow>
     (\<exists>v. parse_canonical (qr_reserved_fen_cny r) = Inr v)
     \<and> (qr_state r = ''reserved'' \<longrightarrow> qr_actual_fen_cny r = None)"

definition link_ok :: "quota_db \<Rightarrow> link_row \<Rightarrow> bool" where
  "link_ok db l \<longleftrightarrow>
     (\<exists>r. reservation_row_of db (ln_reservation_id l) = Some r \<and> qr_reserved_fen_cny r = ln_reserved_fen_cny l)
     \<and> ln_bucket_id l \<in> bk_id ` set (db_buckets db)"

definition link_key :: "link_row \<Rightarrow> string \<times> string" where
  "link_key l = (ln_reservation_id l, ln_bucket_id l)"

definition books_balance :: "quota_db \<Rightarrow> bool" where
  "books_balance db \<longleftrightarrow>
     distinct (map bk_id (db_buckets db)) \<and> distinct (map qr_id (db_reservations db))
     \<and> distinct (map link_key (db_links db))
     \<and> list_all reservation_ok (db_reservations db) \<and> list_all (link_ok db) (db_links db)
     \<and> list_all (bucket_balanced db) (db_buckets db)"

lemma link_sum_append: "link_sum f (xs @ ys) bid = link_sum f xs bid + link_sum f ys bid"
  by (simp add: link_sum_def)

lemma link_sum_cong:
  "(\<And>l. l \<in> set links \<Longrightarrow> f (ln_reservation_id l) = g (ln_reservation_id l)) \<Longrightarrow> link_sum f links bid = link_sum g links bid"
  unfolding link_sum_def by (intro arg_cong [where f = sum_list] map_cong) auto

lemma link_sum_none: "(\<And>l. l \<in> set links \<Longrightarrow> ln_bucket_id l \<noteq> bid) \<Longrightarrow> link_sum f links bid = 0"
  by (simp add: link_sum_def filter_False)

lemma held_of_nonneg [simp]: "0 \<le> held_of db rid"
  by (simp add: held_of_def split: option.split)

lemma spent_of_nonneg [simp]: "0 \<le> spent_of db rid"
  by (simp add: spent_of_def split: option.split)

text \<open>Changing one reservation changes the sums of its own buckets.\<close>

lemma link_sum_update:
  assumes "distinct (map link_key links)"
  shows "link_sum (f(rid := x)) links bid =
    link_sum f links bid + (if (rid, bid) \<in> link_key ` set links then x - f rid else 0)"
  using assms
  by (induction links) (auto simp: link_sum_def link_key_def image_iff)

lemma new_links_sum:
  assumes "distinct bids"
  shows "link_sum f (map (\<lambda>b. \<lparr>ln_reservation_id = rid, ln_bucket_id = b, ln_reserved_fen_cny = a\<rparr>) bids) bid =
    (if bid \<in> set bids then f rid else 0)"
  using assms by (induction bids) (auto simp: link_sum_def)

section \<open>Reserving\<close>

lemma bk_id_new_bucket [simp]: "bk_id (new_bucket g b) = bb_id b"
  by (simp add: new_bucket_def)

lemma bucket_known_iff [simp]: "list_ex (\<lambda>r. bk_id r = x) rows \<longleftrightarrow> x \<in> bk_id ` set rows"
  by (force simp: list_ex_iff)

lemma insert_buckets_cases:
  "r \<in> set (insert_buckets g bs rows) \<Longrightarrow>
     r \<in> set rows \<or> (\<exists>b \<in> set bs. r = new_bucket g b \<and> bb_id b \<notin> bk_id ` set rows)"
proof (induction bs arbitrary: rows)
  case (Cons b bs)
  show ?case
  proof (cases "bb_id b \<in> bk_id ` set rows")
    case True
    then have "r \<in> set (insert_buckets g bs rows)" using Cons.prems by simp
    from Cons.IH [OF this] show ?thesis by auto
  next
    case False
    then have "r \<in> set (insert_buckets g bs (rows @ [new_bucket g b]))" using Cons.prems by simp
    from Cons.IH [OF this] False show ?thesis by auto
  qed
qed simp

lemma insert_buckets_subset: "set rows \<subseteq> set (insert_buckets g bs rows)"
proof (induction bs arbitrary: rows)
  case (Cons b bs)
  show ?case
    using Cons.IH [of rows] Cons.IH [of "rows @ [new_bucket g b]"] by simp
qed simp

lemma insert_buckets_distinct:
  "distinct (map bk_id rows) \<Longrightarrow> distinct (map bk_id (insert_buckets g bs rows))"
proof (induction bs arbitrary: rows)
  case (Cons b bs)
  then show ?case using Cons.IH [of rows] Cons.IH [of "rows @ [new_bucket g b]"] by simp
qed simp

lemma insert_buckets_present: "b \<in> set bs \<Longrightarrow> bb_id b \<in> bk_id ` set (insert_buckets g bs rows)"
proof (induction bs arbitrary: rows)
  case (Cons c bs)
  let ?rows = "if bb_id c \<in> bk_id ` set rows then rows else rows @ [new_bucket g c]"
  have "bb_id c \<in> bk_id ` set ?rows" by simp
  moreover have "bk_id ` set ?rows \<subseteq> bk_id ` set (insert_buckets g bs ?rows)"
    by (intro image_mono insert_buckets_subset)
  moreover have "insert_buckets g (c # bs) rows = insert_buckets g bs ?rows" by simp
  ultimately show ?case using Cons.IH [of ?rows] Cons.prems by (metis set_ConsD subsetD)
qed simp

lemma active_buckets_distinct: "distinct (map bk_id rows) \<Longrightarrow> distinct (map bk_id (active_buckets e n now rows))"
  by (simp add: active_buckets_def distinct_map inj_on_def)

lemma set_active_buckets:
  "r \<in> set (active_buckets e n now rows) \<longleftrightarrow>
     r \<in> set rows \<and> bk_entitlement_id r = e \<and> bk_generation r = n \<and> timestamp now < bk_window_end r"
  by (auto simp: active_buckets_def)

lemma tally_active_reserved:
  assumes "distinct (map bk_id rows)"
    and "tally_buckets (active_buckets e n now rows) [] [] = Inr (used, reserved_by)"
    and "map_of reserved_by (bk_id r) = Some held" and "r \<in> set rows"
  shows "held = amount_value (bk_reserved_fen_cny r) \<and> r \<in> set (active_buckets e n now rows)"
proof -
  from tally_buckets_reserved [OF assms(2) active_buckets_distinct [OF assms(1)], of "bk_id r"] assms(3)
  obtain x where x: "find (\<lambda>y. bk_id y = bk_id r) (active_buckets e n now rows) = Some x"
    and held: "held = amount_value (bk_reserved_fen_cny x)"
    by (auto split: option.splits)
  from x have "x \<in> set (active_buckets e n now rows)" "bk_id x = bk_id r" by (auto simp: find_Some_iff)
  moreover have "x \<in> set rows" using calculation by (simp add: set_active_buckets)
  ultimately have "x = r" using assms(1,4) by (metis distinct_map inj_onD)
  then show ?thesis using held \<open>x \<in> set (active_buckets e n now rows)\<close> by simp
qed

lemma reserve_new_InrE:
  assumes "reserve_new L new_id inp db = Inr (r, db')"
  obtains g fen bs used reserved_by rows where
    "active_entitlement db (ri_user_id inp) (ri_now inp) = Inr g"
    "reserve_amount g (ri_maximum_nano_usd inp) = Inr fen"
    "bind_rules L g (ri_now inp) = Inr bs"
    "tally_buckets (active_buckets (eg_id g) (eg_generation g) (ri_now inp) (insert_buckets g bs (db_buckets db))) [] []
       = Inr (used, reserved_by)"
    "reserve_bindings fen used reserved_by bs (insert_buckets g bs (db_buckets db)) = Inr rows"
    "insert_reservation (new_reservation_row g inp new_id fen) (map bb_id bs) (show_int fen) (db\<lparr>db_buckets := rows\<rparr>) = Inr db'"
    "r = new_reservation g inp new_id fen (length bs)"
  using assms unfolding reserve_new_def Let_def
  by (auto simp: rbind_eq_Inr_iff split: if_splits)

lemma reserve_amount_nonneg:
  assumes "reserve_amount g maximum = Inr fen" and "0 < maximum"
  shows "0 \<le> fen \<and> in_i128 fen"
proof -
  from assms obtain n d where nd: "parse_canonical (eg_rate_numerator g) = Inr n"
      "parse_canonical (eg_rate_denominator g) = Inr d"
    and fen: "ceil_product_ratio maximum n (d * NANO_USD_PER_CENT) = Inr fen"
    by (auto simp: reserve_amount_def result_simps)
  have "0 \<le> n" "0 \<le> d" using nd by (auto dest: parse_canonical_InrD)
  then have "0 \<le> maximum * n sdiv (d * NANO_USD_PER_CENT)"
    using assms(2) by (simp add: NANO_USD_PER_CENT_def pos_imp_zdiv_nonneg_iff div_int_pos_iff)
  with fen show ?thesis
    by (auto simp: ceil_product_ratio_def Let_def result_simps split: if_splits)
qed

lemma reservation_row_of_new:
  assumes "reservation_row_of db (qr_id row) = None"
  shows "reservation_row_of (db\<lparr>db_buckets := rows, db_reservations := db_reservations db @ [row], db_links := ls\<rparr>) rid =
    (if rid = qr_id row then Some row else reservation_row_of db rid)"
proof -
  have "find P (xs @ [row]) = (case find P xs of Some r \<Rightarrow> Some r | None \<Rightarrow> if P row then Some row else None)"
    for P and xs :: "reservation_row list"
    by (induction xs) auto
  with assms show ?thesis by (auto simp: reservation_row_of_def split: option.split)
qed

lemma books_link: "books_balance db \<Longrightarrow> l \<in> set (db_links db) \<Longrightarrow> link_ok db l"
  by (simp add: books_balance_def list_all_iff)

lemma balanced_insert_buckets:
  assumes "books_balance db" and "r \<in> set (insert_buckets g bs (db_buckets db))"
  shows "bucket_balanced db r"
proof -
  from insert_buckets_cases [OF assms(2)] consider "r \<in> set (db_buckets db)"
    | b where "r = new_bucket g b" "bb_id b \<notin> bk_id ` set (db_buckets db)" by blast
  then show ?thesis
  proof cases
    case 1
    then show ?thesis using assms(1) by (auto simp: books_balance_def list_all_iff)
  next
    case 2
    have "ln_bucket_id l \<noteq> bb_id b" if "l \<in> set (db_links db)" for l
      using 2(2) books_link [OF assms(1) that] by (auto simp: link_ok_def)
    then have "link_sum f (db_links db) (bb_id b) = 0" for f by (rule link_sum_none)
    then show ?thesis using 2 by (simp add: bucket_balanced_def new_bucket_def)
  qed
qed

text \<open>Adding a reservation of \<open>fen\<close> with one link per binding.\<close>

definition reservation_links :: "string \<Rightarrow> int \<Rightarrow> bucket_binding list \<Rightarrow> link_row list" where
  "reservation_links rid fen bs =
     map (\<lambda>bid. \<lparr>ln_reservation_id = rid, ln_bucket_id = bid, ln_reserved_fen_cny = show_int fen\<rparr>) (map bb_id bs)"

definition adds_reservation ::
    "quota_db \<Rightarrow> reservation_row \<Rightarrow> int \<Rightarrow> bucket_binding list \<Rightarrow> bucket_row list \<Rightarrow> quota_db \<Rightarrow> bool" where
  "adds_reservation db row fen bs rows db' \<longleftrightarrow>
     reservation_row_of db (qr_id row) = None \<and> distinct (map bb_id bs)
     \<and> qr_reserved_fen_cny row = show_int fen \<and> qr_state row = ''reserved'' \<and> qr_actual_fen_cny row = None
     \<and> 0 \<le> fen \<and> in_i128 fen
     \<and> db' = db\<lparr>db_buckets := rows, db_reservations := db_reservations db @ [row],
                db_links := db_links db @ reservation_links (qr_id row) fen bs\<rparr>"

lemma adds_reservation_row_of:
  assumes "adds_reservation db row fen bs rows db'"
  shows "reservation_row_of db' rid = (if rid = qr_id row then Some row else reservation_row_of db rid)"
  using assms reservation_row_of_new by (auto simp: adds_reservation_def)

lemma adds_reservationD:
  assumes "adds_reservation db row fen bs rows db'"
  shows "reservation_row_of db (qr_id row) = None" "distinct (map bb_id bs)" "qr_reserved_fen_cny row = show_int fen"
    "qr_state row = ''reserved''" "qr_actual_fen_cny row = None" "0 \<le> fen" "in_i128 fen" "db_buckets db' = rows"
    "db_links db' = db_links db @ reservation_links (qr_id row) fen bs"
    "db_reservations db' = db_reservations db @ [row]"
  using assms by (simp_all add: adds_reservation_def)

lemma adds_reservation_held:
  assumes "adds_reservation db row fen bs rows db'"
  shows "held_of db' = (held_of db)(qr_id row := fen)"
  by (rule ext) (simp add: held_of_def adds_reservation_row_of [OF assms] adds_reservationD [OF assms])

lemma adds_reservation_spent:
  assumes "adds_reservation db row fen bs rows db'"
  shows "spent_of db' = spent_of db"
  by (rule ext) (simp add: spent_of_def adds_reservation_row_of [OF assms] adds_reservationD [OF assms])

lemma adds_reservation_old_link:
  assumes "adds_reservation db row fen bs rows db'" and "books_balance db" and "l \<in> set (db_links db)"
  shows "ln_reservation_id l \<noteq> qr_id row"
  using assms(1) books_link [OF assms(2,3)] by (auto simp: adds_reservation_def link_ok_def)

lemma adds_reservation_held_sum:
  assumes st: "adds_reservation db row fen bs rows db'" and books: "books_balance db"
  shows "link_sum (held_of db') (db_links db') bid =
     link_sum (held_of db) (db_links db) bid + (if bid \<in> set (map bb_id bs) then fen else 0)"
proof -
  have "link_sum (held_of db') (db_links db) bid = link_sum (held_of db) (db_links db) bid"
    using adds_reservation_old_link [OF st books] by (intro link_sum_cong) (simp add: adds_reservation_held [OF st])
  moreover have "link_sum (held_of db') (reservation_links (qr_id row) fen bs) bid
      = (if bid \<in> set (map bb_id bs) then fen else 0)"
    unfolding reservation_links_def
    by (subst new_links_sum) (simp_all add: adds_reservation_held [OF st] adds_reservationD [OF st])
  moreover have "db_links db' = db_links db @ reservation_links (qr_id row) fen bs"
    using st by (simp add: adds_reservation_def)
  ultimately show ?thesis by (simp add: link_sum_append)
qed

lemma adds_reservation_spent_sum:
  assumes st: "adds_reservation db row fen bs rows db'"
  shows "link_sum (spent_of db') (db_links db') bid = link_sum (spent_of db) (db_links db) bid"
proof -
  have "spent_of db (qr_id row) = 0" using st by (simp add: adds_reservation_def spent_of_def)
  then have "link_sum (spent_of db) (reservation_links (qr_id row) fen bs) bid = 0"
    unfolding reservation_links_def by (subst new_links_sum) (simp_all add: adds_reservationD [OF st])
  moreover have "db_links db' = db_links db @ reservation_links (qr_id row) fen bs"
    using st by (simp add: adds_reservation_def)
  ultimately show ?thesis by (simp add: link_sum_append adds_reservation_spent [OF st])
qed

lemma bk_id_reserved_update [simp]: "bk_id (reserved_update fen reserved_by bs r) = bk_id r"
  by (simp add: reserved_update_def)

lemma adds_reservation_balanced:
  assumes st: "adds_reservation db row fen bs rows db'" and books: "books_balance db"
    and bal: "bucket_balanced db r"
    and held: "bk_id r \<in> set (map bb_id bs) \<Longrightarrow> amount_of reserved_by (bk_id r) = amount_value (bk_reserved_fen_cny r)
        \<and> in_i128 (amount_of reserved_by (bk_id r) + fen)"
  shows "bucket_balanced db' (reserved_update fen reserved_by bs r)"
proof (cases "bk_id r \<in> set (map bb_id bs)")
  case True
  let ?sum = "link_sum (held_of db) (db_links db) (bk_id r)"
  have v: "amount_of reserved_by (bk_id r) = ?sum" using held [OF True] bal by (simp add: bucket_balanced_def)
  moreover have "0 \<le> ?sum" using bal by (auto simp: bucket_balanced_def dest: parse_canonical_InrD)
  ultimately have "parse_canonical (show_int (?sum + fen)) = Inr (?sum + fen)"
    using held [OF True] st by (intro parse_canonical_show) (auto simp: adds_reservation_def)
  then show ?thesis using bal True v
    by (simp add: bucket_balanced_def reserved_update_def adds_reservation_held_sum [OF st books]
        adds_reservation_spent_sum [OF st])
next
  case False
  then show ?thesis using bal
    by (simp add: bucket_balanced_def reserved_update_def adds_reservation_held_sum [OF st books]
        adds_reservation_spent_sum [OF st])
qed

lemma adds_reservation_links:
  assumes st: "adds_reservation db row fen bs rows db'" and books: "books_balance db"
    and old: "bk_id ` set (db_buckets db) \<subseteq> bk_id ` set rows"
    and present: "\<And>b. b \<in> set bs \<Longrightarrow> bb_id b \<in> bk_id ` set rows"
  shows "list_all (link_ok db') (db_links db') \<and> distinct (map link_key (db_links db'))"
proof -
  have buckets: "db_buckets db' = rows" using st by (simp add: adds_reservation_def)
  have "link_ok db' l" if "l \<in> set (db_links db)" for l
    using books_link [OF books that] old adds_reservation_old_link [OF st books that]
    by (auto simp: link_ok_def adds_reservation_row_of [OF st] buckets)
  moreover have "link_ok db' l" if "l \<in> set (reservation_links (qr_id row) fen bs)" for l
    using that present
    by (auto simp: reservation_links_def link_ok_def adds_reservation_row_of [OF st] buckets adds_reservationD(3) [OF st])
  moreover have "distinct (map link_key (db_links db @ reservation_links (qr_id row) fen bs))"
  proof -
    have "link_key l \<noteq> link_key l'" if "l \<in> set (db_links db)" "l' \<in> set (reservation_links (qr_id row) fen bs)" for l l'
      using adds_reservation_old_link [OF st books that(1)] that(2) by (auto simp: link_key_def reservation_links_def)
    moreover have "distinct (map link_key (reservation_links (qr_id row) fen bs))"
      using st by (auto simp: adds_reservation_def reservation_links_def link_key_def distinct_map inj_on_def)
    moreover have "distinct (map link_key (db_links db))" using books by (simp add: books_balance_def)
    ultimately show ?thesis unfolding map_append distinct_append set_map by blast
  qed
  moreover have "db_links db' = db_links db @ reservation_links (qr_id row) fen bs"
    using st by (simp add: adds_reservation_def)
  ultimately show ?thesis by (auto simp: list_all_iff)
qed

lemma adds_reservation_books:
  assumes st: "adds_reservation db row fen bs rows db'" and books: "books_balance db"
    and rows: "rows = map (reserved_update fen reserved_by bs) rows0"
    and rows0: "distinct (map bk_id rows0)" "set (db_buckets db) \<subseteq> set rows0"
      "\<And>r. r \<in> set rows0 \<Longrightarrow> bucket_balanced db r"
    and held: "\<And>r. r \<in> set rows0 \<Longrightarrow> bk_id r \<in> set (map bb_id bs) \<Longrightarrow>
        amount_of reserved_by (bk_id r) = amount_value (bk_reserved_fen_cny r)
        \<and> in_i128 (amount_of reserved_by (bk_id r) + fen)"
    and present: "\<And>b. b \<in> set bs \<Longrightarrow> bb_id b \<in> bk_id ` set rows0"
  shows "books_balance db'"
proof -
  have ids: "map bk_id rows = map bk_id rows0" by (simp add: rows comp_def)
  then have img: "bk_id ` set rows = bk_id ` set rows0" by (metis list.set_map)
  have buckets: "db_buckets db' = rows" using st by (simp add: adds_reservation_def)
  have "list_all (link_ok db') (db_links db') \<and> distinct (map link_key (db_links db'))"
    by (rule adds_reservation_links [OF st books]) (use rows0(2) present img in auto)
  moreover have "distinct (map qr_id (db_reservations db'))"
    using books adds_reservationD(1) [OF st]
    by (auto simp: adds_reservationD(10) [OF st] books_balance_def reservation_row_of_def find_None_iff)
  moreover have "list_all reservation_ok (db_reservations db')"
    using books adds_reservationD(3-7) [OF st]
    by (auto simp: adds_reservationD(10) [OF st] books_balance_def reservation_ok_def)
  moreover have "bucket_balanced db' (reserved_update fen reserved_by bs r)" if "r \<in> set rows0" for r
    by (rule adds_reservation_balanced [OF st books rows0(3) [OF that] held [OF that]])
  ultimately show ?thesis using rows0(1)
    by (auto simp: books_balance_def buckets ids list_all_iff) (auto simp: rows)
qed

lemma insert_reservation_adds:
  assumes "insert_reservation row (map bb_id bs) (show_int fen) (db\<lparr>db_buckets := rows\<rparr>) = Inr db'"
    and "qr_reserved_fen_cny row = show_int fen" "qr_state row = ''reserved''" "qr_actual_fen_cny row = None"
    and "0 \<le> fen" "in_i128 fen"
  shows "adds_reservation db row fen bs rows db'"
  using assms
  by (auto simp: adds_reservation_def insert_reservation_def reservation_row_of_def reservation_links_def
      find_None_iff list_ex_iff split: if_splits)

lemma new_reservation_row_sel [simp]:
  "qr_id (new_reservation_row g inp rid fen) = rid"
  "qr_reserved_fen_cny (new_reservation_row g inp rid fen) = show_int fen"
  "qr_state (new_reservation_row g inp rid fen) = ''reserved''"
  "qr_actual_fen_cny (new_reservation_row g inp rid fen) = None"
  by (simp_all add: new_reservation_row_def)

lemma reserve_new_adds:
  assumes "reserve_new L new_id inp db = Inr (r, db')" and "0 < ri_maximum_nano_usd inp"
  obtains g fen bs used reserved_by where
    "active_entitlement db (ri_user_id inp) (ri_now inp) = Inr g"
    "bind_rules L g (ri_now inp) = Inr bs"
    "tally_buckets (active_buckets (eg_id g) (eg_generation g) (ri_now inp) (insert_buckets g bs (db_buckets db))) [] []
       = Inr (used, reserved_by)"
    "reserve_bindings fen used reserved_by bs (insert_buckets g bs (db_buckets db))
       = Inr (map (reserved_update fen reserved_by bs) (insert_buckets g bs (db_buckets db)))"
    "adds_reservation db (new_reservation_row g inp new_id fen) fen bs
       (map (reserved_update fen reserved_by bs) (insert_buckets g bs (db_buckets db))) db'"
proof -
  from assms(1) obtain g fen bs used reserved_by rows where
    f: "active_entitlement db (ri_user_id inp) (ri_now inp) = Inr g"
    "reserve_amount g (ri_maximum_nano_usd inp) = Inr fen"
    "bind_rules L g (ri_now inp) = Inr bs"
    "tally_buckets (active_buckets (eg_id g) (eg_generation g) (ri_now inp) (insert_buckets g bs (db_buckets db))) [] []
       = Inr (used, reserved_by)"
    "reserve_bindings fen used reserved_by bs (insert_buckets g bs (db_buckets db)) = Inr rows"
    "insert_reservation (new_reservation_row g inp new_id fen) (map bb_id bs) (show_int fen) (db\<lparr>db_buckets := rows\<rparr>) = Inr db'"
    by (rule reserve_new_InrE) blast
  have rows: "rows = map (reserved_update fen reserved_by bs) (insert_buckets g bs (db_buckets db))"
    by (rule reserve_bindings_map [OF f(5)])
  have "adds_reservation db (new_reservation_row g inp new_id fen) fen bs rows db'"
    by (rule insert_reservation_adds [OF f(6)])
      (use reserve_amount_nonneg [OF f(2) assms(2)] in \<open>simp_all\<close>)
  with f rows show ?thesis by (intro that) simp_all
qed

lemma reserve_bindings_held:
  assumes "tally_buckets (active_buckets e n now rows) [] [] = Inr (used, reserved_by)"
    and "reserve_bindings fen used reserved_by bs rows = Inr rows'" and "distinct (map bk_id rows)"
    and "r \<in> set rows" and "bk_id r \<in> set (map bb_id bs)"
  shows "amount_of reserved_by (bk_id r) = amount_value (bk_reserved_fen_cny r)
    \<and> in_i128 (amount_of reserved_by (bk_id r) + fen) \<and> timestamp now < bk_window_end r"
proof -
  from assms(5) obtain b where b: "b \<in> set bs" "bk_id r = bb_id b" by auto
  note parts = reserve_bindings_parts [OF assms(2) b(1)]
  then obtain held where held: "map_of reserved_by (bk_id r) = Some held" using b by auto
  from tally_active_reserved [OF assms(3,1) this assms(4)] parts b held
  show ?thesis by (simp add: amount_of_def set_active_buckets)
qed

lemma reserve_new_books:
  assumes "reserve_new L new_id inp db = Inr (r, db')" and "0 < ri_maximum_nano_usd inp" and "books_balance db"
  shows "books_balance db'"
proof -
  from assms(1,2) obtain g fen bs used reserved_by where
    tally: "tally_buckets (active_buckets (eg_id g) (eg_generation g) (ri_now inp)
       (insert_buckets g bs (db_buckets db))) [] [] = Inr (used, reserved_by)"
    and bind: "reserve_bindings fen used reserved_by bs (insert_buckets g bs (db_buckets db))
       = Inr (map (reserved_update fen reserved_by bs) (insert_buckets g bs (db_buckets db)))"
    and adds: "adds_reservation db (new_reservation_row g inp new_id fen) fen bs
       (map (reserved_update fen reserved_by bs) (insert_buckets g bs (db_buckets db))) db'"
    by (rule reserve_new_adds) blast
  let ?rows = "insert_buckets g bs (db_buckets db)"
  have distinct: "distinct (map bk_id ?rows)"
    using assms(3) by (intro insert_buckets_distinct) (simp add: books_balance_def)
  show ?thesis
  proof (rule adds_reservation_books [OF adds assms(3) refl distinct insert_buckets_subset
      balanced_insert_buckets [OF assms(3)]])
    fix r assume r: "r \<in> set ?rows" "bk_id r \<in> set (map bb_id bs)"
    then show "amount_of reserved_by (bk_id r) = amount_value (bk_reserved_fen_cny r)
        \<and> in_i128 (amount_of reserved_by (bk_id r) + fen)"
      using reserve_bindings_held [OF tally bind distinct] by blast
  qed (use insert_buckets_present in blast)+
qed

section \<open>Settling and releasing\<close>

lemma link_sum_nonneg: "(\<And>rid. 0 \<le> f rid) \<Longrightarrow> 0 \<le> link_sum f links bid"
  unfolding link_sum_def by (intro sum_list_nonneg) auto

lemma filter_bucket_id:
  "distinct (map bk_id bs) \<Longrightarrow> filter (\<lambda>b. bk_id b = x) bs = [] \<or> (\<exists>b. filter (\<lambda>b. bk_id b = x) bs = [b])"
proof (induction bs)
  case (Cons b bs)
  show ?case
  proof (cases "bk_id b = x")
    case True
    then have "\<forall>c \<in> set bs. bk_id c \<noteq> x" using Cons.prems by (force simp: image_iff)
    then have "filter (\<lambda>b. bk_id b = x) bs = []" by (simp add: filter_empty_conv)
    then show ?thesis using True by simp
  next
    case False
    then show ?thesis using Cons by simp
  qed
qed simp

lemma distinct_joined_ids:
  assumes "distinct (map bk_id bs)" and "distinct (map ln_bucket_id ls)"
  shows "distinct (map (bk_id \<circ> snd) (concat (map (\<lambda>l. map (\<lambda>b. (l, b)) (filter (\<lambda>b. bk_id b = ln_bucket_id l) bs)) ls)))"
  using assms(2)
proof (induction ls)
  case (Cons l ls)
  let ?rest = "concat (map (\<lambda>l. map (\<lambda>b. (l, b)) (filter (\<lambda>b. bk_id b = ln_bucket_id l) bs)) ls)"
  have other: "(bk_id \<circ> snd) p \<noteq> ln_bucket_id l" if "p \<in> set ?rest" for p
    using that Cons.prems by (force simp: image_iff)
  have rest: "distinct (map (bk_id \<circ> snd) ?rest)"
    using Cons.IH Cons.prems by (simp only: list.simps distinct.simps simp_thms)
  have own: "\<forall>b \<in> set (filter (\<lambda>b. bk_id b = ln_bucket_id l) bs). bk_id b = ln_bucket_id l" by simp
  from filter_bucket_id [OF assms(1), of "ln_bucket_id l"]
  consider "filter (\<lambda>b. bk_id b = ln_bucket_id l) bs = []" | b where "filter (\<lambda>b. bk_id b = ln_bucket_id l) bs = [b]"
    by blast
  then show ?case
  proof cases
    case 1
    then show ?thesis using rest by (simp add: comp_def)
  next
    case (2 b)
    then have "b \<in> set (filter (\<lambda>b. bk_id b = ln_bucket_id l) bs)" by (metis list.set_intros(1))
    then have id: "bk_id b = ln_bucket_id l" by (rule bspec [OF own])
    have "ln_bucket_id l \<notin> set (map (bk_id \<circ> snd) ?rest)"
    proof
      assume "ln_bucket_id l \<in> set (map (bk_id \<circ> snd) ?rest)"
      then obtain p where p: "p \<in> set ?rest" "ln_bucket_id l = (bk_id \<circ> snd) p" unfolding set_map by (rule imageE)
      show False using other [OF p(1)] p(2) by (rule notE [OF _ sym])
    qed
    with rest id have "distinct (map (bk_id \<circ> snd) ((l, b) # ?rest))"
      unfolding list.map distinct.simps comp_apply snd_conv by (simp only: simp_thms)
    moreover have "concat (map (\<lambda>l. map (\<lambda>b. (l, b)) (filter (\<lambda>b. bk_id b = ln_bucket_id l) bs)) (l # ls)) = (l, b) # ?rest"
      by (simp only: list.map concat.simps 2 append.simps)
    ultimately show ?thesis by (simp only:)
  qed
qed simp

lemma links_of_distinct: "books_balance db \<Longrightarrow> distinct (map ln_bucket_id (links_of db rid))"
proof -
  assume "books_balance db"
  then have d: "distinct (db_links db)" "inj_on link_key (set (db_links db))"
    by (simp_all add: books_balance_def distinct_map)
  have "inj_on ln_bucket_id (set (links_of db rid))"
    using d(2) by (auto simp: inj_on_def links_of_def link_key_def)
  with d(1) show ?thesis by (simp add: distinct_map links_of_def)
qed

lemma linked_buckets_distinct: "books_balance db \<Longrightarrow> distinct (map (bk_id \<circ> snd) (linked_buckets db rid))"
proof -
  assume b: "books_balance db"
  then have "distinct (map bk_id (db_buckets db))" by (simp add: books_balance_def)
  from distinct_joined_ids [OF this links_of_distinct [OF b, of rid]]
  show ?thesis unfolding linked_buckets_def by (simp add: distinct_map)
qed

lemma set_linked_buckets:
  "(l, b) \<in> set (linked_buckets db rid) \<longleftrightarrow>
     l \<in> set (db_links db) \<and> ln_reservation_id l = rid \<and> b \<in> set (db_buckets db) \<and> bk_id b = ln_bucket_id l"
  by (auto simp: linked_buckets_def links_of_def)

lemma linked_update_cases:
  assumes "books_balance db" and "r \<in> set (db_buckets db)"
  shows "(rid, bk_id r) \<notin> link_key ` set (db_links db) \<and> linked_update fen (linked_buckets db rid) r = r
    \<or> (\<exists>l. (l, r) \<in> set (linked_buckets db rid)
         \<and> linked_update fen (linked_buckets db rid) r =
             r\<lparr>bk_settled_fen_cny := show_int (amount_value (bk_settled_fen_cny r) + fen),
               bk_reserved_fen_cny := show_int (amount_value (bk_reserved_fen_cny r) - amount_value (ln_reserved_fen_cny l))\<rparr>)"
proof (cases "find (\<lambda>(l, b). bk_id b = bk_id r) (linked_buckets db rid)")
  case None
  then have "(rid, bk_id r) \<notin> link_key ` set (db_links db)"
    using assms(2) by (auto simp: find_None_iff set_linked_buckets link_key_def)
  with None show ?thesis by (simp add: linked_update_def)
next
  case (Some lb)
  obtain l b where lb: "lb = (l, b)" by (cases lb)
  with Some have "(l, b) \<in> set (linked_buckets db rid)" "bk_id b = bk_id r" by (auto dest: find_SomeD)
  moreover from this have "b = r"
    using assms by (auto simp: books_balance_def set_linked_buckets distinct_map inj_on_def)
  ultimately show ?thesis using Some lb by (auto simp: linked_update_def)
qed

text \<open>Finishing an open reservation.\<close>

definition finishes_reservation ::
    "quota_db \<Rightarrow> string \<Rightarrow> reservation_row \<Rightarrow> int option \<Rightarrow> int option \<Rightarrow> quota_terminal_state \<Rightarrow> int \<Rightarrow> quota_db \<Rightarrow> bool" where
  "finishes_reservation db rid row nano fen state now db' \<longleftrightarrow>
     reservation_row_of db rid = Some row \<and> qr_state row = ''reserved'' \<and> state \<noteq> Reserved
     \<and> (case fen of Some v \<Rightarrow> 0 \<le> v \<and> in_i128 v | None \<Rightarrow> True)
     \<and> settle_links (unwrap_or fen 0) (linked_buckets db rid) (db_buckets db) = Inr (db_buckets db')
     \<and> db_reservations db' = map (\<lambda>r. if qr_id r = rid then finish_row nano fen state now r else r) (db_reservations db)
     \<and> db_links db' = db_links db"

lemma finish_row_sel [simp]:
  "qr_id (finish_row nano fen state now r) = qr_id r"
  "qr_reserved_fen_cny (finish_row nano fen state now r) = qr_reserved_fen_cny r"
  by (simp_all add: finish_row_def)

lemma as_str_reserved_iff [simp]: "QuotaTerminalState_as_str st = ''reserved'' \<longleftrightarrow> st = Reserved"
  by (cases st) simp_all

lemma finishes_row_of:
  assumes "finishes_reservation db rid row nano fen state now db'"
  shows "reservation_row_of db' x =
    map_option (\<lambda>r. if qr_id r = rid then finish_row nano fen state now r else r) (reservation_row_of db x)"
proof -
  let ?f = "\<lambda>r. if qr_id r = rid then finish_row nano fen state now r else r"
  have "find (\<lambda>r. qr_id r = x) (map ?f xs) = map_option ?f (find (\<lambda>r. qr_id r = x) xs)" for xs
    by (induction xs) auto
  then show ?thesis using assms by (simp add: reservation_row_of_def finishes_reservation_def)
qed

lemma reservation_row_of_id: "reservation_row_of db x = Some r \<Longrightarrow> qr_id r = x"
  by (auto simp: reservation_row_of_def find_Some_iff)

lemma finishes_held:
  assumes "finishes_reservation db rid row nano fen state now db'"
  shows "held_of db' = (held_of db)(rid := 0)"
proof (rule ext)
  fix x
  have row: "reservation_row_of db rid = Some row" "qr_state row = ''reserved''" "state \<noteq> Reserved"
    using assms by (simp_all add: finishes_reservation_def)
  show "held_of db' x = ((held_of db)(rid := 0)) x"
    using row reservation_row_of_id [of db x]
    by (auto simp: held_of_def finishes_row_of [OF assms] finish_row_def split: option.split)
qed

lemma finishes_spent:
  assumes "finishes_reservation db rid row nano fen state now db'"
  shows "spent_of db' = (spent_of db)(rid := unwrap_or fen 0)"
proof (rule ext)
  fix x
  have row: "reservation_row_of db rid = Some row" "qr_state row = ''reserved''" "state \<noteq> Reserved"
    "case fen of Some v \<Rightarrow> 0 \<le> v \<and> in_i128 v | None \<Rightarrow> True"
    using assms by (simp_all add: finishes_reservation_def)
  show "spent_of db' x = ((spent_of db)(rid := unwrap_or fen 0)) x"
  proof (cases "x = rid")
    case True
    then show ?thesis using row reservation_row_of_id [of db rid]
      by (simp add: spent_of_def finishes_row_of [OF assms] finish_row_def split: option.splits)
  next
    case False
    then show ?thesis using reservation_row_of_id [of db x]
      by (cases "reservation_row_of db x") (simp_all add: spent_of_def finishes_row_of [OF assms])
  qed
qed

lemma finishes_balanced:
  assumes fin: "finishes_reservation db rid row nano fen state now db'" and books: "books_balance db"
    and r: "r \<in> set (db_buckets db)"
  shows "bucket_balanced db' (linked_update (unwrap_or fen 0) (linked_buckets db rid) r)"
proof -
  let ?fen = "unwrap_or fen 0"
  have row: "reservation_row_of db rid = Some row" "qr_state row = ''reserved''"
    and links: "db_links db' = db_links db"
    and run: "settle_links ?fen (linked_buckets db rid) (db_buckets db) = Inr (db_buckets db')"
    using fin by (simp_all add: finishes_reservation_def)
  have keys: "distinct (map link_key (db_links db))" using books by (simp add: books_balance_def)
  have bal: "bucket_balanced db r" using books r by (simp add: books_balance_def list_all_iff)
  have ok: "reservation_ok row"
    using books row find_SomeD by (fastforce simp: books_balance_def reservation_row_of_def list_all_iff)
  have held0: "held_of db rid = amount_value (qr_reserved_fen_cny row)" and spent0: "spent_of db rid = 0"
    using row ok by (simp_all add: held_of_def spent_of_def reservation_ok_def)
  note sums = link_sum_update [OF keys]
  from linked_update_cases [OF books r, of rid ?fen] consider
      "(rid, bk_id r) \<notin> link_key ` set (db_links db)" "linked_update ?fen (linked_buckets db rid) r = r"
    | l where "(l, r) \<in> set (linked_buckets db rid)" "linked_update ?fen (linked_buckets db rid) r =
             r\<lparr>bk_settled_fen_cny := show_int (amount_value (bk_settled_fen_cny r) + ?fen),
               bk_reserved_fen_cny := show_int (amount_value (bk_reserved_fen_cny r) - amount_value (ln_reserved_fen_cny l))\<rparr>"
    by blast
  then show ?thesis
  proof cases
    case 1
    then show ?thesis using bal
      by (simp add: bucket_balanced_def links finishes_held [OF fin] finishes_spent [OF fin] sums)
  next
    case 2
    have l: "l \<in> set (db_links db)" "ln_reservation_id l = rid" "ln_bucket_id l = bk_id r"
      using 2(1) by (simp_all add: set_linked_buckets)
    then have key: "(rid, bk_id r) \<in> link_key ` set (db_links db)" by (force simp: link_key_def)
    have amount: "amount_value (ln_reserved_fen_cny l) = held_of db rid"
      using books_link [OF books l(1)] l(2) row held0 by (auto simp: link_ok_def)
    have "amount_value (bk_reserved_fen_cny r) - held_of db rid = link_sum (held_of db') (db_links db') (bk_id r)"
      using bal key by (simp add: bucket_balanced_def links finishes_held [OF fin] sums)
    moreover have "amount_value (bk_settled_fen_cny r) + ?fen = link_sum (spent_of db') (db_links db') (bk_id r)"
      using bal key spent0 by (simp add: bucket_balanced_def links finishes_spent [OF fin] sums)
    moreover have "0 \<le> link_sum (held_of db') (db_links db') (bk_id r)" "0 \<le> link_sum (spent_of db') (db_links db') (bk_id r)"
      by (simp_all add: link_sum_nonneg)
    ultimately show ?thesis using settle_links_parts [OF run 2(1)] 2(2) amount
      by (simp add: bucket_balanced_def)
  qed
qed

lemma bk_id_linked_update [simp]: "bk_id (linked_update fen links r) = bk_id r"
  by (simp add: linked_update_def split: option.split)

lemma finishes_books:
  assumes fin: "finishes_reservation db rid row nano fen state now db'" and books: "books_balance db"
  shows "books_balance db'"
proof -
  have run: "settle_links (unwrap_or fen 0) (linked_buckets db rid) (db_buckets db) = Inr (db_buckets db')"
    and res: "db_reservations db' = map (\<lambda>r. if qr_id r = rid then finish_row nano fen state now r else r) (db_reservations db)"
    and links: "db_links db' = db_links db" and state: "state \<noteq> Reserved"
    using fin by (simp_all add: finishes_reservation_def)
  have rows: "db_buckets db' = map (linked_update (unwrap_or fen 0) (linked_buckets db rid)) (db_buckets db)"
    by (rule settle_links_map [OF run linked_buckets_distinct [OF books]])
  then have ids: "map bk_id (db_buckets db') = map bk_id (db_buckets db)" by (simp add: comp_def)
  then have img: "bk_id ` set (db_buckets db') = bk_id ` set (db_buckets db)" by (metis list.set_map)
  have "map qr_id (db_reservations db') = map qr_id (db_reservations db)" unfolding res by (simp add: comp_def)
  moreover have "list_all reservation_ok (db_reservations db')"
    using books state unfolding res by (auto simp: books_balance_def list_all_iff reservation_ok_def finish_row_def)
  moreover have "link_ok db' l" if "l \<in> set (db_links db)" for l
  proof -
    from books_link [OF books that] obtain r where r: "reservation_row_of db (ln_reservation_id l) = Some r"
      "qr_reserved_fen_cny r = ln_reserved_fen_cny l" and b: "ln_bucket_id l \<in> bk_id ` set (db_buckets db)"
      unfolding link_ok_def by blast
    then show ?thesis by (simp add: link_ok_def finishes_row_of [OF fin] img)
  qed
  moreover have "list_all (bucket_balanced db') (db_buckets db')"
    using finishes_balanced [OF fin books] unfolding rows by (auto simp: list_all_iff)
  ultimately show ?thesis using books by (simp add: books_balance_def ids links list_all_iff)
qed

end
