(* ===== verification/User_Ledger.thy ===== *)
theory User_Ledger
  imports Routing_Affinity Json Store_Money "HOL-Library.Product_Lexorder"
begin

text \<open>
  Balances and the billing ledger, \<open>src/src/users/store.rs\<close> with the grants of \<open>plans.rs\<close> and the
  credit of \<open>src/src/store_billing/store.rs\<close>. A user has a balance, an API key may have a sub-account
  with its own balance, and every change of a balance writes a ledger entry. The tables are lists
  of rows; a transaction is a function from the tables to an error, which leaves them as they were,
  or to a result and new tables. Balances are stored as text. Instants are seconds, the cron
  schedules of billing plans an argument. A statement that fails in the database aborts its
  transaction and is not modelled.
\<close>

section \<open>Data\<close>

datatype billing_error_kind = NotFound | InsufficientBalance | InvalidStoredBalance | BalanceOverflow | BillingInternal

record store_error =
  se_kind :: billing_error_kind
  se_message :: string

definition BillingError_new :: "billing_error_kind \<Rightarrow> string \<Rightarrow> store_error" where
  "BillingError_new kind message = \<lparr>se_kind = kind, se_message = message\<rparr>"

record user_row =
  ur_id :: string
  ur_balance_nano_usd :: string
  ur_balance_unlimited :: bool
  ur_enabled :: bool
  ur_account_class :: account_class
  ur_billing_plan_id :: "string option"
  ur_next_grant_at :: "int option"

record api_key_row =
  kr_id :: string
  kr_user_id :: string
  kr_sub_account_enabled :: bool
  kr_sub_account_balance_nano :: string

record ledger_entry =
  le_user_id :: string
  le_kind :: string
  le_delta_nano_usd :: string
  le_balance_after_nano_usd :: "string option"
  le_meta :: json

record plan_row =
  pl_id :: string
  pl_name :: string
  pl_grant_amount_nano_usd :: string
  pl_schedule :: string
  pl_enabled :: bool

record ledger_db =
  ld_users :: "user_row list"
  ld_keys :: "api_key_row list"
  ld_ledger :: "ledger_entry list"
  ld_plans :: "plan_row list"
  ld_classes_with_group :: "account_class list"

record locked_user_balance =
  lu_balance :: int
  lu_unlimited :: bool
  lu_enabled :: bool

record locked_api_key_balance =
  lk_user_id :: string
  lk_balance :: int
  lk_sub_account_enabled :: bool

definition json_object :: "(string \<times> json) list \<Rightarrow> json" where
  "json_object members = JObject (fmap_of_list members)"

section \<open>Amounts\<close>

definition parse_nano_usd :: "string \<Rightarrow> (string, int) result" where
  "parse_nano_usd v = ok_or ''invalid_nano_usd'' (parse_i128 (trim v))"

text \<open>The first nine characters of the fraction, filled up with zeros.\<close>

definition nano_fraction :: "string \<Rightarrow> string" where
  "nano_fraction digits = take 9 digits @ replicate (9 - length digits) CHR ''0''"

definition parse_usd_to_nano :: "string \<Rightarrow> (string, int) result" where
  "parse_usd_to_nano v =
     (let s = trim v in
      if s = [] then Inl ''invalid_usd''
      else
        (let (negative, rest) = (if hd s = CHR ''-'' then (True, tl s) else if hd s = CHR ''+'' then (False, tl s) else (False, s));
             (whole_raw, frac_raw) = (case split_once CHR ''.'' rest of Some (w, f) \<Rightarrow> (w, f) | None \<Rightarrow> (rest, []))
         in if whole_raw = [] \<and> frac_raw = [] then Inl ''invalid_usd''
            else if \<not> all_digits whole_raw then Inl ''invalid_usd''
            else if \<not> all_digits frac_raw then Inl ''invalid_usd''
            else
              rbind (if whole_raw = [] then Inr 0 else ok_or ''invalid_usd'' (parse_i128 whole_raw)) (\<lambda>whole.
              rbind (ok_or ''invalid_usd'' (parse_i128 (nano_fraction frac_raw))) (\<lambda>frac_value.
              rbind (ok_or ''usd_overflow'' (Option.bind (checked_mul_i128 whole 1000000000) (\<lambda>v. checked_add_i128 v frac_value)))
                (\<lambda>base. if negative then ok_or ''usd_overflow'' (to_i128 (- base)) else Inr base)))))"

text \<open>\<open>format!("{frac:09}")\<close> without the zeros at its end.\<close>

definition show_fraction :: "nat \<Rightarrow> string" where
  "show_fraction nanos = rev (dropWhile (\<lambda>c. c = CHR ''0'')
     (rev (replicate (9 - length (show_nat nanos)) CHR ''0'' @ show_nat nanos)))"

definition format_nano_to_usd :: "int \<Rightarrow> string" where
  "format_nano_to_usd nano =
     (let abs_nano = nat \<bar>nano\<bar>;
          whole = abs_nano div 1000000000;
          nanos = abs_nano mod 1000000000;
          sign = (if nano < 0 then ''-'' else [])
      in if nanos = 0 then sign @ show_nat whole else sign @ show_nat whole @ ''.'' @ show_fraction nanos)"

section \<open>Rows\<close>

definition user_of :: "ledger_db \<Rightarrow> string \<Rightarrow> user_row option" where
  "user_of db user_id = find (\<lambda>r. ur_id r = user_id) (ld_users db)"

definition key_of :: "ledger_db \<Rightarrow> string \<Rightarrow> api_key_row option" where
  "key_of db key_id = find (\<lambda>r. kr_id r = key_id) (ld_keys db)"

definition update_user_row :: "string \<Rightarrow> (user_row \<Rightarrow> user_row) \<Rightarrow> ledger_db \<Rightarrow> ledger_db" where
  "update_user_row user_id f db =
     db\<lparr>ld_users := map (\<lambda>r. if ur_id r = user_id then f r else r) (ld_users db)\<rparr>"

definition update_key_row :: "string \<Rightarrow> (api_key_row \<Rightarrow> api_key_row) \<Rightarrow> ledger_db \<Rightarrow> ledger_db" where
  "update_key_row key_id f db = db\<lparr>ld_keys := map (\<lambda>r. if kr_id r = key_id then f r else r) (ld_keys db)\<rparr>"

definition set_user_balance :: "string \<Rightarrow> int \<Rightarrow> ledger_db \<Rightarrow> ledger_db" where
  "set_user_balance user_id balance = update_user_row user_id (\<lambda>r. r\<lparr>ur_balance_nano_usd := show_int balance\<rparr>)"

definition set_key_balance :: "string \<Rightarrow> int \<Rightarrow> ledger_db \<Rightarrow> ledger_db" where
  "set_key_balance key_id balance = update_key_row key_id (\<lambda>r. r\<lparr>kr_sub_account_balance_nano := show_int balance\<rparr>)"

definition stored_balance :: "string \<Rightarrow> (store_error, int) result" where
  "stored_balance raw =
     (case parse_nano_usd raw of Inr v \<Rightarrow> Inr v | Inl e \<Rightarrow> Inl (BillingError_new InvalidStoredBalance e))"

definition lock_user_balance_tx :: "ledger_db \<Rightarrow> string \<Rightarrow> (store_error, locked_user_balance) result" where
  "lock_user_balance_tx db user_id =
     rbind (ok_or (BillingError_new NotFound ''user not found'') (user_of db user_id)) (\<lambda>row.
     rbind (stored_balance (ur_balance_nano_usd row)) (\<lambda>balance.
       Inr \<lparr>lu_balance = balance, lu_unlimited = ur_balance_unlimited row, lu_enabled = ur_enabled row\<rparr>))"

definition lock_api_key_balance_tx :: "ledger_db \<Rightarrow> string \<Rightarrow> string \<Rightarrow> (store_error, locked_api_key_balance) result" where
  "lock_api_key_balance_tx db api_key_id expected_user_id =
     rbind (ok_or (BillingError_new NotFound ''api key not found'') (key_of db api_key_id)) (\<lambda>row.
     if kr_user_id row \<noteq> expected_user_id then Inl (BillingError_new NotFound ''api key owner does not match user'')
     else
       rbind (stored_balance (kr_sub_account_balance_nano row)) (\<lambda>balance.
         Inr \<lparr>lk_user_id = kr_user_id row, lk_balance = balance, lk_sub_account_enabled = kr_sub_account_enabled row\<rparr>))"

definition insert_billing_ledger_tx :: "string \<Rightarrow> string \<Rightarrow> int \<Rightarrow> int option \<Rightarrow> json \<Rightarrow> ledger_db \<Rightarrow> ledger_db" where
  "insert_billing_ledger_tx user_id kind delta balance_after meta db =
     db\<lparr>ld_ledger := ld_ledger db @ [\<lparr>le_user_id = user_id, le_kind = kind, le_delta_nano_usd = show_int delta,
       le_balance_after_nano_usd = map_option show_int balance_after, le_meta = meta\<rparr>]\<rparr>"

section \<open>Spending\<close>

definition ensure_user_can_spend :: "ledger_db \<Rightarrow> string \<Rightarrow> (store_error, unit) result" where
  "ensure_user_can_spend db user_id =
     rbind (ok_or (BillingError_new NotFound ''user not found'') (user_of db user_id)) (\<lambda>row.
     rbind (stored_balance (ur_balance_nano_usd row)) (\<lambda>balance.
       if ur_balance_unlimited row then Inr ()
       else if balance \<le> 0 then Inl (BillingError_new InsufficientBalance ''insufficient balance'')
       else Inr ()))"

definition ensure_sub_account_can_spend :: "ledger_db \<Rightarrow> string \<Rightarrow> (store_error, unit) result" where
  "ensure_sub_account_can_spend db api_key_id =
     rbind (ok_or (BillingError_new NotFound ''api key not found'') (key_of db api_key_id)) (\<lambda>row.
     rbind (stored_balance (kr_sub_account_balance_nano row)) (\<lambda>balance.
       if balance \<le> 0 then Inl (BillingError_new InsufficientBalance ''insufficient balance'') else Inr ()))"

definition missing_request_id :: "json \<Rightarrow> bool" where
  "missing_request_id meta =
     (case Option.bind (json_get meta ''request_id'') as_str of None \<Rightarrow> True | Some request_id \<Rightarrow> trim request_id = [])"

text \<open>The debit of a user that both charges end with.\<close>

definition debit_user ::
    "string \<Rightarrow> locked_user_balance \<Rightarrow> int \<Rightarrow> json \<Rightarrow> ledger_db \<Rightarrow> (store_error, ledger_db) result" where
  "debit_user user_id user amount meta db =
     (if lu_unlimited user then Inr db
      else
        rbind (ok_or (BillingError_new BalanceOverflow ''balance subtraction overflow'')
                 (checked_sub_i128 (lu_balance user) amount)) (\<lambda>next_balance.
          Inr (insert_billing_ledger_tx user_id ''request_charge'' (- amount) (Some next_balance) meta
                 (set_user_balance user_id next_balance db))))"

definition charge_user_balance_nano :: "string \<Rightarrow> int \<Rightarrow> json \<Rightarrow> ledger_db \<Rightarrow> (store_error, ledger_db) result" where
  "charge_user_balance_nano user_id amount meta db =
     (if amount \<le> 0 then Inr db
      else if missing_request_id meta
      then Inl (BillingError_new BillingInternal ''request charge metadata is missing request_id'')
      else rbind (lock_user_balance_tx db user_id) (\<lambda>user. debit_user user_id user amount meta db))"

definition charge_sub_account_balance_nano ::
    "string \<Rightarrow> string \<Rightarrow> int \<Rightarrow> json \<Rightarrow> ledger_db \<Rightarrow> (store_error, ledger_db) result" where
  "charge_sub_account_balance_nano api_key_id user_id amount meta db =
     (if amount \<le> 0 then Inr db
      else if missing_request_id meta
      then Inl (BillingError_new BillingInternal ''request charge metadata is missing request_id'')
      else
        rbind (lock_user_balance_tx db user_id) (\<lambda>user.
        rbind (case lock_api_key_balance_tx db api_key_id user_id of
                 Inr key \<Rightarrow> Inr (Some key)
               | Inl error \<Rightarrow> if se_kind error = NotFound then Inr None else Inl error) (\<lambda>key.
        case option_filter lk_sub_account_enabled key of
          None \<Rightarrow> debit_user user_id user amount meta db
        | Some key \<Rightarrow>
            rbind (ok_or (BillingError_new BalanceOverflow ''sub-account balance subtraction overflow'')
                     (checked_sub_i128 (lk_balance key) amount)) (\<lambda>next_balance.
              Inr (insert_billing_ledger_tx user_id ''api_key_charge'' (- amount) (Some next_balance) meta
                     (set_key_balance api_key_id next_balance db))))))"

definition transfer_to_sub_account ::
    "string \<Rightarrow> string \<Rightarrow> int \<Rightarrow> ledger_db \<Rightarrow> (store_error, (int \<times> int) \<times> ledger_db) result" where
  "transfer_to_sub_account api_key_id user_id amount db =
     (if amount \<le> 0 then Inl (BillingError_new BillingInternal ''transfer amount must be positive'')
      else
        rbind (lock_user_balance_tx db user_id) (\<lambda>user.
        rbind (lock_api_key_balance_tx db api_key_id user_id) (\<lambda>key.
        if \<not> lk_sub_account_enabled key then Inl (BillingError_new BillingInternal ''sub-account not enabled on this key'')
        else
          rbind (if lu_unlimited user then Inr (lu_balance user, db)
                 else
                   rbind (ok_or (BillingError_new BalanceOverflow ''user balance overflow'')
                            (checked_sub_i128 (lu_balance user) amount)) (\<lambda>next.
                   if next < 0 then Inl (BillingError_new InsufficientBalance ''insufficient balance for transfer'')
                   else Inr (next, set_user_balance user_id next db))) (\<lambda>(new_user_balance, db).
          rbind (ok_or (BillingError_new BalanceOverflow ''sub-account balance overflow'')
                   (checked_add_i128 (lk_balance key) amount)) (\<lambda>new_key_balance.
            (let meta = json_object [(''api_key_id'', JString api_key_id)];
                 db = set_key_balance api_key_id new_key_balance db;
                 db = (if lu_unlimited user then db
                       else insert_billing_ledger_tx user_id ''sub_account_transfer_out'' (- amount) (Some new_user_balance) meta db);
                 db = insert_billing_ledger_tx user_id ''sub_account_transfer_in'' amount (Some new_key_balance) meta db
             in Inr ((new_key_balance, new_user_balance), db)))))))"

section \<open>Administration\<close>

text \<open>\<open>map_err(|e| e.message)\<close>.\<close>

definition with_message :: "(store_error, 'a) result \<Rightarrow> (string, 'a) result" where
  "with_message r = (case r of Inl e \<Rightarrow> Inl (se_message e) | Inr x \<Rightarrow> Inr x)"

definition adjustment_meta :: "string \<Rightarrow> int \<Rightarrow> int \<Rightarrow> bool \<Rightarrow> bool \<Rightarrow> json" where
  "adjustment_meta actor before after before_unlimited after_unlimited =
     json_object [(''actor_user_id'', JString actor), (''before_balance_nano_usd'', JString (show_int before)),
       (''after_balance_nano_usd'', JString (show_int after)), (''before_balance_unlimited'', JBool before_unlimited),
       (''after_balance_unlimited'', JBool after_unlimited)]"

definition admin_adjust_user_balance ::
    "string \<Rightarrow> string option \<Rightarrow> bool option \<Rightarrow> string \<Rightarrow> ledger_db \<Rightarrow> (string, ledger_db) result" where
  "admin_adjust_user_balance user_id balance_nano_usd balance_unlimited actor_user_id db =
     (if balance_nano_usd = None \<and> balance_unlimited = None then Inr db
      else
        rbind (with_message (lock_user_balance_tx db user_id)) (\<lambda>current.
        rbind (case balance_nano_usd of Some raw \<Rightarrow> parse_nano_usd raw | None \<Rightarrow> Inr (lu_balance current)) (\<lambda>new_balance.
        (let new_unlimited = unwrap_or balance_unlimited (lu_unlimited current);
             db = update_user_row user_id (\<lambda>r. r\<lparr>ur_balance_nano_usd := show_int new_balance,
                    ur_balance_unlimited := new_unlimited\<rparr>) db
         in rbind (ok_or ''balance delta overflow'' (checked_sub_i128 new_balance (lu_balance current))) (\<lambda>delta.
              Inr (insert_billing_ledger_tx user_id ''admin_adjustment'' delta (Some new_balance)
                     (adjustment_meta actor_user_id (lu_balance current) new_balance (lu_unlimited current) new_unlimited) db))))))"

text \<open>The deletion of API keys: each balance that is left goes back to its user.\<close>

record settlement_state =
  st_users :: "(string \<times> locked_user_balance) list"
  st_updates :: "(string \<times> int) list"
  st_rows :: "(string \<times> int \<times> int option \<times> string) list"

fun settle_deleted_keys ::
    "(string \<times> locked_api_key_balance) list \<Rightarrow> settlement_state \<Rightarrow> (string, settlement_state) result" where
  "settle_deleted_keys [] st = Inr st"
| "settle_deleted_keys ((key_id, key) # keys) st =
     (if lk_balance key = 0 then settle_deleted_keys keys st
      else
        rbind (ok_or ''locked user balance missing'' (map_of (st_users st) (lk_user_id key))) (\<lambda>user.
        if lu_unlimited user
        then settle_deleted_keys keys (st\<lparr>st_rows := st_rows st @ [(lk_user_id key, lk_balance key, None, key_id)]\<rparr>)
        else
          rbind (ok_or ''sub-account delete settlement overflow'' (checked_add_i128 (lu_balance user) (lk_balance key))) (\<lambda>next.
            settle_deleted_keys keys
              (st\<lparr>st_users := (lk_user_id key, user\<lparr>lu_balance := next\<rparr>) # st_users st,
                  st_updates := (lk_user_id key, next) # st_updates st,
                  st_rows := st_rows st @ [(lk_user_id key, lk_balance key, Some next, key_id)]\<rparr>))))"

fun lock_users :: "user_row list \<Rightarrow> (string, (string \<times> locked_user_balance) list) result" where
  "lock_users [] = Inr []"
| "lock_users (row # rows) =
     rbind (case parse_nano_usd (ur_balance_nano_usd row) of
              Inl e \<Rightarrow> Inl (''invalid persisted user balance: '' @ e) | Inr v \<Rightarrow> Inr v) (\<lambda>balance.
     rbind (lock_users rows) (\<lambda>users.
       Inr ((ur_id row, \<lparr>lu_balance = balance, lu_unlimited = ur_balance_unlimited row, lu_enabled = ur_enabled row\<rparr>) # users)))"

fun lock_keys :: "api_key_row list \<Rightarrow> (string, (string \<times> locked_api_key_balance) list) result" where
  "lock_keys [] = Inr []"
| "lock_keys (row # rows) =
     rbind (case parse_nano_usd (kr_sub_account_balance_nano row) of
              Inl e \<Rightarrow> Inl (''invalid persisted sub-account balance: '' @ e) | Inr v \<Rightarrow> Inr v) (\<lambda>balance.
     rbind (lock_keys rows) (\<lambda>keys.
       Inr ((kr_id row, \<lparr>lk_user_id = kr_user_id row, lk_balance = balance, lk_sub_account_enabled = kr_sub_account_enabled row\<rparr>) # keys)))"

definition settlement_entry :: "string \<times> int \<times> int option \<times> string \<Rightarrow> ledger_entry" where
  "settlement_entry row =
     (case row of (user_id, delta, balance_after, key_id) \<Rightarrow>
        \<lparr>le_user_id = user_id, le_kind = ''sub_account_delete_settlement'', le_delta_nano_usd = show_int delta,
         le_balance_after_nano_usd = map_option show_int balance_after,
         le_meta = json_object [(''api_key_id'', JString key_id)]\<rparr>)"

definition delete_api_keys_transactional :: "nat \<Rightarrow> string list \<Rightarrow> ledger_db \<Rightarrow> (string, nat \<times> ledger_db) result" where
  "delete_api_keys_transactional max_ids ids db =
     (if max_ids < length ids then Inl (''batch delete accepts at most '' @ show_nat max_ids @ '' ids'')
      else if ids = [] then Inr (0, db)
      else
        (let rows = sort_key (\<lambda>r. (kr_user_id r, kr_id r)) (filter (\<lambda>r. kr_id r \<in> set ids) (ld_keys db)) in
         (let user_ids = remdups (map kr_user_id rows) in
         rbind (lock_users (List.map_filter (user_of db) user_ids)) (\<lambda>users.
         if length users \<noteq> length user_ids then Inl ''api key owner was not found''
         else
         rbind (lock_keys rows) (\<lambda>keys.
         rbind (settle_deleted_keys keys \<lparr>st_users = users, st_updates = [], st_rows = []\<rparr>) (\<lambda>st.
           Inr (length keys,
             db\<lparr>ld_users := map (\<lambda>r. case map_of (st_updates st) (ur_id r) of
                  Some balance \<Rightarrow> r\<lparr>ur_balance_nano_usd := show_int balance\<rparr> | None \<Rightarrow> r) (ld_users db),
                ld_keys := filter (\<lambda>r. kr_id r \<notin> set (map fst keys)) (ld_keys db),
                ld_ledger := ld_ledger db @ map settlement_entry (st_rows st)\<rparr>)))))))"

text \<open>
  Users come with an empty balance and go with their keys (the foreign key of \<open>api_keys\<close> cascades, that
  of the ledger was dropped). \<open>update_user\<close> as far as the columns of the model go; it writes no ledger entry.
\<close>

definition create_user :: "string \<Rightarrow> ledger_db \<Rightarrow> ledger_db" where
  "create_user new_id db =
     db\<lparr>ld_users := ld_users db @ [\<lparr>ur_id = new_id, ur_balance_nano_usd = ''0'', ur_balance_unlimited = False, ur_enabled = True,
       ur_account_class = Standard, ur_billing_plan_id = None, ur_next_grant_at = None\<rparr>]\<rparr>"

definition update_user ::
    "string \<Rightarrow> bool option \<Rightarrow> string option \<Rightarrow> bool option \<Rightarrow> ledger_db \<Rightarrow> (string, ledger_db) result" where
  "update_user user_id enabled balance_nano_usd balance_unlimited db =
     rbind (case balance_nano_usd of None \<Rightarrow> Inr 0 | Some balance \<Rightarrow> parse_nano_usd balance) (\<lambda>_.
       Inr (update_user_row user_id (\<lambda>r. r\<lparr>ur_enabled := unwrap_or enabled (ur_enabled r),
              ur_balance_nano_usd := unwrap_or balance_nano_usd (ur_balance_nano_usd r),
              ur_balance_unlimited := unwrap_or balance_unlimited (ur_balance_unlimited r)\<rparr>) db))"

definition delete_user :: "string \<Rightarrow> ledger_db \<Rightarrow> (string, ledger_db) result" where
  "delete_user user_id db =
     rbind (ok_or ''user not found'' (user_of db user_id)) (\<lambda>_.
       Inr (db\<lparr>ld_users := filter (\<lambda>r. ur_id r \<noteq> user_id) (ld_users db),
               ld_keys := filter (\<lambda>r. kr_user_id r \<noteq> user_id) (ld_keys db)\<rparr>))"

text \<open>The account class of a user changes: all keys of the user are deleted and settled.\<close>

fun class_change_settlements ::
    "bool \<Rightarrow> api_key_row list \<Rightarrow> int \<Rightarrow> (string, int \<times> (string \<times> int \<times> int option) list) result" where
  "class_change_settlements unlimited [] balance = Inr (balance, [])"
| "class_change_settlements unlimited (row # rows) balance =
     rbind (parse_nano_usd (kr_sub_account_balance_nano row)) (\<lambda>key_balance.
     if key_balance = 0 then class_change_settlements unlimited rows balance
     else
       rbind (if unlimited then Inr (balance, None)
              else rbind (ok_or ''sub-account delete settlement overflow'' (checked_add_i128 balance key_balance))
                     (\<lambda>balance. Inr (balance, Some balance))) (\<lambda>(balance, balance_after).
       rbind (class_change_settlements unlimited rows balance) (\<lambda>(balance, settlements).
         Inr (balance, (kr_id row, key_balance, balance_after) # settlements))))"

definition class_change_entry :: "string \<Rightarrow> string \<Rightarrow> string \<times> int \<times> int option \<Rightarrow> ledger_entry" where
  "class_change_entry user_id actor_user_id settlement =
     (case settlement of (key_id, delta, balance_after) \<Rightarrow>
        \<lparr>le_user_id = user_id, le_kind = ''sub_account_delete_settlement'', le_delta_nano_usd = show_int delta,
         le_balance_after_nano_usd = map_option show_int balance_after,
         le_meta = json_object [(''api_key_id'', JString key_id), (''reason'', JString ''account_class_change''),
           (''actor_user_id'', JString actor_user_id)]\<rparr>)"

definition change_user_account_class :: "string \<Rightarrow> account_class \<Rightarrow> string \<Rightarrow> ledger_db \<Rightarrow> (string, ledger_db) result" where
  "change_user_account_class user_id target actor_user_id db =
     rbind (ok_or ''user not found'' (user_of db user_id)) (\<lambda>user.
     if ur_account_class user = target then Inr db
     else if target \<notin> set (ld_classes_with_group db) then Inl ''target account class has no Group''
     else
       rbind (parse_nano_usd (ur_balance_nano_usd user)) (\<lambda>balance.
       rbind (class_change_settlements (ur_balance_unlimited user)
                (sort_key kr_id (filter (\<lambda>r. kr_user_id r = user_id) (ld_keys db))) balance) (\<lambda>(balance, settlements).
         Inr (update_user_row user_id (\<lambda>r. r\<lparr>ur_account_class := target, ur_balance_nano_usd := show_int balance\<rparr>)
           (db\<lparr>ld_ledger := ld_ledger db @ map (class_change_entry user_id actor_user_id) settlements,
               ld_keys := filter (\<lambda>r. kr_user_id r \<noteq> user_id) (ld_keys db)\<rparr>)))))"

text \<open>A new API key, as far as its sub-account goes.\<close>

definition initial_sub_account_balance :: "string option \<Rightarrow> bool \<Rightarrow> bool \<Rightarrow> (string, int) result" where
  "initial_sub_account_balance raw sub_account_enabled is_admin =
     (if raw \<noteq> None \<and> \<not> is_admin then Inl ''only admins may set an initial sub-account balance''
      else
        rbind (case raw of
                 None \<Rightarrow> Inr 0
               | Some raw \<Rightarrow> rbind (parse_nano_usd raw) (\<lambda>parsed.
                   if raw \<noteq> show_int parsed \<or> parsed < 0
                   then Inl ''initial sub-account balance must be a canonical non-negative integer''
                   else Inr parsed)) (\<lambda>balance.
        if balance \<noteq> 0 \<and> \<not> sub_account_enabled
        then Inl ''a non-zero sub-account balance requires sub-account billing to be enabled''
        else Inr balance))"

definition create_api_key_extended ::
    "string \<Rightarrow> string \<Rightarrow> string option \<Rightarrow> bool \<Rightarrow> bool \<Rightarrow> ledger_db \<Rightarrow> (string, ledger_db) result" where
  "create_api_key_extended new_id user_id raw_balance sub_account_enabled is_admin db =
     rbind (initial_sub_account_balance raw_balance sub_account_enabled is_admin) (\<lambda>balance.
     rbind (with_message (lock_user_balance_tx db user_id)) (\<lambda>_.
       (let db = db\<lparr>ld_keys := ld_keys db @ [\<lparr>kr_id = new_id, kr_user_id = user_id,
                   kr_sub_account_enabled = sub_account_enabled, kr_sub_account_balance_nano = show_int balance\<rparr>]\<rparr>
        in Inr (if balance = 0 then db
                else insert_billing_ledger_tx user_id ''admin_sub_account_adjustment'' balance (Some balance)
                       (json_object [(''api_key_id'', JString new_id), (''initial'', JBool True)]) db))))"

text \<open>The update of an API key, as far as its sub-account goes.\<close>

definition disable_sub_account ::
    "string \<Rightarrow> string \<Rightarrow> locked_user_balance \<Rightarrow> locked_api_key_balance \<Rightarrow> ledger_db \<Rightarrow> (string, ledger_db) result" where
  "disable_sub_account key_id user_id user key db =
     rbind (if lu_unlimited user then Inr (None, db)
            else rbind (ok_or ''sub-account disable settlement overflow'' (checked_add_i128 (lu_balance user) (lk_balance key)))
                   (\<lambda>next. Inr (Some next, set_user_balance user_id next db))) (\<lambda>(balance_after, db).
       (let db = update_key_row key_id (\<lambda>r. r\<lparr>kr_sub_account_balance_nano := ''0''\<rparr>) db
        in Inr (if lk_balance key = 0 then db
                else insert_billing_ledger_tx user_id
                       (if 0 < lk_balance key then ''sub_account_refund'' else ''sub_account_debt_transfer'')
                       (lk_balance key) balance_after (json_object [(''api_key_id'', JString key_id)]) db)))"

definition sub_account_meta :: "string \<Rightarrow> int \<Rightarrow> int \<Rightarrow> json" where
  "sub_account_meta key_id before after =
     json_object [(''api_key_id'', JString key_id), (''balance_before_nano_usd'', JString (show_int before)),
       (''balance_after_nano_usd'', JString (show_int after))]"

definition set_sub_account ::
    "string \<Rightarrow> string \<Rightarrow> locked_user_balance \<Rightarrow> locked_api_key_balance \<Rightarrow> int \<Rightarrow> ledger_db \<Rightarrow> (string, ledger_db) result" where
  "set_sub_account key_id user_id user key new_balance db =
     (if new_balance < lk_balance key
      then
        rbind (ok_or ''sub-account refund overflow'' (checked_sub_i128 (lk_balance key) new_balance)) (\<lambda>refund.
        rbind (if lu_unlimited user then Inr (None, db)
               else rbind (ok_or ''sub-account refund overflow'' (checked_add_i128 (lu_balance user) refund))
                      (\<lambda>next. Inr (Some next, set_user_balance user_id next db))) (\<lambda>(balance_after, db).
          Inr (insert_billing_ledger_tx user_id ''sub_account_refund'' refund balance_after
                 (sub_account_meta key_id (lk_balance key) new_balance) db)))
      else if lk_balance key < new_balance
      then
        rbind (ok_or ''sub-account adjustment overflow'' (checked_sub_i128 new_balance (lk_balance key))) (\<lambda>increase.
          Inr (insert_billing_ledger_tx user_id ''admin_sub_account_adjustment'' increase (Some new_balance)
                 (sub_account_meta key_id (lk_balance key) new_balance) db))
      else Inr db)"

definition update_api_key ::
    "string \<Rightarrow> bool option \<Rightarrow> string option \<Rightarrow> bool \<Rightarrow> ledger_db \<Rightarrow> (string, ledger_db) result" where
  "update_api_key key_id sub_account_enabled raw_balance is_admin db =
     (if raw_balance \<noteq> None \<and> \<not> is_admin then Inl ''only admins may set a sub-account balance''
      else if sub_account_enabled = Some False \<and> raw_balance \<noteq> None
      then Inl ''sub-account balance cannot be supplied while disabling sub-account billing''
      else
        rbind (case raw_balance of None \<Rightarrow> Inr None | Some raw \<Rightarrow> rbind (parse_nano_usd raw) (\<lambda>v. Inr (Some v))) (\<lambda>requested.
        rbind (ok_or ''API key not found'' (key_of db key_id)) (\<lambda>existing.
        if (case requested of Some v \<Rightarrow> v \<noteq> 0 | None \<Rightarrow> False)
           \<and> \<not> unwrap_or sub_account_enabled (kr_sub_account_enabled existing)
        then Inl ''a non-zero sub-account balance requires sub-account billing to be enabled''
        else
          (let disabling = (sub_account_enabled = Some False);
               write_fields = update_key_row key_id (\<lambda>r.
                 r\<lparr>kr_sub_account_enabled := unwrap_or sub_account_enabled (kr_sub_account_enabled r),
                   kr_sub_account_balance_nano := (case requested of Some v \<Rightarrow> show_int v | None \<Rightarrow> kr_sub_account_balance_nano r)\<rparr>)
           in if disabling \<or> requested \<noteq> None
              then
                rbind (with_message (lock_user_balance_tx db (kr_user_id existing))) (\<lambda>user.
                rbind (with_message (lock_api_key_balance_tx db key_id (kr_user_id existing))) (\<lambda>key.
                rbind (if disabling \<and> (lk_sub_account_enabled key \<or> lk_balance key \<noteq> 0)
                       then disable_sub_account key_id (kr_user_id existing) user key db
                       else case requested of
                         Some v \<Rightarrow> set_sub_account key_id (kr_user_id existing) user key v db
                       | None \<Rightarrow> Inr db) (\<lambda>db.
                  Inr (write_fields db))))
              else Inr (write_fields db)))))"

section \<open>Grants and credits\<close>

text \<open>\<open>next_after schedule now\<close> is the next time of a cron schedule in \<open>Asia/Shanghai\<close>.\<close>

type_synonym cron = "string \<Rightarrow> int \<Rightarrow> (string, int) result"

definition plan_of :: "ledger_db \<Rightarrow> string \<Rightarrow> plan_row option" where
  "plan_of db plan_id = find (\<lambda>p. pl_id p = plan_id) (ld_plans db)"

definition grant_meta :: "plan_row \<Rightarrow> bool \<Rightarrow> int \<Rightarrow> int \<Rightarrow> json" where
  "grant_meta plan force before after =
     json_object ([(''plan_id'', JString (pl_id plan)), (''plan_name'', JString (pl_name plan))]
       @ (if force then [(''source'', JString ''admin_reset'')] else [])
       @ [(''before_balance_nano_usd'', JString (show_int before)), (''after_balance_nano_usd'', JString (show_int after))])"

definition prior_grants :: "ledger_db \<Rightarrow> string \<Rightarrow> nat" where
  "prior_grants db user_id =
     length (filter (\<lambda>e. le_user_id e = user_id \<and> le_kind e = ''plan_grant'') (ld_ledger db))"

definition apply_grant ::
    "cron \<Rightarrow> string \<Rightarrow> plan_row \<Rightarrow> bool \<Rightarrow> bool \<Rightarrow> int \<Rightarrow> int \<Rightarrow> int \<Rightarrow> ledger_db \<Rightarrow> (string, ledger_db) result" where
  "apply_grant next_after user_id plan force due now old_balance new_balance db =
     rbind (ok_or ''balance overflow'' (checked_sub_i128 new_balance old_balance)) (\<lambda>delta.
     rbind (if force \<or> due
            then rbind (next_after (pl_schedule plan) now) (\<lambda>next_anchor.
                   Inr (update_user_row user_id (\<lambda>r. r\<lparr>ur_balance_nano_usd := show_int new_balance,
                          ur_next_grant_at := Some next_anchor\<rparr>) db))
            else Inr (set_user_balance user_id new_balance db)) (\<lambda>db.
       Inr (insert_billing_ledger_tx user_id ''plan_grant'' delta (Some new_balance)
              (grant_meta plan force old_balance new_balance) db)))"

definition granted_plan :: "ledger_db \<Rightarrow> string \<Rightarrow> (user_row \<times> plan_row) option" where
  "granted_plan db user_id =
     Option.bind (user_of db user_id) (\<lambda>u. map_option (\<lambda>p. (u, p)) (Option.bind (ur_billing_plan_id u) (plan_of db)))"

definition grant_user_once :: "cron \<Rightarrow> string \<Rightarrow> bool \<Rightarrow> int \<Rightarrow> ledger_db \<Rightarrow> (string, bool \<times> ledger_db) result" where
  "grant_user_once next_after user_id force now db =
     (case granted_plan db user_id of
        None \<Rightarrow> Inr (False, db)
      | Some (user, plan) \<Rightarrow>
          rbind (parse_nano_usd (ur_balance_nano_usd user)) (\<lambda>old_balance.
          rbind (parse_nano_usd (pl_grant_amount_nano_usd plan)) (\<lambda>amount.
          case ur_next_grant_at user of
            None \<Rightarrow> Inr (False, db)
          | Some next_grant_at \<Rightarrow>
              (let due = (next_grant_at \<le> now) in
               if ur_balance_unlimited user \<or> \<not> ur_enabled user then Inr (False, db)
               else if \<not> force \<and> \<not> pl_enabled plan then Inr (False, db)
               else if \<not> force \<and> \<not> due \<and> 0 < prior_grants db user_id then Inr (False, db)
               else
                 rbind (apply_grant next_after user_id plan force due now old_balance amount db) (\<lambda>db. Inr (True, db))))))"

text \<open>
  \<open>admin_update_user_atomic\<close> as far as balances go: \<open>plan_change\<close> is \<open>Some (Some p)\<close> to assign a plan and
  \<open>Some None\<close> to take it away. The assignment gives the change of the row and the balance that it grants.
\<close>

definition plan_assignment ::
    "cron \<Rightarrow> string option option \<Rightarrow> bool \<Rightarrow> int \<Rightarrow> ledger_db \<Rightarrow> (string, (user_row \<Rightarrow> user_row) \<times> (int \<times> plan_row) option) result" where
  "plan_assignment next_after plan_change may_grant now db =
     (case plan_change of
        None \<Rightarrow> Inr ((\<lambda>r. r), None)
      | Some None \<Rightarrow> Inr ((\<lambda>r. r\<lparr>ur_billing_plan_id := None, ur_next_grant_at := None\<rparr>), None)
      | Some (Some plan_id) \<Rightarrow>
          rbind (ok_or ''billing plan not found'' (plan_of db plan_id)) (\<lambda>plan.
          rbind (parse_nano_usd (pl_grant_amount_nano_usd plan)) (\<lambda>grant_amount.
          rbind (next_after (pl_schedule plan) now) (\<lambda>anchor.
            Inr ((\<lambda>r. r\<lparr>ur_billing_plan_id := Some plan_id, ur_next_grant_at := Some anchor\<rparr>),
                 if may_grant \<and> pl_enabled plan then Some (grant_amount, plan) else None)))))"

definition admin_update_user_atomic ::
    "cron \<Rightarrow> string \<Rightarrow> bool option \<Rightarrow> string option \<Rightarrow> bool option \<Rightarrow> string option option \<Rightarrow> string \<Rightarrow> int \<Rightarrow> ledger_db
       \<Rightarrow> (string, ledger_db) result" where
  "admin_update_user_atomic next_after user_id enabled raw_balance balance_unlimited plan_change actor_user_id now db =
     rbind (case raw_balance of None \<Rightarrow> Inr None | Some raw \<Rightarrow> rbind (parse_nano_usd raw) (\<lambda>v. Inr (Some v))) (\<lambda>parsed_balance.
     rbind (with_message (lock_user_balance_tx db user_id)) (\<lambda>current.
       (let new_balance = unwrap_or parsed_balance (lu_balance current);
            new_unlimited = unwrap_or balance_unlimited (lu_unlimited current);
            user_enabled = unwrap_or enabled (lu_enabled current)
        in rbind (plan_assignment next_after plan_change (parsed_balance = None \<and> user_enabled \<and> \<not> new_unlimited) now db)
             (\<lambda>(write_plan, plan_grant).
           (let written = (case plan_grant of Some (grant_amount, _) \<Rightarrow> Some grant_amount | None \<Rightarrow> parsed_balance);
                db = update_user_row user_id (\<lambda>r. write_plan (r\<lparr>ur_enabled := user_enabled, ur_balance_unlimited := new_unlimited,
                       ur_balance_nano_usd := (case written of Some v \<Rightarrow> show_int v | None \<Rightarrow> ur_balance_nano_usd r)\<rparr>)) db
            in rbind (if raw_balance \<noteq> None \<or> balance_unlimited \<noteq> None
                      then rbind (ok_or ''balance delta overflow'' (checked_sub_i128 new_balance (lu_balance current))) (\<lambda>delta.
                             Inr (insert_billing_ledger_tx user_id ''admin_adjustment'' delta (Some new_balance)
                               (adjustment_meta actor_user_id (lu_balance current) new_balance (lu_unlimited current) new_unlimited) db))
                      else Inr db) (\<lambda>db.
               case plan_grant of
                 None \<Rightarrow> Inr db
               | Some (grant_amount, plan) \<Rightarrow>
                   rbind (ok_or ''balance overflow'' (checked_sub_i128 grant_amount (lu_balance current))) (\<lambda>delta.
                     Inr (insert_billing_ledger_tx user_id ''plan_grant'' delta (Some grant_amount)
                            (grant_meta plan False (lu_balance current) grant_amount) db))))))))"

datatype credit_error = CreditMoney money_error | CreditStorage string

definition credit_balance :: "string \<Rightarrow> int \<Rightarrow> string \<Rightarrow> json \<Rightarrow> ledger_db \<Rightarrow> (credit_error, ledger_db) result" where
  "credit_balance user_id delta kind metadata db =
     rbind (ok_or (CreditStorage ''reward user does not exist'') (user_of db user_id)) (\<lambda>row.
     rbind (case parse_signed_minor (ur_balance_nano_usd row) of Inl e \<Rightarrow> Inl (CreditMoney e) | Inr v \<Rightarrow> Inr v) (\<lambda>previous.
     rbind (ok_or (CreditMoney AmountOverflow) (checked_add_i128 previous delta)) (\<lambda>balance.
       Inr (insert_billing_ledger_tx user_id kind delta (Some balance) metadata (set_user_balance user_id balance db)))))"

end
