(* ===== verification/User_Ledger_Books.thy ===== *)
theory User_Ledger_Books
  imports User_Ledger
begin

text \<open>
  The ledger explains every balance: each transaction of the user store appends entries whose
  effects are exactly the changes of the balances, so that the balance of a user and of a
  sub-account is the sum of the effects of the ledger.
\<close>

section \<open>Balances as numbers\<close>

definition nano_value :: "string \<Rightarrow> int" where
  "nano_value s = (case parse_nano_usd s of Inr v \<Rightarrow> v | Inl _ \<Rightarrow> 0)"

lemma strip_first_plain:
  assumes "\<And>w. w \<in> set ws \<Longrightarrow> w \<noteq> []" and "\<And>c. c \<in> set s \<Longrightarrow> c \<notin> set (concat ws)"
  shows "strip_first ws s = None"
proof (cases "strip_first ws s")
  case (Some r)
  then obtain w where w: "w \<in> set ws" "s = w @ r" using strip_first_Some by blast
  then have "hd w \<in> set w" using assms(1) by simp
  then have "hd w \<in> set s" and "hd w \<in> set (concat ws)" using w by auto
  then show ?thesis using assms(2) by blast
qed

lemma trim_plain:
  assumes "\<And>c. c \<in> set s \<Longrightarrow> c \<notin> set (concat white_space)"
  shows "trim s = s"
proof -
  have "strip_first white_space s = None"
    by (rule strip_first_plain) (use assms white_space_nonempty in auto)
  then have "trim_matches white_space s = s" by (rule trim_matches_idle)
  moreover have "strip_first (map rev white_space) (rev s) = None"
    by (rule strip_first_plain) (use assms rev_white_space_nonempty in auto)
  then have "trim_matches (map rev white_space) (rev s) = rev s" by (rule trim_matches_idle)
  ultimately show ?thesis by (simp add: trim_def)
qed

lemma show_int_chars: "c \<in> set (show_int v) \<Longrightarrow> is_ascii_digit c \<or> c = CHR ''-''"
  using show_nat_digits by (auto simp: show_int_def all_digits_def list_all_iff split: if_splits)

lemma white_space_plain: "c \<in> set (concat white_space) \<Longrightarrow> \<not> is_ascii_digit c \<and> c \<noteq> CHR ''-''"
proof -
  have "list_all (\<lambda>c. \<not> is_ascii_digit c \<and> c \<noteq> CHR ''-'') (concat white_space)" by code_simp
  then show "c \<in> set (concat white_space) \<Longrightarrow> \<not> is_ascii_digit c \<and> c \<noteq> CHR ''-''" unfolding list_all_iff by blast
qed

lemma parse_nano_usd_show [simp]: "in_i128 v \<Longrightarrow> parse_nano_usd (show_int v) = Inr v"
proof -
  assume "in_i128 v"
  moreover have "trim (show_int v) = show_int v"
    by (rule trim_plain) (use show_int_chars white_space_plain in blast)
  ultimately show ?thesis by (simp add: parse_nano_usd_def parse_i128_show_int ok_or_def)
qed

lemma nano_value_show [simp]: "in_i128 v \<Longrightarrow> nano_value (show_int v) = v"
  by (simp add: nano_value_def)

lemma parse_nano_usd_range: "parse_nano_usd s = Inr v \<Longrightarrow> in_i128 v"
  by (auto simp: parse_nano_usd_def parse_i128_def Let_def ok_or_eq_Inr_iff to_i128_def split: if_splits)

lemma nano_value_zero [simp]: "nano_value ''0'' = 0" "parse_nano_usd ''0'' = Inr 0"
proof -
  have zero: "show_int 0 = ''0''" by code_simp
  show "parse_nano_usd ''0'' = Inr 0" using parse_nano_usd_show [of 0] unfolding zero by (simp add: int_range_defs)
  then show "nano_value ''0'' = 0" by (simp add: nano_value_def)
qed

section \<open>Well-formed tables\<close>

definition balance_ok :: "string \<Rightarrow> bool" where
  "balance_ok s \<longleftrightarrow> (\<exists>v. in_i128 v \<and> s = show_int v)"

lemma balance_ok_show [simp]: "in_i128 v \<Longrightarrow> balance_ok (show_int v)"
  by (auto simp: balance_ok_def)

lemma balance_ok_value: "balance_ok s \<Longrightarrow> parse_nano_usd s = Inr (nano_value s) \<and> in_i128 (nano_value s) \<and> show_int (nano_value s) = s"
  by (auto simp: balance_ok_def)

definition ledger_ok :: "ledger_db \<Rightarrow> bool" where
  "ledger_ok db \<longleftrightarrow>
     distinct (map ur_id (ld_users db)) \<and> distinct (map kr_id (ld_keys db))
     \<and> list_all (balance_ok \<circ> ur_balance_nano_usd) (ld_users db)
     \<and> list_all (balance_ok \<circ> kr_sub_account_balance_nano) (ld_keys db)
     \<and> list_all (\<lambda>p. \<exists>v. parse_nano_usd (pl_grant_amount_nano_usd p) = Inr v) (ld_plans db)"

definition user_balance :: "ledger_db \<Rightarrow> string \<Rightarrow> int option" where
  "user_balance db u = map_option (nano_value \<circ> ur_balance_nano_usd) (user_of db u)"

definition key_balance :: "ledger_db \<Rightarrow> string \<Rightarrow> int option" where
  "key_balance db k = map_option (nano_value \<circ> kr_sub_account_balance_nano) (key_of db k)"

lemma find_map_id:
  assumes "\<And>x. x \<in> set xs \<Longrightarrow> f (g x) = f x"
  shows "find (\<lambda>x. f x = y) (map g xs) = map_option g (find (\<lambda>x. f x = y) xs)"
  using assms by (induction xs) auto

lemma find_first: "find P xs = Some x \<Longrightarrow> x \<in> set xs \<and> P x"
  by (induction xs) (auto split: if_splits)

lemma user_of_update:
  "(\<And>r. ur_id (f r) = ur_id r) \<Longrightarrow>
     user_of (update_user_row u f db) x = (if x = u then map_option f (user_of db u) else user_of db x)"
  unfolding user_of_def update_user_row_def
  by (simp add: find_map_id) (cases "find (\<lambda>r. ur_id r = x) (ld_users db)"; auto dest: find_first)

lemma key_of_update:
  "(\<And>r. kr_id (f r) = kr_id r) \<Longrightarrow>
     key_of (update_key_row k f db) x = (if x = k then map_option f (key_of db k) else key_of db x)"
  unfolding key_of_def update_key_row_def
  by (simp add: find_map_id) (cases "find (\<lambda>r. kr_id r = x) (ld_keys db)"; auto dest: find_first)

lemma lookup_frame [simp]:
  "user_of (update_key_row k f db) = user_of db" "key_of (update_user_row u g db) = key_of db"
  "user_of (insert_billing_ledger_tx u' kind d a m db) = user_of db"
  "key_of (insert_billing_ledger_tx u' kind d a m db) = key_of db"
  "plan_of (update_user_row u g db) = plan_of db"
  by (simp_all add: fun_eq_iff user_of_def key_of_def plan_of_def update_key_row_def update_user_row_def insert_billing_ledger_tx_def)

section \<open>Effects\<close>

definition sub_account_kinds :: "string list" where
  "sub_account_kinds = [''api_key_charge'', ''sub_account_transfer_in'', ''admin_sub_account_adjustment'']"

definition return_kinds :: "string list" where
  "return_kinds = [''sub_account_refund'', ''sub_account_debt_transfer'', ''sub_account_delete_settlement'']"

definition user_effect :: "string \<Rightarrow> ledger_entry \<Rightarrow> int" where
  "user_effect u e =
     (if le_user_id e = u \<and> le_balance_after_nano_usd e \<noteq> None \<and> le_kind e \<notin> set sub_account_kinds
      then nano_value (le_delta_nano_usd e) else 0)"

definition entry_key :: "ledger_entry \<Rightarrow> string option" where
  "entry_key e = Option.bind (json_get (le_meta e) ''api_key_id'') as_str"

definition key_effect :: "string \<Rightarrow> ledger_entry \<Rightarrow> int" where
  "key_effect k e =
     (if entry_key e \<noteq> Some k then 0
      else if le_kind e \<in> set sub_account_kinds then nano_value (le_delta_nano_usd e)
      else if le_kind e \<in> set return_kinds then - nano_value (le_delta_nano_usd e) else 0)"

text \<open>
  The entries \<open>es\<close> are the whole change from \<open>db\<close> to \<open>db'\<close>: no user comes or goes, no key comes, and
  every balance moves by the effects of the entries.
\<close>

definition posts :: "ledger_db \<Rightarrow> ledger_entry list \<Rightarrow> ledger_db \<Rightarrow> bool" where
  "posts db es db' \<longleftrightarrow>
     ledger_ok db' \<and> ld_ledger db' = ld_ledger db @ es \<and> map ur_id (ld_users db') = map ur_id (ld_users db)
     \<and> (\<forall>u v. user_balance db u = Some v \<longrightarrow> user_balance db' u = Some (v + (\<Sum>e\<leftarrow>es. user_effect u e)))
     \<and> (\<forall>k v. key_balance db' k = Some v \<longrightarrow> key_balance db k = Some (v - (\<Sum>e\<leftarrow>es. key_effect k e)))"

lemma user_of_id: "user_of db u = Some r \<Longrightarrow> ur_id r = u \<and> r \<in> set (ld_users db)"
  unfolding user_of_def by (auto dest: find_first)

lemma key_of_id: "key_of db k = Some r \<Longrightarrow> kr_id r = k \<and> r \<in> set (ld_keys db)"
  unfolding key_of_def by (auto dest: find_first)

lemma find_unique:
  assumes "distinct (map f xs)" and "x \<in> set xs"
  shows "find (\<lambda>y. f y = f x) xs = Some x"
  using assms by (induction xs) (auto simp: image_iff)

lemma user_of_unique: "ledger_ok db \<Longrightarrow> r \<in> set (ld_users db) \<Longrightarrow> user_of db (ur_id r) = Some r"
  unfolding user_of_def ledger_ok_def by (intro find_unique) simp_all

lemma key_of_unique: "ledger_ok db \<Longrightarrow> r \<in> set (ld_keys db) \<Longrightarrow> key_of db (kr_id r) = Some r"
  unfolding key_of_def ledger_ok_def by (intro find_unique) simp_all

lemma stored_balance_Inr_iff: "stored_balance raw = Inr v \<longleftrightarrow> parse_nano_usd raw = Inr v"
  by (simp add: stored_balance_def split: sum.split)

lemma nano_value_Inr: "parse_nano_usd raw = Inr v \<Longrightarrow> nano_value raw = v"
  by (simp add: nano_value_def)

lemmas lock_simps = rbind_eq_Inr_iff ok_or_eq_Inr_iff stored_balance_Inr_iff nano_value_Inr

lemma lock_user_InrD:
  assumes "lock_user_balance_tx db u = Inr user"
  shows "user_balance db u = Some (lu_balance user)"
    and "\<exists>row. user_of db u = Some row \<and> lu_unlimited user = ur_balance_unlimited row \<and> lu_enabled user = ur_enabled row
      \<and> nano_value (ur_balance_nano_usd row) = lu_balance user"
    and "in_i128 (lu_balance user)"
  using assms
  by (auto simp: lock_user_balance_tx_def user_balance_def lock_simps dest: parse_nano_usd_range)

lemma lock_key_InrD:
  assumes "lock_api_key_balance_tx db k u = Inr key"
  shows "key_balance db k = Some (lk_balance key)"
    and "\<exists>row. key_of db k = Some row \<and> kr_user_id row = u \<and> nano_value (kr_sub_account_balance_nano row) = lk_balance key"
    and "in_i128 (lk_balance key)"
  using assms
  by (auto simp: lock_api_key_balance_tx_def key_balance_def lock_simps dest: parse_nano_usd_range split: if_splits)

lemma posts_refl: "ledger_ok db \<Longrightarrow> posts db [] db"
  by (simp add: posts_def)

lemma posts_same: "ledger_ok db \<Longrightarrow> \<exists>es. posts db es db"
  using posts_refl by blast

text \<open>One user and one key move.\<close>

lemma posts_update:
  assumes ok: "ledger_ok db"
    and ids: "\<And>r. ur_id (f r) = ur_id r" "\<And>r. kr_id (g r) = kr_id r"
    and user: "\<And>r. user_of db u = Some r \<Longrightarrow> balance_ok (ur_balance_nano_usd (f r))
      \<and> nano_value (ur_balance_nano_usd (f r)) = nano_value (ur_balance_nano_usd r) + (\<Sum>e\<leftarrow>es. user_effect u e)"
    and users: "\<And>x. x \<noteq> u \<Longrightarrow> (\<Sum>e\<leftarrow>es. user_effect x e) = 0"
    and key: "\<And>r. key_of db k = Some r \<Longrightarrow> balance_ok (kr_sub_account_balance_nano (g r))
      \<and> nano_value (kr_sub_account_balance_nano (g r)) = nano_value (kr_sub_account_balance_nano r) + (\<Sum>e\<leftarrow>es. key_effect k e)"
    and keys: "\<And>x. x \<noteq> k \<Longrightarrow> (\<Sum>e\<leftarrow>es. key_effect x e) = 0"
  shows "posts db es ((update_key_row k g (update_user_row u f db))\<lparr>ld_ledger := ld_ledger db @ es\<rparr>)"
    (is "posts db es ?db'")
proof -
  have user_of': "user_of ?db' x = (if x = u then map_option f (user_of db u) else user_of db x)" for x
    using user_of_update [of f u db x] ids by (simp add: user_of_def update_key_row_def)
  have key_of': "key_of ?db' x = (if x = k then map_option g (key_of db k) else key_of db x)" for x
    using key_of_update [of g k "update_user_row u f db" x] ids by (simp add: key_of_def update_user_row_def)
  have "balance_ok (ur_balance_nano_usd (f r))" if "r \<in> set (ld_users db)" "ur_id r = u" for r
    using user user_of_unique [OF ok that(1)] that(2) by simp
  moreover have "balance_ok (kr_sub_account_balance_nano (g r))" if "r \<in> set (ld_keys db)" "kr_id r = k" for r
    using key key_of_unique [OF ok that(1)] that(2) by simp
  ultimately have "ledger_ok ?db'"
    using ok ids by (auto simp: ledger_ok_def update_key_row_def update_user_row_def list_all_iff comp_def cong: if_cong)
      (simp_all add: if_distrib cong: if_cong)
  moreover have "map ur_id (ld_users ?db') = map ur_id (ld_users db)"
    using ids by (simp add: update_key_row_def update_user_row_def comp_def if_distrib cong: if_cong)
  moreover have "user_balance ?db' x = Some (v + (\<Sum>e\<leftarrow>es. user_effect x e))" if "user_balance db x = Some v" for x v
    using that user users by (cases "x = u") (auto simp: user_balance_def user_of')
  moreover have "key_balance db x = Some (v - (\<Sum>e\<leftarrow>es. key_effect x e))" if "key_balance ?db' x = Some v" for x v
    using that key keys by (cases "x = k") (auto simp: key_balance_def key_of')
  ultimately show ?thesis by (simp add: posts_def)
qed

lemma posts_trans: "posts db es db1 \<Longrightarrow> posts db1 fs db2 \<Longrightarrow> posts db (es @ fs) db2"
  unfolding posts_def by (fastforce simp: algebra_simps)

lemma update_row_id [simp]: "update_key_row k (\<lambda>r. r) db = db" "update_user_row u (\<lambda>r. r) db = db"
  by (simp_all add: update_key_row_def update_user_row_def)

definition entry :: "string \<Rightarrow> string \<Rightarrow> int \<Rightarrow> int option \<Rightarrow> json \<Rightarrow> ledger_entry" where
  "entry u kind d after meta = \<lparr>le_user_id = u, le_kind = kind, le_delta_nano_usd = show_int d,
     le_balance_after_nano_usd = map_option show_int after, le_meta = meta\<rparr>"

lemma insert_ledger_entry: "insert_billing_ledger_tx u kind d after meta db = db\<lparr>ld_ledger := ld_ledger db @ [entry u kind d after meta]\<rparr>"
  by (simp add: insert_billing_ledger_tx_def entry_def)

lemma user_effect_entry:
  "in_i128 d \<Longrightarrow> user_effect x (entry u kind d after meta) = (if x = u \<and> after \<noteq> None \<and> kind \<notin> set sub_account_kinds then d else 0)"
  by (auto simp: user_effect_def entry_def)

lemma key_effect_entry:
  "in_i128 d \<Longrightarrow> key_effect x (entry u kind d after meta) =
     (if Option.bind (json_get meta ''api_key_id'') as_str \<noteq> Some x then 0
      else if kind \<in> set sub_account_kinds then d else if kind \<in> set return_kinds then - d else 0)"
  by (simp add: key_effect_def entry_def entry_key_def)

lemma user_frame: "ledger_ok db \<Longrightarrow> user_of db u = Some r \<Longrightarrow> balance_ok (ur_balance_nano_usd r)"
  using user_of_id by (fastforce simp: ledger_ok_def list_all_iff)

lemma key_frame: "ledger_ok db \<Longrightarrow> key_of db k = Some r \<Longrightarrow> balance_ok (kr_sub_account_balance_nano r)"
  using key_of_id by (fastforce simp: ledger_ok_def list_all_iff)

lemma posts_user:
  assumes "ledger_ok db" and "user_of db u = Some row" and "\<And>r. ur_id (f r) = ur_id r"
    and "ur_balance_nano_usd (f row) = show_int v" and "in_i128 v" and "d = v - nano_value (ur_balance_nano_usd row)"
    and "in_i128 d" and "kind \<notin> set sub_account_kinds" and "kind \<notin> set return_kinds"
  shows "posts db [entry u kind d (Some b) meta] (insert_billing_ledger_tx u kind d (Some b) meta (update_user_row u f db))"
proof -
  have "posts db [entry u kind d (Some b) meta]
      ((update_key_row [] (\<lambda>r. r) (update_user_row u f db))\<lparr>ld_ledger := ld_ledger db @ [entry u kind d (Some b) meta]\<rparr>)"
    by (rule posts_update) (use assms key_frame [OF assms(1)] in \<open>auto simp: user_effect_entry key_effect_entry\<close>)
  then show ?thesis by (simp add: insert_ledger_entry update_user_row_def)
qed

lemma posts_key:
  assumes "ledger_ok db" and "key_of db k = Some row" and "\<And>r. kr_id (g r) = kr_id r"
    and "kr_sub_account_balance_nano (g row) = show_int v" and "in_i128 v"
    and "d = v - nano_value (kr_sub_account_balance_nano row)" and "in_i128 d" and "kind \<in> set sub_account_kinds"
    and "Option.bind (json_get meta ''api_key_id'') as_str = Some k"
  shows "posts db [entry u kind d after meta] (insert_billing_ledger_tx u kind d after meta (update_key_row k g db))"
proof -
  have "posts db [entry u kind d after meta]
      ((update_key_row k g (update_user_row u (\<lambda>r. r) db))\<lparr>ld_ledger := ld_ledger db @ [entry u kind d after meta]\<rparr>)"
    by (rule posts_update) (use assms user_frame [OF assms(1)] in \<open>auto simp: user_effect_entry key_effect_entry\<close>)
  then show ?thesis by (simp add: insert_ledger_entry update_key_row_def)
qed

text \<open>A balance goes from a key to its user; for a user without limit it disappears.\<close>

lemma posts_return:
  assumes "ledger_ok db" and "key_of db k = Some row" and "\<And>r. kr_id (g r) = kr_id r"
    and "kr_sub_account_balance_nano (g row) = show_int v" and "in_i128 v"
    and "d = nano_value (kr_sub_account_balance_nano row) - v" and "in_i128 d"
    and "user_of db u = Some urow" and "\<And>r. ur_id (f r) = ur_id r"
    and "case after of None \<Rightarrow> f = (\<lambda>r. r) | Some b \<Rightarrow> b = nano_value (ur_balance_nano_usd urow) + d \<and> in_i128 b
      \<and> ur_balance_nano_usd (f urow) = show_int b"
    and "kind \<in> set return_kinds" and "kind \<notin> set sub_account_kinds"
    and "Option.bind (json_get meta ''api_key_id'') as_str = Some k"
  shows "posts db [entry u kind d after meta]
    (insert_billing_ledger_tx u kind d after meta (update_key_row k g (update_user_row u f db)))"
proof -
  have "posts db [entry u kind d after meta]
      ((update_key_row k g (update_user_row u f db))\<lparr>ld_ledger := ld_ledger db @ [entry u kind d after meta]\<rparr>)"
    by (rule posts_update) (use assms user_frame [OF assms(1)] in
        \<open>auto simp: user_effect_entry key_effect_entry split: option.splits\<close>)
  then show ?thesis by (simp add: insert_ledger_entry update_key_row_def update_user_row_def)
qed

text \<open>Fields that are not balances.\<close>

lemma posts_fields:
  assumes "ledger_ok db" and "\<And>r. ur_id (f r) = ur_id r \<and> ur_balance_nano_usd (f r) = ur_balance_nano_usd r"
    and "\<And>r. kr_id (g r) = kr_id r \<and> kr_sub_account_balance_nano (g r) = kr_sub_account_balance_nano r"
  shows "posts db [] (update_key_row k g (update_user_row u f db))"
proof -
  have "posts db [] ((update_key_row k g (update_user_row u f db))\<lparr>ld_ledger := ld_ledger db @ []\<rparr>)"
    by (rule posts_update) (use assms user_frame [OF assms(1)] key_frame [OF assms(1)] in auto)
  then show ?thesis by (simp add: update_key_row_def update_user_row_def)
qed

section \<open>The transactions\<close>

lemmas kind_simps = sub_account_kinds_def return_kinds_def

lemma debit_user_posts:
  assumes "debit_user u user amount meta db = Inr db'" and "lock_user_balance_tx db u = Inr user"
    and "ledger_ok db" and "0 < amount" and "in_i128 amount"
  shows "\<exists>es. posts db es db'"
proof (cases "lu_unlimited user")
  case True
  then show ?thesis using assms posts_refl by (auto simp: debit_user_def)
next
  case False
  obtain row where row: "user_of db u = Some row" "nano_value (ur_balance_nano_usd row) = lu_balance user"
    using lock_user_InrD(2) [OF assms(2)] by blast
  have "in_i128 (- amount)" using assms(4,5) by (simp add: int_range_defs)
  from False assms(1) have db': "db' = insert_billing_ledger_tx u ''request_charge'' (- amount) (Some (lu_balance user - amount)) meta
      (update_user_row u (\<lambda>r. r\<lparr>ur_balance_nano_usd := show_int (lu_balance user - amount)\<rparr>) db)"
    and range: "in_i128 (lu_balance user - amount)"
    by (auto simp: debit_user_def set_user_balance_def result_simps)
  have "posts db [entry u ''request_charge'' (- amount) (Some (lu_balance user - amount)) meta] db'"
    unfolding db'
    by (rule posts_user [OF assms(3) row(1), where v = "lu_balance user - amount"]) (use range \<open>in_i128 (- amount)\<close> row(2) in \<open>auto simp: kind_simps\<close>)
  then show ?thesis by blast
qed

lemma charge_user_posts:
  "charge_user_balance_nano u amount meta db = Inr db' \<Longrightarrow> ledger_ok db \<Longrightarrow> in_i128 amount \<Longrightarrow> \<exists>es. posts db es db'"
  using debit_user_posts posts_same
  by (auto simp: charge_user_balance_nano_def rbind_eq_Inr_iff split: if_splits)

lemma json_object_key [simp]: "json_get (json_object ((''api_key_id'', JString k) # rest)) ''api_key_id'' = Some (JString k)"
  by (simp add: json_object_def fmap_of_list.rep_eq)

lemma map_err_Inr_iff: "(case r of Inl e \<Rightarrow> Inl (f e) | Inr v \<Rightarrow> Inr v) = Inr x \<longleftrightarrow> r = Inr x"
  by (simp split: sum.split)

lemma with_message_Inr_iff: "with_message r = Inr x \<longleftrightarrow> r = Inr x"
  by (simp add: with_message_def split: sum.split)

lemma charge_sub_account_posts:
  assumes run: "charge_sub_account_balance_nano k u amount meta db = Inr db'" and ok: "ledger_ok db" and range: "in_i128 amount"
    and meta: "Option.bind (json_get meta ''api_key_id'') as_str = Some k"
  shows "\<exists>es. posts db es db'"
proof (cases "amount \<le> 0")
  case True
  then show ?thesis using run ok posts_refl by (auto simp: charge_sub_account_balance_nano_def)
next
  case False
  from run False obtain user key where user: "lock_user_balance_tx db u = Inr user"
    and key: "(case lock_api_key_balance_tx db k u of Inr key \<Rightarrow> Inr (Some key)
        | Inl error \<Rightarrow> if se_kind error = NotFound then Inr None else Inl error) = Inr key"
    and rest: "(case option_filter lk_sub_account_enabled key of
          None \<Rightarrow> debit_user u user amount meta db
        | Some key \<Rightarrow>
            rbind (ok_or (BillingError_new BalanceOverflow ''sub-account balance subtraction overflow'')
                     (checked_sub_i128 (lk_balance key) amount)) (\<lambda>next_balance.
              Inr (insert_billing_ledger_tx u ''api_key_charge'' (- amount) (Some next_balance) meta
                     (set_key_balance k next_balance db)))) = Inr db'"
    by (auto simp: charge_sub_account_balance_nano_def rbind_eq_Inr_iff split: if_splits)
  show ?thesis
  proof (cases "option_filter lk_sub_account_enabled key")
    case None
    then show ?thesis using debit_user_posts [OF _ user ok] rest False range by simp
  next
    case (Some locked)
    then have "lock_api_key_balance_tx db k u = Inr locked"
      using key by (auto simp: option_filter_def split: sum.splits if_splits option.splits)
    from lock_key_InrD(2) [OF this] obtain row where row: "key_of db k = Some row"
      "nano_value (kr_sub_account_balance_nano row) = lk_balance locked" by blast
    from Some rest have db': "db' = insert_billing_ledger_tx u ''api_key_charge'' (- amount) (Some (lk_balance locked - amount)) meta
        (update_key_row k (\<lambda>r. r\<lparr>kr_sub_account_balance_nano := show_int (lk_balance locked - amount)\<rparr>) db)"
      and next_ok: "in_i128 (lk_balance locked - amount)"
      by (auto simp: set_key_balance_def result_simps)
    have "in_i128 (- amount)" using False range by (simp add: int_range_defs)
    then have "posts db [entry u ''api_key_charge'' (- amount) (Some (lk_balance locked - amount)) meta] db'"
      unfolding db'
      by (intro posts_key [OF ok row(1), where v = "lk_balance locked - amount"]) (use next_ok row(2) meta in \<open>auto simp: kind_simps\<close>)
    then show ?thesis by blast
  qed
qed

lemma set_key_ledger_commute: "set_key_balance k b (insert_billing_ledger_tx u kind d a m db) = insert_billing_ledger_tx u kind d a m (set_key_balance k b db)"
  by (simp add: set_key_balance_def update_key_row_def insert_billing_ledger_tx_def)

lemma transfer_posts:
  assumes run: "transfer_to_sub_account k u amount db = Inr (r, db')" and ok: "ledger_ok db" and range: "in_i128 amount"
  shows "\<exists>es. posts db es db'"
proof -
  let ?meta = "json_object [(''api_key_id'', JString k)]"
  from run obtain user key where pos: "0 < amount" and user: "lock_user_balance_tx db u = Inr user"
    and key: "lock_api_key_balance_tx db k u = Inr key"
    and kb: "in_i128 (lk_balance key + amount)"
    and cases: "(lu_unlimited user \<and> db' = insert_billing_ledger_tx u ''sub_account_transfer_in'' amount (Some (lk_balance key + amount)) ?meta
          (set_key_balance k (lk_balance key + amount) db))
      \<or> (\<not> lu_unlimited user \<and> in_i128 (lu_balance user - amount) \<and> db' = insert_billing_ledger_tx u ''sub_account_transfer_in'' amount (Some (lk_balance key + amount)) ?meta
          (insert_billing_ledger_tx u ''sub_account_transfer_out'' (- amount) (Some (lu_balance user - amount)) ?meta
            (set_key_balance k (lk_balance key + amount) (set_user_balance u (lu_balance user - amount) db))))"
    by (auto simp: transfer_to_sub_account_def Let_def result_simps split: if_splits)
  obtain urow where urow: "user_of db u = Some urow" "nano_value (ur_balance_nano_usd urow) = lu_balance user"
    using lock_user_InrD(2) [OF user] by blast
  obtain krow where krow: "key_of db k = Some krow" "nano_value (kr_sub_account_balance_nano krow) = lk_balance key"
    using lock_key_InrD(2) [OF key] by blast
  have into: "posts db1 [entry u ''sub_account_transfer_in'' amount (Some (lk_balance key + amount)) ?meta]
      (insert_billing_ledger_tx u ''sub_account_transfer_in'' amount (Some (lk_balance key + amount)) ?meta
        (set_key_balance k (lk_balance key + amount) db1))" if "ledger_ok db1" and "key_of db1 k = key_of db k" for db1
    unfolding set_key_balance_def
    by (rule posts_key [OF that(1), where v = "lk_balance key + amount"]) (use that(2) krow kb range in \<open>auto simp: kind_simps\<close>)
  show ?thesis
  proof (cases "lu_unlimited user")
    case True
    then have "db' = insert_billing_ledger_tx u ''sub_account_transfer_in'' amount (Some (lk_balance key + amount)) ?meta
        (set_key_balance k (lk_balance key + amount) db)" using cases by blast
    then show ?thesis using into [OF ok refl] by blast
  next
    case False
    let ?db1 = "insert_billing_ledger_tx u ''sub_account_transfer_out'' (- amount) (Some (lu_balance user - amount)) ?meta
      (update_user_row u (\<lambda>r. r\<lparr>ur_balance_nano_usd := show_int (lu_balance user - amount)\<rparr>) db)"
    have next_ok: "in_i128 (lu_balance user - amount)" and "in_i128 (- amount)"
      and db': "db' = insert_billing_ledger_tx u ''sub_account_transfer_in'' amount (Some (lk_balance key + amount)) ?meta
        (set_key_balance k (lk_balance key + amount) ?db1)"
      using cases False pos range by (auto simp: set_key_ledger_commute set_user_balance_def int_range_defs)
    then have out: "posts db [entry u ''sub_account_transfer_out'' (- amount) (Some (lu_balance user - amount)) ?meta] ?db1"
      by (intro posts_user [OF ok urow(1), where v = "lu_balance user - amount"]) (use urow(2) in \<open>auto simp: kind_simps\<close>)
    then have "ledger_ok ?db1" by (simp add: posts_def)
    from posts_trans [OF out into [OF this]] show ?thesis unfolding db' by auto
  qed
qed

lemma admin_adjust_posts:
  assumes run: "admin_adjust_user_balance u raw unlimited actor db = Inr db'" and ok: "ledger_ok db"
  shows "\<exists>es. posts db es db'"
proof (cases "raw = None \<and> unlimited = None")
  case True
  then show ?thesis using run posts_same [OF ok] by (simp add: admin_adjust_user_balance_def)
next
  case False
  with run obtain current v where lock: "lock_user_balance_tx db u = Inr current"
    and v: "(case raw of Some raw \<Rightarrow> parse_nano_usd raw | None \<Rightarrow> Inr (lu_balance current)) = Inr v"
    and d: "in_i128 (v - lu_balance current)"
    and db': "db' = insert_billing_ledger_tx u ''admin_adjustment'' (v - lu_balance current) (Some v)
        (adjustment_meta actor (lu_balance current) v (lu_unlimited current) (unwrap_or unlimited (lu_unlimited current)))
        (update_user_row u (\<lambda>r. r\<lparr>ur_balance_nano_usd := show_int v, ur_balance_unlimited := unwrap_or unlimited (lu_unlimited current)\<rparr>) db)"
    unfolding admin_adjust_user_balance_def Let_def by (auto simp: result_simps with_message_Inr_iff)
  obtain row where row: "user_of db u = Some row" "nano_value (ur_balance_nano_usd row) = lu_balance current"
    using lock_user_InrD(2) [OF lock] by blast
  have range: "in_i128 v" using v lock_user_InrD(3) [OF lock] parse_nano_usd_range by (auto split: option.splits)
  show ?thesis unfolding db'
    by (rule exI, rule posts_user [OF ok row(1), where v = v]) (use d row range in \<open>auto simp: kind_simps\<close>)
qed

lemma credit_posts:
  assumes run: "credit_balance u d kind meta db = Inr db'" and ok: "ledger_ok db" and range: "in_i128 d"
    and kind: "kind \<notin> set sub_account_kinds" "kind \<notin> set return_kinds"
  shows "\<exists>es. posts db es db'"
proof -
  from run obtain row v where row: "user_of db u = Some row" and v: "parse_signed_minor (ur_balance_nano_usd row) = Inr v"
    and b: "in_i128 (v + d)" and db': "db' = insert_billing_ledger_tx u kind d (Some (v + d)) meta (set_user_balance u (v + d) db)"
    by (auto simp: credit_balance_def result_simps map_err_Inr_iff)
  have old: "nano_value (ur_balance_nano_usd row) = v"
    using user_frame [OF ok row] v parse_signed_minor_show by (auto simp: balance_ok_def)
  show ?thesis unfolding db' set_user_balance_def
    by (rule exI, rule posts_user [OF ok row, where v = "v + d"]) (use b old range kind in auto)
qed

lemma apply_grant_posts:
  assumes run: "apply_grant next_after u plan force due now old amount db = Inr db'" and ok: "ledger_ok db"
    and row: "user_of db u = Some row" and old: "parse_nano_usd (ur_balance_nano_usd row) = Inr old" and amount: "in_i128 amount"
  shows "\<exists>es. posts db es db'"
proof -
  let ?post = "\<lambda>f. insert_billing_ledger_tx u ''plan_grant'' (amount - old) (Some amount) (grant_meta plan force old amount)
    (update_user_row u f db)"
  from run have d: "in_i128 (amount - old)"
    and cases: "(\<exists>anchor. db' = ?post (\<lambda>r. r\<lparr>ur_balance_nano_usd := show_int amount, ur_next_grant_at := Some anchor\<rparr>))
      \<or> db' = ?post (\<lambda>r. r\<lparr>ur_balance_nano_usd := show_int amount\<rparr>)"
    by (auto simp: apply_grant_def set_user_balance_def result_simps split: if_splits)
  have post: "\<exists>es. posts db es (?post f)"
    if "\<And>r. ur_id (f r) = ur_id r" and "\<And>r. ur_balance_nano_usd (f r) = show_int amount" for f
    by (rule exI, rule posts_user [OF ok row, where v = amount]) (use that d amount nano_value_Inr [OF old] in \<open>auto simp: kind_simps\<close>)
  from cases show ?thesis
  proof (elim disjE exE)
    fix anchor assume db': "db' = ?post (\<lambda>r. r\<lparr>ur_balance_nano_usd := show_int amount, ur_next_grant_at := Some anchor\<rparr>)"
    show ?thesis unfolding db' by (rule post) simp_all
  next
    assume db': "db' = ?post (\<lambda>r. r\<lparr>ur_balance_nano_usd := show_int amount\<rparr>)"
    show ?thesis unfolding db' by (rule post) simp_all
  qed
qed

lemma grant_posts:
  assumes run: "grant_user_once next_after u force now db = Inr (granted, db')" and ok: "ledger_ok db"
  shows "\<exists>es. posts db es db'"
proof (cases "granted_plan db u")
  case None
  then show ?thesis using run posts_same [OF ok] by (simp add: grant_user_once_def)
next
  case (Some up)
  obtain row plan where up: "up = (row, plan)" by (cases up)
  have row: "user_of db u = Some row" using Some up by (auto simp: granted_plan_def bind_eq_Some_conv)
  from run Some up obtain old amount where old: "parse_nano_usd (ur_balance_nano_usd row) = Inr old"
    and amount: "parse_nano_usd (pl_grant_amount_nano_usd plan) = Inr amount"
    by (auto simp: grant_user_once_def rbind_eq_Inr_iff)
  show ?thesis
  proof (cases "ur_next_grant_at row")
    case None
    then show ?thesis using run Some up old amount posts_same [OF ok] by (simp add: grant_user_once_def rbind_def)
  next
    case next_grant: (Some next_grant_at)
    with run Some up old amount have "db' = db \<or> apply_grant next_after u plan force (next_grant_at \<le> now) now old amount db = Inr db'"
      by (auto simp: grant_user_once_def Let_def rbind_eq_Inr_iff split: if_splits)
    then show ?thesis using apply_grant_posts [OF _ ok row old] posts_same [OF ok] parse_nano_usd_range [OF amount] by blast
  qed
qed

lemma plan_assignment_InrD:
  assumes "plan_assignment next_after plan_change may now db = Inr (upd, grant)"
  shows "ur_id (upd r) = ur_id r" and "ur_balance_nano_usd (upd r) = ur_balance_nano_usd r"
    and "grant = Some (amount, plan) \<Longrightarrow> may \<and> in_i128 amount"
  using assms
  by (auto simp: plan_assignment_def rbind_eq_Inr_iff dest: parse_nano_usd_range split: option.splits if_splits)

lemma insert_ledger_append: "insert_billing_ledger_tx u kind d after meta (db\<lparr>ld_ledger := es\<rparr>) = db\<lparr>ld_ledger := es @ [entry u kind d after meta]\<rparr>"
  by (simp add: insert_ledger_entry)

lemma admin_update_posts:
  assumes run: "admin_update_user_atomic next_after u enabled raw unlimited plan_change actor now db = Inr db'" and ok: "ledger_ok db"
  shows "\<exists>es. posts db es db'"
proof -
  from run obtain parsed current where parsed: "(case raw of None \<Rightarrow> Inr None | Some raw \<Rightarrow> rbind (parse_nano_usd raw) (\<lambda>v. Inr (Some v))) = Inr parsed"
    and current: "lock_user_balance_tx db u = Inr current"
    unfolding admin_update_user_atomic_def by (auto simp: rbind_eq_Inr_iff with_message_Inr_iff)
  let ?cur = "lu_balance current" and ?new = "unwrap_or parsed (lu_balance current)"
  let ?unlimited = "unwrap_or unlimited (lu_unlimited current)" and ?enabled = "unwrap_or enabled (lu_enabled current)"
  let ?may = "parsed = None \<and> ?enabled \<and> \<not> ?unlimited"
  from run parsed current obtain upd grant where plan: "plan_assignment next_after plan_change ?may now db = Inr (upd, grant)"
    unfolding admin_update_user_atomic_def Let_def by (auto simp: rbind_eq_Inr_iff with_message_Inr_iff)
  let ?written = "case grant of Some (v, _) \<Rightarrow> Some v | None \<Rightarrow> parsed"
  let ?f = "\<lambda>r. upd (r\<lparr>ur_enabled := ?enabled, ur_balance_unlimited := ?unlimited,
       ur_balance_nano_usd := (case ?written of Some v \<Rightarrow> show_int v | None \<Rightarrow> ur_balance_nano_usd r)\<rparr>)"
  let ?adjust = "if raw \<noteq> None \<or> unlimited \<noteq> None then [entry u ''admin_adjustment'' (?new - ?cur) (Some ?new)
      (adjustment_meta actor ?cur ?new (lu_unlimited current) ?unlimited)] else []"
  let ?grant = "case grant of None \<Rightarrow> [] | Some (v, p) \<Rightarrow> [entry u ''plan_grant'' (v - ?cur) (Some v) (grant_meta p False ?cur v)]"
  have db': "db' = (update_user_row u ?f db)\<lparr>ld_ledger := ld_ledger db @ ?adjust @ ?grant\<rparr>"
    and range: "raw \<noteq> None \<or> unlimited \<noteq> None \<Longrightarrow> in_i128 (?new - ?cur)" "\<And>v p. grant = Some (v, p) \<Longrightarrow> in_i128 (v - ?cur)"
  proof -
    have tail: "rbind (if raw \<noteq> None \<or> unlimited \<noteq> None
          then rbind (ok_or ''balance delta overflow'' (checked_sub_i128 ?new ?cur)) (\<lambda>delta.
                 Inr (insert_billing_ledger_tx u ''admin_adjustment'' delta (Some ?new)
                   (adjustment_meta actor ?cur ?new (lu_unlimited current) ?unlimited) (update_user_row u ?f db)))
          else Inr (update_user_row u ?f db)) (\<lambda>db.
        case grant of None \<Rightarrow> Inr db
        | Some (grant_amount, plan) \<Rightarrow>
            rbind (ok_or ''balance overflow'' (checked_sub_i128 grant_amount ?cur)) (\<lambda>delta.
              Inr (insert_billing_ledger_tx u ''plan_grant'' delta (Some grant_amount)
                     (grant_meta plan False ?cur grant_amount) db))) = Inr db'"
      using run by (simp add: admin_update_user_atomic_def Let_def parsed current plan with_message_def)
    then show "db' = (update_user_row u ?f db)\<lparr>ld_ledger := ld_ledger db @ ?adjust @ ?grant\<rparr>"
      by (cases grant; cases "raw \<noteq> None \<or> unlimited \<noteq> None")
        (auto simp: result_simps insert_ledger_entry update_user_row_def)
    from tail show "raw \<noteq> None \<or> unlimited \<noteq> None \<Longrightarrow> in_i128 (?new - ?cur)"
      by (auto simp: result_simps)
    from tail show "in_i128 (v - ?cur)" if "grant = Some (v, p)" for v p
      using that by (auto simp: result_simps)
  qed
  obtain row where row: "user_of db u = Some row" "nano_value (ur_balance_nano_usd row) = ?cur"
    using lock_user_InrD(2) [OF current] by blast
  have none: "parsed = None" if "raw = None" using parsed that by simp
  have adjust: "(\<Sum>e\<leftarrow>?adjust. user_effect x e) = (if x = u then ?new - ?cur else 0)" for x
    using range(1) none by (auto simp: user_effect_entry kind_simps)
  have granted: "(\<Sum>e\<leftarrow>?grant. user_effect x e) = (case grant of Some (v, _) \<Rightarrow> if x = u then v - ?cur else 0 | None \<Rightarrow> 0)" for x
    using range(2) by (auto simp: user_effect_entry kind_simps split: option.split)
  have no_key: "(\<Sum>e\<leftarrow>?adjust. key_effect x e) = 0" "(\<Sum>e\<leftarrow>?grant. key_effect x e) = 0" for x
    using range by (auto simp: key_effect_entry kind_simps split: option.split)
  have may: "parsed = None \<and> in_i128 v" if "grant = Some (v, p)" for v p
    using plan_assignment_InrD(3) [OF plan that] by simp
  have "in_i128 v" if "parsed = Some v" for v
    using parsed that parse_nano_usd_range by (auto simp: rbind_eq_Inr_iff split: option.splits)
  with may have written: "in_i128 v" if "?written = Some v" for v using that by (auto split: option.splits)
  have "posts db (?adjust @ ?grant) ((update_key_row [] (\<lambda>r. r) (update_user_row u ?f db))\<lparr>ld_ledger := ld_ledger db @ ?adjust @ ?grant\<rparr>)"
  proof (rule posts_update [OF ok])
    fix r assume "user_of db u = Some r"
    then have r: "r = row" using row(1) by simp
    have "(\<Sum>e\<leftarrow>?adjust @ ?grant. user_effect u e) = unwrap_or ?written ?cur - ?cur"
      unfolding map_append sum_list_append adjust granted using may by (auto split: option.split)
    then show "balance_ok (ur_balance_nano_usd (?f r))
        \<and> nano_value (ur_balance_nano_usd (?f r)) = nano_value (ur_balance_nano_usd r) + (\<Sum>e\<leftarrow>?adjust @ ?grant. user_effect u e)"
      unfolding r using row user_frame [OF ok row(1)] plan_assignment_InrD(2) [OF plan] written by (auto split: option.splits)
  next
    fix x assume "x \<noteq> u"
    then show "(\<Sum>e\<leftarrow>?adjust @ ?grant. user_effect x e) = 0"
      unfolding map_append sum_list_append adjust granted by (auto split: option.split)
  next
    show "(\<Sum>e\<leftarrow>?adjust @ ?grant. key_effect x e) = 0" for x unfolding map_append sum_list_append no_key by simp
    then show "balance_ok (kr_sub_account_balance_nano r) \<and> nano_value (kr_sub_account_balance_nano r)
        = nano_value (kr_sub_account_balance_nano r) + (\<Sum>e\<leftarrow>?adjust @ ?grant. key_effect [] e)" if "key_of db [] = Some r" for r
      using key_frame [OF ok that] by simp
  qed (use plan_assignment_InrD(1) [OF plan] in auto)
  then show ?thesis unfolding db' by auto
qed

text \<open>The locked rows of a key and its user.\<close>

definition locked_pair :: "ledger_db \<Rightarrow> string \<Rightarrow> string \<Rightarrow> locked_user_balance \<Rightarrow> locked_api_key_balance \<Rightarrow> bool" where
  "locked_pair db k u user key \<longleftrightarrow> lock_user_balance_tx db u = Inr user \<and> lock_api_key_balance_tx db k u = Inr key"

lemma locked_pairE:
  assumes "locked_pair db k u user key"
  obtains urow krow where "user_of db u = Some urow" "nano_value (ur_balance_nano_usd urow) = lu_balance user"
    "key_of db k = Some krow" "nano_value (kr_sub_account_balance_nano krow) = lk_balance key"
    "in_i128 (lu_balance user)" "in_i128 (lk_balance key)"
proof -
  have l: "lock_user_balance_tx db u = Inr user" "lock_api_key_balance_tx db k u = Inr key"
    using assms by (simp_all add: locked_pair_def)
  from lock_user_InrD(2,3) [OF l(1)] lock_key_InrD(2,3) [OF l(2)] that show ?thesis by blast
qed

text \<open>The balance of the key becomes \<open>v\<close> and the difference goes to the user.\<close>

lemma return_to_user:
  assumes pair: "locked_pair db k u user key" and ok: "ledger_ok db"
    and after: "(if lu_unlimited user then Inr (None, db)
        else rbind (ok_or e (checked_add_i128 (lu_balance user) d)) (\<lambda>next. Inr (Some next, set_user_balance u next db))) = Inr (after, db1)"
    and d: "d = lk_balance key - v" "in_i128 d" "in_i128 v"
    and g: "\<And>r. kr_id (g r) = kr_id r" "\<And>r. kr_sub_account_balance_nano (g r) = show_int v"
    and kind: "kind \<in> set return_kinds" and meta: "Option.bind (json_get meta ''api_key_id'') as_str = Some k"
  shows "posts db (if d = 0 then [] else [entry u kind d after meta])
    (if d = 0 then update_key_row k g db1 else insert_billing_ledger_tx u kind d after meta (update_key_row k g db1))"
proof -
  obtain urow krow where rows: "user_of db u = Some urow" "nano_value (ur_balance_nano_usd urow) = lu_balance user"
      "key_of db k = Some krow" "nano_value (kr_sub_account_balance_nano krow) = lk_balance key"
    using locked_pairE [OF pair] by blast
  obtain f where f: "\<And>r. ur_id (f r) = ur_id r" and db1: "db1 = update_user_row u f db"
    and f_after: "case after of None \<Rightarrow> f = (\<lambda>r. r)
      | Some b \<Rightarrow> b = lu_balance user + d \<and> in_i128 b \<and> (\<forall>r. ur_balance_nano_usd (f r) = show_int b)"
  proof (cases "lu_unlimited user")
    case True
    then show ?thesis using after that [of "\<lambda>r. r"] by simp
  next
    case False
    then show ?thesis
      using after that [of "\<lambda>r. r\<lparr>ur_balance_nano_usd := show_int (lu_balance user + d)\<rparr>"]
      by (auto simp: result_simps set_user_balance_def)
  qed
  have kinds: "kind \<notin> set sub_account_kinds" using kind by (auto simp: kind_simps)
  show ?thesis
  proof (cases "d = 0")
    case True
    have "posts db [] ((update_key_row k g (update_user_row u f db))\<lparr>ld_ledger := ld_ledger db @ []\<rparr>)"
      by (rule posts_update [OF ok]) (use True d f g f_after rows user_frame [OF ok rows(1)] in \<open>auto split: option.splits\<close>)
    with True show ?thesis by (simp add: db1 update_key_row_def update_user_row_def)
  next
    case False
    have "posts db [entry u kind d after meta] (insert_billing_ledger_tx u kind d after meta (update_key_row k g (update_user_row u f db)))"
      by (rule posts_return [OF ok rows(3) _ _ _ _ _ rows(1), where v = v])
        (use g d f f_after rows kind kinds meta in \<open>auto split: option.splits\<close>)
    with False show ?thesis by (simp add: db1)
  qed
qed

lemma disable_posts:
  assumes run: "disable_sub_account k u user key db = Inr db'" and pair: "locked_pair db k u user key" and ok: "ledger_ok db"
  shows "\<exists>es. posts db es db'"
proof -
  let ?g = "\<lambda>r. r\<lparr>kr_sub_account_balance_nano := ''0''\<rparr>"
  from run obtain after db1 where after: "(if lu_unlimited user then Inr (None, db)
        else rbind (ok_or ''sub-account disable settlement overflow'' (checked_add_i128 (lu_balance user) (lk_balance key)))
          (\<lambda>next. Inr (Some next, set_user_balance u next db))) = Inr (after, db1)"
    and db': "db' = (if lk_balance key = 0 then update_key_row k ?g db1
        else insert_billing_ledger_tx u (if 0 < lk_balance key then ''sub_account_refund'' else ''sub_account_debt_transfer'')
               (lk_balance key) after (json_object [(''api_key_id'', JString k)]) (update_key_row k ?g db1))"
    by (auto simp: disable_sub_account_def Let_def rbind_eq_Inr_iff [of "if _ then _ else _"])
  have range: "in_i128 (lk_balance key)" using locked_pairE [OF pair] by blast
  have zero: "show_int 0 = ''0''" by code_simp
  show ?thesis unfolding db'
    by (rule exI, rule return_to_user [OF pair ok after, where v = 0])
      (use range zero in \<open>auto simp: kind_simps int_range_defs\<close>)
qed

lemma update_key_ledger_commute:
  "update_key_row k g (insert_billing_ledger_tx u kind d after meta db) = insert_billing_ledger_tx u kind d after meta (update_key_row k g db)"
  by (simp add: update_key_row_def insert_billing_ledger_tx_def)

lemma sub_account_meta_key [simp]: "json_get (sub_account_meta k before after) ''api_key_id'' = Some (JString k)"
  by (simp add: sub_account_meta_def)

lemma set_sub_account_posts:
  assumes run: "set_sub_account k u user key v db = Inr db1" and pair: "locked_pair db k u user key" and ok: "ledger_ok db"
    and v: "in_i128 v" and g: "\<And>r. kr_id (g r) = kr_id r" "\<And>r. kr_sub_account_balance_nano (g r) = show_int v"
  shows "\<exists>es. posts db es (update_key_row k g db1)"
proof -
  obtain krow where krow: "key_of db k = Some krow" "nano_value (kr_sub_account_balance_nano krow) = lk_balance key"
    using locked_pairE [OF pair] by blast
  consider "v < lk_balance key" | "lk_balance key < v" | "v = lk_balance key" by linarith
  then show ?thesis
  proof cases
    case 1
    with run obtain after db2 where range: "in_i128 (lk_balance key - v)"
      and after: "(if lu_unlimited user then Inr (None, db)
        else rbind (ok_or ''sub-account refund overflow'' (checked_add_i128 (lu_balance user) (lk_balance key - v)))
          (\<lambda>next. Inr (Some next, set_user_balance u next db))) = Inr (after, db2)"
      and db1: "db1 = insert_billing_ledger_tx u ''sub_account_refund'' (lk_balance key - v) after (sub_account_meta k (lk_balance key) v) db2"
      by (auto simp: set_sub_account_def rbind_eq_Inr_iff [of "if _ then _ else _"] rbind_eq_Inr_iff [of "ok_or _ _"]
          ok_or_eq_Inr_iff checked_sub_i128_Some_iff)
    have "posts db [entry u ''sub_account_refund'' (lk_balance key - v) after (sub_account_meta k (lk_balance key) v)] (update_key_row k g db1)"
      using return_to_user [OF pair ok after refl range v g, of "''sub_account_refund''" "sub_account_meta k (lk_balance key) v"] 1
      by (simp add: db1 update_key_ledger_commute kind_simps)
    then show ?thesis by blast
  next
    case 2
    with run have range: "in_i128 (v - lk_balance key)"
      and db1: "db1 = insert_billing_ledger_tx u ''admin_sub_account_adjustment'' (v - lk_balance key) (Some v) (sub_account_meta k (lk_balance key) v) db"
      by (auto simp: set_sub_account_def result_simps)
    show ?thesis unfolding db1 update_key_ledger_commute
      by (rule exI, rule posts_key [OF ok krow(1), where v = v]) (use range v g krow in \<open>auto simp: kind_simps\<close>)
  next
    case 3
    with run have db1: "db1 = db" by (simp add: set_sub_account_def)
    have "posts db [] ((update_key_row k g (update_user_row u (\<lambda>r. r) db))\<lparr>ld_ledger := ld_ledger db @ []\<rparr>)"
      by (rule posts_update [OF ok]) (use 3 v g krow user_frame [OF ok] in auto)
    then have "posts db [] (update_key_row k g db)" by (simp add: update_key_row_def)
    then show ?thesis unfolding db1 by blast
  qed
qed

lemma posts_key_fields:
  assumes "ledger_ok db" and "\<And>r. kr_id (g r) = kr_id r \<and> kr_sub_account_balance_nano (g r) = kr_sub_account_balance_nano r"
  shows "posts db [] (update_key_row k g db)"
  using posts_fields [OF assms(1), of "\<lambda>r. r" g k "[]"] assms(2) by simp

lemma update_api_key_posts:
  assumes run: "update_api_key k enabled raw is_admin db = Inr db'" and ok: "ledger_ok db"
  shows "\<exists>es. posts db es db'"
proof -
  from run obtain requested existing where
    requested: "(case raw of None \<Rightarrow> Inr None | Some raw \<Rightarrow> rbind (parse_nano_usd raw) (\<lambda>v. Inr (Some v))) = Inr requested"
    and existing: "key_of db k = Some existing" and not_both: "\<not> (enabled = Some False \<and> raw \<noteq> None)"
    by (auto simp: update_api_key_def rbind_eq_Inr_iff ok_or_eq_Inr_iff split: if_splits)
  let ?g = "\<lambda>r. r\<lparr>kr_sub_account_enabled := unwrap_or enabled (kr_sub_account_enabled r),
    kr_sub_account_balance_nano := (case requested of Some v \<Rightarrow> show_int v | None \<Rightarrow> kr_sub_account_balance_nano r)\<rparr>"
  let ?u = "kr_user_id existing"
  have range: "in_i128 v" if "requested = Some v" for v
    using requested that parse_nano_usd_range by (auto simp: rbind_eq_Inr_iff split: option.splits)
  show ?thesis
  proof (cases "enabled = Some False \<or> requested \<noteq> None")
    case False
    then have "db' = update_key_row k ?g db"
      using run requested existing by (auto simp: update_api_key_def Let_def rbind_eq_Inr_iff ok_or_def split: if_splits)
    then show ?thesis using posts_key_fields [OF ok, of ?g k] False by auto
  next
    case True
    have "rbind (with_message (lock_user_balance_tx db ?u)) (\<lambda>user.
        rbind (with_message (lock_api_key_balance_tx db k ?u)) (\<lambda>key.
        rbind (if enabled = Some False \<and> (lk_sub_account_enabled key \<or> lk_balance key \<noteq> 0)
               then disable_sub_account k ?u user key db
               else case requested of Some v \<Rightarrow> set_sub_account k ?u user key v db | None \<Rightarrow> Inr db) (\<lambda>db.
          Inr (update_key_row k ?g db)))) = Inr db'"
      using run requested existing True by (simp add: update_api_key_def Let_def ok_or_def split: if_splits)
    then obtain user key db1 where pair: "locked_pair db k ?u user key"
      and db1: "(if enabled = Some False \<and> (lk_sub_account_enabled key \<or> lk_balance key \<noteq> 0)
          then disable_sub_account k ?u user key db
          else case requested of Some v \<Rightarrow> set_sub_account k ?u user key v db | None \<Rightarrow> Inr db) = Inr db1"
      and db': "db' = update_key_row k ?g db1"
      unfolding rbind_eq_Inr_iff with_message_Inr_iff locked_pair_def by blast
    show ?thesis
    proof (cases requested)
      case (Some v)
      then have "raw \<noteq> None" using requested by (auto split: option.splits)
      then have "set_sub_account k ?u user key v db = Inr db1" using db1 not_both Some by auto
      from set_sub_account_posts [OF this pair ok range [OF Some], of ?g] Some show ?thesis unfolding db' by simp
    next
      case None
      then have "\<exists>es. posts db es db1" using db1 disable_posts [OF _ pair ok] posts_same [OF ok] by (auto split: if_splits)
      then obtain es where es: "posts db es db1" by blast
      moreover have "posts db1 [] (update_key_row k ?g db1)"
        using es None by (intro posts_key_fields) (simp_all add: posts_def)
      ultimately show ?thesis unfolding db' using posts_trans by blast
    qed
  qed
qed

section \<open>Deleting keys\<close>

lemma posts_delete:
  assumes ok: "ledger_ok db"
    and users: "\<And>r. r \<in> set (ld_users db) \<Longrightarrow> ur_id (f r) = ur_id r \<and> balance_ok (ur_balance_nano_usd (f r))
      \<and> nano_value (ur_balance_nano_usd (f r)) = nano_value (ur_balance_nano_usd r) + (\<Sum>e\<leftarrow>es. user_effect (ur_id r) e)"
    and keys: "\<And>r. r \<in> set (ld_keys db) \<Longrightarrow> P r \<Longrightarrow> (\<Sum>e\<leftarrow>es. key_effect (kr_id r) e) = 0"
  shows "posts db es (db\<lparr>ld_users := map f (ld_users db), ld_keys := filter P (ld_keys db), ld_ledger := ld_ledger db @ es\<rparr>)"
    (is "posts db es ?db'")
proof -
  have ids: "map ur_id (map f (ld_users db)) = map ur_id (ld_users db)" using users by simp
  have "user_of ?db' x = map_option f (user_of db x)" for x
    unfolding user_of_def by simp (rule find_map_id, use users in blast)
  then have "user_balance ?db' x = Some (v + (\<Sum>e\<leftarrow>es. user_effect x e))" if "user_balance db x = Some v" for x v
    using that users user_of_id by (fastforce simp: user_balance_def)
  moreover have "key_balance db x = Some (v - (\<Sum>e\<leftarrow>es. key_effect x e))" if "key_balance ?db' x = Some v" for x v
  proof -
    from that obtain r where r: "find (\<lambda>r. kr_id r = x) (filter P (ld_keys db)) = Some r" and v: "v = nano_value (kr_sub_account_balance_nano r)"
      by (auto simp: key_balance_def key_of_def)
    then have "r \<in> set (ld_keys db)" "P r" "kr_id r = x" by (auto dest: find_first)
    then show ?thesis using key_of_unique [OF ok] keys v by (auto simp: key_balance_def)
  qed
  moreover have "ledger_ok ?db'"
    using ok users ids by (auto simp: ledger_ok_def list_all_iff distinct_map inj_on_def simp del: list.map_comp)
  ultimately show ?thesis using ids by (simp add: posts_def)
qed

definition row_effect :: "string \<Rightarrow> string \<times> int \<times> int option \<times> string \<Rightarrow> int" where
  "row_effect u row = (case row of (user_id, delta, after, _) \<Rightarrow> if user_id = u \<and> after \<noteq> None then delta else 0)"

definition settlement_ok :: "settlement_state \<Rightarrow> bool" where
  "settlement_ok st \<longleftrightarrow>
     (\<forall>u user. map_of (st_users st) u = Some user \<longrightarrow> in_i128 (lu_balance user))
     \<and> (\<forall>u b. map_of (st_updates st) u = Some b \<longrightarrow> (\<exists>user. map_of (st_users st) u = Some user \<and> lu_balance user = b))"

definition settles :: "settlement_state \<Rightarrow> (string \<times> int \<times> int option \<times> string) list \<Rightarrow> settlement_state \<Rightarrow> bool" where
  "settles st rows st' \<longleftrightarrow>
     settlement_ok st' \<and> st_rows st' = st_rows st @ rows
     \<and> (\<forall>u. map_of (st_users st) u = None \<longrightarrow> map_of (st_users st') u = None \<and> (\<Sum>r\<leftarrow>rows. row_effect u r) = 0)
     \<and> (\<forall>u. map_of (st_updates st') u = None \<longrightarrow> map_of (st_updates st) u = None)
     \<and> (\<forall>u user. map_of (st_users st) u = Some user \<longrightarrow>
          (\<exists>user'. map_of (st_users st') u = Some user' \<and> lu_balance user' = lu_balance user + (\<Sum>r\<leftarrow>rows. row_effect u r)
            \<and> (map_of (st_updates st') u = None \<longrightarrow> lu_balance user' = lu_balance user)))"

lemma settlesD:
  assumes "settles st rows st'" and "map_of (st_users st) u = Some user"
  shows "\<exists>user'. map_of (st_users st') u = Some user' \<and> lu_balance user' = lu_balance user + (\<Sum>r\<leftarrow>rows. row_effect u r)
    \<and> (map_of (st_updates st') u = None \<longrightarrow> lu_balance user' = lu_balance user)"
  using assms unfolding settles_def by blast

lemma settles_refl: "settlement_ok st \<Longrightarrow> settles st [] st"
  by (simp add: settles_def)

lemma settles_trans:
  assumes "settles st rows st1" and "settles st1 rows' st2"
  shows "settles st (rows @ rows') st2"
proof -
  have "\<exists>user'. map_of (st_users st2) u = Some user' \<and> lu_balance user' = lu_balance user + (\<Sum>r\<leftarrow>rows @ rows'. row_effect u r)
      \<and> (map_of (st_updates st2) u = None \<longrightarrow> lu_balance user' = lu_balance user)" if user: "map_of (st_users st) u = Some user" for u user
  proof -
    from assms(1) user obtain user1 where one: "map_of (st_users st1) u = Some user1"
      "lu_balance user1 = lu_balance user + (\<Sum>r\<leftarrow>rows. row_effect u r)"
      "map_of (st_updates st1) u = None \<longrightarrow> lu_balance user1 = lu_balance user"
      unfolding settles_def by blast
    from assms(2) one(1) obtain user2 where two: "map_of (st_users st2) u = Some user2"
      "lu_balance user2 = lu_balance user1 + (\<Sum>r\<leftarrow>rows'. row_effect u r)"
      "map_of (st_updates st2) u = None \<longrightarrow> lu_balance user2 = lu_balance user1 \<and> map_of (st_updates st1) u = None"
      unfolding settles_def by blast
    with one show ?thesis by simp
  qed
  then show ?thesis using assms by (simp add: settles_def)
qed

lemma settles_unlimited:
  "settlement_ok st \<Longrightarrow> settles st [(u, d, None, k)] (st\<lparr>st_rows := st_rows st @ [(u, d, None, k)]\<rparr>)"
  by (simp add: settles_def settlement_ok_def row_effect_def)

lemma settles_limited:
  assumes "settlement_ok st" and "map_of (st_users st) u = Some user" and "in_i128 (lu_balance user + d)"
  shows "settles st [(u, d, Some (lu_balance user + d), k)]
    (st\<lparr>st_users := (u, user\<lparr>lu_balance := lu_balance user + d\<rparr>) # st_users st,
        st_updates := (u, lu_balance user + d) # st_updates st,
        st_rows := st_rows st @ [(u, d, Some (lu_balance user + d), k)]\<rparr>)"
  using assms by (auto simp: settles_def settlement_ok_def row_effect_def)

lemma settle_deleted_keys_settles:
  assumes "settle_deleted_keys keys st = Inr st'" and "settlement_ok st"
  shows "\<exists>rows. settles st rows st' \<and> (\<forall>(u, d, a, k) \<in> set rows. \<exists>key. (k, key) \<in> set keys \<and> d = lk_balance key)"
  using assms
proof (induction keys arbitrary: st)
  case Nil
  then show ?case using settles_refl [of st] by (intro exI [of _ "[]"]) simp
next
  case (Cons kk keys)
  obtain k key where kk: "kk = (k, key)" by (cases kk)
  show ?case
  proof (cases "lk_balance key = 0")
    case True
    then show ?thesis using Cons.IH [of st] Cons.prems kk by fastforce
  next
    case False
    with Cons.prems(1) kk obtain user st1 row where user: "map_of (st_users st) (lk_user_id key) = Some user"
      and row: "row = (lk_user_id key, lk_balance key, fst (snd (snd row)), k)"
      and one: "settles st [row] st1" and rest: "settle_deleted_keys keys st1 = Inr st'"
      using settles_unlimited [OF Cons.prems(2), of "lk_user_id key" "lk_balance key" k]
        settles_limited [OF Cons.prems(2), of "lk_user_id key" _ "lk_balance key" k]
      by (auto simp: result_simps split: if_splits)
    have "settlement_ok st1" using one by (simp add: settles_def)
    from Cons.IH [OF rest this] obtain rows where rows: "settles st1 rows st'"
      "\<forall>(u, d, a, k) \<in> set rows. \<exists>key. (k, key) \<in> set keys \<and> d = lk_balance key" by blast
    have "\<forall>(u, d, a, k) \<in> set (row # rows). \<exists>key. (k, key) \<in> set (kk # keys) \<and> d = lk_balance key"
      using rows(2) row kk by (auto simp: case_prod_beta) (metis fst_conv snd_conv)+
    then show ?thesis using settles_trans [OF one rows(1)] unfolding append_Cons append_Nil by blast
  qed
qed

lemma lock_users_InrD:
  "lock_users rows = Inr users \<Longrightarrow> map_of users u = Some user \<Longrightarrow>
     \<exists>row \<in> set rows. ur_id row = u \<and> parse_nano_usd (ur_balance_nano_usd row) = Inr (lu_balance user)"
  by (induction rows arbitrary: users) (auto simp: rbind_eq_Inr_iff map_err_Inr_iff split: if_splits)

lemma lock_keys_InrD:
  "lock_keys rows = Inr keys \<Longrightarrow> (k, key) \<in> set keys \<Longrightarrow>
     \<exists>row \<in> set rows. kr_id row = k \<and> parse_nano_usd (kr_sub_account_balance_nano row) = Inr (lk_balance key)"
  by (induction rows arbitrary: keys) (auto simp: rbind_eq_Inr_iff map_err_Inr_iff)

lemma user_effect_settlement: "in_i128 d \<Longrightarrow> user_effect u (settlement_entry (x, d, a, k)) = row_effect u (x, d, a, k)"
  by (auto simp: user_effect_def settlement_entry_def row_effect_def kind_simps)

lemma key_effect_settlement: "k \<noteq> x \<Longrightarrow> key_effect x (settlement_entry (u, d, a, k)) = 0"
  by (simp add: key_effect_def settlement_entry_def entry_key_def)

lemma settled_balance:
  assumes settles: "settles start rows st" and old: "\<And>user. map_of (st_users start) u = Some user \<Longrightarrow> lu_balance user = v"
  shows "case map_of (st_updates st) u of None \<Rightarrow> (\<Sum>r\<leftarrow>rows. row_effect u r) = 0
    | Some b \<Rightarrow> in_i128 b \<and> b = v + (\<Sum>r\<leftarrow>rows. row_effect u r)"
proof (cases "map_of (st_users start) u")
  case None
  with settles have "(\<Sum>r\<leftarrow>rows. row_effect u r) = 0" "map_of (st_users st) u = None" "settlement_ok st"
    by (simp_all add: settles_def)
  moreover from this(2,3) have "map_of (st_updates st) u = None"
    unfolding settlement_ok_def by (metis option.distinct(1) option.exhaust)
  ultimately show ?thesis by simp
next
  case (Some user)
  from settlesD [OF settles this] old [OF this] obtain user' where new: "map_of (st_users st) u = Some user'"
    "lu_balance user' = v + (\<Sum>r\<leftarrow>rows. row_effect u r)"
    "map_of (st_updates st) u = None \<Longrightarrow> lu_balance user' = v" by auto
  show ?thesis
  proof (cases "map_of (st_updates st) u")
    case None
    then show ?thesis using new by simp
  next
    case (Some b)
    moreover have "settlement_ok st" using settles by (simp add: settles_def)
    ultimately have "b = lu_balance user'" "in_i128 b" using new(1) unfolding settlement_ok_def by (metis option.inject)+
    then show ?thesis using Some new(2) by simp
  qed
qed

lemma delete_keys_posts:
  assumes run: "delete_api_keys_transactional limit ids db = Inr (n, db')" and ok: "ledger_ok db"
  shows "\<exists>es. posts db es db'"
proof (cases "ids = []")
  case True
  then show ?thesis using run posts_same [OF ok] by (simp add: delete_api_keys_transactional_def)
next
  case False
  let ?rows = "sort_key (\<lambda>r. (kr_user_id r, kr_id r)) (filter (\<lambda>r. kr_id r \<in> set ids) (ld_keys db))"
  from run False obtain users keys st where
    users: "lock_users (List.map_filter (user_of db) (remdups (map kr_user_id ?rows))) = Inr users"
    and keys: "lock_keys ?rows = Inr keys"
    and st: "settle_deleted_keys keys \<lparr>st_users = users, st_updates = [], st_rows = []\<rparr> = Inr st"
    and db': "db' = db\<lparr>ld_users := map (\<lambda>r. case map_of (st_updates st) (ur_id r) of
                  Some balance \<Rightarrow> r\<lparr>ur_balance_nano_usd := show_int balance\<rparr> | None \<Rightarrow> r) (ld_users db),
                ld_keys := filter (\<lambda>r. kr_id r \<notin> set (map fst keys)) (ld_keys db),
                ld_ledger := ld_ledger db @ map settlement_entry (st_rows st)\<rparr>"
    by (auto simp: delete_api_keys_transactional_def Let_def rbind_eq_Inr_iff split: if_splits)
  have user: "user_balance db u = Some (lu_balance user)" if "map_of users u = Some user" for u user
  proof -
    from lock_users_InrD [OF users that] obtain row x where "user_of db x = Some row" "ur_id row = u"
      "parse_nano_usd (ur_balance_nano_usd row) = Inr (lu_balance user)"
      by (auto simp: List.map_filter_def)
    then show ?thesis using user_of_id [of db x row] by (simp add: user_balance_def nano_value_Inr)
  qed
  have range: "in_i128 (lu_balance user)" if "map_of users u = Some user" for u user
    using lock_users_InrD [OF users that] parse_nano_usd_range by blast
  define start where "start = \<lparr>st_users = users, st_updates = [], st_rows = []\<rparr>"
  then have start: "st_users start = users" "st_rows start = []" by simp_all
  have "settlement_ok start" using range by (simp add: start_def settlement_ok_def)
  from settle_deleted_keys_settles [OF st [folded start_def] this] obtain rows where
    settles: "settles start rows st"
    and rows: "\<forall>(u, d, a, k) \<in> set rows. \<exists>key. (k, key) \<in> set keys \<and> d = lk_balance key" by blast
  have st_rows: "st_rows st = rows" using settles by (simp add: settles_def start)
  have row_ok: "in_i128 d \<and> k \<in> set (map fst keys)" if "(u, d, a, k) \<in> set rows" for u d a k
    using rows that lock_keys_InrD [OF keys] parse_nano_usd_range by force
  have effects: "(\<Sum>e\<leftarrow>map settlement_entry rows. user_effect u e) = (\<Sum>r\<leftarrow>rows. row_effect u r)" for u
  proof -
    have "map (user_effect u \<circ> settlement_entry) rows = map (row_effect u) rows"
      by (rule map_cong [OF refl]) (use row_ok in \<open>force simp: user_effect_settlement\<close>)
    then show ?thesis by (simp only: map_map)
  qed
  show ?thesis unfolding db' st_rows
  proof (rule exI, rule posts_delete [OF ok])
    fix r assume r: "r \<in> set (ld_users db)"
    have bal: "user_balance db (ur_id r) = Some (nano_value (ur_balance_nano_usd r))"
      using user_of_unique [OF ok r] by (simp add: user_balance_def)
    have canonical: "balance_ok (ur_balance_nano_usd r)" using ok r by (simp add: ledger_ok_def list_all_iff)
    let ?f = "case map_of (st_updates st) (ur_id r) of Some balance \<Rightarrow> r\<lparr>ur_balance_nano_usd := show_int balance\<rparr> | None \<Rightarrow> r"
    have "lu_balance x = nano_value (ur_balance_nano_usd r)" if "map_of (st_users start) (ur_id r) = Some x" for x
      using user [of "ur_id r" x] that bal unfolding start by simp
    from settled_balance [OF settles, of "ur_id r", OF this]
    have "balance_ok (ur_balance_nano_usd ?f) \<and> nano_value (ur_balance_nano_usd ?f)
        = nano_value (ur_balance_nano_usd r) + (\<Sum>x\<leftarrow>rows. row_effect (ur_id r) x)"
      using canonical by (cases "map_of (st_updates st) (ur_id r)") simp_all
    then show "ur_id ?f = ur_id r \<and> balance_ok (ur_balance_nano_usd ?f) \<and> nano_value (ur_balance_nano_usd ?f)
        = nano_value (ur_balance_nano_usd r) + (\<Sum>e\<leftarrow>map settlement_entry rows. user_effect (ur_id r) e)"
      unfolding effects by (simp split: option.split)
  next
    fix r assume "kr_id r \<notin> set (map fst keys)"
    then have "k \<noteq> kr_id r" if "(u, d, a, k) \<in> set rows" for u d a k using row_ok [OF that] by blast
    then have "key_effect (kr_id r) (settlement_entry x) = 0" if "x \<in> set rows" for x
      using that by (cases x) (auto simp: key_effect_settlement)
    then show "(\<Sum>e\<leftarrow>map settlement_entry rows. key_effect (kr_id r) e) = 0"
      by (simp add: comp_def cong: map_cong)
  qed
qed

lemma class_change_settlements_InrD:
  "class_change_settlements unlimited rows balance = Inr (balance', settlements) \<Longrightarrow> in_i128 balance \<Longrightarrow>
     in_i128 balance' \<and> (\<Sum>(k, d, after)\<leftarrow>settlements. if after \<noteq> None then d else 0) = balance' - balance
     \<and> (\<forall>(k, d, after) \<in> set settlements. in_i128 d \<and> k \<in> kr_id ` set rows)"
proof (induction rows arbitrary: balance settlements)
  case Nil
  then show ?case by simp
next
  case (Cons row rows)
  from Cons.prems(1) obtain v where v: "parse_nano_usd (kr_sub_account_balance_nano row) = Inr v"
    by (auto simp: rbind_eq_Inr_iff)
  show ?case
  proof (cases "v = 0")
    case True
    then show ?thesis using Cons.IH [of balance settlements] Cons.prems v by force
  next
    case False
    define next_balance where "next_balance = (if unlimited then balance else balance + v)"
    from Cons.prems v False obtain after rest where rest: "class_change_settlements unlimited rows next_balance = Inr (balance', rest)"
      and settlements: "settlements = (kr_id row, v, after) # rest" and after: "after = None \<longleftrightarrow> unlimited" and range: "in_i128 next_balance"
      by (auto simp: next_balance_def rbind_eq_Inr_iff ok_or_eq_Inr_iff checked_add_i128_Some_iff split: if_splits)
    show ?thesis using Cons.IH [OF rest range] parse_nano_usd_range [OF v] after
      by (auto simp: settlements next_balance_def)
  qed
qed

lemma class_change_posts:
  assumes run: "change_user_account_class u target actor db = Inr db'" and ok: "ledger_ok db"
  shows "\<exists>es. posts db es db'"
proof -
  from run obtain user where user: "user_of db u = Some user"
    by (auto simp: change_user_account_class_def rbind_eq_Inr_iff ok_or_eq_Inr_iff)
  show ?thesis
  proof (cases "ur_account_class user = target")
    case True
    then show ?thesis using run user posts_same [OF ok] by (simp add: change_user_account_class_def ok_or_def)
  next
    case False
    let ?rows = "sort_key kr_id (filter (\<lambda>r. kr_user_id r = u) (ld_keys db))"
    let ?f = "\<lambda>b r. if ur_id r = u then r\<lparr>ur_account_class := target, ur_balance_nano_usd := show_int b\<rparr> else r"
    let ?es = "\<lambda>ss. map (class_change_entry u actor) ss"
    from run user False obtain balance balance' ss where balance: "parse_nano_usd (ur_balance_nano_usd user) = Inr balance"
      and ss: "class_change_settlements (ur_balance_unlimited user) ?rows balance = Inr (balance', ss)"
      and db': "db' = db\<lparr>ld_users := map (?f balance') (ld_users db), ld_keys := filter (\<lambda>r. kr_user_id r \<noteq> u) (ld_keys db),
        ld_ledger := ld_ledger db @ ?es ss\<rparr>"
      by (auto simp: change_user_account_class_def rbind_eq_Inr_iff ok_or_eq_Inr_iff update_user_row_def split: if_splits)
    note settled = class_change_settlements_InrD [OF ss parse_nano_usd_range [OF balance]]
    have "user_effect x (class_change_entry u actor s) = (if x = u then case s of (k, d, after) \<Rightarrow> if after \<noteq> None then d else 0 else 0)"
      if "s \<in> set ss" for x s
      using settled that by (cases s) (auto simp: user_effect_def class_change_entry_def kind_simps)
    then have effects: "map (user_effect x) (?es ss) = map (\<lambda>s. if x = u then case s of (k, d, after) \<Rightarrow> if after \<noteq> None then d else 0 else 0) ss" for x
      by simp
    have users: "(\<Sum>e\<leftarrow>?es ss. user_effect x e) = (if x = u then balance' - balance else 0)" for x
      unfolding effects using settled by (cases "x = u") simp_all
    have keys: "(\<Sum>e\<leftarrow>?es ss. key_effect (kr_id r) e) = 0" if "r \<in> set (ld_keys db)" "kr_user_id r \<noteq> u" for r
    proof -
      have "key_effect (kr_id r) (class_change_entry u actor s) = 0" if s: "s \<in> set ss" for s
      proof -
        obtain k d after where "s = (k, d, after)" by (cases s)
        moreover from this s settled obtain row where "row \<in> set (ld_keys db)" "kr_user_id row = u" "kr_id row = k" by auto
        then have "k \<noteq> kr_id r" using key_of_unique [OF ok] that \<open>r \<in> set (ld_keys db)\<close> \<open>kr_user_id r \<noteq> u\<close> by (metis option.inject)
        ultimately show ?thesis by (simp add: key_effect_def class_change_entry_def entry_key_def)
      qed
      then show ?thesis by (simp add: comp_def cong: map_cong)
    qed
    show ?thesis unfolding db'
    proof (rule exI, rule posts_delete [OF ok _ keys])
      fix r assume r: "r \<in> set (ld_users db)"
      have "ur_id r = u \<Longrightarrow> r = user" using user user_of_unique [OF ok r] by simp
      then show "ur_id (?f balance' r) = ur_id r \<and> balance_ok (ur_balance_nano_usd (?f balance' r))
          \<and> nano_value (ur_balance_nano_usd (?f balance' r)) = nano_value (ur_balance_nano_usd r) + (\<Sum>e\<leftarrow>?es ss. user_effect (ur_id r) e)"
        unfolding users using settled user_frame [OF ok user_of_unique [OF ok r]] nano_value_Inr [OF balance] by auto
    qed
  qed
qed

end
