(* ===== verification/User_Ledger_Runs.thy ===== *)
theory User_Ledger_Runs
  imports User_Ledger_Books
begin

text \<open>
  All the runs of the user store. The specification of the ledger is a set of books, one running total
  per user and per sub-account, and \<open>book\<close>, which enters one ledger entry. The tables implement the
  books of their ledger whatever transactions ran, in whatever order.
\<close>

section \<open>The books of a ledger\<close>

record books =
  user_total :: "string \<Rightarrow> int"
  key_total :: "string \<Rightarrow> int"

definition no_books :: books where
  "no_books = \<lparr>user_total = (\<lambda>_. 0), key_total = (\<lambda>_. 0)\<rparr>"

definition book :: "ledger_entry \<Rightarrow> books \<Rightarrow> books" where
  "book e b =
     b\<lparr>user_total := (\<lambda>u. user_total b u + user_effect u e), key_total := (\<lambda>k. key_total b k + key_effect k e)\<rparr>"

definition implements_books :: "ledger_db \<Rightarrow> books \<Rightarrow> bool" where
  "implements_books db b \<longleftrightarrow>
     (\<forall>u v. user_balance db u = Some v \<longrightarrow> v = user_total b u) \<and> (\<forall>k v. key_balance db k = Some v \<longrightarrow> v = key_total b k)"

lemma books_total:
  "user_total (fold book es b) u = user_total b u + (\<Sum>e\<leftarrow>es. user_effect u e)"
  "key_total (fold book es b) k = key_total b k + (\<Sum>e\<leftarrow>es. key_effect k e)"
  by (induction es arbitrary: b) (simp_all add: book_def)

lemma user_balance_members: "user_balance db u = None \<longleftrightarrow> u \<notin> ur_id ` set (ld_users db)"
  by (auto simp: user_balance_def user_of_def find_None_iff)

text \<open>A transaction that posts its entries keeps the tables in step with the books.\<close>

lemma posts_implements:
  assumes posts: "posts db es db'" and b: "implements_books db b"
  shows "implements_books db' (fold book es b)"
proof -
  have "v = user_total (fold book es b) u" if v: "user_balance db' u = Some v" for u v
  proof -
    from v have "u \<in> ur_id ` set (ld_users db')" using user_balance_members [of db' u] by simp
    moreover have "ur_id ` set (ld_users db') = ur_id ` set (ld_users db)"
      using posts unfolding posts_def set_map [symmetric] by simp
    ultimately obtain w where w: "user_balance db u = Some w" using user_balance_members [of db u] by auto
    then have "user_balance db' u = Some (w + (\<Sum>e\<leftarrow>es. user_effect u e))" using posts by (simp add: posts_def)
    then show ?thesis using v w b by (simp add: implements_books_def books_total)
  qed
  moreover have "v = key_total (fold book es b) k" if v: "key_balance db' k = Some v" for k v
  proof -
    have "key_balance db k = Some (v - (\<Sum>e\<leftarrow>es. key_effect k e))" using posts v by (simp add: posts_def)
    then have "v - (\<Sum>e\<leftarrow>es. key_effect k e) = key_total b k" using b by (simp add: implements_books_def)
    then show ?thesis by (simp add: books_total)
  qed
  ultimately show ?thesis by (simp add: implements_books_def)
qed

section \<open>Runs\<close>

definition plans_ok :: "plan_row list \<Rightarrow> bool" where
  "plans_ok plans \<longleftrightarrow> list_all (\<lambda>p. \<exists>v. parse_nano_usd (pl_grant_amount_nano_usd p) = Inr v) plans"

text \<open>
  Charged and credited amounts are \<open>i128\<close> values. The handlers pass the key of the request in the
  metadata of a charge. Identifiers of new users and keys are fresh UUIDs. Plans, whose amounts are
  validated when they are written, and the classes that have a group may change at any time; no
  caller of \<open>update_user\<close> writes a balance.
\<close>

inductive ledger_step :: "cron \<Rightarrow> ledger_db \<Rightarrow> ledger_db \<Rightarrow> bool" for next_after db where
  new_user: "user_of db u = None \<Longrightarrow> list_all (\<lambda>e. le_user_id e \<noteq> u) (ld_ledger db) \<Longrightarrow> ledger_step next_after db (create_user u db)"
| update: "update_user u enabled None unlimited db = Inr db' \<Longrightarrow> ledger_step next_after db db'"
| remove: "delete_user u db = Inr db' \<Longrightarrow> ledger_step next_after db db'"
| new_key: "key_of db k = None \<Longrightarrow> list_all (\<lambda>e. entry_key e \<noteq> Some k) (ld_ledger db)
    \<Longrightarrow> create_api_key_extended k u raw enabled is_admin db = Inr db' \<Longrightarrow> ledger_step next_after db db'"
| plans: "plans_ok plans \<Longrightarrow> ledger_step next_after db (db\<lparr>ld_plans := plans, ld_classes_with_group := classes\<rparr>)"
| charge: "in_i128 amount \<Longrightarrow> charge_user_balance_nano u amount meta db = Inr db' \<Longrightarrow> ledger_step next_after db db'"
| charge_key: "in_i128 amount \<Longrightarrow> Option.bind (json_get meta ''api_key_id'') as_str = Some k
    \<Longrightarrow> charge_sub_account_balance_nano k u amount meta db = Inr db' \<Longrightarrow> ledger_step next_after db db'"
| transfer: "in_i128 amount \<Longrightarrow> transfer_to_sub_account k u amount db = Inr (r, db') \<Longrightarrow> ledger_step next_after db db'"
| adjust: "admin_adjust_user_balance u raw unlimited actor db = Inr db' \<Longrightarrow> ledger_step next_after db db'"
| admin: "admin_update_user_atomic next_after u enabled raw unlimited plan_change actor now db = Inr db' \<Longrightarrow> ledger_step next_after db db'"
| grant: "grant_user_once next_after u force now db = Inr (granted, db') \<Longrightarrow> ledger_step next_after db db'"
| update_key: "update_api_key k enabled raw is_admin db = Inr db' \<Longrightarrow> ledger_step next_after db db'"
| delete_keys: "delete_api_keys_transactional limit ids db = Inr (n, db') \<Longrightarrow> ledger_step next_after db db'"
| change_class: "change_user_account_class u target actor db = Inr db' \<Longrightarrow> ledger_step next_after db db'"
| credit: "in_i128 d \<Longrightarrow> credit_balance u d ''redemption_credit'' meta db = Inr db' \<Longrightarrow> ledger_step next_after db db'"

definition empty_ledger :: ledger_db where
  "empty_ledger = \<lparr>ld_users = [], ld_keys = [], ld_ledger = [], ld_plans = [], ld_classes_with_group = []\<rparr>"

inductive ledger_run :: "cron \<Rightarrow> ledger_db \<Rightarrow> bool" for next_after where
  empty: "ledger_run next_after empty_ledger"
| step: "ledger_run next_after db \<Longrightarrow> ledger_step next_after db db' \<Longrightarrow> ledger_run next_after db'"

definition ledger_inv :: "ledger_db \<Rightarrow> bool" where
  "ledger_inv db \<longleftrightarrow> ledger_ok db \<and> implements_books db (fold book (ld_ledger db) no_books)"

lemma posts_inv: "ledger_inv db \<Longrightarrow> \<exists>es. posts db es db' \<Longrightarrow> ledger_inv db'"
  using posts_implements by (auto simp: ledger_inv_def posts_def)

lemma ledger_invD: "ledger_inv db \<Longrightarrow> ledger_ok db"
  by (simp add: ledger_inv_def)

lemma sum_list_zero: "list_all (\<lambda>x. f x = 0) xs \<Longrightarrow> (\<Sum>x\<leftarrow>xs. f x) = (0 :: int)"
  by (induction xs) auto

lemma fresh_user_total: "list_all (\<lambda>e. le_user_id e \<noteq> u) es \<Longrightarrow> (\<Sum>e\<leftarrow>es. user_effect u e) = 0"
  by (rule sum_list_zero) (auto simp: user_effect_def list_all_iff)

lemma fresh_key_total: "list_all (\<lambda>e. entry_key e \<noteq> Some k) es \<Longrightarrow> (\<Sum>e\<leftarrow>es. key_effect k e) = 0"
  by (rule sum_list_zero) (auto simp: key_effect_def list_all_iff)

lemma find_snoc: "find P (xs @ [x]) = (case find P xs of Some y \<Rightarrow> Some y | None \<Rightarrow> if P x then Some x else None)"
  by (induction xs) auto

lemma balance_ok_zero [simp]: "balance_ok ''0''"
proof -
  have "show_int 0 = ''0''" by code_simp
  then show ?thesis using balance_ok_show [of 0] by (simp add: int_range_defs)
qed

lemma create_user_inv:
  assumes inv: "ledger_inv db" and fresh: "user_of db u = None" "list_all (\<lambda>e. le_user_id e \<noteq> u) (ld_ledger db)"
  shows "ledger_inv (create_user u db)"
proof -
  have "user_balance (create_user u db) x = (if x = u then Some 0 else user_balance db x)" for x
    using fresh(1) by (auto simp: user_balance_def user_of_def create_user_def find_snoc split: option.split)
  moreover have "key_balance (create_user u db) = key_balance db"
    by (simp add: fun_eq_iff key_balance_def key_of_def create_user_def)
  moreover have "ledger_ok (create_user u db)"
    using inv fresh(1) by (auto simp: ledger_inv_def ledger_ok_def create_user_def user_of_def find_None_iff)
  moreover have "ld_ledger (create_user u db) = ld_ledger db" by (simp add: create_user_def)
  ultimately show ?thesis using inv fresh_user_total [OF fresh(2)]
    by (simp add: ledger_inv_def implements_books_def books_total no_books_def)
qed

lemma update_user_inv:
  assumes "ledger_inv db" and "update_user u enabled None unlimited db = Inr db'"
  shows "ledger_inv db'"
proof -
  let ?f = "\<lambda>r. r\<lparr>ur_enabled := unwrap_or enabled (ur_enabled r), ur_balance_unlimited := unwrap_or unlimited (ur_balance_unlimited r)\<rparr>"
  have "db' = update_user_row u ?f db" using assms(2) by (simp add: update_user_def rbind_def unwrap_or_def)
  then have "posts db [] db'" using posts_fields [OF ledger_invD [OF assms(1)], of ?f "\<lambda>r. r" "[]" u] by simp
  then show ?thesis using posts_inv assms(1) by blast
qed

lemma find_filter_Some: "find P (filter Q xs) = Some x \<Longrightarrow> x \<in> set xs \<and> P x \<and> Q x"
  by (auto dest: find_first)

lemma delete_user_inv:
  assumes inv: "ledger_inv db" and run: "delete_user u db = Inr db'"
  shows "ledger_inv db'"
proof -
  note ok = ledger_invD [OF inv]
  from run have db': "db' = db\<lparr>ld_users := filter (\<lambda>r. ur_id r \<noteq> u) (ld_users db), ld_keys := filter (\<lambda>r. kr_user_id r \<noteq> u) (ld_keys db)\<rparr>"
    by (auto simp: delete_user_def rbind_eq_Inr_iff)
  have "user_balance db x = Some v" if "user_balance db' x = Some v" for x v
  proof -
    from that obtain r where r: "find (\<lambda>r. ur_id r = x) (filter (\<lambda>r. ur_id r \<noteq> u) (ld_users db)) = Some r"
      and v: "v = nano_value (ur_balance_nano_usd r)" by (auto simp: user_balance_def user_of_def db')
    then show ?thesis using user_of_unique [OF ok, of r] find_filter_Some [OF r] by (simp add: user_balance_def)
  qed
  moreover have "key_balance db x = Some v" if "key_balance db' x = Some v" for x v
  proof -
    from that obtain r where r: "find (\<lambda>r. kr_id r = x) (filter (\<lambda>r. kr_user_id r \<noteq> u) (ld_keys db)) = Some r"
      and v: "v = nano_value (kr_sub_account_balance_nano r)" by (auto simp: key_balance_def key_of_def db')
    then show ?thesis using key_of_unique [OF ok, of r] find_filter_Some [OF r] by (simp add: key_balance_def)
  qed
  moreover have "ledger_ok db'" using ok by (auto simp: db' ledger_ok_def list_all_iff distinct_map inj_on_def)
  moreover have "ld_ledger db' = ld_ledger db" by (simp add: db')
  ultimately show ?thesis using inv by (simp add: ledger_inv_def implements_books_def)
qed

lemma initial_balance_range: "initial_sub_account_balance raw enabled is_admin = Inr v \<Longrightarrow> in_i128 v"
  using parse_nano_usd_range
  by (auto simp: initial_sub_account_balance_def rbind_eq_Inr_iff int_range_defs split: if_splits option.splits)

lemma create_key_inv:
  assumes inv: "ledger_inv db" and fresh: "key_of db k = None" "list_all (\<lambda>e. entry_key e \<noteq> Some k) (ld_ledger db)"
    and run: "create_api_key_extended k u raw enabled is_admin db = Inr db'"
  shows "ledger_inv db'"
proof -
  define row where "row v = \<lparr>kr_id = k, kr_user_id = u, kr_sub_account_enabled = enabled, kr_sub_account_balance_nano = show_int v\<rparr>" for v
  define es where "es v = (if v = 0 then []
    else [entry u ''admin_sub_account_adjustment'' v (Some v) (json_object [(''api_key_id'', JString k), (''initial'', JBool True)])])" for v
  from run obtain v x where v0: "initial_sub_account_balance raw enabled is_admin = Inr v" and x: "with_message (lock_user_balance_tx db u) = Inr x"
    by (auto simp: create_api_key_extended_def rbind_eq_Inr_iff)
  then have db': "db' = db\<lparr>ld_keys := ld_keys db @ [row v], ld_ledger := ld_ledger db @ es v\<rparr>"
    using run by (auto simp: create_api_key_extended_def Let_def rbind_def row_def es_def insert_ledger_entry split: if_splits)
  note v = initial_balance_range [OF v0]
  have effects: "(\<Sum>e\<leftarrow>es v. user_effect x e) = 0" "(\<Sum>e\<leftarrow>es v. key_effect x e) = (if x = k then v else 0)" for x
    using v by (simp_all add: es_def user_effect_entry key_effect_entry kind_simps)
  have keys: "key_balance db' x = (if x = k then Some v else key_balance db x)" for x
    using fresh(1) v by (auto simp: key_balance_def key_of_def db' row_def find_snoc split: option.split)
  moreover have "user_balance db' = user_balance db" by (simp add: fun_eq_iff user_balance_def user_of_def db')
  moreover have "ledger_ok db'"
    using inv fresh(1) v by (auto simp: db' row_def ledger_inv_def ledger_ok_def key_of_def find_None_iff)
  moreover have "ld_ledger db' = ld_ledger db @ es v" by (simp add: db')
  ultimately show ?thesis using inv fresh_key_total [OF fresh(2)]
    by (auto simp: ledger_inv_def implements_books_def books_total effects no_books_def simp del: fold_append)
qed

lemma plans_inv:
  "ledger_inv db \<Longrightarrow> plans_ok plans \<Longrightarrow> ledger_inv (db\<lparr>ld_plans := plans, ld_classes_with_group := classes\<rparr>)"
  by (simp add: ledger_inv_def ledger_ok_def plans_ok_def implements_books_def user_balance_def user_of_def key_balance_def key_of_def)

lemma ledger_step_inv: "ledger_step next_after db db' \<Longrightarrow> ledger_inv db \<Longrightarrow> ledger_inv db'"
proof (induction rule: ledger_step.induct)
  case (credit d u meta db')
  then have "\<exists>es. posts db es db'" by (intro credit_posts ledger_invD) (auto simp: kind_simps)
  then show ?case using posts_inv credit by blast
qed (blast intro: create_user_inv update_user_inv delete_user_inv create_key_inv plans_inv posts_inv ledger_invD
  charge_user_posts charge_sub_account_posts transfer_posts admin_adjust_posts admin_update_posts grant_posts
  update_api_key_posts delete_keys_posts class_change_posts)+

lemma ledger_inv_empty: "ledger_inv empty_ledger"
  by (simp add: ledger_inv_def ledger_ok_def implements_books_def user_balance_def user_of_def key_balance_def key_of_def empty_ledger_def)

lemma ledger_run_inv: "ledger_run next_after db \<Longrightarrow> ledger_inv db"
  by (induction rule: ledger_run.induct) (simp_all add: ledger_inv_empty ledger_step_inv)

section \<open>The ledger explains the balances\<close>

text \<open>
  In every run of the user store, whatever charges, transfers, adjustments, grants, redemptions,
  key updates, key and user deletions and class changes it is made of, the balance of each user and of each
  sub-account is the total that the entries of the ledger give it.
\<close>

theorem ledger_explains_balances:
  assumes "ledger_run next_after db"
  shows "implements_books db (fold book (ld_ledger db) no_books)"
  using ledger_run_inv [OF assms] by (simp add: ledger_inv_def)

definition sample_charge_meta :: json where
  "sample_charge_meta = json_object [(''api_key_id'', JString ''k''), (''request_id'', JString ''r1'')]"

definition sample_ledger :: "(string, ledger_db) result" where
  "sample_ledger =
     rbind (create_api_key_extended ''k'' ''u'' None True False
        (create_user ''u'' empty_ledger)) (\<lambda>db.
     rbind (admin_adjust_user_balance ''u'' (Some ''100'') None ''root'' db) (\<lambda>db.
     rbind (with_message (transfer_to_sub_account ''k'' ''u'' 30 db)) (\<lambda>(_, db).
     rbind (with_message (charge_sub_account_balance_nano ''k'' ''u'' 7 sample_charge_meta db)) (\<lambda>db.
     rbind (delete_api_keys_transactional 10 [''k''] db) (\<lambda>(_, db). Inr db)))))"

lemma sample_ledger_run:
  assumes "sample_ledger = Inr db"
  shows "ledger_run next_after db"
proof -
  from assms obtain db1 db2 db3 db4 r n where
    run: "create_api_key_extended ''k'' ''u'' None True False (create_user ''u'' empty_ledger) = Inr db1"
      "admin_adjust_user_balance ''u'' (Some ''100'') None ''root'' db1 = Inr db2"
      "transfer_to_sub_account ''k'' ''u'' 30 db2 = Inr (r, db3)"
      "charge_sub_account_balance_nano ''k'' ''u'' 7 sample_charge_meta db3 = Inr db4"
      "delete_api_keys_transactional 10 [''k''] db4 = Inr (n, db)"
    unfolding sample_ledger_def by (auto simp: rbind_eq_Inr_iff with_message_Inr_iff)
  have start: "ledger_step next_after empty_ledger (create_user ''u'' empty_ledger)"
    by (rule ledger_step.new_user) (simp_all add: user_of_def empty_ledger_def)
  have new_key: "ledger_step next_after (create_user ''u'' empty_ledger) db1"
    by (rule ledger_step.new_key [OF _ _ run(1)]) (simp_all add: create_user_def key_of_def empty_ledger_def)
  have transfer: "ledger_step next_after db2 db3" by (rule ledger_step.transfer [OF _ run(3)]) (simp add: int_range_defs)
  have charge: "ledger_step next_after db3 db4"
    by (rule ledger_step.charge_key [OF _ _ run(4)]) (simp_all add: int_range_defs sample_charge_meta_def)
  note empty = ledger_run.empty [of next_after]
  from empty start new_key ledger_step.adjust [OF run(2)] transfer charge ledger_step.delete_keys [OF run(5)]
  show ?thesis by (meson ledger_run.step)
qed

theorem ledger_explains_balances_witness:
  "\<exists>db. sample_ledger = Inr db \<and> ledger_run (\<lambda>_ _. Inl []) db \<and> user_balance db ''u'' = Some 93
     \<and> implements_books db (fold book (ld_ledger db) no_books)"
proof -
  have *: "(case sample_ledger of Inr db \<Rightarrow> user_balance db ''u'' | Inl _ \<Rightarrow> None) = Some 93" by code_simp
  then obtain db where db: "sample_ledger = Inr db" by (auto split: sum.splits)
  note run = sample_ledger_run [OF db, of "\<lambda>_ _. Inl []"]
  have "user_balance db ''u'' = Some 93" using * unfolding db by simp
  then show ?thesis using db run ledger_explains_balances [OF run] by blast
qed

end
