(* ===== verification/Store_Orders.thy ===== *)
theory Store_Orders
  imports User_Ledger Plan_Quota Payment_State Sales
begin

text \<open>
  Verified payments and fulfilment of store orders, \<open>src/src/store_billing/callbacks.rs\<close>, with the
  commission of \<open>sales_store.rs\<close>. The tables are lists of rows beside the ledger of the user store and
  the entitlement tables of the plan quota; a transaction is a function from the tables to an error or
  to new tables. \<open>store_lib\<close> holds what comes from other crates: UUID and JSON parsing, SHA-256 and the
  addition of chrono. Instants are numbers. \<open>sd_keys\<close> lists the idempotency keys of the ledger, which
  are unique, with the delta of their entry. A statement that the database refuses reports
  \<open>unique_violation\<close>.
\<close>

section \<open>Tables\<close>

record order_row =
  or_id :: string
  or_user_id :: string
  or_order_number :: string
  or_product_kind :: string
  or_payment_state :: string
  or_fulfillment_state :: string
  or_payment_hold :: bool
  or_dispute_state :: string
  or_payment_minor :: string
  or_payment_currency :: string
  or_cny_per_usd :: string
  or_rate_numerator :: string
  or_rate_denominator :: string
  or_quote_json :: string
  or_contract_version :: int
  or_state_revision :: int
  or_sales_code :: "string option"
  or_sales_discount_bp :: "int option"

record attempt_row =
  ar_id :: string
  ar_order_id :: string
  ar_channel_id :: string
  ar_adapter_kind :: string
  ar_credential_version_id :: string
  ar_state :: string
  ar_failure_kind :: "string option"
  ar_provider_object_id :: "string option"
  ar_provider_transaction_id :: "string option"
  ar_merchant_account_identity :: string
  ar_created_at :: int
  ar_paid_at :: "int option"

record event_row =
  ev_id :: string
  ev_credential_version_id :: string
  ev_provider_event_id :: string
  ev_event_kind :: string
  ev_body_digest :: string
  ev_parsed_json :: string
  ev_projection_state :: string

record agent_row =
  sa_user_id :: string
  sa_code :: string
  sa_commission_balance_fen :: string

record commission_row =
  ce_order_id :: string
  ce_agent_user_id :: string
  ce_base_fen :: string
  ce_commission_fen :: string
  ce_commission_rate_bp :: int
  ce_reversed :: bool

record recovery_row =
  rr_id :: string
  rr_order_id :: string
  rr_original_nano_usd :: string
  rr_reserved_nano_usd :: string
  rr_recovered_nano_usd :: string
  rr_state :: string

record claim_row =
  cl_id :: string
  cl_recovery_id :: string
  cl_credential_version_id :: string
  cl_provider_claim_id :: string
  cl_provider_event_row_id :: "string option"
  cl_kind :: string
  cl_amount_nano_usd :: string
  cl_state :: string

record refund_row =
  rf_id :: string
  rf_order_id :: string
  rf_attempt_id :: string
  rf_provider_refund_id :: "string option"
  rf_idempotency_key :: string
  rf_state :: string
  rf_amount_minor :: string
  rf_currency :: string

record lease_row =
  ls_owner_id :: string
  ls_epoch :: int
  ls_expires_at :: int

record store_db =
  sd_ledger :: ledger_db
  sd_quota :: quota_db
  sd_keys :: "(string \<times> string) list"
  sd_orders :: "order_row list"
  sd_attempts :: "attempt_row list"
  sd_events :: "event_row list"
  sd_applications :: "(string \<times> string) list"
  sd_open_cases :: "string list"
  sd_retries :: "string list"
  sd_lease :: "lease_row option"
  sd_agents :: "agent_row list"
  sd_commissions :: "commission_row list"
  sd_commission_rate :: "string option"
  sd_recoveries :: "recovery_row list"
  sd_claims :: "claim_row list"
  sd_refunds :: "refund_row list"

datatype callback_apply_result = Applied | Duplicate | ManualReview

datatype callback_store_error = CallbackInvalidInput | CallbackNotFound | CallbackStorage string | CallbackFulfillment string

definition unique_violation :: string where
  "unique_violation = ''UNIQUE constraint failed''"

definition order_of :: "store_db \<Rightarrow> string \<Rightarrow> order_row option" where
  "order_of db order_id = find (\<lambda>r. or_id r = order_id) (sd_orders db)"

definition update_order :: "string \<Rightarrow> (order_row \<Rightarrow> order_row) \<Rightarrow> store_db \<Rightarrow> store_db" where
  "update_order order_id f db = db\<lparr>sd_orders := map (\<lambda>r. if or_id r = order_id then f r else r) (sd_orders db)\<rparr>"

text \<open>The credit of a user together with its keyed ledger entry.\<close>

definition keyed_balance_tx ::
    "string \<Rightarrow> string \<Rightarrow> int \<Rightarrow> int \<Rightarrow> string \<Rightarrow> json \<Rightarrow> store_db \<Rightarrow> (string, store_db) result" where
  "keyed_balance_tx user_id kind delta balance ledger_key meta db =
     (if ledger_key \<in> fst ` set (sd_keys db) then Inl unique_violation
      else Inr (db\<lparr>sd_ledger := insert_billing_ledger_tx user_id kind delta (Some balance) meta
                    (set_user_balance user_id balance (sd_ledger db)),
                  sd_keys := sd_keys db @ [(ledger_key, show_int delta)]\<rparr>))"

section \<open>Inputs\<close>

record encrypted_secret =
  es_version :: int
  es_key_id :: string
  es_nonce_base64 :: string
  es_ciphertext_base64 :: string

record provider_event_input =
  pe_event_row_id :: string
  pe_credential_version_id :: string
  pe_verification_credential_version_id :: string
  pe_provider_event_id :: string
  pe_event_kind :: string
  pe_order_id :: string
  pe_attempt_id :: string
  pe_provider_transaction_id :: string
  pe_provider_object_id :: string
  pe_order_number :: string
  pe_merchant_account_identity :: string
  pe_amount_minor :: string
  pe_currency :: currency
  pe_body_digest :: string
  pe_parsed_json :: json
  pe_raw_body :: "encrypted_secret option"
  pe_received_at :: int

record balance_quote =
  bq_actual_received_minor :: string

record product_quote =
  pr_id :: string
  pr_name :: string
  pr_duration_seconds :: "int option"
  pr_group_ids :: "string list"
  pr_quotas :: "plan_quota list"
  pr_balance :: "balance_quote option"

text \<open>
  \<open>sl_quote\<close> is \<open>serde_json::from_str::<OrderQuote>\<close> with the text of its error, \<open>sl_add_seconds\<close> the
  checked addition of a duration.
\<close>

record store_lib =
  sl_uuid_valid :: "string \<Rightarrow> bool"
  sl_json_to_string :: "json \<Rightarrow> string"
  sl_json_from_str :: "string \<Rightarrow> (string, json) result"
  sl_length_prefixed_sha256 :: "string list \<Rightarrow> string"
  sl_quote :: "string \<Rightarrow> (string, product_quote) result"
  sl_add_seconds :: "int \<Rightarrow> int \<Rightarrow> int option"

definition is_ascii_hexdigit :: "char \<Rightarrow> bool" where
  "is_ascii_hexdigit c \<longleftrightarrow> is_ascii_digit c \<or> c \<in> set ''abcdefABCDEF''"

definition sixty_four_hex :: "string \<Rightarrow> bool" where
  "sixty_four_hex s \<longleftrightarrow> length s = 64 \<and> list_all is_ascii_hexdigit s"

definition invalid_raw_body :: "encrypted_secret \<Rightarrow> bool" where
  "invalid_raw_body raw \<longleftrightarrow>
     es_version raw = 0 \<or> es_key_id raw = [] \<or> es_nonce_base64 raw = [] \<or> es_ciphertext_base64 raw = []"

definition is_err :: "('e, 'a) result \<Rightarrow> bool" where
  "is_err r \<longleftrightarrow> (case r of Inl _ \<Rightarrow> True | Inr _ \<Rightarrow> False)"

definition validate_input :: "store_lib \<Rightarrow> provider_event_input \<Rightarrow> (callback_store_error, unit) result" where
  "validate_input L inp =
     (if \<not> sl_uuid_valid L (pe_event_row_id inp)
        \<or> pe_credential_version_id inp = [] \<or> pe_verification_credential_version_id inp = []
        \<or> pe_provider_event_id inp = []
        \<or> \<not> (pe_event_kind inp = ''payment_succeeded'' \<or> pe_event_kind inp = ''payment_query_succeeded'')
        \<or> pe_order_id inp = [] \<or> pe_attempt_id inp = [] \<or> pe_provider_transaction_id inp = []
        \<or> pe_provider_object_id inp = [] \<or> pe_order_number inp = []
        \<or> \<not> sixty_four_hex (pe_merchant_account_identity inp)
        \<or> (case pe_raw_body inp of None \<Rightarrow> False | Some raw \<Rightarrow> invalid_raw_body raw)
        \<or> (pe_event_kind inp = ''payment_succeeded'' \<and> pe_raw_body inp = None)
        \<or> (pe_event_kind inp = ''payment_query_succeeded'' \<and> pe_raw_body inp \<noteq> None)
        \<or> \<not> sixty_four_hex (pe_body_digest inp)
        \<or> is_err (parse_minor (pe_amount_minor inp))
      then Inl CallbackInvalidInput else Inr ())"

fun currency_string :: "currency \<Rightarrow> string" where
  "currency_string CNY = ''CNY''"
| "currency_string USD = ''USD''"

section \<open>Provider events\<close>

definition insert_event :: "string \<Rightarrow> string \<Rightarrow> provider_event_input \<Rightarrow> string \<Rightarrow> store_lib \<Rightarrow> store_db \<Rightarrow> (callback_store_error, store_db) result" where
  "insert_event row_id credential_version_id inp projection_state L db =
     (if list_ex (\<lambda>e. ev_id e = row_id \<or> (ev_credential_version_id e = credential_version_id
           \<and> ev_provider_event_id e = pe_provider_event_id inp)) (sd_events db)
      then Inl (CallbackStorage unique_violation)
      else Inr (db\<lparr>sd_events := sd_events db @ [\<lparr>ev_id = row_id, ev_credential_version_id = credential_version_id,
             ev_provider_event_id = pe_provider_event_id inp, ev_event_kind = pe_event_kind inp,
             ev_body_digest = pe_body_digest inp, ev_parsed_json = sl_json_to_string L (pe_parsed_json inp),
             ev_projection_state = projection_state\<rparr>]\<rparr>))"

definition identity_keys :: "string list" where
  "identity_keys = [''event_id'', ''event_kind'', ''type'', ''checkout_session_id'', ''payment_intent_id'', ''attempt_id'',
     ''trade_no'', ''transaction_id'', ''provider_object_id'', ''provider_transaction_id'', ''order_number'', ''amount_minor'', ''currency'']"

definition immutable_parsed_identity :: "json \<Rightarrow> json" where
  "immutable_parsed_identity v =
     (case as_object v of
        None \<Rightarrow> JObject fmempty
      | Some m \<Rightarrow> JObject (fmfilter (\<lambda>k. k \<in> set identity_keys) m))"

definition duplicate_result :: "event_row \<Rightarrow> (callback_store_error, callback_apply_result) result" where
  "duplicate_result e =
     (if ev_projection_state e = ''applied'' then Inr Duplicate
      else if ev_projection_state e = ''manual_review'' then Inr ManualReview
      else Inl (CallbackStorage (''unknown callback projection state: '' @ ev_projection_state e)))"

text \<open>A conflicting redelivery opens a case; cases are kept by their identifier.\<close>

definition conflict_case_id :: "store_lib \<Rightarrow> string \<Rightarrow> string \<Rightarrow> string" where
  "conflict_case_id L credential_version_id provider_event_id =
     ''provider-event-identity-conflict:'' @ sl_length_prefixed_sha256 L [credential_version_id, provider_event_id]"

definition duplicate_result_with_evidence ::
    "store_lib \<Rightarrow> event_row \<Rightarrow> string \<Rightarrow> provider_event_input \<Rightarrow> store_db
       \<Rightarrow> (callback_store_error, callback_apply_result \<times> store_db) result" where
  "duplicate_result_with_evidence L e credential_version_id inp db =
     rbind (case sl_json_from_str L (ev_parsed_json e) of Inl m \<Rightarrow> Inl (CallbackStorage m) | Inr v \<Rightarrow> Inr v) (\<lambda>stored.
       if ev_body_digest e = pe_body_digest inp
          \<and> sl_json_to_string L (immutable_parsed_identity stored) = sl_json_to_string L (immutable_parsed_identity (pe_parsed_json inp))
       then rbind (duplicate_result e) (\<lambda>r. Inr (r, db))
       else Inr (ManualReview, db\<lparr>sd_open_cases := List.insert (conflict_case_id L credential_version_id (pe_provider_event_id inp)) (sd_open_cases db)\<rparr>))"

definition find_event :: "string \<Rightarrow> string \<Rightarrow> store_db \<Rightarrow> event_row option" where
  "find_event credential_version_id provider_event_id db =
     find (\<lambda>e. ev_credential_version_id e = credential_version_id \<and> ev_provider_event_id e = provider_event_id) (sd_events db)"

definition validate_reconciliation_fence :: "string \<Rightarrow> int \<Rightarrow> int \<Rightarrow> store_db \<Rightarrow> (callback_store_error, unit) result" where
  "validate_reconciliation_fence owner_id epoch now db =
     (case sd_lease db of
        None \<Rightarrow> Inl (CallbackStorage ''reconciliation lease is missing'')
      | Some lease \<Rightarrow>
          if ls_owner_id lease \<noteq> owner_id \<or> ls_epoch lease \<noteq> epoch \<or> ls_expires_at lease \<le> now
          then Inl (CallbackStorage ''reconciliation lease was lost'') else Inr ())"

text \<open>Attempts that an Epay callback may bind to; the callback needs exactly one.\<close>

definition binding_candidates :: "order_row \<Rightarrow> attempt_row \<Rightarrow> provider_event_input \<Rightarrow> store_db \<Rightarrow> attempt_row list" where
  "binding_candidates order attempt inp db =
     filter (\<lambda>a. ar_order_id a = or_id order \<and> or_order_number order = pe_order_number inp
         \<and> ar_channel_id a = ar_channel_id attempt \<and> ar_adapter_kind a = ar_adapter_kind attempt
         \<and> ar_credential_version_id a = pe_credential_version_id inp
         \<and> (ar_provider_object_id a = Some (pe_provider_object_id inp)
            \<or> (ar_provider_object_id a = None
               \<and> (ar_state a = ''created'' \<or> (ar_state a = ''failed'' \<and> ar_failure_kind a = Some ''provider_rejected'')))))
       (sd_attempts db)"

definition matches_contract :: "order_row \<Rightarrow> attempt_row \<Rightarrow> provider_event_input \<Rightarrow> bool" where
  "matches_contract order attempt inp =
     (let absent_provider_object_may_bind =
            (ar_provider_object_id attempt = None \<and> ar_adapter_kind attempt = ''epay''
             \<and> pe_provider_object_id inp = pe_order_number inp
             \<and> ((ar_state attempt = ''created'' \<and> ar_failure_kind attempt = None)
                \<or> (ar_state attempt = ''failed'' \<and> ar_failure_kind attempt = Some ''provider_rejected'')));
          provider_object_matches =
            (ar_provider_object_id attempt = Some (pe_provider_object_id inp) \<or> absent_provider_object_may_bind)
      in ar_credential_version_id attempt = pe_credential_version_id inp
         \<and> provider_object_matches
         \<and> ar_merchant_account_identity attempt = pe_merchant_account_identity inp
         \<and> or_order_number order = pe_order_number inp
         \<and> or_payment_minor order = pe_amount_minor inp
         \<and> or_payment_currency order = currency_string (pe_currency inp))"

definition can_apply_payment :: "order_row \<Rightarrow> bool" where
  "can_apply_payment order \<longleftrightarrow>
     or_payment_state order = ''unpaid'' \<or> (or_payment_state order = ''closed'' \<and> or_contract_version order = 2)
     \<or> or_payment_state order = ''paid''"

definition pay_attempt :: "provider_event_input \<Rightarrow> store_db \<Rightarrow> store_db" where
  "pay_attempt inp db =
     db\<lparr>sd_attempts := map (\<lambda>a. if ar_id a = pe_attempt_id inp
          then a\<lparr>ar_state := ''paid'', ar_failure_kind := None,
                 ar_provider_transaction_id := Some (pe_provider_transaction_id inp),
                 ar_provider_object_id := or_else (ar_provider_object_id a) (Some (pe_provider_object_id inp)),
                 ar_paid_at := Some (pe_received_at inp)\<rparr>
          else a) (sd_attempts db)\<rparr>"

definition mark_order_paid :: "order_row \<Rightarrow> store_db \<Rightarrow> store_db" where
  "mark_order_paid order db =
     (if or_payment_state order = ''paid'' then db
      else update_order (or_id order) (\<lambda>r. r\<lparr>or_payment_state := ''paid'', or_state_revision := or_state_revision r + 1\<rparr>) db)"

definition review_event ::
    "store_lib \<Rightarrow> string \<Rightarrow> provider_event_input \<Rightarrow> store_db \<Rightarrow> (callback_store_error, (callback_apply_result \<times> bool) \<times> store_db) result" where
  "review_event L credential_version_id inp db =
     rbind (insert_event (pe_event_row_id inp) credential_version_id inp ''manual_review'' L db) (\<lambda>db.
       Inr ((ManualReview, False), db))"

text \<open>
  The projection transaction of \<open>apply_verified_payment_inner\<close>. The flag tells whether a payment was
  applied to an order without a hold, which is what fulfilment needs.
\<close>

definition project_payment ::
    "store_lib \<Rightarrow> provider_event_input \<Rightarrow> (string \<times> int \<times> int) option \<Rightarrow> store_db
       \<Rightarrow> (callback_store_error, (callback_apply_result \<times> bool) \<times> store_db) result" where
  "project_payment L inp fence db =
     rbind (validate_input L inp) (\<lambda>_.
     rbind (case fence of None \<Rightarrow> Inr () | Some (owner_id, epoch, now) \<Rightarrow> validate_reconciliation_fence owner_id epoch now db) (\<lambda>_.
     rbind (ok_or CallbackNotFound (order_of db (pe_order_id inp))) (\<lambda>order.
     rbind (ok_or CallbackNotFound (find (\<lambda>a. ar_id a = pe_attempt_id inp \<and> ar_order_id a = pe_order_id inp) (sd_attempts db)))
       (\<lambda>attempt.
     (let unbound = (pe_event_kind inp = ''payment_succeeded'' \<and> pe_raw_body inp \<noteq> None \<and> ar_adapter_kind attempt = ''epay''
            \<and> map ar_id (binding_candidates order attempt inp db) \<noteq> [pe_attempt_id inp]);
          credential = (if unbound then pe_verification_credential_version_id inp else pe_credential_version_id inp)
      in case find_event credential (pe_provider_event_id inp) db of
           Some e \<Rightarrow> rbind (duplicate_result_with_evidence L e credential inp db) (\<lambda>(r, db). Inr ((r, False), db))
         | None \<Rightarrow>
             if unbound \<or> \<not> matches_contract order attempt inp \<or> \<not> can_apply_payment order
             then review_event L credential inp db
             else
               rbind (insert_event (pe_event_row_id inp) credential inp ''applied'' L db) (\<lambda>db.
                 (let db = mark_order_paid order (pay_attempt inp db)
                  in if pe_event_row_id inp \<in> fst ` set (sd_applications db) then Inl (CallbackStorage unique_violation)
                     else Inr ((Applied, \<not> or_payment_hold order),
                       db\<lparr>sd_applications := sd_applications db @ [(pe_event_row_id inp, pe_order_id inp)]\<rparr>))))))))"

section \<open>Commission\<close>

definition face_value_minor :: "store_lib \<Rightarrow> string \<Rightarrow> int option" where
  "face_value_minor L quote_json =
     (case sl_json_from_str L quote_json of
        Inl _ \<Rightarrow> None
      | Inr quote \<Rightarrow>
          Option.bind (Option.bind (Option.bind (Option.bind (json_get quote ''product'')
            (\<lambda>product. json_get product ''balance'')) (\<lambda>balance. json_get balance ''recharge_minor'')) as_str)
            (\<lambda>recharge. Option.bind (parse_i128 recharge) (\<lambda>v. if show_int v \<noteq> recharge \<or> v < 0 then None else Some v)))"

definition invalid_sales_input :: callback_store_error where
  "invalid_sales_input = CallbackStorage ''sales input is invalid''"

definition commission_rate_for_entry :: "store_db \<Rightarrow> int option" where
  "commission_rate_for_entry db =
     (case sd_commission_rate db of
        None \<Rightarrow> Some DEFAULT_COMMISSION_RATE_BP
      | Some raw \<Rightarrow>
          Option.bind (option_filter in_i64 (parse_i128 raw)) (\<lambda>rate.
            if 0 \<le> rate \<and> rate \<le> MAX_COMMISSION_RATE_BP then Some rate else None))"

fun sales_error_debug :: "sales_error \<Rightarrow> string" where
  "sales_error_debug RateOutOfRange = ''RateOutOfRange''"
| "sales_error_debug DiscountAboveRate = ''DiscountAboveRate''"
| "sales_error_debug InvalidSalesAmount = ''InvalidAmount''"
| "sales_error_debug AmountTooSmall = ''AmountTooSmall''"

definition wrap_i128 :: "int \<Rightarrow> int" where
  "wrap_i128 x = (x + 2 ^ 127) mod 2 ^ 128 - 2 ^ 127"

definition set_agent_balance :: "string \<Rightarrow> int \<Rightarrow> store_db \<Rightarrow> store_db" where
  "set_agent_balance agent_user_id balance db =
     db\<lparr>sd_agents := map (\<lambda>a. if sa_user_id a = agent_user_id then a\<lparr>sa_commission_balance_fen := show_int balance\<rparr> else a)
       (sd_agents db)\<rparr>"

definition accrue_sales_commission :: "store_lib \<Rightarrow> string \<Rightarrow> store_db \<Rightarrow> (callback_store_error, store_db) result" where
  "accrue_sales_commission L order_id db =
     rbind (ok_or (CallbackStorage ''order vanished during accrual'') (order_of db order_id)) (\<lambda>order.
     case or_sales_code order of
       None \<Rightarrow> Inr db
     | Some code \<Rightarrow>
         if or_payment_currency order \<noteq> ''CNY'' then Inr db
         else
           rbind (ok_or invalid_sales_input (face_value_minor L (or_quote_json order))) (\<lambda>base.
           case find (\<lambda>a. sa_code a = code) (sd_agents db) of
             None \<Rightarrow> Inr db
           | Some agent \<Rightarrow>
               rbind (ok_or invalid_sales_input (commission_rate_for_entry db)) (\<lambda>rate.
               rbind (case compute_amounts base rate (unwrap_or (or_sales_discount_bp order) 0) of
                        Inl e \<Rightarrow> Inl (CallbackStorage (sales_error_debug e)) | Inr amounts \<Rightarrow> Inr amounts) (\<lambda>amounts.
               if list_ex (\<lambda>c. ce_order_id c = order_id) (sd_commissions db) then Inr db
               else
                 rbind (ok_or (CallbackStorage ''agent balance is malformed'') (parse_i128 (sa_commission_balance_fen agent))) (\<lambda>balance.
                   Inr (set_agent_balance (sa_user_id agent) (wrap_i128 (balance + commission_minor amounts))
                     (db\<lparr>sd_commissions := sd_commissions db @ [\<lparr>ce_order_id = order_id, ce_agent_user_id = sa_user_id agent,
                        ce_base_fen = show_int base, ce_commission_fen = show_int (commission_minor amounts),
                        ce_commission_rate_bp = rate, ce_reversed = False\<rparr>]\<rparr>)))))))"

section \<open>Fulfilment\<close>

fun MoneyError_text :: "money_error \<Rightarrow> string" where
  "MoneyError_text InvalidAmount = ''amount must be a canonical nonnegative integer string''"
| "MoneyError_text InvalidExchangeRate = ''exchange rate must be a positive canonical decimal''"
| "MoneyError_text AmountOverflow = ''amount exceeds the supported integer range''"

definition fulfillment_money :: "(money_error, 'a) result \<Rightarrow> (callback_store_error, 'a) result" where
  "fulfillment_money r = (case r of Inl e \<Rightarrow> Inl (CallbackFulfillment (MoneyError_text e)) | Inr v \<Rightarrow> Inr v)"

definition may_fulfill :: "int \<Rightarrow> order_row \<Rightarrow> bool" where
  "may_fulfill revision r \<longleftrightarrow>
     or_payment_state r = ''paid'' \<and> or_fulfillment_state r \<in> {''pending'', ''failed''} \<and> \<not> or_payment_hold r
     \<and> or_state_revision r = revision"

definition finish_order_fulfillment :: "string \<Rightarrow> int \<Rightarrow> store_db \<Rightarrow> (callback_store_error, store_db) result" where
  "finish_order_fulfillment order_id expected_revision db =
     (case order_of db order_id of
        Some r \<Rightarrow>
          if may_fulfill expected_revision r
          then Inr ((update_order order_id (\<lambda>r. r\<lparr>or_fulfillment_state := ''fulfilled'', or_state_revision := or_state_revision r + 1\<rparr>) db)
                 \<lparr>sd_retries := filter (\<lambda>x. x \<noteq> order_id) (sd_retries db)\<rparr>)
          else Inl (CallbackStorage ''order state changed during fulfillment'')
      | None \<Rightarrow> Inl (CallbackStorage ''order state changed during fulfillment''))"

text \<open>The users of the plan tables are those of the user store.\<close>

definition quota_tables :: "store_db \<Rightarrow> quota_db" where
  "quota_tables db = (sd_quota db)\<lparr>db_users := map ur_id (ld_users (sd_ledger db))\<rparr>"

definition fulfill_plan ::
    "store_lib \<Rightarrow> string \<Rightarrow> order_row \<Rightarrow> product_quote \<Rightarrow> int \<Rightarrow> store_db \<Rightarrow> (callback_store_error, store_db) result" where
  "fulfill_plan L new_id order product now_at db =
     rbind (ok_or (CallbackFulfillment ''plan duration is missing'') (pr_duration_seconds product)) (\<lambda>duration.
     rbind (ok_or (CallbackFulfillment ''plan duration overflow'') (sl_add_seconds L now_at duration)) (\<lambda>ends_at.
       (let expected_generation = map_option snd (map_of (db_current (sd_quota db)) (or_user_id order));
            generation = \<lparr>gi_expected_generation = expected_generation, gi_user_id = or_user_id order,
              gi_product_id = pr_id product, gi_product_name = pr_name product, gi_starts_at = now_at, gi_ends_at = ends_at,
              gi_rate_numerator = or_rate_numerator order, gi_rate_denominator = or_rate_denominator order,
              gi_group_ids = pr_group_ids product, gi_quotas = pr_quotas product,
              gi_source_kind = ''order'', gi_source_id = or_id order\<rparr>
        in rbind (case replace_entitlement_tx new_id generation (quota_tables db) of
                    Inl e \<Rightarrow> Inl (CallbackFulfillment (QuotaError_text e)) | Inr (_, quota) \<Rightarrow> Inr quota) (\<lambda>quota.
             finish_order_fulfillment (or_id order) (or_state_revision order) (db\<lparr>sd_quota := quota\<rparr>)))))"

definition fulfillment_key :: "string \<Rightarrow> string" where
  "fulfillment_key order_id = ''store:fulfillment:'' @ order_id"

text \<open>The credit that an order quotes, in nano USD.\<close>

definition quoted_credit :: "order_row \<Rightarrow> product_quote \<Rightarrow> (callback_store_error, int) result" where
  "quoted_credit order product =
     rbind (ok_or (CallbackFulfillment ''balance quote is missing'') (pr_balance product)) (\<lambda>received.
     rbind (fulfillment_money (parse_minor (bq_actual_received_minor received))) (\<lambda>received_minor.
     rbind (fulfillment_money (ExchangeRateRational_parse (or_cny_per_usd order))) (\<lambda>rate.
     if show_int (rate_numerator rate) \<noteq> or_rate_numerator order \<or> show_int (rate_denominator rate) \<noteq> or_rate_denominator order
     then Inl (CallbackFulfillment ''order rate rational does not match decimal snapshot'')
     else if or_payment_currency order = ''CNY'' then fulfillment_money (cny_fen_to_nano_usd received_minor rate)
     else if or_payment_currency order = ''USD''
     then fulfillment_money (quoted_received_to_nano_usd received_minor USD (rate_decimal rate))
     else Inl (CallbackFulfillment ''order currency is invalid''))))"

definition fulfill_balance :: "store_lib \<Rightarrow> order_row \<Rightarrow> product_quote \<Rightarrow> store_db \<Rightarrow> (callback_store_error, store_db) result" where
  "fulfill_balance L order product db =
     rbind (quoted_credit order product) (\<lambda>delta.
     rbind (ok_or (CallbackFulfillment ''reward user is missing'') (user_of (sd_ledger db) (or_user_id order))) (\<lambda>user.
     rbind (fulfillment_money (parse_minor (ur_balance_nano_usd user))) (\<lambda>previous.
     rbind (ok_or (CallbackFulfillment ''balance overflow'') (checked_add_i128 previous delta)) (\<lambda>balance.
     rbind (case keyed_balance_tx (or_user_id order) ''store_recharge'' delta balance (fulfillment_key (or_id order))
                   (json_object [(''order_id'', JString (or_id order))]) db of
              Inl m \<Rightarrow> Inl (CallbackStorage m) | Inr db \<Rightarrow> Inr db) (\<lambda>db.
     rbind (finish_order_fulfillment (or_id order) (or_state_revision order) db) (\<lambda>db.
       accrue_sales_commission L (or_id order) db))))))"

definition fulfill_paid_order_inner ::
    "store_lib \<Rightarrow> string \<Rightarrow> string \<Rightarrow> (string \<times> int) option \<Rightarrow> int \<Rightarrow> store_db \<Rightarrow> (callback_store_error, store_db) result" where
  "fulfill_paid_order_inner L new_id order_id fence now_at db =
     rbind (case fence of None \<Rightarrow> Inr () | Some (owner_id, epoch) \<Rightarrow> validate_reconciliation_fence owner_id epoch now_at db) (\<lambda>_.
     rbind (ok_or CallbackNotFound (order_of db order_id)) (\<lambda>order.
     if or_fulfillment_state order = ''fulfilled'' then Inr (db\<lparr>sd_retries := filter (\<lambda>x. x \<noteq> order_id) (sd_retries db)\<rparr>)
     else if or_payment_state order \<noteq> ''paid'' \<or> or_payment_hold order
     then Inl (CallbackFulfillment ''order is not eligible for fulfillment'')
     else
       rbind (case sl_quote L (or_quote_json order) of Inl m \<Rightarrow> Inl (CallbackFulfillment m) | Inr product \<Rightarrow> Inr product) (\<lambda>product.
         if or_product_kind order = ''plan'' then fulfill_plan L new_id order product now_at db
         else fulfill_balance L order product db)))"

text \<open>
  \<open>apply_verified_payment_inner\<close>: a fulfilment that fails leaves the projected payment committed. The
  two public entry points check the kind of evidence.
\<close>

definition apply_verified_payment_inner ::
    "store_lib \<Rightarrow> string \<Rightarrow> int \<Rightarrow> provider_event_input \<Rightarrow> (string \<times> int \<times> int) option \<Rightarrow> bool \<Rightarrow> store_db
       \<Rightarrow> store_db \<times> (callback_store_error, callback_apply_result) result" where
  "apply_verified_payment_inner L new_id now_at inp fence fulfill_after_projection db =
     (case project_payment L inp fence db of
        Inl e \<Rightarrow> (db, Inl e)
      | Inr ((r, fulfillable), db) \<Rightarrow>
          if \<not> fulfillable \<or> \<not> fulfill_after_projection then (db, Inr r)
          else
            (let (fulfill_fence, fulfill_now) =
                   (case fence of Some (owner_id, epoch, now) \<Rightarrow> (Some (owner_id, epoch), now) | None \<Rightarrow> (None, now_at))
             in case fulfill_paid_order_inner L new_id (pe_order_id inp) fulfill_fence fulfill_now db of
                  Inl e \<Rightarrow> (db, Inl e)
                | Inr db \<Rightarrow> (db, Inr Applied)))"

definition apply_verified_payment ::
    "store_lib \<Rightarrow> string \<Rightarrow> int \<Rightarrow> provider_event_input \<Rightarrow> store_db \<Rightarrow> store_db \<times> (callback_store_error, callback_apply_result) result" where
  "apply_verified_payment L new_id now_at inp db =
     (if pe_event_kind inp \<noteq> ''payment_succeeded'' \<or> pe_raw_body inp = None then (db, Inl CallbackInvalidInput)
      else apply_verified_payment_inner L new_id now_at inp None True db)"

definition apply_verified_query_payment ::
    "store_lib \<Rightarrow> string \<Rightarrow> int \<Rightarrow> provider_event_input \<Rightarrow> store_db \<Rightarrow> store_db \<times> (callback_store_error, callback_apply_result) result" where
  "apply_verified_query_payment L new_id now_at inp db =
     (if pe_event_kind inp \<noteq> ''payment_query_succeeded'' \<or> pe_raw_body inp \<noteq> None then (db, Inl CallbackInvalidInput)
      else apply_verified_payment_inner L new_id now_at inp None True db)"

definition apply_verified_payment_fenced ::
    "store_lib \<Rightarrow> string \<Rightarrow> string \<Rightarrow> int \<Rightarrow> int \<Rightarrow> provider_event_input \<Rightarrow> store_db
       \<Rightarrow> store_db \<times> (callback_store_error, callback_apply_result) result" where
  "apply_verified_payment_fenced L new_id owner_id epoch now inp db =
     (if pe_event_kind inp \<noteq> ''payment_query_succeeded'' \<or> pe_raw_body inp \<noteq> None then (db, Inl CallbackInvalidInput)
      else apply_verified_payment_inner L new_id now inp (Some (owner_id, epoch, now)) False db)"

end
