(* ===== verification/Store_Recovery.thy ===== *)
theory Store_Recovery
  imports Store_Orders "HOL-Library.Option_ord"
begin

text \<open>
  Refunds, disputes and chargebacks of store orders, \<open>src/src/store_billing/recovery.rs\<close>. The claims on
  one order share a recovery row: what fulfilment credited can be reserved, given back or recovered,
  and every movement of the balance has a keyed ledger entry. Identifiers that the code draws at
  random are arguments. Suspensions carry the single reason \<open>payment_dispute\<close>, so that the instant of a
  suspension tells whether there is one. The second lookup of a refund by its key, which matters
  for a database that rereads after waiting for a lock, reads the same rows in a transaction that
  runs alone and is left out.
\<close>

section \<open>Data\<close>

datatype recovery_claim_kind = RefundClaim | DisputeClaim | ChargebackClaim

fun RecoveryClaimKind_as_str :: "recovery_claim_kind \<Rightarrow> string" where
  "RecoveryClaimKind_as_str RefundClaim = ''refund''"
| "RecoveryClaimKind_as_str DisputeClaim = ''dispute''"
| "RecoveryClaimKind_as_str ChargebackClaim = ''chargeback''"

datatype recovery_error =
  RecoveryInvalidInput | RecoveryNotFound | OrderNotRecoverable | RecoveryInsufficientBalance | RecoveryConflict | RecoveryStorage string

record begin_refund_input =
  bi_order_id :: string
  bi_requested_by_admin_id :: string
  bi_idempotency_key :: string

record recovery_claim_input =
  ci_order_id :: string
  ci_credential_version_id :: string
  ci_provider_claim_id :: string
  ci_provider_event_row_id :: "string option"
  ci_kind :: recovery_claim_kind

definition u128_max :: nat where
  "u128_max = 2 ^ 128 - 1"

definition is_ascii_alphanumeric :: "char \<Rightarrow> bool" where
  "is_ascii_alphanumeric c \<longleftrightarrow>
     (let n = of_char c :: nat in is_ascii_digit c \<or> (65 \<le> n \<and> n \<le> 90) \<or> (97 \<le> n \<and> n \<le> 122))"

definition valid_key :: "string \<Rightarrow> bool" where
  "valid_key s \<longleftrightarrow> s \<noteq> [] \<and> length s \<le> 100 \<and> list_all (\<lambda>c. is_ascii_alphanumeric c \<or> c \<in> set ''-_.:'') s"

definition validate_refund_input :: "begin_refund_input \<Rightarrow> (recovery_error, unit) result" where
  "validate_refund_input inp =
     (if bi_order_id inp = [] \<or> trim (bi_requested_by_admin_id inp) = [] \<or> \<not> valid_key (bi_idempotency_key inp)
      then Inl RecoveryInvalidInput else Inr ())"

definition validate_claim_input :: "recovery_claim_input \<Rightarrow> (recovery_error, unit) result" where
  "validate_claim_input inp =
     (if ci_order_id inp = [] \<or> ci_credential_version_id inp = [] \<or> ci_provider_claim_id inp = []
        \<or> 200 < length (ci_provider_claim_id inp) \<or> ci_provider_event_row_id inp = Some []
      then Inl RecoveryInvalidInput else Inr ())"

definition parse_nonnegative :: "string \<Rightarrow> (recovery_error, nat) result" where
  "parse_nonnegative s =
     (if s = [] \<or> \<not> all_digits s \<or> (1 < length s \<and> hd s = CHR ''0'')
      then Inl (RecoveryStorage ''stored recovery amount is invalid'')
      else ok_or (RecoveryStorage ''number too large to fit in target type'') (parse_unsigned u128_max s))"

definition recovery_parse_signed :: "string \<Rightarrow> (recovery_error, int) result" where
  "recovery_parse_signed s =
     (let digits = strip_minus s in
      if s = [] \<or> s = ''-0'' \<or> s = ''-'' \<or> \<not> all_digits digits \<or> (1 < length digits \<and> hd digits = CHR ''0'')
      then Inl (RecoveryStorage ''stored balance is invalid'')
      else ok_or (RecoveryStorage ''number too large to fit in target type'') (parse_i128 s))"

definition checked_i128 :: "nat \<Rightarrow> (recovery_error, int) result" where
  "checked_i128 n = ok_or RecoveryConflict (to_i128 (int n))"

text \<open>\<open>as i128\<close>, which wraps.\<close>

definition as_i128 :: "nat \<Rightarrow> int" where
  "as_i128 n = wrap_i128 (int n)"

section \<open>Queries and single statements\<close>

definition recovery_of :: "store_db \<Rightarrow> string \<Rightarrow> recovery_row option" where
  "recovery_of db recovery_id = find (\<lambda>r. rr_id r = recovery_id) (sd_recoveries db)"

definition update_recovery :: "string \<Rightarrow> (recovery_row \<Rightarrow> recovery_row) \<Rightarrow> store_db \<Rightarrow> store_db" where
  "update_recovery recovery_id f db =
     db\<lparr>sd_recoveries := map (\<lambda>r. if rr_id r = recovery_id then f r else r) (sd_recoveries db)\<rparr>"

definition set_claim_state :: "string \<Rightarrow> string \<Rightarrow> store_db \<Rightarrow> store_db" where
  "set_claim_state claim_id state db =
     db\<lparr>sd_claims := map (\<lambda>c. if cl_id c = claim_id \<and> cl_state c = ''open'' then c\<lparr>cl_state := state\<rparr> else c) (sd_claims db)\<rparr>"

definition finish_refund :: "string \<Rightarrow> string \<Rightarrow> store_db \<Rightarrow> store_db" where
  "finish_refund refund_id state db =
     db\<lparr>sd_refunds := map (\<lambda>f. if rf_id f = refund_id \<and> rf_state f \<in> {''created'', ''pending''} then f\<lparr>rf_state := state\<rparr> else f)
       (sd_refunds db)\<rparr>"

definition other_open :: "store_db \<Rightarrow> string \<Rightarrow> string \<Rightarrow> nat" where
  "other_open db recovery_id claim_id =
     length (filter (\<lambda>c. cl_recovery_id c = recovery_id \<and> cl_id c \<noteq> claim_id \<and> cl_state c = ''open'') (sd_claims db))"

definition recovery_user_balance :: "store_db \<Rightarrow> string \<Rightarrow> (recovery_error, int) result" where
  "recovery_user_balance db user_id =
     rbind (ok_or RecoveryNotFound (user_of (sd_ledger db) user_id)) (\<lambda>user. recovery_parse_signed (ur_balance_nano_usd user))"

definition apply_balance_delta ::
    "string \<Rightarrow> int \<Rightarrow> int \<Rightarrow> string \<Rightarrow> string \<Rightarrow> string \<Rightarrow> string \<Rightarrow> store_db \<Rightarrow> (recovery_error, store_db) result" where
  "apply_balance_delta user_id current delta kind ledger_key order_id recovery_id db =
     rbind (ok_or RecoveryConflict (checked_add_i128 current delta)) (\<lambda>balance.
       case keyed_balance_tx user_id kind delta balance ledger_key
              (json_object [(''order_id'', JString order_id), (''recovery_id'', JString recovery_id)]) db of
         Inl _ \<Rightarrow> Inl RecoveryConflict
       | Inr db \<Rightarrow> Inr db)"

definition ensure_recovery :: "string \<Rightarrow> string \<Rightarrow> nat \<Rightarrow> store_db \<Rightarrow> (recovery_error, string \<times> store_db) result" where
  "ensure_recovery new_id order_id original db =
     (case find (\<lambda>r. rr_order_id r = order_id) (sd_recoveries db) of
        Some r \<Rightarrow>
          rbind (parse_nonnegative (rr_original_nano_usd r)) (\<lambda>stored.
            if stored \<noteq> original then Inl RecoveryConflict else Inr (rr_id r, db))
      | None \<Rightarrow>
          if list_ex (\<lambda>r. rr_id r = new_id) (sd_recoveries db) then Inl RecoveryConflict
          else Inr (new_id, db\<lparr>sd_recoveries := sd_recoveries db @ [\<lparr>rr_id = new_id, rr_order_id = order_id,
                 rr_original_nano_usd = show_nat original, rr_reserved_nano_usd = ''0'', rr_recovered_nano_usd = ''0'',
                 rr_state = ''open''\<rparr>]\<rparr>))"

definition fulfilled_reward :: "store_db \<Rightarrow> string \<Rightarrow> (recovery_error, nat) result" where
  "fulfilled_reward db order_id =
     rbind (ok_or OrderNotRecoverable (map_of (sd_keys db) (fulfillment_key order_id))) (\<lambda>delta.
     rbind (recovery_parse_signed delta) (\<lambda>v. if v < 0 then Inl OrderNotRecoverable else Inr (nat v)))"

text \<open>What an order has credited: nothing unless it is a fulfilled balance order.\<close>

definition original_reward :: "store_db \<Rightarrow> order_row \<Rightarrow> (recovery_error, nat) result" where
  "original_reward db order =
     (if or_product_kind order = ''balance'' \<and> or_fulfillment_state order = ''fulfilled''
      then fulfilled_reward db (or_id order) else Inr 0)"

section \<open>Refunds\<close>

text \<open>A refund joined with its claim and its recovery.\<close>

definition refund_claim_of :: "store_db \<Rightarrow> refund_row \<Rightarrow> (claim_row \<times> recovery_row) option" where
  "refund_claim_of db f =
     Option.bind (find (\<lambda>c. cl_provider_claim_id c = rf_idempotency_key f \<and> cl_kind c = ''refund''
         \<and> recovery_of db (cl_recovery_id c) \<noteq> None) (sd_claims db))
       (\<lambda>c. map_option (\<lambda>r. (c, r)) (recovery_of db (cl_recovery_id c)))"

definition load_refund :: "store_db \<Rightarrow> (refund_row \<Rightarrow> bool) \<Rightarrow> refund_row option" where
  "load_refund db P = find (\<lambda>f. P f \<and> refund_claim_of db f \<noteq> None) (sd_refunds db)"

definition paid_attempt :: "store_db \<Rightarrow> string \<Rightarrow> attempt_row option" where
  "paid_attempt db order_id =
     (case sort_key (\<lambda>a. (ar_paid_at a, ar_id a))
             (filter (\<lambda>a. ar_order_id a = order_id \<and> ar_state a = ''paid'' \<and> ar_provider_transaction_id a \<noteq> None) (sd_attempts db)) of
        [] \<Rightarrow> None
      | attempts \<Rightarrow> Some (last attempts))"

definition reserve_key :: "string \<Rightarrow> string" where
  "reserve_key recovery_id = ''store:recovery:'' @ recovery_id @ '':reserve''"

definition release_key :: "string \<Rightarrow> string" where
  "release_key recovery_id = ''store:recovery:'' @ recovery_id @ '':release''"

definition loss_key :: "string \<Rightarrow> string" where
  "loss_key recovery_id = ''store:recovery:'' @ recovery_id @ '':loss''"

text \<open>The debit that reserves an amount, with the recovery that records it.\<close>

definition reserve_reward ::
    "string \<Rightarrow> int \<Rightarrow> int \<Rightarrow> string \<Rightarrow> string \<Rightarrow> nat \<Rightarrow> store_db \<Rightarrow> (recovery_error, store_db) result" where
  "reserve_reward user_id balance delta order_id recovery_id reserve db =
     rbind (apply_balance_delta user_id balance delta ''store_recovery_reserve'' (reserve_key recovery_id) order_id recovery_id db) (\<lambda>db.
       Inr (update_recovery recovery_id (\<lambda>r. if rr_reserved_nano_usd r = ''0'' \<and> rr_recovered_nano_usd r = ''0''
              then r\<lparr>rr_reserved_nano_usd := show_nat reserve, rr_state := ''reserved''\<rparr> else r) db))"

definition release_reward ::
    "string \<Rightarrow> int \<Rightarrow> int \<Rightarrow> string \<Rightarrow> string \<Rightarrow> store_db \<Rightarrow> (recovery_error, store_db) result" where
  "release_reward user_id balance delta order_id recovery_id db =
     rbind (apply_balance_delta user_id balance delta ''store_recovery_release'' (release_key recovery_id) order_id recovery_id db) (\<lambda>db.
       Inr (update_recovery recovery_id (\<lambda>r. if rr_recovered_nano_usd r = ''0''
              then r\<lparr>rr_reserved_nano_usd := ''0'', rr_state := ''released''\<rparr> else r) db))"

definition insert_claim :: "claim_row \<Rightarrow> store_db \<Rightarrow> (recovery_error, store_db) result" where
  "insert_claim c db =
     (if list_ex (\<lambda>x. cl_id x = cl_id c
           \<or> (cl_credential_version_id x = cl_credential_version_id c \<and> cl_provider_claim_id x = cl_provider_claim_id c
              \<and> cl_kind x = cl_kind c)
           \<or> (cl_provider_event_row_id x \<noteq> None \<and> cl_provider_event_row_id x = cl_provider_event_row_id c \<and> cl_kind x = cl_kind c))
         (sd_claims db)
      then Inl RecoveryConflict else Inr (db\<lparr>sd_claims := sd_claims db @ [c]\<rparr>))"

definition insert_refund :: "refund_row \<Rightarrow> store_db \<Rightarrow> (recovery_error, store_db) result" where
  "insert_refund f db =
     (if list_ex (\<lambda>x. rf_id x = rf_id f \<or> rf_idempotency_key x = rf_idempotency_key f) (sd_refunds db)
      then Inl RecoveryConflict else Inr (db\<lparr>sd_refunds := sd_refunds db @ [f]\<rparr>))"

definition reserve_refund :: "order_row \<Rightarrow> nat \<Rightarrow> string \<Rightarrow> store_db \<Rightarrow> (recovery_error, store_db) result" where
  "reserve_refund order original recovery_id db =
     rbind (ok_or RecoveryNotFound (recovery_of db recovery_id)) (\<lambda>recovery.
     rbind (parse_nonnegative (rr_reserved_nano_usd recovery)) (\<lambda>reserved.
     rbind (parse_nonnegative (rr_recovered_nano_usd recovery)) (\<lambda>recovered.
     if recovered \<noteq> 0 then Inl RecoveryConflict
     else if original \<noteq> 0 \<and> reserved = 0 then
       rbind (recovery_user_balance db (or_user_id order)) (\<lambda>balance.
       rbind (checked_i128 original) (\<lambda>original_delta.
       if balance < original_delta then Inl RecoveryInsufficientBalance
       else reserve_reward (or_user_id order) balance (- original_delta) (or_id order) recovery_id original db))
     else if original \<noteq> 0 \<and> reserved \<noteq> original then Inl RecoveryInsufficientBalance
     else Inr db)))"

record fresh_ids =
  fi_recovery :: string
  fi_refund :: string
  fi_claim :: string

definition begin_refund_with_outcome ::
    "fresh_ids \<Rightarrow> begin_refund_input \<Rightarrow> store_db \<Rightarrow> (recovery_error, (refund_row \<times> bool) \<times> store_db) result" where
  "begin_refund_with_outcome ids inp db =
     rbind (validate_refund_input inp) (\<lambda>_.
     case load_refund db (\<lambda>f. rf_idempotency_key f = bi_idempotency_key inp) of
       Some existing \<Rightarrow>
         if rf_order_id existing \<noteq> bi_order_id inp then Inl RecoveryConflict else Inr ((existing, False), db)
     | None \<Rightarrow>
         rbind (ok_or OrderNotRecoverable (order_of db (bi_order_id inp))) (\<lambda>order.
         rbind (ok_or OrderNotRecoverable (paid_attempt db (bi_order_id inp))) (\<lambda>attempt.
         if or_payment_state order \<noteq> ''paid'' \<or> (or_product_kind order = ''plan'' \<and> or_fulfillment_state order = ''fulfilled'')
         then Inl OrderNotRecoverable
         else
           rbind (original_reward db order) (\<lambda>original.
           rbind (ensure_recovery (fi_recovery ids) (bi_order_id inp) original db) (\<lambda>(recovery_id, db).
           rbind (reserve_refund order original recovery_id db) (\<lambda>db.
             (let refund = \<lparr>rf_id = fi_refund ids, rf_order_id = bi_order_id inp, rf_attempt_id = ar_id attempt,
                    rf_provider_refund_id = None, rf_idempotency_key = bi_idempotency_key inp, rf_state = ''created'',
                    rf_amount_minor = or_payment_minor order, rf_currency = or_payment_currency order\<rparr>;
                  claim = \<lparr>cl_id = fi_claim ids, cl_recovery_id = recovery_id,
                    cl_credential_version_id = ar_credential_version_id attempt, cl_provider_claim_id = bi_idempotency_key inp,
                    cl_provider_event_row_id = None, cl_kind = ''refund'', cl_amount_nano_usd = show_nat original,
                    cl_state = ''open''\<rparr>
              in rbind (insert_refund refund db) (\<lambda>db.
                 rbind (insert_claim claim db) (\<lambda>db.
                   Inr ((refund, True), update_order (bi_order_id inp)
                     (\<lambda>r. r\<lparr>or_payment_state := ''refund_pending'', or_state_revision := or_state_revision r + 1\<rparr>) db))))))))))"

definition set_refund :: "string \<Rightarrow> (refund_row \<Rightarrow> refund_row) \<Rightarrow> store_db \<Rightarrow> store_db" where
  "set_refund refund_id g db = db\<lparr>sd_refunds := map (\<lambda>f. if rf_id f = refund_id then g f else f) (sd_refunds db)\<rparr>"

definition mark_refund_pending_outcome ::
    "string \<Rightarrow> string option \<Rightarrow> store_db \<Rightarrow> (recovery_error, refund_row \<times> store_db) result" where
  "mark_refund_pending_outcome refund_id provider_refund_id db =
     (if refund_id = [] \<or> (case provider_refund_id of None \<Rightarrow> False | Some v \<Rightarrow> trim v = []) then Inl RecoveryInvalidInput
      else
        rbind (ok_or RecoveryNotFound (load_refund db (\<lambda>f. rf_id f = refund_id))) (\<lambda>existing.
        if rf_state existing = ''pending'' then
          (case (rf_provider_refund_id existing, provider_refund_id) of
             (Some stored, Some received) \<Rightarrow> if stored \<noteq> received then Inl RecoveryConflict else Inr (existing, db)
           | (None, Some received) \<Rightarrow>
               Inr (existing\<lparr>rf_provider_refund_id := Some received\<rparr>,
                    set_refund refund_id (\<lambda>f. f\<lparr>rf_provider_refund_id := Some received\<rparr>) db)
           | _ \<Rightarrow> Inr (existing, db))
        else if rf_state existing \<noteq> ''created'' then Inl RecoveryConflict
        else
          Inr (existing\<lparr>rf_state := ''pending'', rf_provider_refund_id := provider_refund_id\<rparr>,
               set_refund refund_id (\<lambda>f. f\<lparr>rf_state := ''pending'', rf_provider_refund_id := provider_refund_id\<rparr>) db)))"

text \<open>What a decision on a refund reads: the refund, its claim, its recovery and its order.\<close>

definition load_refund_mutation ::
    "store_db \<Rightarrow> string \<Rightarrow> (recovery_error, refund_row \<times> claim_row \<times> recovery_row \<times> order_row) result" where
  "load_refund_mutation db refund_id =
     rbind (ok_or RecoveryNotFound (load_refund db (\<lambda>f. rf_id f = refund_id))) (\<lambda>f.
     rbind (ok_or RecoveryNotFound (refund_claim_of db f)) (\<lambda>(c, r).
     rbind (ok_or RecoveryNotFound (order_of db (rf_order_id f))) (\<lambda>order. Inr (f, c, r, order))))"

definition reject_refund :: "string \<Rightarrow> store_db \<Rightarrow> (recovery_error, store_db) result" where
  "reject_refund refund_id db =
     rbind (load_refund_mutation db refund_id) (\<lambda>(f, c, r, order).
     if rf_state f = ''failed'' then Inr db
     else if rf_state f = ''succeeded'' then Inl RecoveryConflict
     else
       (let db = set_claim_state (cl_id c) ''resolved'' db in
        rbind (parse_nonnegative (rr_reserved_nano_usd r)) (\<lambda>reserved.
        rbind (parse_nonnegative (rr_recovered_nano_usd r)) (\<lambda>recovered.
        rbind (if other_open db (rr_id r) (cl_id c) = 0 \<and> recovered = 0 \<and> reserved \<noteq> 0
               then rbind (recovery_user_balance db (or_user_id order)) (\<lambda>balance.
                    rbind (checked_i128 reserved) (\<lambda>reserved_delta.
                      release_reward (or_user_id order) balance reserved_delta (rf_order_id f) (rr_id r) db))
               else Inr db) (\<lambda>db.
          Inr (update_order (rf_order_id f) (\<lambda>r. if or_payment_state r = ''refund_pending''
                 then r\<lparr>or_payment_state := ''paid'', or_state_revision := or_state_revision r + 1\<rparr> else r)
                 (finish_refund refund_id ''failed'' db)))))))"

text \<open>The commission of a refunded order is taken back, whatever the agent still has.\<close>

definition sales_parse_signed :: "string \<Rightarrow> int option" where
  "sales_parse_signed s = Option.bind (parse_i128 s) (\<lambda>v. if show_int v \<noteq> s then None else Some v)"

definition credit_agent :: "string \<Rightarrow> int \<Rightarrow> store_db \<Rightarrow> (recovery_error, store_db) result" where
  "credit_agent agent_user_id delta db =
     rbind (ok_or (RecoveryStorage ''the caller is not a sales agent'') (find (\<lambda>a. sa_user_id a = agent_user_id) (sd_agents db))) (\<lambda>a.
     rbind (ok_or (RecoveryStorage ''sales input is invalid'') (sales_parse_signed (sa_commission_balance_fen a))) (\<lambda>balance.
       Inr (set_agent_balance agent_user_id (wrap_i128 (balance + delta)) db)))"

definition reverse_commission_for_order :: "string \<Rightarrow> store_db \<Rightarrow> (recovery_error, store_db) result" where
  "reverse_commission_for_order order_id db =
     (case find (\<lambda>c. ce_order_id c = order_id \<and> \<not> ce_reversed c) (sd_commissions db) of
        None \<Rightarrow> Inr db
      | Some c \<Rightarrow>
          rbind (ok_or (RecoveryStorage ''sales input is invalid'')
                   (option_filter (\<lambda>v. 0 \<le> v) (sales_parse_signed (ce_commission_fen c)))) (\<lambda>commission.
            credit_agent (ce_agent_user_id c) (wrap_i128 (- commission))
              (db\<lparr>sd_commissions := map (\<lambda>x. if ce_order_id x = order_id \<and> \<not> ce_reversed x then x\<lparr>ce_reversed := True\<rparr> else x)
                    (sd_commissions db)\<rparr>)))"

definition complete_refund :: "string \<Rightarrow> store_db \<Rightarrow> (recovery_error, store_db) result" where
  "complete_refund refund_id db =
     rbind (load_refund_mutation db refund_id) (\<lambda>(f, c, r, order).
     if rf_state f = ''succeeded'' then Inr db
     else if rf_state f = ''failed'' then Inl RecoveryConflict
     else
       rbind (parse_nonnegative (rr_original_nano_usd r)) (\<lambda>original.
       rbind (parse_nonnegative (rr_reserved_nano_usd r)) (\<lambda>reserved.
       if original \<noteq> 0 \<and> reserved \<noteq> original then Inl RecoveryConflict
       else
         (let db = update_recovery (rr_id r) (\<lambda>r. if rr_recovered_nano_usd r = ''0''
                then r\<lparr>rr_reserved_nano_usd := ''0'', rr_recovered_nano_usd := rr_original_nano_usd r, rr_state := ''recovered''\<rparr>
                else r) db;
              db = set_claim_state (cl_id c) ''consumed'' db;
              db = finish_refund refund_id ''succeeded'' db
          in if or_payment_state order \<noteq> ''refund_pending'' then Inl RecoveryConflict
             else reverse_commission_for_order (rf_order_id f)
               (update_order (rf_order_id f) (\<lambda>r. r\<lparr>or_payment_state := ''refunded'', or_state_revision := or_state_revision r + 1\<rparr>) db)))))"

section \<open>Disputes and chargebacks\<close>

definition hold_user :: "string \<Rightarrow> store_db \<Rightarrow> store_db" where
  "hold_user user_id db = db\<lparr>sd_quota := (sd_quota db)\<lparr>db_active_holds := List.insert user_id (db_active_holds (sd_quota db))\<rparr>\<rparr>"

definition clear_hold :: "string \<Rightarrow> store_db \<Rightarrow> store_db" where
  "clear_hold user_id db = db\<lparr>sd_quota := (sd_quota db)\<lparr>db_active_holds := removeAll user_id (db_active_holds (sd_quota db))\<rparr>\<rparr>"

definition order_generations :: "store_db \<Rightarrow> string \<Rightarrow> entitlement_generation list" where
  "order_generations db order_id =
     filter (\<lambda>g. eg_source_kind g = ''order'' \<and> eg_source_id g = order_id) (db_generations (sd_quota db))"

definition update_lifecycle ::
    "string list \<Rightarrow> (int option \<times> int option \<Rightarrow> int option \<times> int option) \<Rightarrow> store_db \<Rightarrow> store_db" where
  "update_lifecycle ids f db =
     db\<lparr>sd_quota := (sd_quota db)\<lparr>db_lifecycle :=
       map (\<lambda>(x, l). if x \<in> set ids then (x, f l) else (x, l)) (db_lifecycle (sd_quota db))\<rparr>\<rparr>"

definition suspend_order_plans :: "string \<Rightarrow> int \<Rightarrow> store_db \<Rightarrow> store_db" where
  "suspend_order_plans order_id now db =
     update_lifecycle (map eg_id (order_generations db order_id))
       (\<lambda>(suspended_at, revoked_at). if suspended_at = None \<and> revoked_at = None then (Some now, None) else (suspended_at, revoked_at)) db"

definition resume_order_plans :: "string \<Rightarrow> int \<Rightarrow> store_db \<Rightarrow> store_db" where
  "resume_order_plans order_id now db =
     update_lifecycle (map eg_id (filter (\<lambda>g. now < eg_ends_at g) (order_generations db order_id)))
       (\<lambda>(suspended_at, revoked_at). if revoked_at = None then (None, None) else (suspended_at, revoked_at)) db"

definition revoke_order_plans :: "string \<Rightarrow> int \<Rightarrow> store_db \<Rightarrow> store_db" where
  "revoke_order_plans order_id now db =
     update_lifecycle (map eg_id (order_generations db order_id))
       (\<lambda>(suspended_at, revoked_at). if revoked_at = None then (suspended_at, Some now) else (suspended_at, revoked_at)) db"

definition reserve_available :: "order_row \<Rightarrow> nat \<Rightarrow> string \<Rightarrow> store_db \<Rightarrow> (recovery_error, store_db) result" where
  "reserve_available order original recovery_id db =
     rbind (ok_or RecoveryNotFound (recovery_of db recovery_id)) (\<lambda>recovery.
     rbind (parse_nonnegative (rr_reserved_nano_usd recovery)) (\<lambda>reserved.
     rbind (parse_nonnegative (rr_recovered_nano_usd recovery)) (\<lambda>recovered.
     if original \<noteq> 0 \<and> reserved = 0 \<and> recovered = 0 then
       rbind (recovery_user_balance db (or_user_id order)) (\<lambda>balance.
         (let reserve = min original (nat (max balance 0)) in
          if reserve \<noteq> 0
          then reserve_reward (or_user_id order) balance (wrap_i128 (- as_i128 reserve)) (or_id order) recovery_id reserve db
          else Inr db))
     else Inr db)))"

definition open_claim ::
    "fresh_ids \<Rightarrow> int \<Rightarrow> recovery_claim_input \<Rightarrow> store_db \<Rightarrow> (recovery_error, claim_row \<times> store_db) result" where
  "open_claim ids now inp db =
     rbind (validate_claim_input inp) (\<lambda>_.
     if ci_kind inp = RefundClaim then Inl RecoveryInvalidInput
     else
       case find (\<lambda>c. cl_credential_version_id c = ci_credential_version_id inp \<and> cl_provider_claim_id c = ci_provider_claim_id inp
              \<and> cl_kind c = RecoveryClaimKind_as_str (ci_kind inp) \<and> recovery_of db (cl_recovery_id c) \<noteq> None) (sd_claims db) of
         Some existing \<Rightarrow>
           if map_option rr_order_id (recovery_of db (cl_recovery_id existing)) \<noteq> Some (ci_order_id inp)
           then Inl RecoveryConflict else Inr (existing, db)
       | None \<Rightarrow>
           rbind (ok_or OrderNotRecoverable (order_of db (ci_order_id inp))) (\<lambda>order.
           if \<not> list_ex (\<lambda>a. ar_order_id a = ci_order_id inp \<and> ar_credential_version_id a = ci_credential_version_id inp
                  \<and> ar_state a = ''paid'') (sd_attempts db)
              \<or> or_payment_state order \<notin> {''paid'', ''refund_pending'', ''refunded''}
           then Inl OrderNotRecoverable
           else
             rbind (original_reward db order) (\<lambda>original.
             rbind (ensure_recovery (fi_recovery ids) (ci_order_id inp) original db) (\<lambda>(recovery_id, db).
             rbind (reserve_available order original recovery_id db) (\<lambda>db.
               (let claim = \<lparr>cl_id = fi_claim ids, cl_recovery_id = recovery_id,
                      cl_credential_version_id = ci_credential_version_id inp, cl_provider_claim_id = ci_provider_claim_id inp,
                      cl_provider_event_row_id = ci_provider_event_row_id inp, cl_kind = RecoveryClaimKind_as_str (ci_kind inp),
                      cl_amount_nano_usd = show_nat original, cl_state = ''open''\<rparr>
                in rbind (insert_claim claim db) (\<lambda>db.
                     (let db = update_order (ci_order_id inp) (\<lambda>r. r\<lparr>or_dispute_state := ''open'', or_payment_hold := True,
                                 or_state_revision := or_state_revision r + 1\<rparr>) db
                      in Inr (claim, suspend_order_plans (ci_order_id inp) now (hold_user (or_user_id order) db))))))))))"

definition load_claim_mutation :: "store_db \<Rightarrow> string \<Rightarrow> (recovery_error, claim_row \<times> recovery_row \<times> order_row) result" where
  "load_claim_mutation db claim_id =
     rbind (ok_or RecoveryNotFound (find (\<lambda>c. cl_id c = claim_id) (sd_claims db))) (\<lambda>c.
     rbind (ok_or RecoveryNotFound (recovery_of db (cl_recovery_id c))) (\<lambda>r.
     rbind (ok_or RecoveryNotFound (order_of db (rr_order_id r))) (\<lambda>order. Inr (c, r, order))))"

definition clear_dispute :: "string \<Rightarrow> string \<Rightarrow> int \<Rightarrow> store_db \<Rightarrow> store_db" where
  "clear_dispute order_id user_id now db =
     resume_order_plans order_id now (clear_hold user_id
       (update_order order_id (\<lambda>r. r\<lparr>or_dispute_state := ''won'', or_payment_hold := False, or_state_revision := or_state_revision r + 1\<rparr>) db))"

definition win_claim :: "string \<Rightarrow> int \<Rightarrow> store_db \<Rightarrow> (recovery_error, store_db) result" where
  "win_claim claim_id now db =
     rbind (load_claim_mutation db claim_id) (\<lambda>(c, r, order).
     if cl_state c = ''resolved'' then Inr db
     else if cl_state c = ''consumed'' then Inl RecoveryConflict
     else
       (let db = set_claim_state claim_id ''resolved'' db in
        if other_open db (rr_id r) claim_id \<noteq> 0 then Inr db
        else
          rbind (parse_nonnegative (rr_reserved_nano_usd r)) (\<lambda>reserved.
          rbind (parse_nonnegative (rr_recovered_nano_usd r)) (\<lambda>recovered.
          rbind (recovery_user_balance db (or_user_id order)) (\<lambda>balance.
          rbind (if reserved \<noteq> 0 \<and> recovered = 0
                 then rbind (release_reward (or_user_id order) balance (as_i128 reserved) (rr_order_id r) (rr_id r) db) (\<lambda>db.
                        Inr (balance + as_i128 reserved, db))
                 else Inr (balance, db)) (\<lambda>(final_balance, db).
            Inr (if 0 \<le> final_balance \<and> recovered = 0 then clear_dispute (rr_order_id r) (or_user_id order) now db else db)))))))"

definition lose_claim :: "string \<Rightarrow> int \<Rightarrow> store_db \<Rightarrow> (recovery_error, store_db) result" where
  "lose_claim claim_id now db =
     rbind (load_claim_mutation db claim_id) (\<lambda>(c, r, order).
     if cl_state c = ''consumed'' then Inr db
     else if cl_state c = ''resolved'' then Inl RecoveryConflict
     else
       rbind (parse_nonnegative (rr_original_nano_usd r)) (\<lambda>original.
       rbind (parse_nonnegative (rr_reserved_nano_usd r)) (\<lambda>reserved.
       rbind (parse_nonnegative (rr_recovered_nano_usd r)) (\<lambda>recovered.
       if original < reserved \<or> original - reserved < recovered then Inl RecoveryConflict
       else
         (let remaining = original - reserved - recovered in
          rbind (if remaining \<noteq> 0
                 then rbind (recovery_user_balance db (or_user_id order)) (\<lambda>balance.
                        apply_balance_delta (or_user_id order) balance (wrap_i128 (- as_i128 remaining)) ''store_recovery_loss''
                          (loss_key (rr_id r)) (rr_order_id r) (rr_id r) db)
                 else Inr db) (\<lambda>db.
            (let db = update_recovery (rr_id r) (\<lambda>r. r\<lparr>rr_reserved_nano_usd := ''0'', rr_recovered_nano_usd := rr_original_nano_usd r,
                        rr_state := ''recovered''\<rparr>) db;
                 db = set_claim_state claim_id ''consumed'' db;
                 db = update_order (rr_order_id r) (\<lambda>r. r\<lparr>or_dispute_state := ''lost'', or_payment_hold := True,
                        or_state_revision := or_state_revision r + 1\<rparr>) db
             in Inr (revoke_order_plans (rr_order_id r) now (hold_user (or_user_id order) db)))))))))"

end
