(* ===== verification/Store_Books.thy ===== *)
theory Store_Books
  imports Store_Recovery User_Ledger_Runs Plan_Quota_Runs
begin

text \<open>
  The money of store orders. The keyed ledger entries of an order, which are its credit, the reserve,
  the release and the loss, add up to what its recovery row says, and each of them posts to the ledger
  of the user store.
\<close>

section \<open>Amounts as text\<close>

lemma show_nat_zero [simp]: "show_nat 0 = ''0''"
  by code_simp

lemma show_nat_eq_zero [simp]: "show_nat n = ''0'' \<longleftrightarrow> n = 0"
  using show_nat_inject [of n 0] by simp

lemma parse_nonnegative_show [simp]: "n \<le> u128_max \<Longrightarrow> parse_nonnegative (show_nat n) = Inr n"
  using show_nat_digits [of n] show_nat_no_leading_zero [of n] show_nat_nonempty [of n]
  by (auto simp: parse_nonnegative_def parse_unsigned_show_nat ok_or_def)

lemma recovery_parse_signed_show: "in_i128 v \<Longrightarrow> recovery_parse_signed (show_int v) = Inr w \<Longrightarrow> w = v"
  by (auto simp: recovery_parse_signed_def Let_def ok_or_eq_Inr_iff parse_i128_show_int split: if_splits)

lemma wrap_i128_id [simp]: "in_i128 v \<Longrightarrow> wrap_i128 v = v"
  by (simp add: wrap_i128_def int_range_defs)

lemma as_i128_id: "in_i128 (int n) \<Longrightarrow> as_i128 n = int n"
  by (simp add: as_i128_def)

lemma in_i128_u128: "in_i128 (int n) \<Longrightarrow> n \<le> u128_max"
  by (simp add: int_range_defs u128_max_def)

section \<open>Credits\<close>

lemma round_nonnegative_ratio_range:
  assumes "round_nonnegative_ratio n d = Inr v" and "in_i128 n"
  shows "0 \<le> v \<and> in_i128 v"
proof -
  have pos: "0 \<le> n" "0 < d" using assms(1) by (auto simp: round_nonnegative_ratio_def split: if_splits)
  then have q: "0 \<le> n sdiv d" "n sdiv d \<le> n"
    using div_le_dividend [of "nat n" "nat d"] by (simp_all add: sdiv_nonneg pos_imp_zdiv_nonneg_iff nat_div_distrib [symmetric] nat_le_eq_zle)
  show ?thesis
  proof (cases "n smod d \<noteq> 0 \<and> d - n smod d \<le> n smod d")
    case True
    then have "v = n sdiv d + 1" "in_i128 v"
      using assms(1) pos by (auto simp: round_nonnegative_ratio_def ok_or_eq_Inr_iff checked_add_i128_Some_iff)
    then show ?thesis using q by simp
  next
    case False
    then have "v = n sdiv d" using assms(1) pos by (auto simp: round_nonnegative_ratio_def Let_def split: if_splits)
    then show ?thesis using q assms(2) by (simp add: int_range_defs)
  qed
qed

lemma checked_round_range: "checked_round_product_ratio a m d = Inr v \<Longrightarrow> 0 \<le> v \<and> in_i128 v"
  unfolding checked_round_product_ratio_def rbind_eq_Inr_iff ok_or_eq_Inr_iff checked_mul_i128_Some_iff
  using round_nonnegative_ratio_range by blast

lemma fulfillment_money_Inr [simp]: "fulfillment_money r = Inr v \<longleftrightarrow> r = Inr v"
  by (simp add: fulfillment_money_def split: sum.split)

lemma quoted_credit_range:
  assumes "quoted_credit order product = Inr d"
  shows "0 \<le> d \<and> in_i128 d"
proof -
  from assms obtain received rate where minor: "parse_minor received = Inr rate" and
    cases: "(\<exists>r. cny_fen_to_nano_usd rate r = Inr d) \<or> (\<exists>t. quoted_received_to_nano_usd rate USD t = Inr d)"
    by (auto simp: quoted_credit_def rbind_eq_Inr_iff split: if_splits)
  have "0 \<le> rate" using parse_minor_InrD [OF minor] by simp
  then show ?thesis using cases
    by (auto simp: cny_fen_to_nano_usd_def quoted_received_to_nano_usd_def result_simps nano_usd_per_cent_def dest: checked_round_range)
qed

section \<open>The entries of a recovery\<close>

definition key_delta :: "(string \<times> string) list \<Rightarrow> string \<Rightarrow> int" where
  "key_delta ks k = (case map_of ks k of None \<Rightarrow> 0 | Some t \<Rightarrow> nano_value t)"

definition taken_back :: "(string \<times> string) list \<Rightarrow> string \<Rightarrow> int" where
  "taken_back ks rid = - (key_delta ks (reserve_key rid) + key_delta ks (release_key rid) + key_delta ks (loss_key rid))"

definition recovery_keys :: "string \<Rightarrow> string list" where
  "recovery_keys rid = [reserve_key rid, release_key rid, loss_key rid]"

lemmas key_defs = reserve_key_def release_key_def loss_key_def fulfillment_key_def

lemma suffix_neq: "length b = length d \<Longrightarrow> b \<noteq> d \<Longrightarrow> a @ b \<noteq> c @ d"
  by (simp add: append_eq_append_conv)

lemma keys_distinct [simp]:
  "reserve_key i \<noteq> release_key j" "release_key j \<noteq> reserve_key i"
  "reserve_key i \<noteq> loss_key j" "loss_key j \<noteq> reserve_key i"
  "release_key i \<noteq> loss_key j" "loss_key j \<noteq> release_key i"
  "reserve_key i \<noteq> fulfillment_key j" "release_key i \<noteq> fulfillment_key j" "loss_key i \<noteq> fulfillment_key j"
  "fulfillment_key j \<noteq> reserve_key i" "fulfillment_key j \<noteq> release_key i" "fulfillment_key j \<noteq> loss_key i"
proof -
  have "rev (reserve_key i) \<noteq> rev (release_key j)" "rev (reserve_key i) \<noteq> rev (loss_key j)" "rev (release_key i) \<noteq> rev (loss_key j)" for i j
    by (simp_all add: key_defs)
  then show "reserve_key i \<noteq> release_key j" "release_key j \<noteq> reserve_key i"
    "reserve_key i \<noteq> loss_key j" "loss_key j \<noteq> reserve_key i" "release_key i \<noteq> loss_key j" "loss_key j \<noteq> release_key i"
    by metis+
qed (simp_all add: key_defs)

lemma keys_inject [simp]:
  "reserve_key i = reserve_key j \<longleftrightarrow> i = j" "release_key i = release_key j \<longleftrightarrow> i = j" "loss_key i = loss_key j \<longleftrightarrow> i = j"
  "fulfillment_key i = fulfillment_key j \<longleftrightarrow> i = j"
  by (auto simp: key_defs)

lemma recovery_keys_disjoint: "k \<in> set (recovery_keys i) \<Longrightarrow> k \<in> set (recovery_keys j) \<Longrightarrow> i = j"
  by (auto simp: recovery_keys_def)

lemma fulfillment_not_recovery: "fulfillment_key i \<notin> set (recovery_keys j)"
  by (simp add: recovery_keys_def)

lemma key_delta_fresh: "k \<notin> fst ` set ks \<Longrightarrow> key_delta ks k = 0"
  using map_of_eq_None_iff [of ks k] by (simp add: key_delta_def)

lemma key_delta_snoc:
  "k \<notin> fst ` set ks \<Longrightarrow> key_delta (ks @ [(k, show_int d)]) x = (if x = k then nano_value (show_int d) else key_delta ks x)"
  using map_of_eq_None_iff [of ks k] by (simp add: key_delta_def map_add_def split: option.split)

lemma taken_back_snoc:
  assumes "k \<notin> fst ` set ks" and "in_i128 d"
  shows "taken_back (ks @ [(k, show_int d)]) rid = (if k \<in> set (recovery_keys rid) then taken_back ks rid - d else taken_back ks rid)"
proof -
  show ?thesis using assms key_delta_fresh [OF assms(1)] by (auto simp: taken_back_def key_delta_snoc recovery_keys_def)
qed

section \<open>The invariant\<close>

text \<open>
  A recovery of the amount \<open>orig\<close> has \<open>s\<close> reserved and \<open>v\<close> recovered: together they are what its entries took back,
  and no more than the order credited.
\<close>

definition recovery_ok :: "(string \<times> string) list \<Rightarrow> recovery_row \<Rightarrow> nat \<Rightarrow> nat \<Rightarrow> nat \<Rightarrow> bool" where
  "recovery_ok ks r orig s v \<longleftrightarrow>
     rr_original_nano_usd r = show_nat orig \<and> rr_reserved_nano_usd r = show_nat s \<and> rr_recovered_nano_usd r = show_nat v
     \<and> s + v \<le> orig \<and> in_i128 (int orig) \<and> taken_back ks (rr_id r) = int (s + v)
     \<and> (orig \<noteq> 0 \<longrightarrow> key_delta ks (fulfillment_key (rr_order_id r)) = int orig)"

definition known_key :: "recovery_row list \<Rightarrow> string \<Rightarrow> bool" where
  "known_key rs k \<longleftrightarrow> (\<exists>r \<in> set rs. k \<in> set (recovery_keys (rr_id r)))"

definition keys_ok :: "(string \<times> string) list \<Rightarrow> recovery_row list \<Rightarrow> bool" where
  "keys_ok ks rs \<longleftrightarrow>
     list_all (\<lambda>(k, t). balance_ok t \<and> ((\<exists>i. k = fulfillment_key i \<and> 0 \<le> nano_value t) \<or> known_key rs k)) ks"

definition recovery_row_ok :: "(string \<times> string) list \<Rightarrow> recovery_row \<Rightarrow> bool" where
  "recovery_row_ok ks r \<longleftrightarrow> (\<exists>orig s v. recovery_ok ks r orig s v)"

definition recoveries_ok :: "(string \<times> string) list \<Rightarrow> recovery_row list \<Rightarrow> bool" where
  "recoveries_ok ks rs \<longleftrightarrow>
     keys_ok ks rs \<and> distinct (map rr_id rs) \<and> list_all (recovery_row_ok ks) rs"

lemma keys_ok_mono:
  assumes "keys_ok ks rs" and "rr_id ` set rs \<subseteq> rr_id ` set rs'"
  shows "keys_ok ks rs'"
proof -
  have known: "known_key rs' k" if "known_key rs k" for k
  proof -
    from that obtain r where r: "r \<in> set rs" "k \<in> set (recovery_keys (rr_id r))" by (auto simp: known_key_def)
    then obtain r' where "r' \<in> set rs'" "rr_id r' = rr_id r" using assms(2) by (metis imageE imageI subsetD)
    then show ?thesis using r(2) unfolding known_key_def by (intro bexI [of _ r']) simp_all
  qed
  show ?thesis using assms(1) unfolding keys_ok_def by (rule list.pred_mono_strong) (auto dest: known)
qed

lemma keys_ok_append: "keys_ok (ks @ ks') rs \<longleftrightarrow> keys_ok ks rs \<and> keys_ok ks' rs"
  by (simp add: keys_ok_def)

lemma recoveries_okD:
  assumes "recoveries_ok ks rs" and "find (\<lambda>r. rr_id r = rid) rs = Some r"
  obtains orig s v where "recovery_ok ks r orig s v" "rr_id r = rid" "r \<in> set rs"
  using assms find_first [OF assms(2)] by (auto simp: recoveries_ok_def list_all_iff recovery_row_ok_def)

lemma recovery_parse:
  assumes "recovery_ok ks r orig s v"
  shows "parse_nonnegative (rr_original_nano_usd r) = Inr orig" "parse_nonnegative (rr_reserved_nano_usd r) = Inr s"
    "parse_nonnegative (rr_recovered_nano_usd r) = Inr v"
proof -
  have "in_i128 (int n)" if "n \<le> orig" for n using assms that by (simp add: recovery_ok_def int_range_defs)
  then show "parse_nonnegative (rr_original_nano_usd r) = Inr orig" "parse_nonnegative (rr_reserved_nano_usd r) = Inr s"
    "parse_nonnegative (rr_recovered_nano_usd r) = Inr v"
    using assms by (simp_all add: recovery_ok_def in_i128_u128)
qed

text \<open>A new fulfilment key, and a new key of one recovery, leave the other recoveries as they are.\<close>

lemma recovery_ok_other_key:
  assumes "recovery_ok ks r orig s v" and "k \<notin> fst ` set ks" and "in_i128 d" and "k \<notin> set (recovery_keys (rr_id r))"
  shows "recovery_ok (ks @ [(k, show_int d)]) r orig s v"
proof -
  have "orig \<noteq> 0 \<longrightarrow> k \<noteq> fulfillment_key (rr_order_id r)" using assms(1) key_delta_fresh [OF assms(2)] by (auto simp: recovery_ok_def)
  then show ?thesis using assms by (auto simp: recovery_ok_def taken_back_snoc key_delta_snoc)
qed

lemma recoveries_ok_credit:
  assumes ok: "recoveries_ok ks rs" and "fulfillment_key i \<notin> fst ` set ks" and "in_i128 d" and "0 \<le> d"
  shows "recoveries_ok (ks @ [(fulfillment_key i, show_int d)]) rs"
proof -
  have "recovery_row_ok (ks @ [(fulfillment_key i, show_int d)]) r" if "r \<in> set rs" for r
  proof -
    from ok that obtain orig s v where "recovery_ok ks r orig s v" by (auto simp: recoveries_ok_def list_all_iff recovery_row_ok_def)
    from recovery_ok_other_key [OF this assms(2,3) fulfillment_not_recovery] show ?thesis unfolding recovery_row_ok_def by blast
  qed
  then show ?thesis using assms by (auto simp: recoveries_ok_def keys_ok_def list_all_iff)
qed

lemma recoveries_ok_new:
  assumes ok: "recoveries_ok ks rs" and fresh: "\<not> list_ex (\<lambda>r. rr_id r = rid) rs"
    and orig: "in_i128 (int orig)" "orig \<noteq> 0 \<longrightarrow> key_delta ks (fulfillment_key i) = int orig"
  shows "recoveries_ok ks (rs @ [\<lparr>rr_id = rid, rr_order_id = i, rr_original_nano_usd = show_nat orig, rr_reserved_nano_usd = ''0'',
    rr_recovered_nano_usd = ''0'', rr_state = st\<rparr>])" (is "recoveries_ok ks (rs @ [?new])")
proof -
  have "k \<notin> fst ` set ks" if k: "k \<in> set (recovery_keys rid)" for k
  proof
    assume "k \<in> fst ` set ks"
    then obtain t where "(k, t) \<in> set ks" by force
    then have "(\<exists>i. k = fulfillment_key i) \<or> known_key rs k"
      using ok by (auto simp: recoveries_ok_def keys_ok_def list_all_iff)
    then show False using k fresh fulfillment_not_recovery recovery_keys_disjoint by (auto simp: list_ex_iff known_key_def)
  qed
  then have "taken_back ks rid = 0" by (simp add: taken_back_def key_delta_fresh recovery_keys_def)
  then have "recovery_ok ks ?new orig 0 0" using orig by (simp add: recovery_ok_def)
  then have "recovery_row_ok ks ?new" unfolding recovery_row_ok_def by blast
  moreover have "keys_ok ks (rs @ [?new])" using ok by (auto simp: recoveries_ok_def intro: keys_ok_mono)
  ultimately show ?thesis using ok fresh unfolding recoveries_ok_def
    by (auto simp: list_ex_iff)
qed

text \<open>
  One recovery moves to \<open>s'\<close> reserved and \<open>v'\<close> recovered; when the sum changes, an entry under a new key of
  the recovery carries the difference.
\<close>

lemma recoveries_ok_move:
  assumes ok: "recoveries_ok ks rs" and r: "find (\<lambda>r. rr_id r = rid) rs = Some r" and row: "recovery_ok ks r orig s v"
    and f: "rr_id (f r) = rid" "rr_order_id (f r) = rr_order_id r" "rr_original_nano_usd (f r) = rr_original_nano_usd r"
      "rr_reserved_nano_usd (f r) = show_nat s'" "rr_recovered_nano_usd (f r) = show_nat v'" and bound: "s' + v' \<le> orig"
    and new: "(new = [] \<and> s' + v' = s + v)
      \<or> (\<exists>k. new = [(k, show_int (int (s + v) - int (s' + v')))] \<and> k \<in> set (recovery_keys rid) \<and> k \<notin> fst ` set ks)"
  shows "recoveries_ok (ks @ new) (map (\<lambda>r. if rr_id r = rid then f r else r) rs)" (is "recoveries_ok _ ?rs")
proof -
  have rid: "rr_id r = rid" "r \<in> set rs" using find_first [OF r] by auto
  have only: "x = r" if "x \<in> set rs" "rr_id x = rid" for x
    using ok that rid by (auto simp: recoveries_ok_def distinct_map inj_on_def)
  have range: "in_i128 (int (s + v) - int (s' + v'))" using row bound by (auto simp: recovery_ok_def int_range_defs)
  have ids: "map rr_id ?rs = map rr_id rs" using f(1) only by auto
  have moved: "recovery_ok (ks @ new) (f r) orig s' v'"
    using new row f bound range fulfillment_not_recovery [of "rr_order_id r" rid]
    by (auto simp: recovery_ok_def taken_back_snoc key_delta_snoc rid)
  have "recovery_row_ok (ks @ new) x" if x: "x \<in> set rs" "rr_id x \<noteq> rid" for x
  proof -
    from ok x obtain orig' t w where old: "recovery_ok ks x orig' t w" by (auto simp: recoveries_ok_def list_all_iff recovery_row_ok_def)
    have "recovery_ok (ks @ new) x orig' t w"
    proof (cases "new = []")
      case False
      then obtain k where k: "new = [(k, show_int (int (s + v) - int (s' + v')))]" "k \<in> set (recovery_keys rid)" "k \<notin> fst ` set ks"
        using new by blast
      moreover have "k \<notin> set (recovery_keys (rr_id x))" using k(2) x(2) recovery_keys_disjoint by blast
      ultimately show ?thesis using recovery_ok_other_key [OF old k(3) range] by simp
    qed (use old in simp)
    then show ?thesis unfolding recovery_row_ok_def by blast
  qed
  moreover have "recovery_row_ok (ks @ new) (f r)" unfolding recovery_row_ok_def using moved by blast
  ultimately have rows: "list_all (recovery_row_ok (ks @ new)) ?rs"
    using only by (auto simp: list_all_iff)
  have "rr_id ` set ?rs = rr_id ` set rs" by (metis ids set_map)
  then have "keys_ok ks ?rs" using keys_ok_mono [of ks rs ?rs] ok unfolding recoveries_ok_def by blast
  moreover have "keys_ok new ?rs"
  proof (cases "new = []")
    case False
    then obtain k where k: "new = [(k, show_int (int (s + v) - int (s' + v')))]" "k \<in> set (recovery_keys rid)" using new by blast
    moreover have "f r \<in> set ?rs" using rid by (auto intro: rev_image_eqI)
    ultimately have "known_key ?rs k" unfolding known_key_def using f(1) by (intro bexI [of _ "f r"]) simp_all
    then show ?thesis using range k(1) by (simp add: keys_ok_def)
  qed (simp add: keys_ok_def)
  moreover have "distinct (map rr_id ?rs)" using ok unfolding ids recoveries_ok_def by blast
  ultimately show ?thesis using rows unfolding recoveries_ok_def keys_ok_append by blast
qed

section \<open>Posting\<close>

lemma keyed_balance_posts:
  assumes run: "keyed_balance_tx u kind d b key meta db = Inr db'" and inv: "ledger_inv (sd_ledger db)"
    and row: "user_of (sd_ledger db) u = Some row" and b: "b = nano_value (ur_balance_nano_usd row) + d" "in_i128 b" "in_i128 d"
    and kind: "kind \<notin> set sub_account_kinds" "kind \<notin> set return_kinds"
  shows "ledger_inv (sd_ledger db')" "key \<notin> fst ` set (sd_keys db)"
    "sd_keys db' = sd_keys db @ [(key, show_int d)]" "sd_recoveries db' = sd_recoveries db"
proof -
  from run have db': "db' = db\<lparr>sd_ledger := insert_billing_ledger_tx u kind d (Some b) meta (set_user_balance u b (sd_ledger db)),
      sd_keys := sd_keys db @ [(key, show_int d)]\<rparr>" and key: "key \<notin> fst ` set (sd_keys db)"
    by (auto simp: keyed_balance_tx_def split: if_splits)
  have "posts (sd_ledger db) [entry u kind d (Some b) meta] (sd_ledger db')"
    unfolding db' set_user_balance_def using b kind
    by (simp) (rule posts_user [OF ledger_invD [OF inv] row, where v = b]; simp)
  then show "ledger_inv (sd_ledger db')" using posts_inv inv by blast
  show "key \<notin> fst ` set (sd_keys db)" "sd_keys db' = sd_keys db @ [(key, show_int d)]" "sd_recoveries db' = sd_recoveries db"
    using key db' by simp_all
qed

lemma recovery_balance_row:
  assumes "recovery_user_balance db u = Inr b" and "ledger_inv (sd_ledger db)"
  obtains row where "user_of (sd_ledger db) u = Some row" "nano_value (ur_balance_nano_usd row) = b" "in_i128 b"
proof -
  from assms(1) obtain row where row: "user_of (sd_ledger db) u = Some row" "recovery_parse_signed (ur_balance_nano_usd row) = Inr b"
    by (auto simp: recovery_user_balance_def rbind_eq_Inr_iff ok_or_eq_Inr_iff)
  from user_frame [OF ledger_invD [OF assms(2)] row(1)] obtain v where "in_i128 v" "ur_balance_nano_usd row = show_int v"
    by (auto simp: balance_ok_def)
  then show ?thesis using that row recovery_parse_signed_show [of v b] by simp
qed

definition recovery_entry_kinds :: "string list" where
  "recovery_entry_kinds = [''store_recovery_reserve'', ''store_recovery_release'', ''store_recovery_loss'', ''store_recharge'']"

lemma apply_delta_posts:
  assumes run: "apply_balance_delta u b d kind key oid rid db = Inr db'" and bal: "recovery_user_balance db u = Inr b"
    and inv: "ledger_inv (sd_ledger db)" and d: "in_i128 d" and kind: "kind \<in> set recovery_entry_kinds"
  shows "ledger_inv (sd_ledger db')" "key \<notin> fst ` set (sd_keys db)"
    "sd_keys db' = sd_keys db @ [(key, show_int d)]" "sd_recoveries db' = sd_recoveries db"
proof -
  from recovery_balance_row [OF bal inv] obtain row where row: "user_of (sd_ledger db) u = Some row" "nano_value (ur_balance_nano_usd row) = b" .
  let ?meta = "json_object [(''order_id'', JString oid), (''recovery_id'', JString rid)]"
  from run have range: "in_i128 (b + d)" and tx: "keyed_balance_tx u kind d (b + d) key ?meta db = Inr db'"
    by (auto simp: apply_balance_delta_def rbind_eq_Inr_iff ok_or_eq_Inr_iff checked_add_i128_Some_iff split: sum.splits)
  have other: "kind \<notin> set sub_account_kinds" "kind \<notin> set return_kinds"
    using kind by (auto simp: recovery_entry_kinds_def kind_simps)
  note posted = keyed_balance_posts [OF tx inv row(1) _ range d other]
  show "ledger_inv (sd_ledger db')" "key \<notin> fst ` set (sd_keys db)"
    "sd_keys db' = sd_keys db @ [(key, show_int d)]" "sd_recoveries db' = sd_recoveries db"
    using posted row(2) by simp_all
qed

section \<open>Reasoning about results\<close>

text \<open>\<open>ensures m Q\<close>: whatever \<open>m\<close> returns satisfies \<open>Q\<close>. The rules follow the structure of a transaction.\<close>

definition ensures :: "('e, 'a) result \<Rightarrow> ('a \<Rightarrow> bool) \<Rightarrow> bool" where
  "ensures m Q \<longleftrightarrow> (\<forall>x. m = Inr x \<longrightarrow> Q x)"

named_theorems ensures_intros

lemma ensuresD: "ensures m Q \<Longrightarrow> m = Inr x \<Longrightarrow> Q x"
  by (simp add: ensures_def)

lemma ensures_rbind [ensures_intros]: "(\<And>x. m = Inr x \<Longrightarrow> ensures (f x) Q) \<Longrightarrow> ensures (rbind m f) Q"
  by (auto simp: ensures_def rbind_eq_Inr_iff)

lemma ensures_Inl [ensures_intros]: "ensures (Inl e) Q"
  by (simp add: ensures_def)

lemma ensures_Inr [ensures_intros]: "Q x \<Longrightarrow> ensures (Inr x) Q"
  by (simp add: ensures_def)

lemma ensures_if [ensures_intros]:
  "(b \<Longrightarrow> ensures m Q) \<Longrightarrow> (\<not> b \<Longrightarrow> ensures n Q) \<Longrightarrow> ensures (if b then m else n) Q"
  by simp

lemma ensures_option [ensures_intros]:
  "(x = None \<Longrightarrow> ensures m Q) \<Longrightarrow> (\<And>y. x = Some y \<Longrightarrow> ensures (f y) Q) \<Longrightarrow> ensures (case x of None \<Rightarrow> m | Some y \<Rightarrow> f y) Q"
  by (cases x) simp_all

lemma ensures_prod [ensures_intros]:
  "(\<And>a b. p = (a, b) \<Longrightarrow> ensures (f a b) Q) \<Longrightarrow> ensures (case p of (a, b) \<Rightarrow> f a b) Q"
  by (cases p) simp

lemma ensures_sum [ensures_intros]:
  "(\<And>e. x = Inl e \<Longrightarrow> ensures (f e) Q) \<Longrightarrow> (\<And>y. x = Inr y \<Longrightarrow> ensures (g y) Q) \<Longrightarrow> ensures (case x of Inl e \<Rightarrow> f e | Inr y \<Rightarrow> g y) Q"
  by (cases x) simp_all

section \<open>Transactions\<close>

definition store_inv :: "store_db \<Rightarrow> bool" where
  "store_inv db \<longleftrightarrow> ledger_inv (sd_ledger db) \<and> recoveries_ok (sd_keys db) (sd_recoveries db)"

definition same_money :: "store_db \<Rightarrow> store_db \<Rightarrow> bool" where
  "same_money db db' \<longleftrightarrow>
     sd_ledger db' = sd_ledger db \<and> sd_keys db' = sd_keys db \<and> sd_recoveries db' = sd_recoveries db"

lemma same_money_inv: "same_money db db' \<Longrightarrow> store_inv db \<Longrightarrow> store_inv db'"
  by (simp add: same_money_def store_inv_def)

lemma money_frame [simp]:
  "sd_ledger (update_order i f db) = sd_ledger db" "sd_keys (update_order i f db) = sd_keys db"
  "sd_recoveries (update_order i f db) = sd_recoveries db"
  "sd_ledger (set_claim_state c st db) = sd_ledger db" "sd_keys (set_claim_state c st db) = sd_keys db"
  "sd_recoveries (set_claim_state c st db) = sd_recoveries db"
  "sd_ledger (finish_refund i st db) = sd_ledger db" "sd_keys (finish_refund i st db) = sd_keys db"
  "sd_recoveries (finish_refund i st db) = sd_recoveries db"
  "sd_ledger (set_refund i g db) = sd_ledger db" "sd_keys (set_refund i g db) = sd_keys db"
  "sd_recoveries (set_refund i g db) = sd_recoveries db"
  "sd_ledger (hold_user u db) = sd_ledger db" "sd_keys (hold_user u db) = sd_keys db"
  "sd_recoveries (hold_user u db) = sd_recoveries db"
  "sd_ledger (clear_hold u db) = sd_ledger db" "sd_keys (clear_hold u db) = sd_keys db"
  "sd_recoveries (clear_hold u db) = sd_recoveries db"
  "sd_ledger (update_lifecycle xs h db) = sd_ledger db" "sd_keys (update_lifecycle xs h db) = sd_keys db"
  "sd_recoveries (update_lifecycle xs h db) = sd_recoveries db"
  "sd_ledger (set_agent_balance a b db) = sd_ledger db" "sd_keys (set_agent_balance a b db) = sd_keys db"
  "sd_recoveries (set_agent_balance a b db) = sd_recoveries db"
  "sd_ledger (pay_attempt inp db) = sd_ledger db" "sd_keys (pay_attempt inp db) = sd_keys db"
  "sd_recoveries (pay_attempt inp db) = sd_recoveries db"
  "sd_ledger (mark_order_paid order db) = sd_ledger db" "sd_keys (mark_order_paid order db) = sd_keys db"
  "sd_recoveries (mark_order_paid order db) = sd_recoveries db"
  "sd_ledger (update_recovery i fr db) = sd_ledger db" "sd_keys (update_recovery i fr db) = sd_keys db"
  by (simp_all add: update_order_def set_claim_state_def finish_refund_def set_refund_def hold_user_def clear_hold_def
      update_lifecycle_def set_agent_balance_def pay_attempt_def mark_order_paid_def update_recovery_def)

lemma plans_frame [simp]:
  "sd_ledger (suspend_order_plans i now db) = sd_ledger db" "sd_keys (suspend_order_plans i now db) = sd_keys db"
  "sd_recoveries (suspend_order_plans i now db) = sd_recoveries db"
  "sd_ledger (resume_order_plans i now db) = sd_ledger db" "sd_keys (resume_order_plans i now db) = sd_keys db"
  "sd_recoveries (resume_order_plans i now db) = sd_recoveries db"
  "sd_ledger (revoke_order_plans i now db) = sd_ledger db" "sd_keys (revoke_order_plans i now db) = sd_keys db"
  "sd_recoveries (revoke_order_plans i now db) = sd_recoveries db"
  by (simp_all add: suspend_order_plans_def resume_order_plans_def revoke_order_plans_def)

lemma recovery_of_update:
  "recovery_of (update_recovery rid f db) = recovery_of (db\<lparr>sd_recoveries := map (\<lambda>r. if rr_id r = rid then f r else r) (sd_recoveries db)\<rparr>)"
  by (simp add: update_recovery_def)

subsection \<open>Payments and fulfilment\<close>

lemma insert_event_money: "insert_event i c inp st L db = Inr db' \<Longrightarrow> same_money db db'"
  by (auto simp: insert_event_def same_money_def split: if_splits)

lemma review_event_money: "review_event L c inp db = Inr (r, db') \<Longrightarrow> same_money db db'"
  by (auto simp: review_event_def rbind_eq_Inr_iff dest: insert_event_money)

lemma duplicate_money: "duplicate_result_with_evidence L e c inp db = Inr (r, db') \<Longrightarrow> same_money db db'"
  by (auto simp: duplicate_result_with_evidence_def rbind_eq_Inr_iff same_money_def split: if_splits)

text \<open>The outcomes of a projection: a duplicate, a review, or the payment.\<close>

lemma project_payment_cases:
  assumes "project_payment L inp fence db = Inr ((r, go), db')"
  obtains (duplicate) e c where "\<not> go" "duplicate_result_with_evidence L e c inp db = Inr (r, db')"
  | (review) c where "\<not> go" "review_event L c inp db = Inr ((r, go), db')"
  | (applied) order db1 c where "r = Applied" "order_of db (pe_order_id inp) = Some order" "can_apply_payment order"
      "insert_event (pe_event_row_id inp) c inp ''applied'' L db = Inr db1" "go = (\<not> or_payment_hold order)"
      "db' = (mark_order_paid order (pay_attempt inp db1))\<lparr>sd_applications :=
        sd_applications (mark_order_paid order (pay_attempt inp db1)) @ [(pe_event_row_id inp, pe_order_id inp)]\<rparr>"
proof -
  from assms obtain order attempt where order: "order_of db (pe_order_id inp) = Some order"
    and tail: "(let unbound = (pe_event_kind inp = ''payment_succeeded'' \<and> pe_raw_body inp \<noteq> None \<and> ar_adapter_kind attempt = ''epay''
            \<and> map ar_id (binding_candidates order attempt inp db) \<noteq> [pe_attempt_id inp]);
          credential = (if unbound then pe_verification_credential_version_id inp else pe_credential_version_id inp)
      in case find_event credential (pe_provider_event_id inp) db of
           Some e \<Rightarrow> rbind (duplicate_result_with_evidence L e credential inp db) (\<lambda>(r, db). Inr ((r, False), db))
         | None \<Rightarrow>
             if unbound \<or> \<not> matches_contract order attempt inp \<or> \<not> can_apply_payment order
             then review_event L credential inp db
             else
               rbind (insert_event (pe_event_row_id inp) credential inp ''applied'' L db) (\<lambda>db.
                 (let db = mark_order_paid order (pay_attempt inp db)
                  in if pe_event_row_id inp \<in> fst ` set (sd_applications db) then Inl (CallbackStorage unique_violation)
                     else Inr ((Applied, \<not> or_payment_hold order),
                       db\<lparr>sd_applications := sd_applications db @ [(pe_event_row_id inp, pe_order_id inp)]\<rparr>)))) = Inr ((r, go), db')"
    unfolding project_payment_def rbind_eq_Inr_iff ok_or_eq_Inr_iff by blast
  define credential where "credential = (if (pe_event_kind inp = ''payment_succeeded'' \<and> pe_raw_body inp \<noteq> None \<and> ar_adapter_kind attempt = ''epay''
      \<and> map ar_id (binding_candidates order attempt inp db) \<noteq> [pe_attempt_id inp])
    then pe_verification_credential_version_id inp else pe_credential_version_id inp)"
  note tail' = tail [unfolded Let_def, folded credential_def]
  show ?thesis
  proof (cases "find_event credential (pe_provider_event_id inp) db")
    case (Some e)
    then show ?thesis using tail' by (intro duplicate [of e credential]) (auto simp: rbind_eq_Inr_iff)
  next
    case None
    note tail'' = tail' [unfolded None option.case]
    show ?thesis
    proof (cases "review_event L credential inp db = Inr ((r, go), db')")
      case True
      then show ?thesis by (intro review [of credential]) (auto simp: review_event_def rbind_eq_Inr_iff)
    next
      case False
      with tail'' have "can_apply_payment order" and
        "rbind (insert_event (pe_event_row_id inp) credential inp ''applied'' L db) (\<lambda>db.
           if pe_event_row_id inp \<in> fst ` set (sd_applications (mark_order_paid order (pay_attempt inp db))) then Inl (CallbackStorage unique_violation)
           else Inr ((Applied, \<not> or_payment_hold order), (mark_order_paid order (pay_attempt inp db))\<lparr>sd_applications :=
             sd_applications (mark_order_paid order (pay_attempt inp db)) @ [(pe_event_row_id inp, pe_order_id inp)]\<rparr>)) = Inr ((r, go), db')"
        by (simp_all split: if_splits)
      then show ?thesis using order unfolding rbind_eq_Inr_iff by (auto intro: applied split: if_splits)
    qed
  qed
qed

lemma project_payment_money: "project_payment L inp fence db = Inr ((r, go), db') \<Longrightarrow> same_money db db'"
proof (erule project_payment_cases)
  fix order db1 c
  assume "insert_event (pe_event_row_id inp) c inp ''applied'' L db = Inr db1"
    and "db' = (mark_order_paid order (pay_attempt inp db1))\<lparr>sd_applications :=
      sd_applications (mark_order_paid order (pay_attempt inp db1)) @ [(pe_event_row_id inp, pe_order_id inp)]\<rparr>"
  then show "same_money db db'" using insert_event_money by (simp add: same_money_def)
qed (simp_all add: duplicate_money review_event_money)

lemma accrue_money: "accrue_sales_commission L i db = Inr db' \<Longrightarrow> same_money db db'"
proof (erule ensuresD [rotated])
  show "ensures (accrue_sales_commission L i db) (same_money db)"
    unfolding accrue_sales_commission_def by (intro ensures_intros) (simp_all add: same_money_def)
qed

lemma finish_money: "finish_order_fulfillment i n db = Inr db' \<Longrightarrow> same_money db db'"
proof (erule ensuresD [rotated])
  show "ensures (finish_order_fulfillment i n db) (same_money db)"
    unfolding finish_order_fulfillment_def by (intro ensures_intros) (simp add: same_money_def)
qed

lemma fulfill_plan_money: "fulfill_plan L new_id order product now db = Inr db' \<Longrightarrow> same_money db db'"
proof (erule ensuresD [rotated])
  have "ensures (finish_order_fulfillment i n (db\<lparr>sd_quota := q\<rparr>)) (same_money db)" for i n q
  proof (unfold ensures_def, intro allI impI)
    fix db2
    assume "finish_order_fulfillment i n (db\<lparr>sd_quota := q\<rparr>) = Inr db2"
    from finish_money [OF this] show "same_money db db2" by (simp add: same_money_def)
  qed
  then show "ensures (fulfill_plan L new_id order product now db) (same_money db)"
    unfolding fulfill_plan_def Let_def by (intro ensures_intros)
qed

lemma fulfill_balance_inv:
  assumes run: "fulfill_balance L order product db = Inr db'" and inv: "store_inv db"
  shows "store_inv db'"
proof -
  from run obtain d user b db1 db2 where d: "quoted_credit order product = Inr d"
    and user: "user_of (sd_ledger db) (or_user_id order) = Some user"
    and b: "parse_minor (ur_balance_nano_usd user) = Inr b" "in_i128 (b + d)"
    and tx: "keyed_balance_tx (or_user_id order) ''store_recharge'' d (b + d) (fulfillment_key (or_id order))
      (json_object [(''order_id'', JString (or_id order))]) db = Inr db1"
    and finish: "finish_order_fulfillment (or_id order) (or_state_revision order) db1 = Inr db2"
    and accrue: "accrue_sales_commission L (or_id order) db2 = Inr db'"
    by (auto simp: fulfill_balance_def rbind_eq_Inr_iff ok_or_eq_Inr_iff checked_add_i128_Some_iff map_err_Inr_iff)
  have "nano_value (ur_balance_nano_usd user) = b" using parse_minor_InrD [OF b(1)] by simp
  note posted = keyed_balance_posts [OF tx _ user _ b(2)] and range = quoted_credit_range [OF d]
  have "ledger_inv (sd_ledger db1) \<and> fulfillment_key (or_id order) \<notin> fst ` set (sd_keys db)
      \<and> sd_keys db1 = sd_keys db @ [(fulfillment_key (or_id order), show_int d)] \<and> sd_recoveries db1 = sd_recoveries db"
    using posted inv range \<open>nano_value _ = b\<close> by (simp add: store_inv_def kind_simps)
  then have "store_inv db1" using recoveries_ok_credit inv range by (simp add: store_inv_def)
  then show ?thesis using same_money_inv finish_money [OF finish] accrue_money [OF accrue] by blast
qed

lemma fulfill_order_inv:
  assumes "fulfill_paid_order_inner L new_id i fence now db = Inr db'" and "store_inv db"
  shows "store_inv db'"
proof -
  have "ensures (fulfill_paid_order_inner L new_id i fence now db) store_inv"
    unfolding fulfill_paid_order_inner_def
  proof (intro ensures_intros)
    show "store_inv (db\<lparr>sd_retries := xs\<rparr>)" for xs using assms(2) by (simp add: store_inv_def)
    show "ensures (fulfill_plan L new_id order product now db) store_inv" for order product
      unfolding ensures_def using fulfill_plan_money same_money_inv assms(2) by blast
    show "ensures (fulfill_balance L order product db) store_inv" for order product
      unfolding ensures_def using fulfill_balance_inv assms(2) by blast
  qed
  then show ?thesis using assms(1) by (rule ensuresD)
qed

lemma apply_payment_inv:
  assumes "store_inv db"
  shows "store_inv (fst (apply_verified_payment_inner L new_id now inp fence fulfill db))"
proof (cases "project_payment L inp fence db")
  case (Inr x)
  obtain r go db1 where x: "x = ((r, go), db1)" by (metis prod.exhaust)
  have "store_inv db1" using project_payment_money [of L inp fence db r go db1] Inr x same_money_inv assms by simp
  then show ?thesis using Inr x fulfill_order_inv
    by (auto simp: apply_verified_payment_inner_def split: option.splits sum.splits)
qed (simp add: apply_verified_payment_inner_def assms)

end
