(* ===== verification/Store_Runs.thy ===== *)
theory Store_Runs
  imports Store_Books
begin

text \<open>
  All the runs of the store: payments, fulfilment, refunds, disputes and chargebacks interleaved with
  the transactions of the user store.
\<close>

section \<open>Refunds and claims keep the invariant\<close>

lemma order_of_id: "order_of db i = Some r \<Longrightarrow> or_id r = i"
  unfolding order_of_def by (auto dest: find_first)

lemma recovery_of_id: "recovery_of db i = Some r \<Longrightarrow> rr_id r = i"
  unfolding recovery_of_def by (auto dest: find_first)

lemma store_invD: "store_inv db \<Longrightarrow> ledger_inv (sd_ledger db) \<and> recoveries_ok (sd_keys db) (sd_recoveries db)"
  by (simp add: store_inv_def)

lemma reserve_reward_inv:
  assumes run: "reserve_reward u b (- int n) oid rid n db = Inr db'" and bal: "recovery_user_balance db u = Inr b"
    and inv: "store_inv db" and r: "recovery_of db rid = Some r" and row: "recovery_ok (sd_keys db) r orig 0 0" and n: "n \<le> orig"
  shows "store_inv db'"
proof -
  let ?f = "\<lambda>r. if rr_reserved_nano_usd r = ''0'' \<and> rr_recovered_nano_usd r = ''0''
    then r\<lparr>rr_reserved_nano_usd := show_nat n, rr_state := ''reserved''\<rparr> else r"
  from run obtain db1 where tx: "apply_balance_delta u b (- int n) ''store_recovery_reserve'' (reserve_key rid) oid rid db = Inr db1"
    and db': "db' = update_recovery rid ?f db1" by (auto simp: reserve_reward_def rbind_eq_Inr_iff)
  have range: "in_i128 (- int n)" using row n by (simp add: recovery_ok_def int_range_defs)
  note posted = apply_delta_posts [OF tx bal conjunct1 [OF store_invD [OF inv]] range(1)]
  have "recoveries_ok (sd_keys db @ [(reserve_key rid, show_int (- int n))]) (map (\<lambda>r. if rr_id r = rid then ?f r else r) (sd_recoveries db))"
    by (rule recoveries_ok_move [OF conjunct2 [OF store_invD [OF inv]] r [unfolded recovery_of_def] row, where s' = n and v' = 0])
      (use row n recovery_of_id [OF r] posted(2) in \<open>auto simp: recovery_ok_def recovery_keys_def recovery_entry_kinds_def\<close>)
  then show ?thesis using posted by (simp add: db' store_inv_def update_recovery_def recovery_entry_kinds_def)
qed

lemma release_reward_inv:
  assumes run: "release_reward u b (int s) oid rid db = Inr db'" and bal: "recovery_user_balance db u = Inr b"
    and inv: "store_inv db" and r: "recovery_of db rid = Some r" and row: "recovery_ok (sd_keys db) r orig s 0"
  shows "store_inv db'"
proof -
  let ?f = "\<lambda>r. if rr_recovered_nano_usd r = ''0'' then r\<lparr>rr_reserved_nano_usd := ''0'', rr_state := ''released''\<rparr> else r"
  from run obtain db1 where tx: "apply_balance_delta u b (int s) ''store_recovery_release'' (release_key rid) oid rid db = Inr db1"
    and db': "db' = update_recovery rid ?f db1" by (auto simp: release_reward_def rbind_eq_Inr_iff)
  have range: "in_i128 (int s)" using row by (simp add: recovery_ok_def int_range_defs)
  note posted = apply_delta_posts [OF tx bal conjunct1 [OF store_invD [OF inv]] range(1)]
  have "recoveries_ok (sd_keys db @ [(release_key rid, show_int (int s))]) (map (\<lambda>r. if rr_id r = rid then ?f r else r) (sd_recoveries db))"
    by (rule recoveries_ok_move [OF conjunct2 [OF store_invD [OF inv]] r [unfolded recovery_of_def] row, where s' = 0 and v' = 0])
      (use row recovery_of_id [OF r] posted(2) in \<open>auto simp: recovery_ok_def recovery_keys_def recovery_entry_kinds_def\<close>)
  then show ?thesis using posted by (simp add: db' store_inv_def update_recovery_def recovery_entry_kinds_def)
qed

lemma original_reward_range:
  assumes run: "original_reward db order = Inr orig" and inv: "store_inv db"
  shows "in_i128 (int orig) \<and> (orig \<noteq> 0 \<longrightarrow> key_delta (sd_keys db) (fulfillment_key (or_id order)) = int orig)"
proof (cases "or_product_kind order = ''balance'' \<and> or_fulfillment_state order = ''fulfilled''")
  case True
  with run obtain t v where t: "map_of (sd_keys db) (fulfillment_key (or_id order)) = Some t"
    and v: "recovery_parse_signed t = Inr v" "0 \<le> v" "orig = nat v"
    by (auto simp: original_reward_def fulfilled_reward_def rbind_eq_Inr_iff ok_or_eq_Inr_iff split: if_splits)
  from inv map_of_SomeD [OF t] have "balance_ok t"
    by (auto simp: store_inv_def recoveries_ok_def keys_ok_def list_all_iff)
  then obtain w where w: "in_i128 w" "t = show_int w" by (auto simp: balance_ok_def)
  then have "v = w" using v recovery_parse_signed_show by blast
  then show ?thesis using v w t by (simp add: key_delta_def)
next
  case False
  then have "orig = 0" using run by (simp add: original_reward_def split: if_splits)
  then show ?thesis by (simp add: int_range_defs)
qed

lemma ensure_recovery_inv:
  assumes run: "ensure_recovery new_id oid orig db = Inr (rid, db')" and inv: "store_inv db"
    and orig: "in_i128 (int orig)" "orig \<noteq> 0 \<longrightarrow> key_delta (sd_keys db) (fulfillment_key oid) = int orig"
  shows "store_inv db'" "\<exists>r s v. recovery_of db' rid = Some r \<and> recovery_ok (sd_keys db') r orig s v"
proof -
  note ok = conjunct2 [OF store_invD [OF inv]]
  have "store_inv db' \<and> (\<exists>r s v. recovery_of db' rid = Some r \<and> recovery_ok (sd_keys db') r orig s v)"
  proof (cases "find (\<lambda>r. rr_order_id r = oid) (sd_recoveries db)")
    case (Some r)
    then have r: "r \<in> set (sd_recoveries db)" using find_first by fastforce
    then obtain o' s v where row: "recovery_ok (sd_keys db) r o' s v"
      using ok by (auto simp: recoveries_ok_def list_all_iff recovery_row_ok_def)
    moreover have "o' = orig" "rid = rr_id r" "db' = db"
      using run Some recovery_parse(1) [OF row] by (auto simp: ensure_recovery_def split: if_splits)
    moreover have "recovery_of db (rr_id r) = Some r"
      unfolding recovery_of_def using ok r find_unique [of rr_id "sd_recoveries db" r] by (simp add: recoveries_ok_def)
    ultimately show ?thesis using inv by auto
  next
    case None
    let ?new = "\<lparr>rr_id = new_id, rr_order_id = oid, rr_original_nano_usd = show_nat orig, rr_reserved_nano_usd = ''0'',
      rr_recovered_nano_usd = ''0'', rr_state = ''open''\<rparr>"
    from run None have fresh: "\<not> list_ex (\<lambda>r. rr_id r = new_id) (sd_recoveries db)"
      and db': "rid = new_id" "db' = db\<lparr>sd_recoveries := sd_recoveries db @ [?new]\<rparr>"
      by (auto simp: ensure_recovery_def split: if_splits)
    have new_ok: "recoveries_ok (sd_keys db) (sd_recoveries db @ [?new])" by (rule recoveries_ok_new [OF ok fresh orig])
    have "find (\<lambda>r. rr_id r = new_id) (sd_recoveries db) = None" using fresh by (auto simp: find_None_iff list_ex_iff)
    then have found: "recovery_of db' rid = Some ?new" by (simp add: recovery_of_def db' find_snoc)
    from new_ok obtain o' s v where "recovery_ok (sd_keys db) ?new o' s v" by (auto simp: recoveries_ok_def recovery_row_ok_def)
    then have "recovery_ok (sd_keys db) ?new orig s v" by (auto simp: recovery_ok_def)
    then show ?thesis using found new_ok inv by (auto simp: store_inv_def db')
  qed
  then show "store_inv db'" "\<exists>r s v. recovery_of db' rid = Some r \<and> recovery_ok (sd_keys db') r orig s v" by blast+
qed

lemma reserve_refund_inv:
  assumes run: "reserve_refund order orig rid db = Inr db'" and inv: "store_inv db"
    and r: "recovery_of db rid = Some r" and row: "recovery_ok (sd_keys db) r orig s v"
  shows "store_inv db'"
proof -
  have range: "in_i128 (int orig)" using row by (simp add: recovery_ok_def)
  have v: "v = 0" using run r recovery_parse [OF row] by (auto simp: reserve_refund_def ok_or_def split: if_splits)
  show ?thesis
  proof (cases "orig \<noteq> 0 \<and> s = 0")
    case True
    with run r recovery_parse [OF row] v range obtain b where b: "recovery_user_balance db (or_user_id order) = Inr b"
      and tx: "reserve_reward (or_user_id order) b (- int orig) (or_id order) rid orig db = Inr db'"
      by (auto simp: reserve_refund_def ok_or_def rbind_eq_Inr_iff checked_i128_def to_i128_def split: if_splits)
    show ?thesis by (rule reserve_reward_inv [OF tx b inv r]) (use row True v in auto)
  next
    case False
    then have "db' = db" using run r recovery_parse [OF row] v by (auto simp: reserve_refund_def ok_or_def split: if_splits)
    then show ?thesis using inv by simp
  qed
qed

lemma insert_refund_money: "insert_refund f db = Inr db' \<Longrightarrow> same_money db db'"
  by (auto simp: insert_refund_def same_money_def split: if_splits)

lemma insert_claim_money: "insert_claim c db = Inr db' \<Longrightarrow> same_money db db'"
  by (auto simp: insert_claim_def same_money_def split: if_splits)

lemma store_inv_frame [simp]:
  "store_inv (update_order i f db) = store_inv db" "store_inv (set_claim_state c st db) = store_inv db"
  "store_inv (finish_refund i st db) = store_inv db" "store_inv (set_refund i g db) = store_inv db"
  "store_inv (hold_user u db) = store_inv db" "store_inv (clear_hold u db) = store_inv db"
  "store_inv (suspend_order_plans i now db) = store_inv db" "store_inv (resume_order_plans i now db) = store_inv db"
  "store_inv (revoke_order_plans i now db) = store_inv db" "store_inv (set_agent_balance a b db) = store_inv db"
  by (simp_all add: store_inv_def)

lemma recovery_of_frame [simp]:
  "recovery_of (update_order i f db) = recovery_of db" "recovery_of (set_claim_state c st db) = recovery_of db"
  by (simp_all add: recovery_of_def fun_eq_iff)

lemma user_balance_frame [simp]:
  "recovery_user_balance (update_order i f db) = recovery_user_balance db"
  "recovery_user_balance (set_claim_state c st db) = recovery_user_balance db"
  by (simp_all add: recovery_user_balance_def fun_eq_iff)

text \<open>The recovery of an order is there and matches what the order credited.\<close>

lemma ensured_recovery:
  assumes "original_reward db order = Inr orig" and "order_of db oid = Some order"
    and "ensure_recovery new_id oid orig db = Inr (rid, db1)" and "store_inv db"
  obtains r s v where "store_inv db1" "recovery_of db1 rid = Some r" "recovery_ok (sd_keys db1) r orig s v"
proof -
  have "in_i128 (int orig) \<and> (orig \<noteq> 0 \<longrightarrow> key_delta (sd_keys db) (fulfillment_key oid) = int orig)"
    using original_reward_range [OF assms(1,4)] order_of_id [OF assms(2)] by simp
  then show ?thesis using that ensure_recovery_inv [OF assms(3,4)] by blast
qed

lemma begin_refund_inv:
  assumes inv: "store_inv db"
  shows "ensures (begin_refund_with_outcome ids inp db) (\<lambda>(_, db'). store_inv db')"
proof -
  have reserved: "store_inv db4"
    if "original_reward db order = Inr orig" "order_of db oid = Some order" "ensure_recovery new_id oid orig db = Inr (rid, db1)"
      "reserve_refund order orig rid db1 = Inr db2" "insert_refund f db2 = Inr db3" "insert_claim c db3 = Inr db4"
    for order orig oid new_id rid db1 db2 f db3 c db4
  proof -
    have "store_inv db2" using ensured_recovery [OF that(1-3) inv] reserve_refund_inv [OF that(4)] by metis
    then show ?thesis using insert_refund_money [OF that(5)] insert_claim_money [OF that(6)] same_money_inv by blast
  qed
  show ?thesis unfolding begin_refund_with_outcome_def Let_def
    by (intro ensures_intros; clarsimp simp: inv ok_or_eq_Inr_iff) (rule reserved; assumption)+
qed

lemma mark_pending_inv:
  "store_inv db \<Longrightarrow> ensures (mark_refund_pending_outcome i p db) (\<lambda>(_, db'). store_inv db')"
  unfolding mark_refund_pending_outcome_def by (intro ensures_intros) auto

lemma refund_claim_recovery: "refund_claim_of db f = Some (c, r) \<Longrightarrow> recovery_of db (rr_id r) = Some r"
  using recovery_of_id by (fastforce simp: refund_claim_of_def bind_eq_Some_conv)

lemma load_refund_mutation_InrD:
  "load_refund_mutation db i = Inr (f, c, r, order) \<Longrightarrow> recovery_of db (rr_id r) = Some r"
  by (auto simp: load_refund_mutation_def rbind_eq_Inr_iff ok_or_eq_Inr_iff dest: refund_claim_recovery)

lemma recovery_of_ok:
  assumes "recovery_of db rid = Some r" and "store_inv db"
  obtains orig s v where "recovery_ok (sd_keys db) r orig s v"
  using recoveries_okD [OF conjunct2 [OF store_invD [OF assms(2)]] assms(1) [unfolded recovery_of_def]] by metis

lemma reject_refund_inv:
  assumes inv: "store_inv db"
  shows "ensures (reject_refund i db) store_inv"
proof -
  have released: "store_inv db'"
    if "load_refund_mutation db i = Inr (f, c, r, order)" "parse_nonnegative (rr_reserved_nano_usd r) = Inr s"
      "parse_nonnegative (rr_recovered_nano_usd r) = Inr 0" "recovery_user_balance db u = Inr b"
      "checked_i128 s = Inr d" "release_reward u b d oid (rr_id r) (set_claim_state k st db) = Inr db'" for f c r order s u b d oid db' k st
  proof -
    note r = load_refund_mutation_InrD [OF that(1)]
    from recovery_of_ok [OF r inv] obtain orig s' v where row: "recovery_ok (sd_keys db) r orig s' v" .
    then have "s' = s" "v = 0" using recovery_parse [OF row] that(2,3) by auto
    moreover have "d = int s" using that(5) by (auto simp: checked_i128_def ok_or_eq_Inr_iff to_i128_def split: if_splits)
    ultimately show ?thesis using release_reward_inv [of u b s oid "rr_id r" "set_claim_state k st db" db' r orig] that(4,6) r row inv by simp
  qed
  show ?thesis unfolding reject_refund_def Let_def
    by (intro ensures_intros; clarsimp simp: inv rbind_eq_Inr_iff split: if_splits) (rule released; assumption)+
qed

text \<open>What is reserved, or what the loss entry takes, becomes recovered.\<close>

definition settle_row :: "recovery_row \<Rightarrow> recovery_row" where
  "settle_row r = r\<lparr>rr_reserved_nano_usd := ''0'', rr_recovered_nano_usd := rr_original_nano_usd r, rr_state := ''recovered''\<rparr>"

lemma settle_recovery_inv:
  assumes inv: "store_inv db" and r: "recovery_of db rid = Some r" and row: "recovery_ok (sd_keys db) r orig s v"
    and db1: "ledger_inv (sd_ledger db1)" "sd_recoveries db1 = sd_recoveries db" "sd_keys db1 = sd_keys db @ new" and f: "f r = settle_row r"
    and new: "(new = [] \<and> s + v = orig) \<or> (new = [(loss_key rid, show_int (- int (orig - (s + v))))] \<and> loss_key rid \<notin> fst ` set (sd_keys db))"
  shows "store_inv (update_recovery rid f db1)"
proof -
  have delta: "int (s + v) - int (0 + orig) = - int (orig - (s + v))" using row by (simp add: recovery_ok_def of_nat_diff)
  have "recoveries_ok (sd_keys db @ new) (map (\<lambda>r. if rr_id r = rid then f r else r) (sd_recoveries db))"
    by (rule recoveries_ok_move [OF conjunct2 [OF store_invD [OF inv]] r [unfolded recovery_of_def] row, where s' = 0 and v' = orig])
      (use f row new recovery_of_id [OF r] in \<open>auto simp: delta settle_row_def recovery_ok_def recovery_keys_def\<close>)
  then show ?thesis using db1 by (simp add: store_inv_def update_recovery_def)
qed

lemma reverse_commission_money: "reverse_commission_for_order i db = Inr db' \<Longrightarrow> same_money db db'"
proof (erule ensuresD [rotated])
  show "ensures (reverse_commission_for_order i db) (same_money db)"
    unfolding reverse_commission_for_order_def credit_agent_def by (intro ensures_intros) (simp_all add: same_money_def)
qed

lemma complete_refund_inv:
  assumes inv: "store_inv db"
  shows "ensures (complete_refund i db) store_inv"
proof -
  let ?f = "\<lambda>r. if rr_recovered_nano_usd r = ''0'' then r\<lparr>rr_reserved_nano_usd := ''0'', rr_recovered_nano_usd := rr_original_nano_usd r,
    rr_state := ''recovered''\<rparr> else r"
  have settled: "store_inv (update_recovery (rr_id r) ?f db)"
    if load: "load_refund_mutation db i = Inr (f, c, r, order)" and o: "parse_nonnegative (rr_original_nano_usd r) = Inr orig"
      and s: "parse_nonnegative (rr_reserved_nano_usd r) = Inr s" and guard: "0 < orig \<longrightarrow> s = orig" for f c r order orig s
  proof -
    note r = load_refund_mutation_InrD [OF load]
    from recovery_of_ok [OF r inv] obtain o' s' v where row: "recovery_ok (sd_keys db) r o' s' v" .
    then have eqs: "o' = orig" "s' = s" using recovery_parse [OF row] o s by auto
    then have "v = 0" "s = orig" using row guard by (auto simp: recovery_ok_def)
    then show ?thesis using row eqs
      by (intro settle_recovery_inv [OF inv r row, where new = "[]"]) (auto simp: inv store_invD settle_row_def recovery_ok_def)
  qed
  have reversed: "store_inv db'" if "reverse_commission_for_order k db1 = Inr db'" "store_inv db1" for k db1 db'
    using reverse_commission_money [OF that(1)] that(2) same_money_inv by blast
  show ?thesis unfolding complete_refund_def Let_def
    by (intro ensures_intros; clarsimp simp: inv)
      (unfold ensures_def, intro allI impI, erule reversed, simp, rule settled, assumption, assumption, assumption, auto)+
qed

lemma wrap_neg: "in_i128 (int n) \<Longrightarrow> wrap_i128 (- as_i128 n) = - int n"
  by (simp add: as_i128_id wrap_i128_def int_range_defs)

lemma reserve_available_inv:
  assumes run: "reserve_available order orig rid db = Inr db'" and inv: "store_inv db"
    and r: "recovery_of db rid = Some r" and row: "recovery_ok (sd_keys db) r orig s v"
  shows "store_inv db'"
proof (cases "orig \<noteq> 0 \<and> s = 0 \<and> v = 0")
  case True
  from run r recovery_parse [OF row] True obtain b where b: "recovery_user_balance db (or_user_id order) = Inr b"
    by (auto simp: reserve_available_def ok_or_def rbind_eq_Inr_iff)
  define n where "n = min orig (nat (max b 0))"
  have "in_i128 (int n)" using row by (simp add: n_def recovery_ok_def int_range_defs min.coboundedI1)
  note wrap = wrap_neg [OF this]
  have tail: "(if n \<noteq> 0 then reserve_reward (or_user_id order) b (wrap_i128 (- as_i128 n)) (or_id order) rid n db else Inr db) = Inr db'"
  proof (cases "0 < b")
    case pos: True
    show ?thesis using run r recovery_parse [OF row] True b pos by (simp add: reserve_available_def ok_or_def Let_def n_def max_def)
  next
    case neg: False
    show ?thesis using run r recovery_parse [OF row] True b neg by (simp add: reserve_available_def ok_or_def Let_def n_def max_def)
  qed
  have body: "(if n \<noteq> 0 then reserve_reward (or_user_id order) b (- int n) (or_id order) rid n db else Inr db) = Inr db'"
    using tail unfolding wrap .
  show ?thesis
  proof (cases "n = 0")
    case False
    then have tx: "reserve_reward (or_user_id order) b (- int n) (or_id order) rid n db = Inr db'" using body by simp
    show ?thesis by (rule reserve_reward_inv [OF tx b inv r]) (use row True in \<open>auto simp: n_def\<close>)
  qed (use body inv in simp)
next
  case False
  then have "db' = db" using run r recovery_parse [OF row] by (auto simp: reserve_available_def ok_or_def split: if_splits)
  then show ?thesis using inv by simp
qed

lemma open_claim_inv:
  assumes inv: "store_inv db"
  shows "ensures (open_claim ids now inp db) (\<lambda>(_, db'). store_inv db')"
proof -
  have reserved: "store_inv db3"
    if "original_reward db order = Inr orig" "order_of db oid = Some order" "ensure_recovery new_id oid orig db = Inr (rid, db1)"
      "reserve_available order orig rid db1 = Inr db2" "insert_claim c db2 = Inr db3"
    for order orig oid new_id rid db1 db2 c db3
  proof -
    have "store_inv db2" using ensured_recovery [OF that(1-3) inv] reserve_available_inv [OF that(4)] by metis
    then show ?thesis using insert_claim_money [OF that(5)] same_money_inv by blast
  qed
  show ?thesis unfolding open_claim_def Let_def
    by (intro ensures_intros; clarsimp simp: inv ok_or_eq_Inr_iff) (rule reserved; assumption)+
qed

lemma load_claim_mutation_InrD:
  "load_claim_mutation db i = Inr (c, r, order) \<Longrightarrow> recovery_of db (rr_id r) = Some r"
  using recovery_of_id by (fastforce simp: load_claim_mutation_def rbind_eq_Inr_iff ok_or_eq_Inr_iff)

lemma clear_dispute_inv [simp]: "store_inv (clear_dispute i u now db) = store_inv db"
  by (simp add: clear_dispute_def)

lemma win_claim_inv:
  assumes inv: "store_inv db"
  shows "ensures (win_claim i now db) store_inv"
proof -
  have released: "store_inv db'"
    if "load_claim_mutation db i = Inr (c, r, order)" "parse_nonnegative (rr_reserved_nano_usd r) = Inr s"
      "parse_nonnegative (rr_recovered_nano_usd r) = Inr 0" "recovery_user_balance db u = Inr b"
      "release_reward u b (as_i128 s) oid (rr_id r) (set_claim_state k st db) = Inr db'" for c r order s u b oid db' k st
  proof -
    note r = load_claim_mutation_InrD [OF that(1)]
    from recovery_of_ok [OF r inv] obtain orig s' v where row: "recovery_ok (sd_keys db) r orig s' v" .
    then have eqs: "s' = s" "v = 0" using recovery_parse [OF row] that(2,3) by auto
    moreover have "as_i128 s = int s" using row eqs by (intro as_i128_id) (simp add: recovery_ok_def int_range_defs)
    ultimately show ?thesis using release_reward_inv [of u b s oid "rr_id r" "set_claim_state k st db" db' r orig] that(4,5) r row inv by simp
  qed
  show ?thesis unfolding win_claim_def Let_def
    by (intro ensures_intros; clarsimp simp: inv rbind_eq_Inr_iff split: if_splits) (rule released; assumption)+
qed

lemma lose_claim_inv:
  assumes inv: "store_inv db"
  shows "ensures (lose_claim i now db) store_inv"
proof -
  let ?f = "\<lambda>r. r\<lparr>rr_reserved_nano_usd := ''0'', rr_recovered_nano_usd := rr_original_nano_usd r, rr_state := ''recovered''\<rparr>"
  have lost: "store_inv (update_recovery (rr_id r) ?f db1)"
    if load: "load_claim_mutation db i = Inr (c, r, order)" and o: "parse_nonnegative (rr_original_nano_usd r) = Inr orig"
      and s: "parse_nonnegative (rr_reserved_nano_usd r) = Inr s" and v: "parse_nonnegative (rr_recovered_nano_usd r) = Inr v"
      and loss: "(if orig - s - v \<noteq> 0
         then rbind (recovery_user_balance db (or_user_id order)) (\<lambda>balance.
                apply_balance_delta (or_user_id order) balance (wrap_i128 (- as_i128 (orig - s - v))) ''store_recovery_loss''
                  (loss_key (rr_id r)) (rr_order_id r) (rr_id r) db)
         else Inr db) = Inr db1" for c r order orig s v db1
  proof -
    note r = load_claim_mutation_InrD [OF load]
    from recovery_of_ok [OF r inv] obtain o' s' v' where row: "recovery_ok (sd_keys db) r o' s' v'" .
    then have eqs: "o' = orig" "s' = s" "v' = v" using recovery_parse [OF row] o s v by auto
    have range: "in_i128 (- int (orig - s - v))" "in_i128 (int (orig - s - v))"
      using row eqs by (auto simp: recovery_ok_def int_range_defs)
    note wrap = wrap_neg [OF range(2)]
    show ?thesis
    proof (cases "orig - s - v = 0")
      case True
      then have "db1 = db" using loss by simp
      then show ?thesis using True row eqs inv
        by (intro settle_recovery_inv [OF inv r row, where new = "[]"]) (auto simp: store_invD settle_row_def recovery_ok_def)
    next
      case False
      then obtain b where b: "recovery_user_balance db (or_user_id order) = Inr b" and
        tx: "apply_balance_delta (or_user_id order) b (- int (orig - s - v)) ''store_recovery_loss'' (loss_key (rr_id r)) (rr_order_id r) (rr_id r) db = Inr db1"
        using loss wrap by (auto simp: rbind_eq_Inr_iff)
      note posted = apply_delta_posts [OF tx b conjunct1 [OF store_invD [OF inv]] range(1)]
      show ?thesis using posted eqs
        by (intro settle_recovery_inv [OF inv r row]) (auto simp: settle_row_def recovery_entry_kinds_def)
    qed
  qed
  show ?thesis unfolding lose_claim_def Let_def
    by (intro ensures_intros; clarsimp simp: inv) (rule lost, assumption, assumption, assumption, assumption, simp)+
qed

section \<open>Runs of the store\<close>

datatype store_op =
    Payment string int provider_event_input
  | QueryPayment string int provider_event_input
  | FencedPayment string string int int provider_event_input
  | FulfillOrder string string "(string \<times> int) option" int
  | BeginRefund fresh_ids begin_refund_input
  | MarkRefundPending string "string option"
  | RejectRefund string
  | CompleteRefund string
  | OpenClaim fresh_ids int recovery_claim_input
  | WinClaim string int
  | LoseClaim string int

text \<open>A transaction that fails is rolled back.\<close>

definition committed :: "store_db \<Rightarrow> ('e, store_db) result \<Rightarrow> store_db" where
  "committed db m = (case m of Inl _ \<Rightarrow> db | Inr db' \<Rightarrow> db')"

fun run_store_op :: "store_lib \<Rightarrow> store_op \<Rightarrow> store_db \<Rightarrow> store_db" where
  "run_store_op L (Payment new_id now inp) db = fst (apply_verified_payment L new_id now inp db)"
| "run_store_op L (QueryPayment new_id now inp) db = fst (apply_verified_query_payment L new_id now inp db)"
| "run_store_op L (FencedPayment new_id owner_id epoch now inp) db =
     fst (apply_verified_payment_fenced L new_id owner_id epoch now inp db)"
| "run_store_op L (FulfillOrder new_id order_id fence now) db = committed db (fulfill_paid_order_inner L new_id order_id fence now db)"
| "run_store_op L (BeginRefund ids inp) db = committed db (map_sum (\<lambda>e. e) snd (begin_refund_with_outcome ids inp db))"
| "run_store_op L (MarkRefundPending refund_id provider_id) db =
     committed db (map_sum (\<lambda>e. e) snd (mark_refund_pending_outcome refund_id provider_id db))"
| "run_store_op L (RejectRefund refund_id) db = committed db (reject_refund refund_id db)"
| "run_store_op L (CompleteRefund refund_id) db = committed db (complete_refund refund_id db)"
| "run_store_op L (OpenClaim ids now inp) db = committed db (map_sum (\<lambda>e. e) snd (open_claim ids now inp db))"
| "run_store_op L (WinClaim claim_id now) db = committed db (win_claim claim_id now db)"
| "run_store_op L (LoseClaim claim_id now) db = committed db (lose_claim claim_id now db)"

lemma committed_ensures: "ensures m Q \<Longrightarrow> Q db \<Longrightarrow> Q (committed db m)"
  by (auto simp: committed_def ensures_def split: sum.split)

lemma committed_ensures_snd: "ensures m (\<lambda>(_, db). Q db) \<Longrightarrow> Q db \<Longrightarrow> Q (committed db (map_sum (\<lambda>e. e) snd m))"
  by (cases m) (auto simp: committed_def ensures_def)

lemma run_store_op_inv: "store_inv db \<Longrightarrow> store_inv (run_store_op L op db)"
proof (induction L op db rule: run_store_op.induct)
  case (4 L new_id order_id fence now db)
  then have "ensures (fulfill_paid_order_inner L new_id order_id fence now db) store_inv"
    unfolding ensures_def using fulfill_order_inv by blast
  then show ?case using 4 by (simp add: committed_ensures)
qed (simp_all add: apply_verified_payment_def apply_verified_query_payment_def apply_verified_payment_fenced_def apply_payment_inv
  committed_ensures committed_ensures_snd begin_refund_inv mark_pending_inv reject_refund_inv complete_refund_inv open_claim_inv
  win_claim_inv lose_claim_inv)

text \<open>
  The store starts without users, orders and recoveries. Its operations interleave with the transactions of the
  user store and with whatever else changes its other tables: new orders and attempts, closed orders, leases, agents.
\<close>

inductive store_run :: "cron \<Rightarrow> store_lib \<Rightarrow> store_db \<Rightarrow> bool"
  for next_after :: cron and L :: store_lib where
  start: "sd_ledger db = empty_ledger \<Longrightarrow> sd_keys db = [] \<Longrightarrow> sd_recoveries db = [] \<Longrightarrow> store_run next_after L db"
| operation: "store_run next_after L db \<Longrightarrow> store_run next_after L (run_store_op L op db)"
| ledger: "store_run next_after L db \<Longrightarrow> ledger_step next_after (sd_ledger db) l \<Longrightarrow> store_run next_after L (db\<lparr>sd_ledger := l\<rparr>)"
| tables: "store_run next_after L db \<Longrightarrow> same_money db db' \<Longrightarrow> store_run next_after L db'"

lemma store_run_inv: "store_run next_after L db \<Longrightarrow> store_inv db"
proof (induction rule: store_run.induct)
  case (start db)
  then show ?case by (simp add: store_inv_def ledger_inv_empty recoveries_ok_def keys_ok_def)
next
  case (ledger db l)
  then show ?case using ledger_step_inv by (simp add: store_inv_def)
qed (simp_all add: run_store_op_inv same_money_inv)

lemma key_delta_fulfillment:
  assumes "recoveries_ok ks rs"
  shows "0 \<le> key_delta ks (fulfillment_key i)"
proof (cases "map_of ks (fulfillment_key i)")
  case (Some t)
  have "\<not> known_key rs (fulfillment_key i)" using fulfillment_not_recovery by (auto simp: known_key_def)
  then have "0 \<le> nano_value t"
    using assms map_of_SomeD [OF Some] by (auto simp: recoveries_ok_def keys_ok_def list_all_iff)
  then show ?thesis using Some by (simp add: key_delta_def)
qed (simp add: key_delta_def)

section \<open>A sample order\<close>

definition sample_lib :: store_lib where
  "sample_lib = \<lparr>sl_uuid_valid = (\<lambda>s. s \<noteq> []), sl_json_to_string = (\<lambda>_. []), sl_json_from_str = (\<lambda>_. Inl []),
     sl_length_prefixed_sha256 = concat,
     sl_quote = (\<lambda>_. Inr \<lparr>pr_id = ''p'', pr_name = ''Top-up'', pr_duration_seconds = None, pr_group_ids = [], pr_quotas = [],
       pr_balance = Some \<lparr>bq_actual_received_minor = ''700''\<rparr>\<rparr>),
     sl_add_seconds = (\<lambda>a b. Some (a + b))\<rparr>"

definition sample_order :: order_row where
  "sample_order = \<lparr>or_id = ''o'', or_user_id = ''u'', or_order_number = ''N1'', or_product_kind = ''balance'',
     or_payment_state = ''unpaid'', or_fulfillment_state = ''pending'', or_payment_hold = False, or_dispute_state = ''none'',
     or_payment_minor = ''700'', or_payment_currency = ''CNY'', or_cny_per_usd = ''7'', or_rate_numerator = ''7'', or_rate_denominator = ''1'',
     or_quote_json = [], or_contract_version = 2, or_state_revision = 1, or_sales_code = None, or_sales_discount_bp = None\<rparr>"

definition sample_attempt :: attempt_row where
  "sample_attempt = \<lparr>ar_id = ''a'', ar_order_id = ''o'', ar_channel_id = ''ch'', ar_adapter_kind = ''stripe'', ar_credential_version_id = ''cv'',
     ar_state = ''presented'', ar_failure_kind = None, ar_provider_object_id = Some ''cs_1'', ar_provider_transaction_id = None,
     ar_merchant_account_identity = replicate 64 (CHR ''a''), ar_created_at = 0, ar_paid_at = None\<rparr>"

definition empty_quota :: quota_db where
  "empty_quota = \<lparr>db_plan_gate = True, db_users = [], db_generations = [], db_lifecycle = [], db_current = [], db_buckets = [],
     db_reservations = [], db_links = [], db_active_holds = [], db_violations = [], db_admission_blocks = []\<rparr>"

definition empty_store :: "order_row list \<Rightarrow> attempt_row list \<Rightarrow> store_db" where
  "empty_store orders attempts = \<lparr>sd_ledger = empty_ledger, sd_quota = empty_quota, sd_keys = [], sd_orders = orders, sd_attempts = attempts,
     sd_events = [], sd_applications = [], sd_open_cases = [], sd_retries = [], sd_lease = None, sd_agents = [], sd_commissions = [],
     sd_commission_rate = None, sd_recoveries = [], sd_claims = [], sd_refunds = []\<rparr>"

definition sample_payment :: provider_event_input where
  "sample_payment = \<lparr>pe_event_row_id = ''e'', pe_credential_version_id = ''cv'', pe_verification_credential_version_id = ''cv'',
     pe_provider_event_id = ''evt_1'', pe_event_kind = ''payment_succeeded'', pe_order_id = ''o'', pe_attempt_id = ''a'',
     pe_provider_transaction_id = ''pi_1'', pe_provider_object_id = ''cs_1'', pe_order_number = ''N1'',
     pe_merchant_account_identity = replicate 64 (CHR ''a''), pe_amount_minor = ''700'', pe_currency = CNY,
     pe_body_digest = replicate 64 (CHR ''b''), pe_parsed_json = JNull,
     pe_raw_body = Some \<lparr>es_version = 1, es_key_id = ''k'', es_nonce_base64 = ''n'', es_ciphertext_base64 = ''c''\<rparr>,
     pe_received_at = 10\<rparr>"

definition sample_refund :: begin_refund_input where
  "sample_refund = \<lparr>bi_order_id = ''o'', bi_requested_by_admin_id = ''root'', bi_idempotency_key = ''refund-1''\<rparr>"

definition sample_ids :: fresh_ids where
  "sample_ids = \<lparr>fi_recovery = ''rec'', fi_refund = ''ref'', fi_claim = ''cl''\<rparr>"

text \<open>An order is paid and credited, then a refund of it reserves the credit.\<close>

definition sample_users :: store_db where
  "sample_users = (empty_store [sample_order] [sample_attempt])\<lparr>sd_ledger := create_user ''u'' empty_ledger\<rparr>"

definition sample_paid :: store_db where
  "sample_paid = run_store_op sample_lib (Payment ''g'' 10 sample_payment) sample_users"

definition sample_refunding :: store_db where
  "sample_refunding = run_store_op sample_lib (BeginRefund sample_ids sample_refund) sample_paid"

lemma sample_store_run: "store_run next_after sample_lib sample_refunding"
proof -
  have "store_run next_after sample_lib (empty_store [sample_order] [sample_attempt])"
    by (rule store_run.start) (simp_all add: empty_store_def)
  then have "store_run next_after sample_lib sample_users" unfolding sample_users_def
    by (rule store_run.ledger) (auto simp: empty_store_def empty_ledger_def user_of_def intro!: ledger_step.new_user)
  then show ?thesis unfolding sample_refunding_def sample_paid_def by (intro store_run.operation)
qed

definition recovery_totals :: "store_db \<Rightarrow> (int \<times> int) list \<times> int option" where
  "recovery_totals db =
     (map (\<lambda>r. (taken_back (sd_keys db) (rr_id r), key_delta (sd_keys db) (fulfillment_key (rr_order_id r)))) (sd_recoveries db),
      user_balance (sd_ledger db) ''u'')"

lemma sample_totals: "recovery_totals sample_refunding = ([(1000000000, 1000000000)], Some 0)"
  by code_simp

text \<open>
  C36: In every run of the store, however its payments, fulfilments, refunds, disputes and chargebacks
  interleave with each other and with the charges of the users, what the ledger entries of a recovery
  have taken back from the buyer is what its row says is reserved or recovered; it is never negative and
  never more than the order credited.
\<close>

theorem recovery_takes_at_most_reward:
  assumes "store_run next_after L db" and "r \<in> set (sd_recoveries db)"
  shows "0 \<le> taken_back (sd_keys db) (rr_id r)
    \<and> taken_back (sd_keys db) (rr_id r) \<le> key_delta (sd_keys db) (fulfillment_key (rr_order_id r))
    \<and> taken_back (sd_keys db) (rr_id r) = nano_value (rr_reserved_nano_usd r) + nano_value (rr_recovered_nano_usd r)"
proof -
  note ok = conjunct2 [OF store_invD [OF store_run_inv [OF assms(1)]]]
  then obtain orig s v where row: "recovery_ok (sd_keys db) r orig s v"
    using assms(2) by (auto simp: recoveries_ok_def list_all_iff recovery_row_ok_def)
  have "nano_value (show_nat s) = int s" "nano_value (show_nat v) = int v"
    using row nano_value_show [of "int s"] nano_value_show [of "int v"] by (auto simp: recovery_ok_def int_range_defs show_int_def)
  then show ?thesis using row key_delta_fulfillment [OF ok, of "rr_order_id r"] by (cases "orig = 0") (auto simp: recovery_ok_def)
qed

theorem recovery_takes_at_most_reward_witness:
  "\<exists>r. sd_recoveries sample_refunding = [r] \<and> taken_back (sd_keys sample_refunding) (rr_id r) = 1000000000
     \<and> key_delta (sd_keys sample_refunding) (fulfillment_key (rr_order_id r)) = 1000000000
     \<and> taken_back (sd_keys sample_refunding) (rr_id r) = nano_value (rr_reserved_nano_usd r) + nano_value (rr_recovered_nano_usd r)"
proof -
  from sample_totals obtain r where "sd_recoveries sample_refunding = [r]"
    and "taken_back (sd_keys sample_refunding) (rr_id r) = 1000000000"
      "key_delta (sd_keys sample_refunding) (fulfillment_key (rr_order_id r)) = 1000000000"
    by (auto simp: recovery_totals_def map_eq_Cons_conv)
  then show ?thesis using recovery_takes_at_most_reward [OF sample_store_run [of "\<lambda>_ _. Inl []"], of r] by simp
qed



end
