(* ===== verification/Store_Order_States.thy ===== *)
theory Store_Order_States
  imports Store_Runs
begin

text \<open>
  The state columns of the orders. Every transaction of \<open>callbacks.rs\<close> and \<open>recovery.rs\<close> moves an order
  along the state machines of \<open>state_machine.rs\<close>, although no statement consults
  them: each writes the new state itself, under conditions of its own.
\<close>

section \<open>Moves of an order\<close>

definition order_contract :: "order_row \<Rightarrow> order_row" where
  "order_contract r = r\<lparr>or_payment_state := [], or_fulfillment_state := [], or_payment_hold := False, or_dispute_state := [],
     or_state_revision := 0\<rparr>"

definition payment_moved :: "int \<Rightarrow> string \<Rightarrow> string \<Rightarrow> bool" where
  "payment_moved v a b \<longleftrightarrow>
     a = b \<or> (\<exists>s t. a = PaymentState_as_str s \<and> b = PaymentState_as_str t \<and> payment_step v s t)"

definition fulfillment_moved :: "string \<Rightarrow> string \<Rightarrow> bool" where
  "fulfillment_moved a b \<longleftrightarrow>
     a = b \<or> (\<exists>s e t. a = FulfillmentState_as_str s \<and> b = FulfillmentState_as_str t \<and> transition_fulfillment s e = Some t)"

definition order_moved :: "order_row \<Rightarrow> order_row \<Rightarrow> bool" where
  "order_moved r r' \<longleftrightarrow>
     order_contract r' = order_contract r
     \<and> payment_moved (or_contract_version r) (or_payment_state r) (or_payment_state r')
     \<and> fulfillment_moved (or_fulfillment_state r) (or_fulfillment_state r')
     \<and> (r' = r \<or> or_state_revision r < or_state_revision r')"

definition order_paid :: "order_row \<Rightarrow> order_row \<Rightarrow> bool" where
  "order_paid r r' \<longleftrightarrow> order_moved r r' \<and> or_fulfillment_state r' = or_fulfillment_state r"

definition order_fulfilled :: "order_row \<Rightarrow> order_row \<Rightarrow> bool" where
  "order_fulfilled r r' \<longleftrightarrow> order_moved r r' \<and> or_payment_state r' = or_payment_state r"

lemma order_moved_refl [simp]: "order_moved r r"
  by (simp add: order_moved_def payment_moved_def fulfillment_moved_def)

lemma order_paid_refl [simp]: "order_paid r r"
  by (simp add: order_paid_def)

lemma order_fulfilled_refl [simp]: "order_fulfilled r r"
  by (simp add: order_fulfilled_def)

lemma order_contract_version: "order_contract r' = order_contract r \<Longrightarrow> or_contract_version r' = or_contract_version r"
  by (cases r; cases r') (simp add: order_contract_def)

lemma paid_then_fulfilled: "order_paid r r1 \<Longrightarrow> order_fulfilled r1 r2 \<Longrightarrow> order_moved r r2"
  using order_contract_version [of r1 r] by (auto simp: order_moved_def order_paid_def order_fulfilled_def)

lemma payment_moved_steps:
  "payment_moved v ''unpaid'' ''paid''" "v = 2 \<Longrightarrow> payment_moved v ''closed'' ''paid''"
  "payment_moved v ''paid'' ''refund_pending''" "payment_moved v ''refund_pending'' ''paid''" "payment_moved v ''refund_pending'' ''refunded''"
proof -
  have step: "payment_moved v (PaymentState_as_str s) (PaymentState_as_str t)" if "transition_payment s v e = Apply t late" for s t e late
    using payment_step.applied [OF that] by (auto simp: payment_moved_def)
  show "payment_moved v ''unpaid'' ''paid''" using step [of Unpaid VerifiedPayment Paid False] by simp
  show "payment_moved v ''closed'' ''paid''" if "v = 2" using step [of Closed VerifiedPayment Paid True] that by simp
  show "payment_moved v ''paid'' ''refund_pending''" using step [of Paid RefundReserved RefundPending False] by simp
  show "payment_moved v ''refund_pending'' ''paid''" using step [of RefundPending DefiniteRefundRejection Paid False] by simp
  show "payment_moved v ''refund_pending'' ''refunded''" using step [of RefundPending VerifiedRefund Refunded False] by simp
qed

lemma fulfillment_moved_steps: "a \<in> {''pending'', ''failed''} \<Longrightarrow> fulfillment_moved a ''fulfilled''"
proof -
  have step: "fulfillment_moved (FulfillmentState_as_str s) (FulfillmentState_as_str t)" if "transition_fulfillment s e = Some t" for s t e
    using that by (auto simp: fulfillment_moved_def)
  assume "a \<in> {''pending'', ''failed''}"
  then show ?thesis using step [of FulfillmentPending FulfillmentSucceeded] step [of FulfillmentFailed FulfillmentSucceeded] by auto
qed

lemma order_movedI:
  assumes "order_contract r' = order_contract r" "payment_moved (or_contract_version r) (or_payment_state r) (or_payment_state r')"
    "fulfillment_moved (or_fulfillment_state r) (or_fulfillment_state r')" "or_state_revision r < or_state_revision r'"
  shows "order_moved r r'"
  using assms by (simp add: order_moved_def)

lemma set_payment_state:
  assumes "payment_moved (or_contract_version r) (or_payment_state r) t"
  shows "order_paid r (r\<lparr>or_payment_state := t, or_state_revision := or_state_revision r + 1\<rparr>)"
  using assms by (auto simp: order_paid_def order_contract_def fulfillment_moved_def intro!: order_movedI)

lemma set_fulfillment_state:
  assumes "fulfillment_moved (or_fulfillment_state r) t"
  shows "order_fulfilled r (r\<lparr>or_fulfillment_state := t, or_state_revision := or_state_revision r + 1\<rparr>)"
  using assms by (auto simp: order_fulfilled_def order_contract_def payment_moved_def intro!: order_movedI)

lemma set_dispute_state:
  "order_paid r (r\<lparr>or_dispute_state := t, or_payment_hold := h, or_state_revision := or_state_revision r + 1\<rparr>)"
  by (auto simp: order_paid_def order_contract_def payment_moved_def fulfillment_moved_def intro!: order_movedI)

section \<open>Moves of the table\<close>

definition orders_rel :: "(order_row \<Rightarrow> order_row \<Rightarrow> bool) \<Rightarrow> store_db \<Rightarrow> store_db \<Rightarrow> bool" where
  "orders_rel R db db' \<longleftrightarrow> (\<forall>i. rel_option R (order_of db i) (order_of db' i))"

lemma orders_rel_same: "(\<And>r. R r r) \<Longrightarrow> sd_orders db' = sd_orders db \<Longrightarrow> orders_rel R db db'"
  by (simp add: orders_rel_def order_of_def option.rel_refl)

lemma order_of_update:
  assumes "\<And>r. or_id (f r) = or_id r"
  shows "order_of (update_order i f db) j = (if j = i then map_option f (order_of db j) else order_of db j)"
proof -
  have "find (\<lambda>r. or_id r = j) (map (\<lambda>r. if or_id r = i then f r else r) xs)
      = (if j = i then map_option f (find (\<lambda>r. or_id r = j) xs) else find (\<lambda>r. or_id r = j) xs)" for xs
    by (induction xs) (auto simp: assms)
  then show ?thesis by (simp add: order_of_def update_order_def)
qed

lemma orders_rel_update:
  assumes "\<And>r. order_of db i = Some r \<Longrightarrow> R r (f r)" and "\<And>r. R r r" and "\<And>r. or_id (f r) = or_id r"
  shows "orders_rel R db (update_order i f db)"
  unfolding orders_rel_def
  using assms(1,2) by (auto simp: order_of_update [OF assms(3)] option.rel_refl intro: rel_option_reflI split: option.splits)
    (metis assms(1,2) option.map(1,2) option.rel_intros option.exhaust)

lemma orders_rel_cong: "sd_orders a = sd_orders db \<Longrightarrow> sd_orders b = sd_orders db' \<Longrightarrow> orders_rel R a b = orders_rel R db db'"
  by (simp add: orders_rel_def order_of_def)

section \<open>Operations that leave the orders alone\<close>

lemma orders_frame [simp]:
  "sd_orders (set_claim_state c st db) = sd_orders db" "sd_orders (finish_refund i st db) = sd_orders db"
  "sd_orders (set_refund i g db) = sd_orders db" "sd_orders (hold_user u db) = sd_orders db"
  "sd_orders (clear_hold u db) = sd_orders db" "sd_orders (update_lifecycle xs h db) = sd_orders db"
  "sd_orders (set_agent_balance a b db) = sd_orders db" "sd_orders (pay_attempt inp db) = sd_orders db"
  "sd_orders (update_recovery i fr db) = sd_orders db" "sd_orders (suspend_order_plans i now db) = sd_orders db"
  "sd_orders (resume_order_plans i now db) = sd_orders db" "sd_orders (revoke_order_plans i now db) = sd_orders db"
  by (simp_all add: set_claim_state_def finish_refund_def set_refund_def hold_user_def clear_hold_def update_lifecycle_def
      set_agent_balance_def pay_attempt_def update_recovery_def suspend_order_plans_def resume_order_plans_def revoke_order_plans_def)

definition same_orders :: "store_db \<Rightarrow> store_db \<Rightarrow> bool" where
  "same_orders db db' \<longleftrightarrow> sd_orders db' = sd_orders db"

lemma keyed_balance_orders: "ensures (keyed_balance_tx u k d b i m db) (same_orders db)"
  by (auto simp: keyed_balance_tx_def ensures_def same_orders_def)

lemma apply_delta_orders: "ensures (apply_balance_delta u b d k i oid rid db) (same_orders db)"
  unfolding apply_balance_delta_def by (intro ensures_intros; drule ensuresD [OF keyed_balance_orders])

lemma reserve_reward_orders: "ensures (reserve_reward u b d oid rid n db) (same_orders db)"
  unfolding reserve_reward_def
  by (intro ensures_intros; drule ensuresD [OF apply_delta_orders]) (simp add: same_orders_def)

lemma release_reward_orders: "ensures (release_reward u b d oid rid db) (same_orders db)"
  unfolding release_reward_def
  by (intro ensures_intros; drule ensuresD [OF apply_delta_orders]) (simp add: same_orders_def)

lemma ensure_recovery_orders: "ensures (ensure_recovery i oid orig db) (\<lambda>(_, db'). same_orders db db')"
  unfolding ensure_recovery_def by (intro ensures_intros) (simp_all add: same_orders_def)

lemma reserve_refund_orders: "ensures (reserve_refund order orig rid db) (same_orders db)"
  unfolding reserve_refund_def by (intro ensures_intros reserve_reward_orders) (simp add: same_orders_def)

lemma reserve_available_orders: "ensures (reserve_available order orig rid db) (same_orders db)"
  unfolding reserve_available_def Let_def by (intro ensures_intros reserve_reward_orders) (simp_all add: same_orders_def)

lemma insert_refund_orders: "ensures (insert_refund f db) (same_orders db)"
  unfolding insert_refund_def by (intro ensures_intros) (simp add: same_orders_def)

lemma insert_claim_orders: "ensures (insert_claim c db) (same_orders db)"
  unfolding insert_claim_def by (intro ensures_intros) (simp add: same_orders_def)

lemma insert_event_orders: "ensures (insert_event i c inp st L db) (same_orders db)"
  unfolding insert_event_def by (intro ensures_intros) (simp add: same_orders_def)

lemma reverse_commission_orders: "ensures (reverse_commission_for_order i db) (same_orders db)"
  unfolding reverse_commission_for_order_def credit_agent_def by (intro ensures_intros) (simp_all add: same_orders_def)

lemma accrue_orders: "ensures (accrue_sales_commission L i db) (same_orders db)"
  unfolding accrue_sales_commission_def by (intro ensures_intros) (simp_all add: same_orders_def)

section \<open>Payments and fulfilment\<close>

lemma mark_paid_moves:
  assumes "order_of db i = Some order" and "can_apply_payment order"
  shows "orders_rel order_paid db (mark_order_paid order db)"
proof (cases "or_payment_state order = ''paid''")
  case False
  have "payment_moved (or_contract_version order) (or_payment_state order) ''paid''"
    using assms(2) False payment_moved_steps by (auto simp: can_apply_payment_def)
  then show ?thesis using assms(1) order_of_id [OF assms(1)] False unfolding mark_order_paid_def
    by (auto intro!: orders_rel_update set_payment_state)
qed (simp add: mark_order_paid_def orders_rel_same)

lemma project_payment_moves:
  assumes "project_payment L inp fence db = Inr ((r, go), db')"
  shows "orders_rel order_paid db db'"
  using assms
proof (cases rule: project_payment_cases)
  case (duplicate e c)
  have "ensures (duplicate_result_with_evidence L e c inp db) (\<lambda>(_, db'). sd_orders db' = sd_orders db)"
    unfolding duplicate_result_with_evidence_def by (intro ensures_intros) simp_all
  then show ?thesis using duplicate(2) ensuresD by (fastforce intro: orders_rel_same)
next
  case (review c)
  then have "same_orders db db'" using ensuresD [OF insert_event_orders] by (auto simp: review_event_def rbind_eq_Inr_iff)
  then show ?thesis by (simp add: same_orders_def orders_rel_same)
next
  case (applied order db1 c)
  then have same: "sd_orders db1 = sd_orders db" using ensuresD [OF insert_event_orders] by (auto simp: same_orders_def)
  let ?paid = "mark_order_paid order (pay_attempt inp db1)"
  have "orders_rel order_paid (pay_attempt inp db1) ?paid"
    by (rule mark_paid_moves [of _ "pe_order_id inp"]) (use applied same in \<open>simp_all add: order_of_def\<close>)
  then show ?thesis using same applied(6) orders_rel_cong [of "pay_attempt inp db1" db ?paid db'] by simp
qed

lemma finish_moves: "ensures (finish_order_fulfillment i n db) (orders_rel order_fulfilled db)"
  unfolding finish_order_fulfillment_def
proof (intro ensures_intros)
  fix r xs assume r: "order_of db i = Some r" "may_fulfill n r"
  let ?u = "update_order i (\<lambda>r. r\<lparr>or_fulfillment_state := ''fulfilled'', or_state_revision := or_state_revision r + 1\<rparr>) db"
  have "orders_rel order_fulfilled db ?u"
    using r by (intro orders_rel_update) (auto simp: may_fulfill_def intro!: set_fulfillment_state fulfillment_moved_steps)
  then show "orders_rel order_fulfilled db (?u\<lparr>sd_retries := xs\<rparr>)"
    using orders_rel_cong [of db db ?u "?u\<lparr>sd_retries := xs\<rparr>"] by simp
qed

lemma finish_moves_from:
  assumes "sd_orders db1 = sd_orders db" and "finish_order_fulfillment i n db1 = Inr db2"
  shows "orders_rel order_fulfilled db db2"
  using ensuresD [OF finish_moves assms(2)] orders_rel_cong [of db db1 db2 db2] assms(1) by simp

lemma fulfill_plan_moves: "ensures (fulfill_plan L new_id order product now db) (orders_rel order_fulfilled db)"
  unfolding fulfill_plan_def Let_def
  by (intro ensures_intros) (unfold ensures_def, intro allI impI, erule finish_moves_from [rotated], simp)

lemma fulfill_balance_moves: "ensures (fulfill_balance L order product db) (orders_rel order_fulfilled db)"
proof -
  have "orders_rel order_fulfilled db db3"
    if "keyed_balance_tx u k d b i m db = Inr db1" "finish_order_fulfillment oid n db1 = Inr db2" "accrue_sales_commission L oid db2 = Inr db3"
    for u k d b i m oid n db1 db2 db3
  proof -
    have "sd_orders db1 = sd_orders db" "sd_orders db3 = sd_orders db2"
      using ensuresD [OF keyed_balance_orders that(1)] ensuresD [OF accrue_orders that(3)] by (simp_all add: same_orders_def)
    then show ?thesis using finish_moves_from [of db1 db, OF _ that(2)] orders_rel_cong [of db db db2 db3] by simp
  qed
  then show ?thesis unfolding fulfill_balance_def ensures_def
    by (auto simp: rbind_eq_Inr_iff map_err_Inr_iff split: sum.splits)
qed

lemma fulfill_order_moves: "ensures (fulfill_paid_order_inner L new_id i fence now db) (orders_rel order_fulfilled db)"
  unfolding fulfill_paid_order_inner_def
  by (intro ensures_intros fulfill_plan_moves fulfill_balance_moves) (simp add: orders_rel_same)

lemma orders_rel_compose:
  assumes "orders_rel order_paid db db1" and "orders_rel order_fulfilled db1 db2"
  shows "orders_rel order_moved db db2"
  using assms paid_then_fulfilled unfolding orders_rel_def
  by (metis (no_types, lifting) option.rel_cases option.rel_intros option.sel option.simps(3))

lemma orders_rel_mono: "orders_rel R db db' \<Longrightarrow> (\<And>r r'. R r r' \<Longrightarrow> S r r') \<Longrightarrow> orders_rel S db db'"
  unfolding orders_rel_def using option.rel_mono_strong by metis

lemmas paid_moves = orders_rel_mono [of order_paid _ _ order_moved, OF _ conjunct1 [OF order_paid_def [THEN iffD1]]]

lemma payment_moves: "orders_rel order_moved db (fst (apply_verified_payment_inner L new_id now inp fence fulfill db))"
proof (cases "project_payment L inp fence db")
  case (Inr x)
  obtain r go db1 where x: "x = ((r, go), db1)" by (metis prod.exhaust)
  note paid = project_payment_moves [OF Inr [unfolded x]]
  have "orders_rel order_moved db db2" if "fulfill_paid_order_inner L new_id (pe_order_id inp) f n db1 = Inr db2" for f n db2
    using orders_rel_compose [OF paid ensuresD [OF fulfill_order_moves that]] .
  then show ?thesis using Inr x paid_moves [OF paid]
    by (auto simp: apply_verified_payment_inner_def split: option.splits sum.splits)
qed (simp add: apply_verified_payment_inner_def orders_rel_same)

section \<open>Refunds and claims\<close>

lemma orders_rel_update_from:
  assumes "sd_orders db1 = sd_orders db" and "sd_orders db2 = sd_orders (update_order i f db1)"
    and "\<And>r. order_of db i = Some r \<Longrightarrow> order_paid r (f r)" and "\<And>r. or_id (f r) = or_id r"
  shows "orders_rel order_moved db db2"
proof -
  have "orders_rel order_paid db1 (update_order i f db1)"
    by (rule orders_rel_update) (use assms in \<open>auto simp: order_of_def\<close>)
  then show ?thesis using orders_rel_cong [of db db1 db2 "update_order i f db1"] assms(1,2) paid_moves by simp
qed

lemma begin_refund_moves: "ensures (begin_refund_with_outcome ids inp db) (\<lambda>(_, db'). orders_rel order_moved db db')"
proof -
  have "orders_rel order_moved db (update_order oid (\<lambda>r. r\<lparr>or_payment_state := ''refund_pending'', or_state_revision := or_state_revision r + 1\<rparr>) db4)"
    if "ensure_recovery i oid orig db = Inr (rid, db1)" "reserve_refund order orig rid db1 = Inr db2" "insert_refund f db2 = Inr db3"
      "insert_claim c db3 = Inr db4" "order_of db oid = Some order" "or_payment_state order = ''paid''"
    for i oid orig rid order f c db1 db2 db3 db4
  proof -
    have "sd_orders db4 = sd_orders db"
      using ensuresD [OF ensure_recovery_orders that(1)] ensuresD [OF reserve_refund_orders that(2)]
        ensuresD [OF insert_refund_orders that(3)] ensuresD [OF insert_claim_orders that(4)] by (simp add: same_orders_def)
    then show ?thesis using that(5,6)
      by (intro orders_rel_update_from [where ?db1.0 = db4 and i = oid and f = "\<lambda>r. r\<lparr>or_payment_state := ''refund_pending'', or_state_revision := or_state_revision r + 1\<rparr>"]) (auto intro!: set_payment_state payment_moved_steps)
  qed
  note reserved = this
  show ?thesis unfolding begin_refund_with_outcome_def Let_def
    by (intro ensures_intros; clarsimp simp: orders_rel_same ok_or_eq_Inr_iff) (rule reserved; assumption)+
qed

lemma mark_pending_moves: "ensures (mark_refund_pending_outcome i p db) (\<lambda>(_, db'). orders_rel order_moved db db')"
  unfolding mark_refund_pending_outcome_def by (intro ensures_intros) (simp_all add: orders_rel_same)

lemma reject_refund_moves: "ensures (reject_refund i db) (orders_rel order_moved db)"
proof -
  let ?f = "\<lambda>r. if or_payment_state r = ''refund_pending'' then r\<lparr>or_payment_state := ''paid'', or_state_revision := or_state_revision r + 1\<rparr> else r"
  have released: "orders_rel order_moved db (update_order oid ?f (finish_refund i ''failed'' db2))"
    if "same_orders (set_claim_state c ''resolved'' db) db2" for oid c db2
    using that set_payment_state payment_moved_steps(4)
    by (intro orders_rel_update_from [where ?db1.0 = "finish_refund i ''failed'' db2" and i = oid and f = ?f]) (auto simp: same_orders_def)
  have "same_orders db1 db2"
    if "(if b then rbind m (\<lambda>balance. rbind n (\<lambda>d. release_reward u balance d oid rid db1)) else Inr db1) = Inr db2" for b m n u oid rid db1 db2
    using that ensuresD [OF release_reward_orders] by (auto simp: rbind_eq_Inr_iff same_orders_def split: if_splits)
  note same = this
  show ?thesis unfolding reject_refund_def Let_def
    by (intro ensures_intros; clarsimp simp only: orders_rel_same order_moved_refl) (rule released, erule same)
qed

lemma complete_refund_moves: "ensures (complete_refund i db) (orders_rel order_moved db)"
proof -
  have settled: "orders_rel order_moved db db2"
    if load: "load_refund_mutation db i = Inr (f, c, r, order)" and pending: "or_payment_state order = ''refund_pending''"
      and tail: "reverse_commission_for_order (rf_order_id f) (update_order (rf_order_id f)
        (\<lambda>r. r\<lparr>or_payment_state := ''refunded'', or_state_revision := or_state_revision r + 1\<rparr>) db1) = Inr db2"
      and same: "sd_orders db1 = sd_orders db" for f c r order db1 db2
  proof -
    have "order_of db (rf_order_id f) = Some order" using load by (auto simp: load_refund_mutation_def rbind_eq_Inr_iff ok_or_eq_Inr_iff)
    then show ?thesis using pending same ensuresD [OF reverse_commission_orders tail]
      by (intro orders_rel_update_from [where ?db1.0 = db1 and i = "rf_order_id f" and f = "\<lambda>r. r\<lparr>or_payment_state := ''refunded'', or_state_revision := or_state_revision r + 1\<rparr>"])
        (auto simp: same_orders_def intro!: set_payment_state payment_moved_steps)
  qed
  show ?thesis unfolding complete_refund_def Let_def
    by (intro ensures_intros; clarsimp simp: orders_rel_same)
      (unfold ensures_def, intro allI impI, rule settled, assumption, assumption, assumption, simp)
qed

lemma open_claim_moves: "ensures (open_claim ids now inp db) (\<lambda>(_, db'). orders_rel order_moved db db')"
proof -
  let ?f = "\<lambda>r. r\<lparr>or_dispute_state := ''open'', or_payment_hold := True, or_state_revision := or_state_revision r + 1\<rparr>"
  have "orders_rel order_moved db (suspend_order_plans oid now (hold_user u (update_order oid ?f db3)))"
    if "ensure_recovery i oid orig db = Inr (rid, db1)" "reserve_available order orig rid db1 = Inr db2" "insert_claim c db2 = Inr db3"
    for i oid orig rid order c u db1 db2 db3
  proof -
    have "sd_orders db3 = sd_orders db"
      using ensuresD [OF ensure_recovery_orders that(1)] ensuresD [OF reserve_available_orders that(2)]
        ensuresD [OF insert_claim_orders that(3)] by (simp add: same_orders_def)
    then show ?thesis by (intro orders_rel_update_from [where ?db1.0 = db3 and i = oid and f = ?f]) (auto intro: set_dispute_state)
  qed
  note reserved = this
  show ?thesis unfolding open_claim_def Let_def
    by (intro ensures_intros; clarsimp simp: orders_rel_same ok_or_eq_Inr_iff) (rule reserved; assumption)+
qed

lemma load_claim_order: "load_claim_mutation db i = Inr (c, r, order) \<Longrightarrow> order_of db (rr_order_id r) = Some order"
  by (auto simp: load_claim_mutation_def rbind_eq_Inr_iff ok_or_eq_Inr_iff)

lemma win_claim_moves: "ensures (win_claim i now db) (orders_rel order_moved db)"
proof -
  let ?f = "\<lambda>r. r\<lparr>or_dispute_state := ''won'', or_payment_hold := False, or_state_revision := or_state_revision r + 1\<rparr>"
  have cleared: "orders_rel order_moved db (clear_dispute oid u now db1)" if "sd_orders db1 = sd_orders db" for oid u db1
    unfolding clear_dispute_def using that
    by (intro orders_rel_update_from [where ?db1.0 = db1 and i = oid and f = ?f]) (auto intro: set_dispute_state)
  have released: "sd_orders db1 = sd_orders db"
    if "release_reward u b d oid rid (set_claim_state i ''resolved'' db) = Inr db1" for u b d oid rid db1
    using ensuresD [OF release_reward_orders that] by (simp add: same_orders_def)
  show ?thesis unfolding win_claim_def Let_def
    by (intro ensures_intros; clarsimp simp: orders_rel_same rbind_eq_Inr_iff split: if_splits)
      (auto intro!: cleared orders_rel_same dest: released)
qed

lemma lose_claim_moves: "ensures (lose_claim i now db) (orders_rel order_moved db)"
proof -
  let ?f = "\<lambda>r. r\<lparr>or_dispute_state := ''lost'', or_payment_hold := True, or_state_revision := or_state_revision r + 1\<rparr>"
  have lost: "orders_rel order_moved db (revoke_order_plans oid now (hold_user u (update_order oid ?f (set_claim_state k st (update_recovery rid g db1)))))"
    if "(if b then rbind m (\<lambda>balance. apply_balance_delta w balance d kind key x y db) else Inr db) = Inr db1" for b m w d kind key x y db1 oid u k st rid g
  proof -
    have "sd_orders db1 = sd_orders db"
      using that ensuresD [OF apply_delta_orders] by (auto simp: rbind_eq_Inr_iff same_orders_def split: if_splits)
    then show ?thesis
      by (intro orders_rel_update_from [where ?db1.0 = "set_claim_state k st (update_recovery rid g db1)" and i = oid and f = ?f])
        (auto intro: set_dispute_state)
  qed
  show ?thesis unfolding lose_claim_def Let_def
    by (intro ensures_intros; (rule orders_rel_same [OF order_moved_refl refl])?) (erule lost)
qed

section \<open>The state machines are respected\<close>

lemma run_store_op_moves: "orders_rel order_moved db (run_store_op L op db)"
proof (induction L op db rule: run_store_op.induct)
  case (4 L new_id order_id fence now db)
  have "ensures (fulfill_paid_order_inner L new_id order_id fence now db) (orders_rel order_moved db)"
    using fulfill_order_moves orders_rel_mono [of order_fulfilled _ _ order_moved] unfolding ensures_def order_fulfilled_def by blast
  then show ?case by (simp add: committed_ensures orders_rel_same)
qed (simp_all add: apply_verified_payment_def apply_verified_query_payment_def apply_verified_payment_fenced_def payment_moves
  committed_ensures committed_ensures_snd orders_rel_same begin_refund_moves mark_pending_moves reject_refund_moves complete_refund_moves
  open_claim_moves win_claim_moves lose_claim_moves)

text \<open>
  C38: Whatever a payment, a fulfilment, a refund or a claim does to an order, accepted or refused, the
  order keeps its identity, buyer, price and quote; its payment state moves by at most one transition
  of the payment machine, its fulfilment state by at most one of the fulfilment machine; and every
  change raises its revision.
\<close>

theorem store_operations_follow_state_machines:
  assumes "order_of db i = Some r"
  shows "\<exists>r'. order_of (run_store_op L op db) i = Some r' \<and> order_contract r' = order_contract r
    \<and> payment_moved (or_contract_version r) (or_payment_state r) (or_payment_state r')
    \<and> fulfillment_moved (or_fulfillment_state r) (or_fulfillment_state r')
    \<and> (r' = r \<or> or_state_revision r < or_state_revision r')"
proof -
  have "rel_option order_moved (order_of db i) (order_of (run_store_op L op db) i)"
    using run_store_op_moves by (simp add: orders_rel_def)
  then show ?thesis using assms by (auto simp: option_rel_Some1 order_moved_def)
qed

theorem store_operations_follow_state_machines_witness:
  "\<exists>r'. order_of (run_store_op sample_lib (Payment ''g'' 10 sample_payment) sample_users) ''o'' = Some r'
    \<and> order_contract r' = order_contract sample_order \<and> payment_moved 2 ''unpaid'' (or_payment_state r')
    \<and> fulfillment_moved ''pending'' (or_fulfillment_state r')"
proof -
  have "order_of sample_users ''o'' = Some sample_order"
    by (simp add: order_of_def sample_users_def empty_store_def sample_order_def)
  from store_operations_follow_state_machines [OF this, of sample_lib "Payment ''g'' 10 sample_payment"]
  show ?thesis by (auto simp: sample_order_def)
qed

end
