(* ===== verification/Store_Refusals.thy ===== *)
theory Store_Refusals
  imports Store_Order_States
begin

text \<open>
  Paid orders that the store refuses for good: a recharge of a buyer in debt, whose balance the
  fulfilment cannot read, and a second refund after a rejected one, whose ledger key is taken.
\<close>

section \<open>Recharging a debtor\<close>

lemma parse_minor_negative: "v < 0 \<Longrightarrow> is_err (parse_minor (show_int v))"
  using parse_minor_InrD [of "show_int v"] by (auto simp: is_err_def show_int_def split: sum.split)

text \<open>
  C39: A recharge order of a user whose balance is negative is never credited: its fulfilment returns an
  error, whatever the quote, the clock and the lease. Charges, adjustments and lost disputes do make
  balances negative.
\<close>

theorem indebted_recharge_refused:
  assumes "order_of db i = Some order" and "or_product_kind order \<noteq> ''plan''" and "or_fulfillment_state order \<noteq> ''fulfilled''"
    and "user_of (sd_ledger db) (or_user_id order) = Some user" and "ur_balance_nano_usd user = show_int v" and "v < 0"
  shows "is_err (fulfill_paid_order_inner L new_id i fence now db)"
proof -
  have "\<not> (\<exists>m. parse_minor (ur_balance_nano_usd user) = Inr m)"
    using parse_minor_negative [OF assms(6)] assms(5) by (auto simp: is_err_def)
  then have "ensures (fulfill_balance L order product db) (\<lambda>_. False)" for product
    using assms(4) by (auto simp: fulfill_balance_def ensures_def rbind_eq_Inr_iff ok_or_eq_Inr_iff)
  then have "ensures (fulfill_paid_order_inner L new_id i fence now db) (\<lambda>_. False)"
    unfolding fulfill_paid_order_inner_def using assms(1-3) by (intro ensures_intros) (auto simp: ok_or_eq_Inr_iff)
  then show ?thesis by (auto simp: ensures_def is_err_def split: sum.split)
qed

definition sample_debtor :: store_db where
  "sample_debtor = (empty_store [sample_order\<lparr>or_payment_state := ''paid''\<rparr>] [sample_attempt])
     \<lparr>sd_ledger := set_user_balance ''u'' (- 5) (create_user ''u'' empty_ledger)\<rparr>"

theorem indebted_recharge_refused_witness:
  "is_err (fulfill_paid_order_inner sample_lib ''g'' ''o'' None 10 sample_debtor)"
proof -
  have "order_of sample_debtor ''o'' = Some (sample_order\<lparr>or_payment_state := ''paid''\<rparr>)"
    by (simp add: sample_debtor_def empty_store_def order_of_def sample_order_def)
  moreover obtain user where "user_of (sd_ledger sample_debtor) ''u'' = Some user" "ur_balance_nano_usd user = show_int (- 5)"
    by (simp add: sample_debtor_def set_user_balance_def update_user_row_def create_user_def empty_ledger_def user_of_def)
  ultimately show ?thesis
    using indebted_recharge_refused [of sample_debtor "''o''" "sample_order\<lparr>or_payment_state := ''paid''\<rparr>" user "- 5"]
    by (simp add: sample_order_def)
qed

section \<open>A second refund\<close>

lemma recovery_of_unique:
  assumes "store_inv db" and "find P (sd_recoveries db) = Some r"
  shows "recovery_of db (rr_id r) = Some r"
  using assms find_unique [of "\<lambda>x. rr_id x" "sd_recoveries db" r] find_first [of P]
  by (auto simp: store_inv_def recoveries_ok_def recovery_of_def)

lemma taken_key_blocks: "k \<in> fst ` set (sd_keys db) \<Longrightarrow> ensures (apply_balance_delta u b d kind k oid rid db) (\<lambda>_. False)"
  by (auto simp: apply_balance_delta_def keyed_balance_tx_def ensures_def rbind_eq_Inr_iff)

lemma parse_nonnegative_zero: "parse_nonnegative ''0'' = Inr 0"
  by code_simp

text \<open>
  C40: Once a refund of a credited order has been rejected and its reserve released, no later refund of
  that order can begin: the recovery keeps its row, and the ledger key of its reserve is taken, so
  that a new request, under a new idempotency key, is refused whatever the buyer's balance.
\<close>

theorem released_recovery_blocks_refund:
  assumes run: "store_run next_after L db"
    and r: "find (\<lambda>r. rr_order_id r = bi_order_id inp) (sd_recoveries db) = Some r"
    and released: "rr_reserved_nano_usd r = ''0''" "reserve_key (rr_id r) \<in> fst ` set (sd_keys db)"
    and credited: "rr_original_nano_usd r \<noteq> ''0''"
    and new: "load_refund db (\<lambda>f. rf_idempotency_key f = bi_idempotency_key inp) = None"
  shows "is_err (begin_refund_with_outcome ids inp db)"
proof -
  note inv = store_run_inv [OF run]
  note rr = recovery_of_unique [OF inv r]
  have "ensures (reserve_reward u b d oid (rr_id r) n db) (\<lambda>_. False)" for u b d oid n
    using taken_key_blocks [OF released(2)] by (auto simp: reserve_reward_def ensures_def rbind_eq_Inr_iff)
  then have blocked: "ensures (reserve_refund order orig (rr_id r) db) (\<lambda>_. False)" if "orig \<noteq> 0" for order orig
    unfolding reserve_refund_def using that rr released(1) by (intro ensures_intros) (auto simp: ok_or_eq_Inr_iff parse_nonnegative_zero)
  have "ensures (ensure_recovery i (bi_order_id inp) orig db) (\<lambda>(rid, db'). orig \<noteq> 0 \<and> rid = rr_id r \<and> db' = db)" for i orig
  proof -
    from recovery_of_ok [OF rr inv] obtain o' s v where row: "recovery_ok (sd_keys db) r o' s v" .
    then have "o' \<noteq> 0" using credited by (auto simp: recovery_ok_def show_nat_zero)
    then show ?thesis unfolding ensure_recovery_def using r recovery_parse [OF row] by (intro ensures_intros) auto
  qed
  note same = ensuresD [OF this]
  have refused: False if "ensure_recovery i (bi_order_id inp) orig db = Inr (rid, db1)" "reserve_refund order orig rid db1 = Inr db2"
    for i orig rid order db1 db2 using same [OF that(1)] ensuresD [OF blocked] that(2) by auto
  have "ensures (begin_refund_with_outcome ids inp db) (\<lambda>_. False)"
    unfolding begin_refund_with_outcome_def Let_def
    by (intro ensures_intros) (hypsubst, erule refused, assumption, simp add: new)
  then show ?thesis by (auto simp: ensures_def is_err_def split: sum.split)
qed

definition sample_rejected :: store_db where
  "sample_rejected = run_store_op sample_lib (RejectRefund ''ref'') sample_refunding"

definition recovery_keys_of :: "store_db \<Rightarrow> (string \<times> string \<times> string \<times> string) list \<times> string list \<times> string list" where
  "recovery_keys_of db =
     (map (\<lambda>r. (rr_id r, rr_order_id r, rr_reserved_nano_usd r, rr_original_nano_usd r)) (sd_recoveries db),
      map fst (sd_keys db), map rf_idempotency_key (sd_refunds db))"

lemma sample_rejected_keys:
  "recovery_keys_of sample_rejected = ([(''rec'', ''o'', ''0'', ''1000000000'')],
     [''store:fulfillment:o'', ''store:recovery:rec:reserve'', ''store:recovery:rec:release''], [''refund-1''])"
  by code_simp

theorem released_recovery_blocks_refund_witness:
  "is_err (begin_refund_with_outcome sample_ids (sample_refund\<lparr>bi_idempotency_key := ''refund-2''\<rparr>) sample_rejected)"
proof (rule released_recovery_blocks_refund)
  show "store_run (\<lambda>_ _. Inl []) sample_lib sample_rejected"
    unfolding sample_rejected_def by (intro store_run.operation sample_store_run)
  from sample_rejected_keys obtain r where r: "sd_recoveries sample_rejected = [r]" "rr_id r = ''rec''" "rr_order_id r = ''o''"
      "rr_reserved_nano_usd r = ''0''" "rr_original_nano_usd r = ''1000000000''"
    and keys: "map fst (sd_keys sample_rejected) = [''store:fulfillment:o'', ''store:recovery:rec:reserve'', ''store:recovery:rec:release'']"
    and refunds: "map rf_idempotency_key (sd_refunds sample_rejected) = [''refund-1'']"
    by (auto simp: recovery_keys_of_def map_eq_Cons_conv)
  show "find (\<lambda>r. rr_order_id r = bi_order_id (sample_refund\<lparr>bi_idempotency_key := ''refund-2''\<rparr>)) (sd_recoveries sample_rejected)
      = Some (hd (sd_recoveries sample_rejected))" using r by (simp add: sample_refund_def)
  show "rr_reserved_nano_usd (hd (sd_recoveries sample_rejected)) = ''0''"
    "rr_original_nano_usd (hd (sd_recoveries sample_rejected)) \<noteq> ''0''" using r by simp_all
  have "fst ` set (sd_keys sample_rejected) = set (map fst (sd_keys sample_rejected))" by simp
  then show "reserve_key (rr_id (hd (sd_recoveries sample_rejected))) \<in> fst ` set (sd_keys sample_rejected)"
    unfolding keys using r by (simp add: reserve_key_def)
  show "load_refund sample_rejected (\<lambda>f. rf_idempotency_key f = bi_idempotency_key (sample_refund\<lparr>bi_idempotency_key := ''refund-2''\<rparr>)) = None"
    using refunds by (auto simp: load_refund_def find_None_iff map_eq_Cons_conv)
qed

end
