(* ===== verification/Spec2Isabelle.thy ===== *)
theory Spec2Isabelle
  imports Store_Money Exact_Decimal Payment_State Rate_Limiters Sales
    Urp_Types Urp_Envelopes Urp_Greedy Usage_Parsing Glob Billing_Rates Billing_Charge Billing_Correct
    Billing_Plan Billing_Admission Routing_Breaker Routing_Affinity Routing_Plan
    Upstream_Errors Plan_Quota_Runs User_Ledger_Runs Store_Refusals
begin

text \<open>Verification of the Monoize gateway.\<close>

end
